(* ===== verification/Prelude.thy ===== *)
theory Prelude
  imports Main "HOL-Library.AList" "HOL-Library.List_Lexorder" "HOL-Library.Char_ord"
begin

text \<open>
  Shared vocabulary of the development: the shape of a Go function that talks to an API server
  (a computation that takes the world and returns an error or a value together with the new world),
  the combinators that stand for Go's sequencing, early return, error wrapping and \<open>for\<close> loops,
  and the two proof principles every component uses: inversion of a successful run, and
  preservation of a reflexive and transitive relation between worlds by every run.
\<close>

named_theorems io_ok "inversion of successful computations"
named_theorems frame_intros "preservation rules for the computations of the model"
named_theorems maps_simps "lookups after updates of association lists"

text \<open>References to objects are tuples that are passed around whole.\<close>

declare split_paired_All [simp del] split_paired_Ex [simp del]

section \<open>Computations\<close>

type_synonym ('e, 'w, 'a) io = "'w \<Rightarrow> ('e + 'a) \<times> 'w"

definition io_return :: "'a \<Rightarrow> ('e, 'w, 'a) io" where
  "io_return x = (\<lambda>w. (Inr x, w))"

definition io_error :: "'e \<Rightarrow> ('e, 'w, 'a) io" where
  "io_error e = (\<lambda>w. (Inl e, w))"

text \<open>\<open>x, err := m(); if err != nil { return err }; f(x)\<close>.\<close>

definition io_bind :: "('e, 'w, 'a) io \<Rightarrow> ('a \<Rightarrow> ('e, 'w, 'b) io) \<Rightarrow> ('e, 'w, 'b) io" where
  "io_bind m f = (\<lambda>w. case m w of (Inl e, w') \<Rightarrow> (Inl e, w') | (Inr x, w') \<Rightarrow> f x w')"

text \<open>\<open>x, err := m(); f(x, err)\<close>: the caller inspects the error itself.\<close>

definition io_try :: "('e, 'w, 'a) io \<Rightarrow> ('e + 'a \<Rightarrow> ('e, 'w, 'b) io) \<Rightarrow> ('e, 'w, 'b) io" where
  "io_try m f = (\<lambda>w. case m w of (r, w') \<Rightarrow> f r w')"

text \<open>\<open>if err := m(); err != nil { return h(err) }\<close>.\<close>

definition io_map_error :: "('e \<Rightarrow> 'e) \<Rightarrow> ('e, 'w, 'a) io \<Rightarrow> ('e, 'w, 'a) io" where
  "io_map_error h m = (\<lambda>w. case m w of (Inl e, w') \<Rightarrow> (Inl (h e), w') | (Inr x, w') \<Rightarrow> (Inr x, w'))"

definition io_lift :: "'e + 'a \<Rightarrow> ('e, 'w, 'a) io" where
  "io_lift r = (\<lambda>w. (r, w))"

text \<open>\<open>for _, x := range xs { if err := f(x); err != nil { return err } }\<close>.\<close>

primrec io_for :: "'a list \<Rightarrow> ('a \<Rightarrow> ('e, 'w, unit) io) \<Rightarrow> ('e, 'w, unit) io" where
  "io_for [] f = io_return ()"
| "io_for (x # xs) f = io_bind (f x) (\<lambda>_. io_for xs f)"

definition io_when :: "bool \<Rightarrow> ('e, 'w, unit) io \<Rightarrow> ('e, 'w, unit) io" where
  "io_when b m = (if b then m else io_return ())"

subsection \<open>Inversion of successful runs\<close>

lemma io_return_ok [io_ok]: "io_return x w = (r, w') \<longleftrightarrow> r = Inr x \<and> w' = w"
  by (auto simp: io_return_def)

lemma io_error_ok [io_ok]: "io_error e w = (r, w') \<longleftrightarrow> r = Inl e \<and> w' = w"
  by (auto simp: io_error_def)

lemma io_lift_ok [io_ok]: "io_lift x w = (r, w') \<longleftrightarrow> x = r \<and> w' = w"
  by (auto simp: io_lift_def)

lemma io_bind_ok [io_ok]:
  "io_bind m f w = (Inr y, w'') \<longleftrightarrow> (\<exists>x w'. m w = (Inr x, w') \<and> f x w' = (Inr y, w''))"
  by (auto simp: io_bind_def split: prod.splits sum.splits)

lemma io_bind_err:
  "io_bind m f w = (Inl e, w'') \<longleftrightarrow>
     m w = (Inl e, w'') \<or> (\<exists>x w'. m w = (Inr x, w') \<and> f x w' = (Inl e, w''))"
  by (auto simp: io_bind_def split: prod.splits sum.splits)

lemma io_map_error_ok [io_ok]: "io_map_error h m w = (Inr x, w') \<longleftrightarrow> m w = (Inr x, w')"
  by (auto simp: io_map_error_def split: prod.splits sum.splits)

lemma io_map_error_err:
  "io_map_error h m w = (Inl e, w') \<longleftrightarrow> (\<exists>e'. e = h e' \<and> m w = (Inl e', w'))"
  by (auto simp: io_map_error_def split: prod.splits sum.splits)

lemma io_try_eq: "io_try m f w = f (fst (m w)) (snd (m w))"
  by (simp add: io_try_def split: prod.splits)

lemma io_for_append:
  "io_for (xs @ ys) f = io_bind (io_for xs f) (\<lambda>_. io_for ys f)"
  by (induction xs) (auto simp: io_bind_def io_return_def fun_eq_iff split: prod.splits sum.splits)

lemma for_succeeds:
  assumes "\<And>x w. x \<in> set xs \<Longrightarrow> I w \<Longrightarrow> \<exists>w'. f x w = (Inr (), w') \<and> I w'" and "I w"
  shows "\<exists>w'. io_for xs f w = (Inr (), w') \<and> I w'"
  using assms
proof (induction xs arbitrary: w)
  case Nil
  then show ?case by (simp add: io_return_def)
next
  case (Cons x xs)
  then obtain w1 where x: "f x w = (Inr (), w1)" "I w1" by fastforce
  have "\<exists>w'. io_for xs f w1 = (Inr (), w') \<and> I w'"
    by (rule Cons.IH) (use Cons.prems(1) x(2) in auto)
  with x show ?case by (auto simp: io_bind_def)
qed

subsection \<open>Relations kept by every run\<close>

text \<open>
  \<open>io_keeps R m\<close>: whatever \<open>m\<close> returns, the world it leaves is related to the world it
  was given. With \<open>R\<close> "equal outside a set of keys" this is a frame property; with
  \<open>R w w' = (I w \<longrightarrow> I w')\<close> it says that \<open>I\<close> is an invariant of \<open>m\<close>, on the
  error paths too.
\<close>

definition io_keeps :: "('w \<Rightarrow> 'w \<Rightarrow> bool) \<Rightarrow> ('e, 'w, 'a) io \<Rightarrow> bool" where
  "io_keeps R m \<longleftrightarrow> (\<forall>w. R w (snd (m w)))"

lemma io_keepsD: "io_keeps R m \<Longrightarrow> m w = (r, w') \<Longrightarrow> R w w'"
  unfolding io_keeps_def by (metis snd_conv)

lemma io_keepsI: "(\<And>w r w'. m w = (r, w') \<Longrightarrow> R w w') \<Longrightarrow> io_keeps R m"
  unfolding io_keeps_def by (metis prod.collapse)

text \<open>The contract of such relations, as an interface: whatever is reflexive and transitive
  passes through every combinator.\<close>

locale run_relation =
  fixes R :: "'w \<Rightarrow> 'w \<Rightarrow> bool"
  assumes refl_run: "R w w"
    and trans_run: "R w w' \<Longrightarrow> R w' w'' \<Longrightarrow> R w w''"
begin

lemma keeps_return: "io_keeps R (io_return x)"
  by (simp add: io_keeps_def io_return_def refl_run)

lemma keeps_error: "io_keeps R (io_error e)"
  by (simp add: io_keeps_def io_error_def refl_run)

lemma keeps_lift: "io_keeps R (io_lift r)"
  by (simp add: io_keeps_def io_lift_def refl_run)

lemma keeps_bind_value:
  assumes "io_keeps R m" and "\<And>w x w'. m w = (Inr x, w') \<Longrightarrow> io_keeps R (f x)"
  shows "io_keeps R (io_bind m f)"
proof (rule io_keepsI)
  fix w r w'
  assume run: "io_bind m f w = (r, w')"
  obtain x w1 where m: "m w = (x, w1)" by fastforce
  have R1: "R w w1" by (rule io_keepsD [OF assms(1) m])
  show "R w w'"
  proof (cases x)
    case (Inl e)
    then show ?thesis using run m R1 by (simp add: io_bind_def)
  next
    case (Inr y)
    then have fy: "f y w1 = (r, w')" using run m by (simp add: io_bind_def)
    have "io_keeps R (f y)" by (rule assms(2)) (use m Inr in simp)
    from trans_run [OF R1 io_keepsD [OF this fy]] show ?thesis .
  qed
qed

lemma keeps_bind:
  "io_keeps R m \<Longrightarrow> (\<And>x. io_keeps R (f x)) \<Longrightarrow> io_keeps R (io_bind m f)"
  by (rule keeps_bind_value)

lemma keeps_try:
  assumes "io_keeps R m" and "\<And>r. io_keeps R (f r)"
  shows "io_keeps R (io_try m f)"
  using assms unfolding io_keeps_def io_try_eq by (blast intro: trans_run)

lemma keeps_map_error: "io_keeps R m \<Longrightarrow> io_keeps R (io_map_error h m)"
  unfolding io_keeps_def io_map_error_def by (auto split: prod.splits sum.splits) (metis snd_conv)+

lemma keeps_for:
  assumes "\<And>x. x \<in> set xs \<Longrightarrow> io_keeps R (f x)"
  shows "io_keeps R (io_for xs f)"
  using assms by (induction xs) (simp_all add: keeps_return keeps_bind)

lemma keeps_when: "(b \<Longrightarrow> io_keeps R m) \<Longrightarrow> io_keeps R (io_when b m)"
  by (simp add: io_when_def keeps_return)

lemmas keeps_intros =
  keeps_return keeps_error keeps_lift keeps_bind keeps_try keeps_map_error keeps_for keeps_when

end

text \<open>The two relations the development uses, as interpretations: agreement of a view of the
  world outside a set of keys, and implication of an invariant.\<close>

definition same_outside :: "('w \<Rightarrow> 'k \<Rightarrow> 'v) \<Rightarrow> 'k set \<Rightarrow> 'w \<Rightarrow> 'w \<Rightarrow> bool" where
  "same_outside view A w w' \<longleftrightarrow> (\<forall>k. k \<notin> A \<longrightarrow> view w' k = view w k)"

definition invariant_run :: "('w \<Rightarrow> bool) \<Rightarrow> 'w \<Rightarrow> 'w \<Rightarrow> bool" where
  "invariant_run I w w' \<longleftrightarrow> (I w \<longrightarrow> I w')"

interpretation frame: run_relation "same_outside view A" for view A
  by unfold_locales (auto simp: same_outside_def)

interpretation inv: run_relation "invariant_run I" for I
  by unfold_locales (auto simp: invariant_run_def)

lemma same_outside_mono: "same_outside view A w w' \<Longrightarrow> A \<subseteq> B \<Longrightarrow> same_outside view B w w'"
  by (auto simp: same_outside_def)

lemma keeps_outside_mono:
  "io_keeps (same_outside view A) m \<Longrightarrow> A \<subseteq> B \<Longrightarrow> io_keeps (same_outside view B) m"
  unfolding io_keeps_def by (blast intro: same_outside_mono)

lemma same_outsideD: "same_outside view A w w' \<Longrightarrow> k \<notin> A \<Longrightarrow> view w' k = view w k"
  by (auto simp: same_outside_def)

section \<open>Go maps as association lists\<close>

text \<open>
  A Go map is an association list without duplicate keys, read by \<^const>\<open>map_of\<close> and written by
  \<^const>\<open>AList.update\<close>; \<open>range\<close> over a Go map visits the entries in an unspecified order, so a
  result that is claimed to be well defined is proved independent of the order of the list.
\<close>

lemma map_of_update [maps_simps]: "map_of (AList.update k v m) = (map_of m)(k \<mapsto> v)"
  by (simp add: update_conv')

lemma distinct_update [maps_simps]:
  "distinct (map fst m) \<Longrightarrow> distinct (map fst (AList.update k v m))"
  by (rule AList.distinct_update)

lemma fst_set_update [maps_simps]: "fst ` set (AList.update k v m) = insert k (fst ` set m)"
  by (metis dom_map_of_conv_image_fst dom_update list.set_map map_of_update set_map dom_fun_upd option.distinct(1))

lemma update_not_Nil [simp]: "AList.update k v m \<noteq> []"
  by (cases m) (auto split: prod.splits)

end
