(* ===== verification/GoStrings.thy ===== *)
theory GoStrings
  imports Prelude
begin

text \<open>
  What the program uses of Go's \<^verbatim>\<open>strings\<close>, \<^verbatim>\<open>strconv\<close>, \<^verbatim>\<open>unicode/utf8\<close> and
  \<^verbatim>\<open>fmt\<close>. A Go string is a sequence of bytes, so it is a HOL \<^typ>\<open>string\<close> whose
  characters are bytes and whose length is Go's \<^verbatim>\<open>len\<close>.
\<close>

section \<open>Bytes and runes\<close>

definition byte :: "char \<Rightarrow> nat" where
  "byte c = of_char c"

definition cont :: "nat \<Rightarrow> bool" where
  "cont b \<longleftrightarrow> 128 \<le> b \<and> b < 192"

text \<open>
  \<^verbatim>\<open>utf8.DecodeRune\<close> on the bytes of a string: the first rune and what follows it; an invalid
  sequence is the replacement rune and consumes one byte.
\<close>

definition rune_error :: nat where
  "rune_error = 65533"

fun decode_rune :: "nat \<Rightarrow> nat list \<Rightarrow> nat \<times> nat list" where
  "decode_rune b rest =
     (if b < 128 then (b, rest)
      else case rest of
        [] \<Rightarrow> (rune_error, rest)
      | b1 # r1 \<Rightarrow>
          if 194 \<le> b \<and> b < 224 then
            (if cont b1 then ((b - 192) * 64 + (b1 - 128), r1) else (rune_error, rest))
          else if 224 \<le> b \<and> b < 245 \<and> cont b1 \<and> (b = 224 \<longrightarrow> 160 \<le> b1) \<and> (b = 237 \<longrightarrow> b1 < 160) \<and>
                  (b = 240 \<longrightarrow> 144 \<le> b1) \<and> (b = 244 \<longrightarrow> b1 < 144) then
            (case r1 of
               [] \<Rightarrow> (rune_error, rest)
             | b2 # r2 \<Rightarrow>
                 if \<not> cont b2 then (rune_error, rest)
                 else if b < 240 then ((b - 224) * 4096 + (b1 - 128) * 64 + (b2 - 128), r2)
                 else (case r2 of
                    [] \<Rightarrow> (rune_error, rest)
                  | b3 # r3 \<Rightarrow>
                      if cont b3 then
                        ((b - 240) * 262144 + (b1 - 128) * 4096 + (b2 - 128) * 64 + (b3 - 128), r3)
                      else (rune_error, rest)))
          else (rune_error, rest))"

declare decode_rune.simps [simp del]

lemma decode_rune_shrinks: "length (snd (decode_rune b rest)) \<le> length rest"
  by (subst decode_rune.simps) (auto split: list.split)

lemma decode_rune_ascii [simp]: "b < 128 \<Longrightarrow> decode_rune b rest = (b, rest)"
  by (subst decode_rune.simps) simp

lemma decode_rune_multi: "128 \<le> b \<Longrightarrow> 128 \<le> fst (decode_rune b rest)"
  by (subst decode_rune.simps) (auto simp: rune_error_def cont_def split: list.split)

function decode_runes :: "nat list \<Rightarrow> nat list" where
  "decode_runes [] = []"
| "decode_runes (b # bs) = fst (decode_rune b bs) # decode_runes (snd (decode_rune b bs))"
  by pat_completeness auto
termination
  by (relation "measure length") (auto simp: le_imp_less_Suc decode_rune_shrinks)

definition runes :: "string \<Rightarrow> nat list" where
  "runes s = decode_runes (map byte s)"

definition ascii :: "string \<Rightarrow> bool" where
  "ascii s \<longleftrightarrow> (\<forall>c \<in> set s. byte c < 128)"

lemma decode_runes_ascii: "\<forall>b \<in> set bs. b < 128 \<Longrightarrow> decode_runes bs = bs"
  by (induction bs) auto

lemma runes_ascii: "ascii s \<Longrightarrow> runes s = map byte s"
  by (auto simp: runes_def ascii_def intro!: decode_runes_ascii)

lemma decode_runes_all_ascii: "\<forall>r \<in> set (decode_runes bs). r < 128 \<Longrightarrow> \<forall>b \<in> set bs. b < 128"
proof (induction bs rule: decode_runes.induct)
  case 1
  then show ?case by simp
next
  case (2 b bs)
  then have "b < 128"
    using decode_rune_multi [of b bs] by (fastforce simp: not_less)
  with 2 show ?case by simp
qed

lemma ascii_iff_runes: "ascii s \<longleftrightarrow> (\<forall>r \<in> set (runes s). r < 128)"
  using decode_runes_all_ascii [of "map byte s"]
  by (auto simp: runes_ascii ascii_def runes_def decode_runes_ascii)

section \<open>Package strings\<close>

text \<open>The UTF-8 encodings of the runes for which \<^verbatim>\<open>unicode.IsSpace\<close> holds.\<close>

definition space_encodings :: "string list" where
  "space_encodings =
     map (map (char_of :: nat \<Rightarrow> char))
       ([[9], [10], [11], [12], [13], [32], [194, 133], [194, 160], [225, 154, 128]] @
        map (\<lambda>b. [226, 128, b]) [128, 129, 130, 131, 132, 133, 134, 135, 136, 137, 138, 168, 169, 175] @
        [[226, 129, 159], [227, 128, 128]])"

fun starts_with :: "string \<Rightarrow> string \<Rightarrow> bool" where
  "starts_with [] s = True"
| "starts_with (p # ps) [] = False"
| "starts_with (p # ps) (c # s) = (p = c \<and> starts_with ps s)"

definition HasSuffix :: "string \<Rightarrow> string \<Rightarrow> bool" where
  "HasSuffix s suffix = starts_with (rev suffix) (rev s)"

function trim_front :: "string list \<Rightarrow> string \<Rightarrow> string" where
  "trim_front encs s =
     (case find (\<lambda>e. e \<noteq> [] \<and> starts_with e s) encs of
        None \<Rightarrow> s
      | Some e \<Rightarrow> trim_front encs (drop (length e) s))"
  by pat_completeness auto
termination
proof (relation "measure (\<lambda>(encs, s). length s)")
  fix encs :: "string list" and s e
  assume "find (\<lambda>e. e \<noteq> [] \<and> starts_with e s) encs = Some e"
  then have "e \<noteq> []" and "starts_with e s" by (auto simp: find_Some_iff)
  then show "((encs, drop (length e) s), (encs, s)) \<in> measure (\<lambda>(encs, s). length s)"
    by (cases e; cases s) auto
qed simp

declare trim_front.simps [simp del]

definition TrimSpace :: "string \<Rightarrow> string" where
  "TrimSpace s =
     rev (trim_front (map rev space_encodings) (rev (trim_front space_encodings s)))"

definition TrimSuffix :: "string \<Rightarrow> string \<Rightarrow> string" where
  "TrimSuffix s suffix = (if HasSuffix s suffix then take (length s - length suffix) s else s)"

text \<open>
  \<^verbatim>\<open>strings.Split\<close> with a separator of one byte (polymorphic, since the patterns are
  analysed on runes as well) and \<^verbatim>\<open>strings.Join\<close>.
\<close>

fun Split :: "'a \<Rightarrow> 'a list \<Rightarrow> 'a list list" where
  "Split c [] = [[]]"
| "Split c (x # xs) =
     (let ys = Split c xs in if x = c then [] # ys else (x # hd ys) # tl ys)"

fun Join :: "'a list list \<Rightarrow> 'a list \<Rightarrow> 'a list" where
  "Join [] sep = []"
| "Join [x] sep = x"
| "Join (x # y # ys) sep = x @ sep @ Join (y # ys) sep"

definition ToLower :: "string \<Rightarrow> string" where
  "ToLower s = map (\<lambda>c. if 65 \<le> byte c \<and> byte c \<le> 90 then char_of (byte c + 32) else c) s"

lemma Split_Cons [simp]:
  "Split c (x # xs) = (if x = c then [] # Split c xs else (x # hd (Split c xs)) # tl (Split c xs))"
  by (simp add: Let_def)

declare Split.simps(2) [simp del]

lemma Split_not_Nil [simp]: "Split c s \<noteq> []"
  by (cases s) auto

lemma Split_length: "length (Split c s) = Suc (count_list s c)"
  by (induction s) auto

lemma Split_no_sep: "x \<in> set (Split c s) \<Longrightarrow> c \<notin> set x"
proof (induction s arbitrary: x)
  case Nil
  then show ?case by simp
next
  case (Cons a s)
  obtain y ys where sp: "Split c s = y # ys" by (cases "Split c s") auto
  with Cons show ?case by (auto split: if_splits)
qed

lemma Join_Cons: "ys \<noteq> [] \<Longrightarrow> Join (x # ys) sep = x @ sep @ Join ys sep"
  by (cases ys) auto

lemma Join_Split [simp]: "Join (Split c s) [c] = s"
proof (induction s)
  case Nil
  then show ?case by simp
next
  case (Cons a s)
  obtain y ys where sp: "Split c s = y # ys" by (cases "Split c s") auto
  with Cons show ?case by (cases ys) auto
qed

lemma Split_single: "c \<notin> set s \<Longrightarrow> Split c s = [s]"
  by (induction s) auto

lemma Split_append_sep: "c \<notin> set s \<Longrightarrow> Split c (s @ c # t) = s # Split c t"
  by (induction s) auto

lemma Split_Join:
  "xs \<noteq> [] \<Longrightarrow> \<forall>x \<in> set xs. c \<notin> set x \<Longrightarrow> Split c (Join xs [c]) = xs"
  by (induction xs "[c]" rule: Join.induct) (auto simp: Split_single Split_append_sep)

section \<open>Packages strconv and fmt\<close>

fun digits_of :: "nat \<Rightarrow> string" where
  "digits_of n = (if n < 10 then [char_of (48 + n)] else digits_of (n div 10) @ [char_of (48 + n mod 10)])"

declare digits_of.simps [simp del]

definition Itoa :: "int \<Rightarrow> string" where
  "Itoa i = (if i < 0 then CHR ''-'' # digits_of (nat (- i)) else digits_of (nat i))"

definition hex_digit :: "nat \<Rightarrow> char" where
  "hex_digit n = (if n < 10 then char_of (48 + n) else char_of (87 + n))"

text \<open>
  The verb \<^verbatim>\<open>%q\<close> (\<^verbatim>\<open>strconv.Quote\<close>) on the bytes of a string; bytes outside ASCII are
  copied, which is what Go does for printable runes.
\<close>

definition quote_byte :: "char \<Rightarrow> string" where
  "quote_byte c =
     (let b = byte c; bs = char_of (92 :: nat) in
      if b = 34 \<or> b = 92 then [bs, c]
      else if b = 7 then [bs, CHR ''a''] else if b = 8 then [bs, CHR ''b'']
      else if b = 12 then [bs, CHR ''f''] else if b = 10 then [bs, CHR ''n'']
      else if b = 13 then [bs, CHR ''r''] else if b = 9 then [bs, CHR ''t'']
      else if b = 11 then [bs, CHR ''v'']
      else if b < 32 \<or> b = 127 then [bs, CHR ''x'', hex_digit (b div 16), hex_digit (b mod 16)]
      else [c])"

definition quoted :: "string \<Rightarrow> string" where
  "quoted s = [char_of (34 :: nat)] @ concat (map quote_byte s) @ [char_of (34 :: nat)]"

section \<open>Errors\<close>

text \<open>
  Go errors. An API server's errors are told apart by their reason, as
  \<^verbatim>\<open>apierrors.IsNotFound\<close>, \<^verbatim>\<open>apierrors.IsAlreadyExists\<close> and \<^verbatim>\<open>meta.IsNoMatchError\<close> do;
  each carries the server's message. \<open>Errorf\<close> is \<^verbatim>\<open>fmt.Errorf\<close> without \<^verbatim>\<open>%w\<close>, and
  \<open>Wrap p e\<close> is \<^verbatim>\<open>fmt.Errorf("p: %w", e)\<close>.
\<close>

datatype api_error =
    NotFound string
  | AlreadyExists string
  | NoMatch string
  | OtherApi string

datatype go_error =
    ApiError api_error
  | Errorf string
  | Wrap string go_error

primrec api_error_text :: "api_error \<Rightarrow> string" where
  "api_error_text (NotFound m) = m"
| "api_error_text (AlreadyExists m) = m"
| "api_error_text (NoMatch m) = m"
| "api_error_text (OtherApi m) = m"

primrec Error :: "go_error \<Rightarrow> string" where
  "Error (ApiError e) = api_error_text e"
| "Error (Errorf m) = m"
| "Error (Wrap p e) = p @ '': '' @ Error e"

primrec IsNotFound :: "go_error \<Rightarrow> bool" where
  "IsNotFound (ApiError e) = (case e of NotFound _ \<Rightarrow> True | _ \<Rightarrow> False)"
| "IsNotFound (Errorf m) = False"
| "IsNotFound (Wrap p e) = IsNotFound e"

primrec IsAlreadyExists :: "go_error \<Rightarrow> bool" where
  "IsAlreadyExists (ApiError e) = (case e of AlreadyExists _ \<Rightarrow> True | _ \<Rightarrow> False)"
| "IsAlreadyExists (Errorf m) = False"
| "IsAlreadyExists (Wrap p e) = IsAlreadyExists e"

primrec IsNoMatchError :: "go_error \<Rightarrow> bool" where
  "IsNoMatchError (ApiError e) = (case e of NoMatch _ \<Rightarrow> True | _ \<Rightarrow> False)"
| "IsNoMatchError (Errorf m) = False"
| "IsNoMatchError (Wrap p e) = IsNoMatchError e"

end
