(* ===== verification/Json.thy ===== *)
theory Json
  imports GoStrings
begin

text \<open>
  Untyped Helm values: what \<^verbatim>\<open>encoding/json\<close> decodes into \<^verbatim>\<open>map[string]any\<close>, the
  deep merge of \<^verbatim>\<open>internal/argocd/values.go\<close>, and the canonical form that
  \<^verbatim>\<open>json.Marshal\<close> writes (keys sorted at every level). A Go map has no order, so every
  claim about a merge is made of its lookups or of its canonical form, and the merge is proved to
  depend on nothing else.
\<close>

section \<open>Values\<close>

text \<open>Numbers are carried as their decimal text; what decoding and encoding them does to the text is in the
  last section.\<close>

datatype json =
    JNull
  | JBool bool
  | JNum string
  | JStr string
  | JArr "json list"
  | JObj "(string \<times> json) list"

type_synonym jmap = "(string \<times> json) list"

text \<open>
  \<^verbatim>\<open>apiextensionsv1.JSON\<close>: the raw bytes of a values field, by what decoding them gives. The
  literal \<^verbatim>\<open>null\<close> does not occur: the type's own \<^verbatim>\<open>UnmarshalJSON\<close> leaves \<^verbatim>\<open>Raw\<close> empty for
  it. \<open>RawInvalid\<close> carries the decoder's message, \<open>RawNonObject\<close> the kind of the value.
\<close>

datatype raw_json =
    RawEmpty
  | RawInvalid string
  | RawNonObject string
  | RawObject jmap

primrec is_obj :: "json \<Rightarrow> bool" where
  "is_obj JNull = False"
| "is_obj (JBool b) = False"
| "is_obj (JNum n) = False"
| "is_obj (JStr s) = False"
| "is_obj (JArr xs) = False"
| "is_obj (JObj m) = True"

fun wf_json :: "json \<Rightarrow> bool" where
  "wf_json (JArr xs) = (\<forall>x \<in> set xs. wf_json x)"
| "wf_json (JObj m) = (distinct (map fst m) \<and> (\<forall>kv \<in> set m. wf_json (snd kv)))"
| "wf_json _ = True"

text \<open>The value at a path of keys.\<close>

fun jget :: "json \<Rightarrow> string list \<Rightarrow> json option" where
  "jget v [] = Some v"
| "jget (JObj m) (k # ks) = (case map_of m k of None \<Rightarrow> None | Some v \<Rightarrow> jget v ks)"
| "jget _ (k # ks) = None"

text \<open>The canonical form: the value \<^verbatim>\<open>json.Marshal\<close> writes, keys in byte order.\<close>

fun canon :: "json \<Rightarrow> json" where
  "canon (JArr xs) = JArr (map canon xs)"
| "canon (JObj m) = JObj (sort_key fst (map (\<lambda>kv. (fst kv, canon (snd kv))) m))"
| "canon v = v"

section \<open>The deep merge\<close>

text \<open>
  \<^verbatim>\<open>deepMerge(dst, src)\<close>. The list \<open>src\<close> is the order in which \<^verbatim>\<open>range src\<close> happens to
  visit the entries.
\<close>

fun deepMerge :: "jmap \<Rightarrow> jmap \<Rightarrow> jmap" where
  "deepMerge dst [] = dst"
| "deepMerge dst ((key, srcVal) # src) =
     deepMerge
       (case srcVal of
          JObj srcMap \<Rightarrow>
            (case map_of dst key of
               Some (JObj dstMap) \<Rightarrow> AList.update key (JObj (deepMerge dstMap srcMap)) dst
             | _ \<Rightarrow> AList.update key srcVal dst)
        | _ \<Rightarrow> AList.update key srcVal dst)
       src"

text \<open>What one key of the result holds, given what the two sides hold there.\<close>

definition merge_entry :: "json option \<Rightarrow> json option \<Rightarrow> json option" where
  "merge_entry d s =
     (case s of
        None \<Rightarrow> d
      | Some (JObj srcMap) \<Rightarrow>
          (case d of Some (JObj dstMap) \<Rightarrow> Some (JObj (deepMerge dstMap srcMap))
           | _ \<Rightarrow> Some (JObj srcMap))
      | Some v \<Rightarrow> Some v)"

lemma merge_entry_simps [simp]:
  "merge_entry d None = d"
  "merge_entry None s = s"
  "\<not> is_obj v \<Longrightarrow> merge_entry d (Some v) = Some v"
  "merge_entry (Some (JObj dm)) (Some (JObj sm)) = Some (JObj (deepMerge dm sm))"
  "\<not> is_obj u \<Longrightarrow> merge_entry (Some u) (Some v) = Some v"
  by (auto simp: merge_entry_def split: json.splits option.splits)

lemma deepMerge_Cons_entry:
  "map_of (case srcVal of
          JObj srcMap \<Rightarrow>
            (case map_of dst key of
               Some (JObj dstMap) \<Rightarrow> AList.update key (JObj (deepMerge dstMap srcMap)) dst
             | _ \<Rightarrow> AList.update key srcVal dst)
        | _ \<Rightarrow> AList.update key srcVal dst) =
   (map_of dst)(key := merge_entry (map_of dst key) (Some srcVal))"
  by (auto simp: merge_entry_def maps_simps split: json.splits option.splits)

lemma map_of_deepMerge:
  "distinct (map fst src) \<Longrightarrow> map_of (deepMerge dst src) k = merge_entry (map_of dst k) (map_of src k)"
proof (induction src arbitrary: dst)
  case Nil
  then show ?case by simp
next
  case (Cons kv src)
  obtain key srcVal where kv: "kv = (key, srcVal)" by (cases kv)
  from Cons.prems kv have "key \<notin> fst ` set src" by simp
  then have none: "map_of src key = None" by (simp add: map_of_eq_None_iff)
  show ?case
    using Cons.prems none by (auto simp: kv Cons.IH deepMerge_Cons_entry)
qed

lemma deepMerge_eq_Nil [simp]: "deepMerge dst src = [] \<longleftrightarrow> dst = [] \<and> src = []"
proof (induction src arbitrary: dst)
  case (Cons kv src)
  then show ?case by (cases kv) (auto split: json.splits option.splits)
qed simp

subsection \<open>Well-formedness\<close>

lemma set_update_cases:
  "kv \<in> set (AList.update k v m) \<Longrightarrow> kv = (k, v) \<or> kv \<in> set m"
  by (induction m) (auto split: if_splits)

lemma wf_update:
  "wf_json (JObj m) \<Longrightarrow> wf_json v \<Longrightarrow> wf_json (JObj (AList.update k v m))"
  by (auto simp: maps_simps dest!: set_update_cases)

lemma wf_lookup: "wf_json (JObj m) \<Longrightarrow> map_of m k = Some v \<Longrightarrow> wf_json v"
  by (auto dest: map_of_SomeD)

lemma wf_distinct [dest]: "wf_json (JObj m) \<Longrightarrow> distinct (map fst m)"
  by simp

lemma wf_deepMerge:
  "wf_json (JObj dst) \<Longrightarrow> wf_json (JObj src) \<Longrightarrow> wf_json (JObj (deepMerge dst src))"
proof (induction dst src rule: deepMerge.induct)
  case (1 dst)
  then show ?case by simp
next
  case (2 dst key srcVal src)
  have src: "wf_json srcVal" "wf_json (JObj src)" using "2.prems"(2) by auto
  have "wf_json (JObj (case srcVal of
          JObj srcMap \<Rightarrow>
            (case map_of dst key of
               Some (JObj dstMap) \<Rightarrow> AList.update key (JObj (deepMerge dstMap srcMap)) dst
             | _ \<Rightarrow> AList.update key srcVal dst)
        | _ \<Rightarrow> AList.update key srcVal dst))"
    using "2.prems"(1) src(1) "2.IH"(1)
    by (auto simp del: wf_json.simps split: json.splits option.splits
        intro!: wf_update dest: wf_lookup)
  from "2.IH"(2) [OF this src(2)] show ?case by simp
qed

subsection \<open>Reading the result by path\<close>

text \<open>Every leaf of the overlay is in the result.\<close>

lemma jget_deepMerge_leaf:
  "wf_json (JObj src) \<Longrightarrow> jget (JObj src) p = Some v \<Longrightarrow> \<not> is_obj v \<Longrightarrow>
   jget (JObj (deepMerge dst src)) p = Some v"
proof (induction p arbitrary: src dst)
  case Nil
  then show ?case by auto
next
  case (Cons k ks)
  from Cons.prems obtain u where u: "map_of src k = Some u" "jget u ks = Some v"
    by (auto split: option.splits)
  have dist: "distinct (map fst src)" using Cons.prems(1) by simp
  show ?case
  proof (cases "\<exists>dm sm. map_of dst k = Some (JObj dm) \<and> u = JObj sm")
    case True
    then obtain dm sm where "map_of dst k = Some (JObj dm)" "u = JObj sm" by blast
    moreover have "wf_json (JObj sm)" using Cons.prems(1) u calculation wf_lookup by blast
    ultimately show ?thesis
      using Cons.IH [of sm dm] Cons.prems(3) u dist by (simp add: map_of_deepMerge)
  next
    case False
    then have "merge_entry (map_of dst k) (Some u) = Some u"
      by (auto simp: merge_entry_def split: json.splits option.splits)
    then show ?thesis using u dist by (simp add: map_of_deepMerge)
  qed
qed

text \<open>A path that leaves the overlay at a key it does not have reads what was there before.\<close>

fun misses :: "jmap \<Rightarrow> string list \<Rightarrow> bool" where
  "misses src [] = False"
| "misses src (k # ks) =
     (case map_of src k of
        None \<Rightarrow> True
      | Some (JObj m) \<Rightarrow> misses m ks
      | Some _ \<Rightarrow> False)"

lemma misses_jget: "misses src p \<Longrightarrow> jget (JObj src) p = None"
  by (induction src p rule: misses.induct) (auto split: option.splits json.splits)

lemma jget_scalar: "\<not> is_obj u \<Longrightarrow> ks \<noteq> [] \<Longrightarrow> jget u ks = None"
  by (cases u; cases ks) auto

lemma jget_deepMerge_misses:
  "wf_json (JObj src) \<Longrightarrow> misses src p \<Longrightarrow>
   jget (JObj (deepMerge dst src)) p = jget (JObj dst) p"
proof (induction p arbitrary: src dst)
  case Nil
  then show ?case by simp
next
  case (Cons k ks)
  have dist: "distinct (map fst src)" using Cons.prems(1) by simp
  show ?case
  proof (cases "map_of src k")
    case None
    then show ?thesis using dist by (simp add: map_of_deepMerge)
  next
    case (Some u)
    then obtain sm where u: "u = JObj sm" "misses sm ks"
      using Cons.prems(2) by (cases u) auto
    then have ks: "ks \<noteq> []" by (cases ks) auto
    have wf: "wf_json (JObj sm)" using Cons.prems(1) Some u wf_lookup by blast
    show ?thesis
    proof (cases "map_of dst k")
      case None
      then show ?thesis using Some u dist misses_jget [OF u(2)] by (simp add: map_of_deepMerge)
    next
      case d: (Some d)
      show ?thesis
      proof (cases d)
        case (JObj dm)
        then show ?thesis
          using Some d u dist Cons.IH [OF wf u(2), of dm] by (simp add: map_of_deepMerge)
      qed (use Some d u dist ks misses_jget [OF u(2)] in
             \<open>simp_all add: map_of_deepMerge jget_scalar\<close>)
    qed
  qed
qed

subsection \<open>The merge depends on the lookups alone\<close>

lemma canon_keys [simp]: "map fst (map (\<lambda>kv. (fst kv, canon (snd kv))) m) = map fst m"
  by simp

lemma map_of_canon_entries:
  "map_of (map (\<lambda>kv. (fst kv, canon (snd kv))) m) k = map_option canon (map_of m k)"
  by (induction m) auto

lemma sort_key_eq_iff:
  assumes "distinct (map fst xs)" and "distinct (map fst ys)"
  shows "sort_key fst xs = sort_key fst ys \<longleftrightarrow> map_of xs = map_of (ys :: (string \<times> json) list)"
proof
  assume "sort_key fst xs = sort_key fst ys"
  then have "set xs = set ys" by (metis set_sort)
  then show "map_of xs = map_of ys" using assms by (simp add: map_of_inject_set)
next
  assume "map_of xs = map_of ys"
  then have eq: "set xs = set ys" using assms by (simp add: map_of_inject_set)
  show "sort_key fst xs = sort_key fst ys"
  proof (rule map_sorted_distinct_set_unique [where f = fst])
    show "inj_on fst (set (sort_key fst xs) \<union> set (sort_key fst ys))"
      using eq assms(1) by (simp add: distinct_map)
    show "distinct (map fst (sort_key fst xs))" "distinct (map fst (sort_key fst ys))"
      using assms by (simp_all add: distinct_map)
  qed (use eq in simp_all)
qed

lemma canon_obj_eq_iff:
  assumes "distinct (map fst m)" and "distinct (map fst m')"
  shows "canon (JObj m) = canon (JObj m') \<longleftrightarrow>
     (\<forall>k. map_option canon (map_of m k) = map_option canon (map_of m' k))"
  using assms by (simp add: sort_key_eq_iff comp_def map_of_canon_entries fun_eq_iff)

lemma canon_is_obj: "canon u = canon v \<Longrightarrow> is_obj u = is_obj v"
  by (cases u; cases v) auto

lemma canon_option_obj:
  assumes eq: "map_option canon a = map_option canon b"
  shows "(\<exists>m. a = Some (JObj m)) \<longleftrightarrow> (\<exists>m. b = Some (JObj m))"
proof (cases a)
  case None
  then show ?thesis using eq by simp
next
  case (Some u)
  then obtain v where b: "b = Some v" "canon u = canon v" using eq by (cases b) auto
  have "is_obj u = is_obj v" by (rule canon_is_obj [OF b(2)])
  then show ?thesis using Some b(1) by (cases u; cases v) simp_all
qed

lemma size_lookup: "map_of m k = Some v \<Longrightarrow> size v < size (JObj m)"
proof -
  assume "map_of m k = Some v"
  then have "(k, v) \<in> set m" by (rule map_of_SomeD)
  then have "size v < Suc (size_list (size_prod (\<lambda>_. 0) size) m)"
    by (induction m) (auto simp: less_Suc_eq_le)
  then show ?thesis by simp
qed

lemma deepMerge_canon_cong:
  assumes "wf_json (JObj src)" "wf_json (JObj src')" "wf_json (JObj dst)" "wf_json (JObj dst')"
    and "canon (JObj src) = canon (JObj src')" and "canon (JObj dst) = canon (JObj dst')"
  shows "canon (JObj (deepMerge dst src)) = canon (JObj (deepMerge dst' src'))"
  using assms
proof (induction "size (JObj src)" arbitrary: src src' dst dst' rule: less_induct)
  case less
  note wf = less.prems(1-4)
  have dist: "distinct (map fst src)" "distinct (map fst src')"
    "distinct (map fst dst)" "distinct (map fst dst')"
    "distinct (map fst (deepMerge dst src))" "distinct (map fst (deepMerge dst' src'))"
    using wf wf_deepMerge by blast+
  have entry: "map_option canon (merge_entry (map_of dst k) (map_of src k)) =
       map_option canon (merge_entry (map_of dst' k) (map_of src' k))" for k
  proof -
    have s: "map_option canon (map_of src k) = map_option canon (map_of src' k)"
      and d: "map_option canon (map_of dst k) = map_option canon (map_of dst' k)"
      using less.prems(5,6) dist by (simp_all only: canon_obj_eq_iff)
    show ?thesis
    proof (cases "\<exists>dm sm. map_of dst k = Some (JObj dm) \<and> map_of src k = Some (JObj sm)")
      case True
      then obtain dm sm where o: "map_of dst k = Some (JObj dm)" "map_of src k = Some (JObj sm)"
        by blast
      from s o obtain u where u: "map_of src' k = Some u" "canon (JObj sm) = canon u"
        by (cases "map_of src' k") (simp_all del: canon.simps)
      from d o obtain v where v: "map_of dst' k = Some v" "canon (JObj dm) = canon v"
        by (cases "map_of dst' k") (simp_all del: canon.simps)
      have "is_obj u" using canon_is_obj [OF u(2)] by simp
      then obtain sm' where u': "u = JObj sm'" by (cases u) auto
      have "is_obj v" using canon_is_obj [OF v(2)] by simp
      then obtain dm' where v': "v = JObj dm'" by (cases v) auto
      have "canon (JObj (deepMerge dm sm)) = canon (JObj (deepMerge dm' sm'))"
      proof (rule less.hyps)
        show "size (JObj sm) < size (JObj src)" by (rule size_lookup [OF o(2)])
        show "wf_json (JObj sm)" "wf_json (JObj sm')" "wf_json (JObj dm)" "wf_json (JObj dm')"
          using wf o u(1) v(1) u' v' wf_lookup by blast+
      qed (use u v u' v' in simp_all)
      then show ?thesis using o u v u' v' by simp
    next
      case False
      then have l: "merge_entry (map_of dst k) (map_of src k) =
          (case map_of src k of None \<Rightarrow> map_of dst k | Some x \<Rightarrow> Some x)"
        by (auto simp: merge_entry_def split: json.splits option.splits)
      have "\<not> (\<exists>dm sm. map_of dst' k = Some (JObj dm) \<and> map_of src' k = Some (JObj sm))"
        using False canon_option_obj [OF s] canon_option_obj [OF d] by metis
      then have r: "merge_entry (map_of dst' k) (map_of src' k) =
          (case map_of src' k of None \<Rightarrow> map_of dst' k | Some x \<Rightarrow> Some x)"
        by (auto simp: merge_entry_def split: json.splits option.splits)
      from s d show ?thesis unfolding l r by (auto split: option.splits)
    qed
  qed
  show ?case
    unfolding canon_obj_eq_iff [OF dist(5,6)]
    using entry by (simp add: map_of_deepMerge dist)
qed

section \<open>Numbers\<close>

text \<open>
  A number that is decoded into \<^verbatim>\<open>any\<close> becomes a float64, and is written back as one: \<open>f\<close> gives the text
  that is written for the text that was read, none when the number is out of range.
\<close>

fun float_json :: "(string \<Rightarrow> string option) \<Rightarrow> json \<Rightarrow> json" where
  "float_json f (JNum n) = (case f n of None \<Rightarrow> JNum n | Some t \<Rightarrow> JNum t)"
| "float_json f (JArr xs) = JArr (map (float_json f) xs)"
| "float_json f (JObj m) = JObj (map (\<lambda>kv. (fst kv, float_json f (snd kv))) m)"
| "float_json f v = v"

fun in_range :: "(string \<Rightarrow> string option) \<Rightarrow> json \<Rightarrow> bool" where
  "in_range f (JNum n) = (f n \<noteq> None)"
| "in_range f (JArr xs) = list_all (in_range f) xs"
| "in_range f (JObj m) = list_all (\<lambda>kv. in_range f (snd kv)) m"
| "in_range f v = True"

definition float_map :: "(string \<Rightarrow> string option) \<Rightarrow> jmap \<Rightarrow> jmap" where
  "float_map f m = map (\<lambda>kv. (fst kv, float_json f (snd kv))) m"

lemma float_json_obj: "float_json f (JObj m) = JObj (float_map f m)"
  by (simp add: float_map_def)

lemma float_map_simps [simp]: "float_map f [] = []" "float_map f m = [] \<longleftrightarrow> m = []"
  by (simp_all add: float_map_def)

lemma map_of_float: "map_of (float_map f m) k = map_option (float_json f) (map_of m k)"
  by (induction m) (auto simp: float_map_def)

lemma jget_float: "jget (float_json f v) p = map_option (float_json f) (jget v p)"
proof (induction v p rule: jget.induct)
  case (2 m k ks)
  then show ?case by (cases "map_of m k") (simp_all add: float_json_obj map_of_float del: float_json.simps(3))
qed (auto split: option.split)

lemma wf_float: "wf_json (float_json f v) \<longleftrightarrow> wf_json v"
proof (induction v rule: canon.induct)
  case (2 m)
  then show ?case by (simp add: comp_def)
qed (auto split: option.split)

lemma sort_map_values:
  "sort_key fst (map (\<lambda>kv. (fst kv, f (snd kv))) m) = map (\<lambda>kv. (fst kv, f (snd kv))) (sort_key fst m)"
proof -
  have insort: "insort_key fst (fst kv, f (snd kv)) (map (\<lambda>kv. (fst kv, f (snd kv))) xs) =
      map (\<lambda>kv. (fst kv, f (snd kv))) (insort_key fst kv xs)" for kv xs
    by (induction xs) auto
  show ?thesis by (induction m) (simp_all add: insort)
qed

lemma canon_float: "canon (float_json f v) = float_json f (canon v)"
proof (induction v rule: canon.induct)
  case (2 m)
  then have "map (\<lambda>kv. (fst kv, canon (snd kv))) (map (\<lambda>kv. (fst kv, float_json f (snd kv))) m) =
      map (\<lambda>kv. (fst kv, float_json f (snd kv))) (map (\<lambda>kv. (fst kv, canon (snd kv))) m)" by auto
  then show ?case by (simp only: canon.simps float_json.simps sort_map_values)
qed (auto split: option.split)

lemma in_range_canon: "in_range f (canon v) \<longleftrightarrow> in_range f v"
proof (induction v rule: canon.induct)
  case (2 m)
  then show ?case by (simp add: list_all_iff)
qed (auto simp: list_all_iff)

end
