(* ===== verification/Api_Types.thy ===== *)
theory Api_Types
  imports Json
begin

text \<open>
  \<^verbatim>\<open>api/v1alpha1\<close>: the ArgoCD and ProviderConfig resources as records, one field per field of
  the Go struct (type metadata aside), and the accessor methods with their defaults. A pointer field
  is an option; a method that tolerates a nil receiver takes an option. Durations are nanoseconds.
  \<open>SetStatusCondition\<close> of \<^verbatim>\<open>k8s.io/apimachinery\<close> and the status helpers of the service
  provider runtime are not part of the repository: they are parameters, and the locale
  \<open>status_library\<close> states what they document.
\<close>

section \<open>ProviderConfig\<close>

record ReloaderConfig =
  rl_Version :: string
  rl_ChartURL :: string
  rl_ChartVersion :: string
  rl_ChartPullSecret :: string
  rl_Values :: "raw_json option"

record ExposurePolicy =
  ep_DNSClass :: string
  ep_DNSTTL :: int
  ep_CertPurpose :: string

record ArgoCDVersion =
  v_Version :: string
  v_ChartVersion :: string
  v_ChartURL :: "string option"
  v_ChartPullSecret :: string
  v_Values :: "raw_json option"

record ProviderVaultPluginConfig =
  pv_Enabled :: bool
  pv_Registry :: string
  pv_Tag :: string

record ProviderConfigSpec =
  pc_Versions :: "ArgoCDVersion list"
  pc_PollInterval :: "int option"
  pc_Exposure :: "ExposurePolicy option"
  pc_Reloader :: "ReloaderConfig option"
  pc_CABundleSecret :: string
  pc_VaultPlugin :: "ProviderVaultPluginConfig option"
  pc_OpenSource :: bool

record ProviderConfig =
  pc_Spec :: ProviderConfigSpec

definition nanosecond :: int where "nanosecond = 1"
definition second :: int where "second = 1000000000"
definition minute :: int where "minute = 60 * second"

definition DefaultPollInterval :: int where
  "DefaultPollInterval = minute"

definition DefaultDNSClass :: string where "DefaultDNSClass = ''garden''"
definition DefaultDNSTTL :: int where "DefaultDNSTTL = 3600"
definition DefaultCertPurpose :: string where "DefaultCertPurpose = ''managed''"
definition DefaultReloaderChartURL :: string where
  "DefaultReloaderChartURL = ''oci://ghcr.io/stakater/charts/reloader''"

definition zero_version :: ArgoCDVersion where
  "zero_version = \<lparr>v_Version = [], v_ChartVersion = [], v_ChartURL = None,
     v_ChartPullSecret = [], v_Values = None\<rparr>"

definition zero_reloader :: ReloaderConfig where
  "zero_reloader = \<lparr>rl_Version = [], rl_ChartURL = [], rl_ChartVersion = [],
     rl_ChartPullSecret = [], rl_Values = None\<rparr>"

definition PollInterval :: "ProviderConfig \<Rightarrow> int" where
  "PollInterval pc =
     (case pc_PollInterval (pc_Spec pc) of None \<Rightarrow> DefaultPollInterval | Some d \<Rightarrow> d)"

fun select_version :: "ArgoCDVersion list \<Rightarrow> string \<Rightarrow> ArgoCDVersion \<times> bool" where
  "select_version [] requestedVersion = (zero_version, False)"
| "select_version (v # vs) requestedVersion =
     (if v_Version v = requestedVersion then (v, True) else select_version vs requestedVersion)"

definition SelectVersion :: "ProviderConfig \<Rightarrow> string \<Rightarrow> ArgoCDVersion \<times> bool" where
  "SelectVersion pc requestedVersion = select_version (pc_Versions (pc_Spec pc)) requestedVersion"

definition default_policy :: ExposurePolicy where
  "default_policy = \<lparr>ep_DNSClass = DefaultDNSClass, ep_DNSTTL = DefaultDNSTTL,
     ep_CertPurpose = DefaultCertPurpose\<rparr>"

definition effective_policy :: "ProviderConfig option \<Rightarrow> ExposurePolicy" where
  "effective_policy pc =
     (case pc of
        None \<Rightarrow> default_policy
      | Some c \<Rightarrow>
          (case pc_Exposure (pc_Spec c) of
             None \<Rightarrow> default_policy
           | Some e \<Rightarrow>
               (let p0 = default_policy;
                    p1 = (if ep_DNSClass e \<noteq> [] then p0\<lparr>ep_DNSClass := ep_DNSClass e\<rparr> else p0);
                    p2 = (if ep_DNSTTL e \<noteq> 0 then p1\<lparr>ep_DNSTTL := ep_DNSTTL e\<rparr> else p1)
                in if ep_CertPurpose e \<noteq> [] then p2\<lparr>ep_CertPurpose := ep_CertPurpose e\<rparr> else p2)))"

definition effective_reloader :: "ProviderConfig option \<Rightarrow> ReloaderConfig \<times> bool" where
  "effective_reloader pc =
     (case pc of
        None \<Rightarrow> (zero_reloader, False)
      | Some c \<Rightarrow>
          (case pc_Reloader (pc_Spec c) of
             None \<Rightarrow> (zero_reloader, False)
           | Some cfg \<Rightarrow>
               (if rl_ChartURL cfg = [] then cfg\<lparr>rl_ChartURL := DefaultReloaderChartURL\<rparr> else cfg,
                True)))"

definition VaultPluginEnabled :: "ProviderConfig option \<Rightarrow> bool" where
  "VaultPluginEnabled pc =
     (case pc of
        None \<Rightarrow> False
      | Some c \<Rightarrow>
          (case pc_VaultPlugin (pc_Spec c) of None \<Rightarrow> False | Some v \<Rightarrow> pv_Enabled v))"

definition VaultPluginImage :: "ProviderConfig option \<Rightarrow> string \<times> string" where
  "VaultPluginImage pc =
     (case pc of
        None \<Rightarrow> ([], [])
      | Some c \<Rightarrow>
          (case pc_VaultPlugin (pc_Spec c) of
             None \<Rightarrow> ([], []) | Some v \<Rightarrow> (pv_Registry v, pv_Tag v)))"

definition OpenSource :: "ProviderConfig option \<Rightarrow> bool" where
  "OpenSource pc = (case pc of None \<Rightarrow> False | Some c \<Rightarrow> pc_OpenSource (pc_Spec c))"

definition CABundleSecret :: "ProviderConfig option \<Rightarrow> string" where
  "CABundleSecret pc = (case pc of None \<Rightarrow> [] | Some c \<Rightarrow> pc_CABundleSecret (pc_Spec c))"

text \<open>
  The CRD's validation rule on the spec (the CEL expression above the struct): internal
  installations with the vault plugin enabled name its image.
\<close>

definition vault_rule :: "ProviderConfigSpec \<Rightarrow> bool" where
  "vault_rule s \<longleftrightarrow>
     pc_OpenSource s \<or>
     (case pc_VaultPlugin s of
        None \<Rightarrow> True
      | Some v \<Rightarrow> \<not> pv_Enabled v \<or> (pv_Registry v \<noteq> [] \<and> pv_Tag v \<noteq> []))"

subsection \<open>What the accessors guarantee\<close>

lemma select_version_found:
  "select_version vs r = (v, True) \<Longrightarrow>
   \<exists>us ws. vs = us @ v # ws \<and> v_Version v = r \<and> (\<forall>u \<in> set us. v_Version u \<noteq> r)"
proof (induction vs)
  case Nil
  then show ?case by simp
next
  case (Cons a vs)
  show ?case
  proof (cases "v_Version a = r")
    case True
    with Cons.prems show ?thesis by (intro exI [of _ "[]"] exI [of _ vs]) auto
  next
    case False
    with Cons.prems have "select_version vs r = (v, True)" by simp
    with Cons.IH obtain us ws where "vs = us @ v # ws" "v_Version v = r"
      "\<forall>u \<in> set us. v_Version u \<noteq> r" by blast
    with False show ?thesis by (intro exI [of _ "a # us"] exI [of _ ws]) auto
  qed
qed

lemma select_version_missing:
  "select_version vs r = (v, False) \<longleftrightarrow> v = zero_version \<and> r \<notin> v_Version ` set vs"
  by (induction vs) auto

lemma effective_policy_nonempty:
  "ep_DNSClass (effective_policy pc) \<noteq> [] \<and> ep_DNSTTL (effective_policy pc) \<noteq> 0 \<and>
   ep_CertPurpose (effective_policy pc) \<noteq> []"
  by (simp add: effective_policy_def default_policy_def DefaultDNSClass_def DefaultDNSTTL_def
      DefaultCertPurpose_def Let_def split: option.split)

lemma effective_reloader_url: "effective_reloader pc = (cfg, True) \<Longrightarrow> rl_ChartURL cfg \<noteq> []"
  by (auto simp: effective_reloader_def DefaultReloaderChartURL_def split: option.splits if_splits)

section \<open>ArgoCD\<close>

record ServerExposure =
  se_Host :: string
  se_AllowedIPs :: "string list"

record VaultPluginConfig =
  vp_Enabled :: bool

record ArgoCDSpec =
  spec_Version :: string
  spec_NamespaceOverride :: string
  spec_Exposure :: "ServerExposure option"
  spec_VaultPlugin :: "VaultPluginConfig option"

datatype condition_status = ConditionTrue | ConditionFalse | ConditionUnknown

record condition =
  cond_Type :: string
  cond_Status :: condition_status
  cond_ObservedGeneration :: int
  cond_Reason :: string
  cond_Message :: string

record ArgoCDStatus =
  st_Conditions :: "condition list"
  st_ObservedGeneration :: int
  st_Phase :: string
  st_Endpoint :: string

record ArgoCD =
  Name :: string
  Namespace :: string
  Generation :: int
  Annotations :: "(string \<times> string) list"
  Spec :: ArgoCDSpec
  Status :: ArgoCDStatus

definition GroupVersion_Group :: string where
  "GroupVersion_Group = ''argocd.services.open-control-plane.io''"

definition Finalizer :: "ArgoCD \<Rightarrow> string" where
  "Finalizer obj = GroupVersion_Group @ ''/finalizer''"

definition GetStatus :: "ArgoCD \<Rightarrow> ArgoCDStatus" where
  "GetStatus obj = Status obj"

definition GetConditions :: "ArgoCD \<Rightarrow> condition list" where
  "GetConditions obj = st_Conditions (Status obj)"

definition SetConditions :: "condition list \<Rightarrow> ArgoCD \<Rightarrow> ArgoCD" where
  "SetConditions cs obj = obj\<lparr>Status := (Status obj)\<lparr>st_Conditions := cs\<rparr>\<rparr>"

definition SetPhase :: "string \<Rightarrow> ArgoCD \<Rightarrow> ArgoCD" where
  "SetPhase phase obj = obj\<lparr>Status := (Status obj)\<lparr>st_Phase := phase\<rparr>\<rparr>"

definition SetObservedGeneration :: "int \<Rightarrow> ArgoCD \<Rightarrow> ArgoCD" where
  "SetObservedGeneration gen obj = obj\<lparr>Status := (Status obj)\<lparr>st_ObservedGeneration := gen\<rparr>\<rparr>"

definition set_endpoint :: "string \<Rightarrow> ArgoCD \<Rightarrow> ArgoCD" where
  "set_endpoint e obj = obj\<lparr>Status := (Status obj)\<lparr>st_Endpoint := e\<rparr>\<rparr>"

definition find_condition :: "string \<Rightarrow> condition list \<Rightarrow> condition option" where
  "find_condition t cs = find (\<lambda>c. cond_Type c = t) cs"

section \<open>Status helpers\<close>

text \<open>The library functions behind the status: \<^verbatim>\<open>meta.SetStatusCondition\<close> and the three
  helpers of the service provider runtime.\<close>

record status_lib =
  SetStatusCondition :: "condition \<Rightarrow> condition list \<Rightarrow> condition list"
  StatusProgressing :: "string \<Rightarrow> string \<Rightarrow> ArgoCD \<Rightarrow> ArgoCD"
  StatusReady :: "ArgoCD \<Rightarrow> ArgoCD"
  StatusTerminatingWithReason :: "string \<Rightarrow> string \<Rightarrow> ArgoCD \<Rightarrow> ArgoCD"

definition ServiceProviderConditionReady :: string where
  "ServiceProviderConditionReady = ''Ready''"

definition StatusPhaseFailed :: string where
  "StatusPhaseFailed = ''Failed''"

text \<open>\<^verbatim>\<open>internal/argocd/status.go\<close>.\<close>

definition StatusFailed :: "status_lib \<Rightarrow> string \<Rightarrow> string \<Rightarrow> ArgoCD \<Rightarrow> ArgoCD" where
  "StatusFailed lib reason message obj =
     (let obj1 = SetConditions
                   (SetStatusCondition lib
                      \<lparr>cond_Type = ServiceProviderConditionReady,
                       cond_Status = ConditionFalse,
                       cond_ObservedGeneration = Generation obj,
                       cond_Reason = reason,
                       cond_Message = message\<rparr>
                      (GetConditions obj)) obj;
          obj2 = SetObservedGeneration (Generation obj1) obj1
      in SetPhase StatusPhaseFailed obj2)"

text \<open>
  What those libraries document: setting a condition replaces the condition of that type and leaves
  the others; the runtime helpers write conditions, phase and observed generation and nothing else,
  and only \<open>StatusReady\<close> leaves the Ready condition true.
\<close>

definition same_but_status :: "ArgoCD \<Rightarrow> ArgoCD \<Rightarrow> bool" where
  "same_but_status a b \<longleftrightarrow>
     Name b = Name a \<and> Namespace b = Namespace a \<and> Generation b = Generation a \<and>
     Annotations b = Annotations a \<and> Spec b = Spec a \<and>
     st_Endpoint (Status b) = st_Endpoint (Status a)"

definition ready_condition :: "ArgoCD \<Rightarrow> bool" where
  "ready_condition obj \<longleftrightarrow>
     (case find_condition ServiceProviderConditionReady (GetConditions obj) of
        None \<Rightarrow> False | Some c \<Rightarrow> cond_Status c = ConditionTrue)"

locale status_library =
  fixes lib :: status_lib
  assumes set_condition_same: "find_condition (cond_Type c) (SetStatusCondition lib c cs) = Some c"
    and set_condition_other:
      "t \<noteq> cond_Type c \<Longrightarrow> find_condition t (SetStatusCondition lib c cs) = find_condition t cs"
    and progressing_frame: "same_but_status obj (StatusProgressing lib r m obj)"
    and ready_frame: "same_but_status obj (StatusReady lib obj)"
    and terminating_frame: "same_but_status obj (StatusTerminatingWithReason lib r m obj)"
    and progressing_not_ready: "\<not> ready_condition (StatusProgressing lib r m obj)"
    and ready_ready: "ready_condition (StatusReady lib obj)"
    and terminating_not_ready: "\<not> ready_condition (StatusTerminatingWithReason lib r m obj)"
begin

lemma failed_frame: "same_but_status obj (StatusFailed lib r m obj)"
  by (simp add: StatusFailed_def same_but_status_def SetConditions_def SetPhase_def
      SetObservedGeneration_def Let_def)

lemma failed_condition:
  "find_condition ServiceProviderConditionReady (GetConditions (StatusFailed lib r m obj)) =
     Some \<lparr>cond_Type = ServiceProviderConditionReady, cond_Status = ConditionFalse,
           cond_ObservedGeneration = Generation obj, cond_Reason = r, cond_Message = m\<rparr>"
  using set_condition_same
    [of "\<lparr>cond_Type = ServiceProviderConditionReady, cond_Status = ConditionFalse,
           cond_ObservedGeneration = Generation obj, cond_Reason = r, cond_Message = m\<rparr>"]
  by (simp add: StatusFailed_def SetConditions_def SetPhase_def SetObservedGeneration_def
      GetConditions_def Let_def)

lemma failed_not_ready: "\<not> ready_condition (StatusFailed lib r m obj)"
  by (simp add: ready_condition_def failed_condition)

lemma failed_other_conditions:
  "t \<noteq> ServiceProviderConditionReady \<Longrightarrow>
   find_condition t (GetConditions (StatusFailed lib r m obj)) = find_condition t (GetConditions obj)"
  by (simp add: StatusFailed_def SetConditions_def SetPhase_def SetObservedGeneration_def
      GetConditions_def Let_def set_condition_other)

lemma failed_phase:
  "st_Phase (Status (StatusFailed lib r m obj)) = StatusPhaseFailed \<and>
   st_ObservedGeneration (Status (StatusFailed lib r m obj)) = Generation obj"
  by (simp add: StatusFailed_def SetConditions_def SetPhase_def SetObservedGeneration_def Let_def)

lemmas not_ready = progressing_not_ready terminating_not_ready failed_not_ready
lemmas frames = progressing_frame ready_frame terminating_frame failed_frame

end

text \<open>
  An instance that computes: conditions kept in a list with one entry per type, and helpers that
  write the Ready condition and the phase.
\<close>

fun put_condition :: "condition \<Rightarrow> condition list \<Rightarrow> condition list" where
  "put_condition c [] = [c]"
| "put_condition c (d # ds) = (if cond_Type d = cond_Type c then c # ds else d # put_condition c ds)"

definition put_status :: "condition_status \<Rightarrow> string \<Rightarrow> string \<Rightarrow> string \<Rightarrow> ArgoCD \<Rightarrow> ArgoCD" where
  "put_status st phase reason message obj =
     SetPhase phase (SetObservedGeneration (Generation obj)
       (SetConditions
         (put_condition \<lparr>cond_Type = ServiceProviderConditionReady, cond_Status = st,
            cond_ObservedGeneration = Generation obj, cond_Reason = reason, cond_Message = message\<rparr>
            (GetConditions obj)) obj))"

definition example_status_lib :: status_lib where
  "example_status_lib =
     \<lparr>SetStatusCondition = put_condition,
      StatusProgressing = put_status ConditionFalse ''Progressing'',
      StatusReady = put_status ConditionTrue ''Ready'' ''Ready'' [],
      StatusTerminatingWithReason = put_status ConditionFalse ''Terminating''\<rparr>"

lemma find_put_same: "find_condition (cond_Type c) (put_condition c cs) = Some c"
  by (induction cs) (auto simp: find_condition_def)

lemma find_put_other:
  "t \<noteq> cond_Type c \<Longrightarrow> find_condition t (put_condition c cs) = find_condition t cs"
  by (induction cs) (auto simp: find_condition_def)

lemma put_status_frame: "same_but_status obj (put_status s p r m obj)"
  by (simp add: put_status_def same_but_status_def SetPhase_def SetObservedGeneration_def
      SetConditions_def)

lemma put_status_ready: "ready_condition (put_status s p r m obj) \<longleftrightarrow> s = ConditionTrue"
  using find_put_same [of "\<lparr>cond_Type = ServiceProviderConditionReady, cond_Status = s,
            cond_ObservedGeneration = Generation obj, cond_Reason = r, cond_Message = m\<rparr>"]
  by (simp add: put_status_def ready_condition_def SetPhase_def SetObservedGeneration_def
      SetConditions_def GetConditions_def)

interpretation example_status: status_library example_status_lib
  by unfold_locales
     (simp_all add: example_status_lib_def find_put_same find_put_other put_status_frame
       put_status_ready)

end
