(* ===== verification/Kube.thy ===== *)
theory Kube
  imports Api_Types
begin

text \<open>
  The objects the program keeps on its clusters, and the client it reads and writes them with. The
  client (\<^verbatim>\<open>sigs.k8s.io/controller-runtime\<close>) and the API servers behind it are not part of the
  repository: the client is a record of operations that every definition of the model takes as an
  argument, over an arbitrary type of worlds, and the locale \<open>kube_api\<close> states what the client
  documents, through a view of the world as a store. An error of a write leaves open whether the
  write took effect. The locale is interpreted on an executable store, the counterpart of the fake
  client the unit tests of the repository run against, with a plan of failing calls.
\<close>

section \<open>Objects\<close>

text \<open>\<^verbatim>\<open>sourcev1.OCIRepositorySpec\<close> and \<^verbatim>\<open>helmv2.HelmReleaseSpec\<close>: the fields the program
  sets. A Go value that is not set is its zero value.\<close>

record OCIRepositorySpec =
  oci_Interval :: int
  oci_URL :: string
  oci_Tag :: string
  oci_SecretRef :: "string option"
  oci_CertSecretRef :: "string option"

record ChartRef =
  ref_Kind :: string
  ref_Name :: string
  ref_Namespace :: string

record Install_spec =
  ins_CRDs :: string
  ins_CreateNamespace :: bool
  ins_Timeout :: "int option"
  ins_Retries :: int

record Upgrade_spec =
  upg_CRDs :: string
  upg_Retries :: int

record Uninstall_spec =
  uns_KeepHistory :: bool
  uns_Timeout :: "int option"

record HelmReleaseSpec =
  hr_Interval :: int
  hr_ChartRef :: ChartRef
  hr_KubeConfigSecret :: string
  hr_KubeConfigKey :: string
  hr_Install :: Install_spec
  hr_Upgrade :: Upgrade_spec
  hr_Uninstall :: Uninstall_spec
  hr_DriftDetection :: string
  hr_Values :: "raw_json option"
  hr_TargetNamespace :: string
  hr_StorageNamespace :: string

datatype body =
    Secret string "(string \<times> string) list"
  | OCIRepository "OCIRepositorySpec option"
  | HelmRelease "HelmReleaseSpec option" "condition list"
  | NamespaceObj
  | Service string "string list"
  | Application
  | ApplicationSet
  | AppProject

datatype kind =
    KSecret | KOCIRepository | KHelmRelease | KNamespace | KService
  | KApplication | KApplicationSet | KAppProject

primrec kind_of :: "body \<Rightarrow> kind" where
  "kind_of (Secret t d) = KSecret"
| "kind_of (OCIRepository s) = KOCIRepository"
| "kind_of (HelmRelease s cs) = KHelmRelease"
| "kind_of NamespaceObj = KNamespace"
| "kind_of (Service t ing) = KService"
| "kind_of Application = KApplication"
| "kind_of ApplicationSet = KApplicationSet"
| "kind_of AppProject = KAppProject"

text \<open>An object with its metadata; a nil label map is \<open>None\<close>.\<close>

record kobj =
  o_Name :: string
  o_Namespace :: string
  o_Labels :: "(string \<times> string) list option"
  o_Finalizers :: "string list"
  o_Deleting :: bool
  o_Body :: body

definition new_object :: "string \<Rightarrow> string \<Rightarrow> body \<Rightarrow> kobj" where
  "new_object name namespace b =
     \<lparr>o_Name = name, o_Namespace = namespace, o_Labels = None, o_Finalizers = [],
      o_Deleting = False, o_Body = b\<rparr>"

definition label_of :: "kobj \<Rightarrow> string \<Rightarrow> string option" where
  "label_of obj k = (case o_Labels obj of None \<Rightarrow> None | Some ls \<Rightarrow> map_of ls k)"

definition set_label :: "string \<Rightarrow> string \<Rightarrow> kobj \<Rightarrow> kobj" where
  "set_label k v obj =
     obj\<lparr>o_Labels := Some (AList.update k v (case o_Labels obj of None \<Rightarrow> [] | Some ls \<Rightarrow> ls))\<rparr>"

type_synonym cluster = string
type_synonym obj_key = "kind \<times> string \<times> string"
type_synonym obj_ref = "cluster \<times> kind \<times> string \<times> string"

definition key_of :: "kobj \<Rightarrow> obj_key" where
  "key_of obj = (kind_of (o_Body obj), o_Namespace obj, o_Name obj)"

definition ref_of :: "cluster \<Rightarrow> kobj \<Rightarrow> obj_ref" where
  "ref_of c obj = (c, key_of obj)"

lemma key_of_simps [simp]:
  "key_of (set_label k v obj) = key_of obj"
  "key_of (new_object n ns b) = (kind_of b, ns, n)"
  "key_of (obj\<lparr>o_Body := b\<rparr>) = (kind_of b, snd (key_of obj))"
  "key_of (obj\<lparr>o_Deleting := d\<rparr>) = key_of obj"
  by (simp_all add: key_of_def set_label_def new_object_def)

lemma set_label_simps [simp]:
  "label_of (set_label k v obj) = (label_of obj)(k \<mapsto> v)"
  "o_Body (set_label k v obj) = o_Body obj"
  "o_Name (set_label k v obj) = o_Name obj"
  "o_Namespace (set_label k v obj) = o_Namespace obj"
  "o_Finalizers (set_label k v obj) = o_Finalizers obj"
  "o_Deleting (set_label k v obj) = o_Deleting obj"
  by (auto simp: set_label_def label_of_def maps_simps fun_eq_iff split: option.splits)

lemma label_of_body [simp]: "label_of (obj\<lparr>o_Body := b\<rparr>) = label_of obj"
  "label_of (obj\<lparr>o_Deleting := d\<rparr>) = label_of obj"
  by (simp_all add: label_of_def fun_eq_iff)

definition matches_labels :: "(string \<times> string) list \<Rightarrow> kobj \<Rightarrow> bool" where
  "matches_labels sel obj \<longleftrightarrow> (\<forall>(k, v) \<in> set sel. label_of obj k = Some v)"

section \<open>The client\<close>

text \<open>
  \<open>api_List c k ns sel\<close> lists the objects of kind \<open>k\<close>, in the namespace when one is given,
  that carry the labels \<open>sel\<close>. \<open>api_CreateOrUpdate c init f\<close> is
  \<^verbatim>\<open>controllerutil.CreateOrUpdate\<close> with the mutate function \<open>f\<close>, which the program never lets
  fail. \<open>api_RemoveAnnotation\<close> is \<^verbatim>\<open>ctrlutils.EnsureAnnotation\<close> in its DELETE mode: it
  patches the ArgoCD resource on the onboarding cluster and returns the resource as it then is.
\<close>

record 'w kube_client =
  api_Get :: "obj_ref \<Rightarrow> (go_error, 'w, kobj) io"
  api_List :: "cluster \<Rightarrow> kind \<Rightarrow> string option \<Rightarrow> (string \<times> string) list \<Rightarrow> (go_error, 'w, kobj list) io"
  api_Create :: "cluster \<Rightarrow> kobj \<Rightarrow> (go_error, 'w, unit) io"
  api_Delete :: "obj_ref \<Rightarrow> (go_error, 'w, unit) io"
  api_CreateOrUpdate :: "cluster \<Rightarrow> kobj \<Rightarrow> (kobj \<Rightarrow> kobj) \<Rightarrow> (go_error, 'w, unit) io"
  api_RemoveAnnotation :: "cluster \<Rightarrow> string \<Rightarrow> string \<Rightarrow> ArgoCD \<Rightarrow> (go_error, 'w, ArgoCD) io"

definition IgnoreNotFound :: "(go_error, 'w, unit) io \<Rightarrow> (go_error, 'w, unit) io" where
  "IgnoreNotFound m =
     io_try m (\<lambda>r. case r of
        Inl e \<Rightarrow> if IsNotFound e then io_return () else io_error e
      | Inr u \<Rightarrow> io_return u)"

definition preserves_key :: "kobj \<Rightarrow> (kobj \<Rightarrow> kobj) \<Rightarrow> bool" where
  "preserves_key init f \<longleftrightarrow> (\<forall>x. key_of x = key_of init \<longrightarrow> key_of (f x) = key_of init)"

text \<open>What a deletion leaves: nothing, or, while the object has finalizers, the object marked.\<close>

definition after_delete :: "kobj \<Rightarrow> kobj option" where
  "after_delete obj = (if o_Finalizers obj = [] then None else Some (obj\<lparr>o_Deleting := True\<rparr>))"

type_synonym store = "obj_ref \<Rightarrow> kobj option"

definition listed :: "store \<Rightarrow> cluster \<Rightarrow> kind \<Rightarrow> string option \<Rightarrow> (string \<times> string) list \<Rightarrow> kobj set" where
  "listed s c k ns sel =
     {obj. (\<exists>ns' n. s (c, k, ns', n) = Some obj \<and> (ns = None \<or> ns = Some ns')) \<and>
           matches_labels sel obj}"

definition updated :: "store \<Rightarrow> cluster \<Rightarrow> kobj \<Rightarrow> (kobj \<Rightarrow> kobj) \<Rightarrow> store" where
  "updated s c init f =
     s(ref_of c init \<mapsto> f (case s (ref_of c init) of None \<Rightarrow> init | Some obj \<Rightarrow> obj))"

definition deleted :: "store \<Rightarrow> obj_ref \<Rightarrow> store" where
  "deleted s r = s(r := Option.bind (s r) after_delete)"

locale kube_api =
  fixes api :: "'w kube_client" and view :: "'w \<Rightarrow> store"
  assumes stored_key: "view w (c, key) = Some obj \<Longrightarrow> key_of obj = key"
    and get_ok: "api_Get api r w = (Inr obj, w') \<Longrightarrow> view w' = view w \<and> view w r = Some obj"
    and get_err:
      "api_Get api r w = (Inl e, w') \<Longrightarrow> view w' = view w \<and> (IsNotFound e \<longrightarrow> view w r = None)"
    and list_ok:
      "api_List api c k ns sel w = (Inr objs, w') \<Longrightarrow>
       view w' = view w \<and> distinct objs \<and> set objs = listed (view w) c k ns sel"
    and list_err:
      "api_List api c k ns sel w = (Inl e, w') \<Longrightarrow>
       view w' = view w \<and> (IsNoMatchError e \<longrightarrow> (\<forall>ns n. view w (c, k, ns, n) = None))"
    and create_ok:
      "api_Create api c obj w = (Inr u, w') \<Longrightarrow>
       view w (ref_of c obj) = None \<and> view w' = (view w)(ref_of c obj \<mapsto> obj)"
    and create_err:
      "api_Create api c obj w = (Inl e, w') \<Longrightarrow>
       view w' = view w \<and> (IsAlreadyExists e \<longrightarrow> view w (ref_of c obj) \<noteq> None) \<or>
       \<not> IsAlreadyExists e \<and> view w (ref_of c obj) = None \<and> view w' = (view w)(ref_of c obj \<mapsto> obj)"
    and delete_ok:
      "api_Delete api r w = (Inr u, w') \<Longrightarrow> view w r \<noteq> None \<and> view w' = deleted (view w) r"
    and delete_err:
      "api_Delete api r w = (Inl e, w') \<Longrightarrow>
       view w' = view w \<and> (IsNotFound e \<longrightarrow> view w r = None) \<or>
       \<not> IsNotFound e \<and> view w' = deleted (view w) r"
    and update_ok:
      "preserves_key init f \<Longrightarrow> api_CreateOrUpdate api c init f w = (Inr u, w') \<Longrightarrow>
       view w' = updated (view w) c init f"
    and update_err:
      "preserves_key init f \<Longrightarrow> api_CreateOrUpdate api c init f w = (Inl e, w') \<Longrightarrow>
       view w' = view w \<or> view w' = updated (view w) c init f"
    and annotation_ok:
      "api_RemoveAnnotation api c ann val res w = (ann_r, w') \<Longrightarrow>
       view w' = view w \<and> (\<forall>res'. ann_r = Inr res' \<longrightarrow>
         res' = res\<lparr>Annotations := filter (\<lambda>kv. fst kv \<noteq> ann) (Annotations res)\<rparr>)"

begin

lemma get_keeps: "io_keeps (same_outside view A) (api_Get api r)"
  by (rule io_keepsI) (metis get_ok get_err same_outside_def sum.exhaust)

lemma list_keeps: "io_keeps (same_outside view A) (api_List api c k ns sel)"
  by (rule io_keepsI) (metis list_ok list_err same_outside_def sum.exhaust)

lemma annotation_keeps: "io_keeps (same_outside view A) (api_RemoveAnnotation api c a v res)"
  by (rule io_keepsI) (metis annotation_ok same_outside_def)

lemma create_cases:
  assumes "api_Create api c obj w = (r, w')"
  shows "view w' = view w \<or> view w' = (view w)(ref_of c obj \<mapsto> obj)"
  using assms create_ok create_err by (cases r) blast+

lemma delete_cases:
  assumes "api_Delete api r w = (x, w')"
  shows "view w' = view w \<or> view w' = deleted (view w) r"
  using assms delete_ok delete_err by (cases x) blast+

lemma update_cases:
  assumes "preserves_key init f" and "api_CreateOrUpdate api c init f w = (x, w')"
  shows "view w' = view w \<or> view w' = updated (view w) c init f"
  using assms update_ok update_err by (cases x) blast+

lemma create_keeps: "ref_of c obj \<in> A \<Longrightarrow> io_keeps (same_outside view A) (api_Create api c obj)"
  by (rule io_keepsI, drule create_cases) (auto simp: same_outside_def)

lemma delete_keeps: "r \<in> A \<Longrightarrow> io_keeps (same_outside view A) (api_Delete api r)"
  by (rule io_keepsI, drule delete_cases) (auto simp: same_outside_def deleted_def)

lemma update_keeps:
  "preserves_key init f \<Longrightarrow> ref_of c init \<in> A \<Longrightarrow>
   io_keeps (same_outside view A) (api_CreateOrUpdate api c init f)"
  by (rule io_keepsI, drule (1) update_cases) (auto simp: same_outside_def updated_def)

lemma ignore_keeps: "io_keeps (same_outside view A) m \<Longrightarrow> io_keeps (same_outside view A) (IgnoreNotFound m)"
  unfolding IgnoreNotFound_def
  by (rule frame.keeps_try) (auto split: sum.split intro: frame.keeps_return frame.keeps_error)

lemmas client_keeps =
  get_keeps list_keeps annotation_keeps create_keeps delete_keeps update_keeps ignore_keeps

text \<open>Deleting, a missing object being no error: afterwards the object is gone or terminating.\<close>

lemma ignore_delete_ok:
  assumes "IgnoreNotFound (api_Delete api r) w = (Inr u, w')"
  shows "view w' = deleted (view w) r"
proof -
  obtain x w1 where d: "api_Delete api r w = (x, w1)" by fastforce
  with assms show ?thesis
    using delete_ok [of r w _ w1] delete_err [of r w _ w1]
    by (cases x)
       (auto simp: IgnoreNotFound_def io_try_eq io_ok deleted_def fun_upd_idem split: if_splits)
qed

lemma stored_ref: "view w r = Some obj \<Longrightarrow> ref_of (fst r) obj = r"
  using stored_key [of w "fst r" "snd r" obj] by (simp add: ref_of_def)

end

text \<open>A cluster that answers: reading, listing and deleting never fail.\<close>

locale kube_api_up = kube_api +
  assumes get_up: "fst (api_Get api r w) =
      (case view w r of None \<Rightarrow> Inl (ApiError (NotFound (snd (snd (snd r))))) | Some obj \<Rightarrow> Inr obj)"
    and list_up: "\<exists>objs. fst (api_List api c k ns sel w) = Inr objs"
    and delete_up: "fst (api_Delete api r w) =
      (if view w r = None then Inl (ApiError (NotFound (snd (snd (snd r))))) else Inr ())"

text \<open>
  Writes are another matter: the API server creates nothing in a namespace that is missing or
  being deleted, it does not let an update change the type of a Secret, and what it (with the schemas
  and policies of the cluster) makes of the content of an object is the function \<open>admits\<close>. What \<open>takes\<close>
  says is accepted, and nothing else is. An update that leaves the content as it is needs no admission.
\<close>

definition retyped :: "body \<Rightarrow> body \<Rightarrow> bool" where
  "retyped b b' = (case (b, b') of (Secret t _, Secret t' _) \<Rightarrow> t \<noteq> t' | _ \<Rightarrow> False)"

definition without_status :: "body \<Rightarrow> body" where
  "without_status b =
     (case b of HelmRelease spec _ \<Rightarrow> HelmRelease spec [] | Service t _ \<Rightarrow> Service t [] | _ \<Rightarrow> b)"

definition namespace_live :: "store \<Rightarrow> cluster \<Rightarrow> string \<Rightarrow> bool" where
  "namespace_live s c ns =
     (case s (c, KNamespace, [], ns) of None \<Rightarrow> False | Some obj \<Rightarrow> \<not> o_Deleting obj)"

definition takes :: "(obj_ref \<Rightarrow> body \<Rightarrow> bool) \<Rightarrow> store \<Rightarrow> obj_ref \<Rightarrow> body \<Rightarrow> bool" where
  "takes admits s r b =
     (case s r of
        None \<Rightarrow> namespace_live s (fst r) (fst (snd (snd r))) \<and> admits r (without_status b)
      | Some old \<Rightarrow> \<not> retyped (o_Body old) b \<and>
          (without_status (o_Body old) = without_status b \<or> admits r (without_status b)))"

locale kube_api_writes = kube_api_up +
  fixes admits :: "obj_ref \<Rightarrow> body \<Rightarrow> bool"
  assumes create_up: "fst (api_Create api c (new_object n [] NamespaceObj) w) = Inr () \<longleftrightarrow>
      view w (c, KNamespace, [], n) = None \<and> admits (c, KNamespace, [], n) NamespaceObj"
    and create_exists: "view w (c, KNamespace, [], n) \<noteq> None \<Longrightarrow>
      fst (api_Create api c (new_object n [] NamespaceObj) w) = Inl (ApiError (AlreadyExists n))"
    and update_up: "preserves_key init f \<Longrightarrow> fst (api_CreateOrUpdate api c init f w) = Inr () \<longleftrightarrow>
      takes admits (view w) (ref_of c init)
        (o_Body (f (case view w (ref_of c init) of None \<Rightarrow> init | Some obj \<Rightarrow> obj)))"

lemma retyped_simps [simp]:
  "\<not> retyped b b" "\<not> retyped (OCIRepository x) b" "\<not> retyped (HelmRelease y cs) b"
  by (auto simp: retyped_def split: body.splits)

lemma retyped_sym: "retyped b b' \<Longrightarrow> retyped b' b"
  by (auto simp: retyped_def split: body.splits)

lemma takes_cong:
  "s r = t r \<Longrightarrow> s (fst r, KNamespace, [], fst (snd (snd r))) = t (fst r, KNamespace, [], fst (snd (snd r))) \<Longrightarrow>
   takes admits s r b = takes admits t r b"
  by (simp add: takes_def namespace_live_def split: option.split)

section \<open>An executable store\<close>

text \<open>
  A world is the list of stored objects with their clusters. The plan of failures \<open>F\<close> says which
  calls are answered with an error (before they take effect); a list of a kind that the cluster does
  not define is a no-match error.
\<close>

datatype call =
    CallGet obj_ref
  | CallList cluster kind
  | CallCreate obj_ref
  | CallDelete obj_ref
  | CallUpdate obj_ref
  | CallAnnotate cluster

type_synonym mem_store = "(cluster \<times> kobj) list"

definition mem_view :: "mem_store \<Rightarrow> store" where
  "mem_view w = (\<lambda>r. map_option snd (find (\<lambda>(c, obj). ref_of c obj = r) w))"

definition mem_put :: "cluster \<Rightarrow> kobj \<Rightarrow> mem_store \<Rightarrow> mem_store" where
  "mem_put c obj w = (c, obj) # filter (\<lambda>(c', obj'). ref_of c' obj' \<noteq> ref_of c obj) w"

definition mem_del :: "obj_ref \<Rightarrow> mem_store \<Rightarrow> mem_store" where
  "mem_del r w = filter (\<lambda>(c', obj'). ref_of c' obj' \<noteq> r) w"

definition guarded :: "(call \<Rightarrow> string option) \<Rightarrow> call \<Rightarrow> (go_error, 'w, 'a) io \<Rightarrow> (go_error, 'w, 'a) io" where
  "guarded F call m = (case F call of None \<Rightarrow> m | Some msg \<Rightarrow> io_error (ApiError (OtherApi msg)))"

definition mem_get :: "obj_ref \<Rightarrow> (go_error, mem_store, kobj) io" where
  "mem_get r = (\<lambda>w. (case mem_view w r of
       None \<Rightarrow> Inl (ApiError (NotFound (snd (snd (snd r))))) | Some obj \<Rightarrow> Inr obj, w))"

definition mem_refs :: "mem_store \<Rightarrow> obj_ref list" where
  "mem_refs w = remdups (map (\<lambda>(c, obj). ref_of c obj) w)"

definition selects ::
  "mem_store \<Rightarrow> cluster \<Rightarrow> kind \<Rightarrow> string option \<Rightarrow> (string \<times> string) list \<Rightarrow> obj_ref \<Rightarrow> bool" where
  "selects w c k ns sel r \<longleftrightarrow>
     fst r = c \<and> fst (snd r) = k \<and> (ns = None \<or> ns = Some (fst (snd (snd r)))) \<and>
     matches_labels sel (the (mem_view w r))"

definition mem_list :: "cluster \<Rightarrow> kind \<Rightarrow> string option \<Rightarrow> (string \<times> string) list \<Rightarrow> (go_error, mem_store, kobj list) io" where
  "mem_list c k ns sel = (\<lambda>w.
     (Inr (map (\<lambda>r. the (mem_view w r)) (filter (selects w c k ns sel) (mem_refs w))), w))"

text \<open>The store refuses what the API server refuses; of the content of an object it asks that it has a
  name.\<close>

definition mem_admits :: "obj_ref \<Rightarrow> body \<Rightarrow> bool" where
  "mem_admits r b \<longleftrightarrow> snd (snd (snd r)) \<noteq> []"

definition mem_create :: "cluster \<Rightarrow> kobj \<Rightarrow> (go_error, mem_store, unit) io" where
  "mem_create c obj = (\<lambda>w. case mem_view w (ref_of c obj) of
       None \<Rightarrow>
         if mem_admits (ref_of c obj) (o_Body obj) then (Inr (), mem_put c obj w)
         else (Inl (ApiError (OtherApi ''invalid object'')), w)
     | Some _ \<Rightarrow> (Inl (ApiError (AlreadyExists (o_Name obj))), w))"

definition mem_delete :: "obj_ref \<Rightarrow> (go_error, mem_store, unit) io" where
  "mem_delete r = (\<lambda>w. case mem_view w r of
       None \<Rightarrow> (Inl (ApiError (NotFound (snd (snd (snd r))))), w)
     | Some obj \<Rightarrow> (Inr (), case after_delete obj of None \<Rightarrow> mem_del r w | Some obj' \<Rightarrow> mem_put (fst r) obj' w))"

definition mem_update :: "cluster \<Rightarrow> kobj \<Rightarrow> (kobj \<Rightarrow> kobj) \<Rightarrow> (go_error, mem_store, unit) io" where
  "mem_update c init f = (\<lambda>w.
     let obj = f (case mem_view w (ref_of c init) of None \<Rightarrow> init | Some old \<Rightarrow> old)
     in if takes mem_admits (mem_view w) (ref_of c init) (o_Body obj) then (Inr (), mem_put c obj w)
        else (Inl (ApiError (OtherApi ''refused'')), w))"

definition mem_annotate :: "string \<Rightarrow> ArgoCD \<Rightarrow> (go_error, mem_store, ArgoCD) io" where
  "mem_annotate a res = io_return (res\<lparr>Annotations := filter (\<lambda>kv. fst kv \<noteq> a) (Annotations res)\<rparr>)"

definition mem_client :: "(call \<Rightarrow> string option) \<Rightarrow> mem_store kube_client" where
  "mem_client F =
     \<lparr>api_Get = (\<lambda>r. guarded F (CallGet r) (mem_get r)),
      api_List = (\<lambda>c k ns sel. guarded F (CallList c k) (mem_list c k ns sel)),
      api_Create = (\<lambda>c obj. guarded F (CallCreate (ref_of c obj)) (mem_create c obj)),
      api_Delete = (\<lambda>r. guarded F (CallDelete r) (mem_delete r)),
      api_CreateOrUpdate = (\<lambda>c init f. guarded F (CallUpdate (ref_of c init)) (mem_update c init f)),
      api_RemoveAnnotation = (\<lambda>c a v res. guarded F (CallAnnotate c) (mem_annotate a res))\<rparr>"

lemma mem_view_Nil [simp]: "mem_view [] = Map.empty"
  by (simp add: mem_view_def fun_eq_iff)

lemma mem_view_Cons:
  "mem_view ((c, obj) # w) r = (if ref_of c obj = r then Some obj else mem_view w r)"
  by (simp add: mem_view_def)

lemma mem_view_filter:
  "mem_view (filter (\<lambda>(c', obj'). ref_of c' obj' \<noteq> r) w) = (mem_view w)(r := None)"
  by (induction w) (auto simp: mem_view_Cons fun_eq_iff)

lemma mem_view_put: "mem_view (mem_put c obj w) = (mem_view w)(ref_of c obj \<mapsto> obj)"
  by (auto simp: mem_put_def mem_view_Cons mem_view_filter fun_eq_iff)

lemma mem_view_del: "mem_view (mem_del r w) = (mem_view w)(r := None)"
  by (simp add: mem_del_def mem_view_filter)

lemma mem_view_ref: "mem_view w r = Some obj \<Longrightarrow> ref_of (fst r) obj = r"
  by (auto simp: mem_view_def ref_of_def find_Some_iff)

lemma mem_view_dom: "mem_view w r \<noteq> None \<longleftrightarrow> r \<in> set (map (\<lambda>(c, obj). ref_of c obj) w)"
  by (auto simp: mem_view_def find_None_iff)

lemma inj_on_mem_view:
  assumes "\<And>r. r \<in> A \<Longrightarrow> \<exists>obj. mem_view w r = Some obj \<and> ref_of c obj = r"
  shows "inj_on (\<lambda>r. the (mem_view w r)) A"
  using assms by (intro inj_onI) (metis option.sel)

lemma mem_refs_iff: "r \<in> set (mem_refs w) \<longleftrightarrow> mem_view w r \<noteq> None"
  unfolding mem_refs_def by (simp only: mem_view_dom set_remdups)

lemma mem_list_set:
  "set (map (\<lambda>r. the (mem_view w r)) (filter (selects w c k ns sel) (mem_refs w))) =
   listed (mem_view w) c k ns sel"
proof (intro equalityI subsetI)
  fix obj
  assume "obj \<in> set (map (\<lambda>r. the (mem_view w r)) (filter (selects w c k ns sel) (mem_refs w)))"
  then obtain r where r: "r \<in> set (mem_refs w)" "selects w c k ns sel r" "obj = the (mem_view w r)"
    by auto
  obtain c' k' ns' n where "r = (c', k', ns', n)" by (cases r)
  with r show "obj \<in> listed (mem_view w) c k ns sel"
    by (auto simp: mem_refs_iff selects_def listed_def)
next
  fix obj
  assume "obj \<in> listed (mem_view w) c k ns sel"
  then obtain ns' n where "mem_view w (c, k, ns', n) = Some obj" "ns = None \<or> ns = Some ns'"
    "matches_labels sel obj" by (auto simp: listed_def)
  then have "(c, k, ns', n) \<in> set (filter (selects w c k ns sel) (mem_refs w))"
    and "obj = the (mem_view w (c, k, ns', n))"
    by (auto simp: mem_refs_iff selects_def)
  then show "obj \<in> set (map (\<lambda>r. the (mem_view w r)) (filter (selects w c k ns sel) (mem_refs w)))"
    by (simp only: set_map) (rule image_eqI [where x = "(c, k, ns', n)"], simp)
qed

lemma mem_list_distinct:
  "distinct (map (\<lambda>r. the (mem_view w r)) (filter (selects w c k ns sel) (mem_refs w)))"
proof -
  have "\<exists>obj. mem_view w r = Some obj \<and> ref_of c obj = r"
    if "r \<in> set (filter (selects w c k ns sel) (mem_refs w))" for r
    using that mem_view_ref [of w r] by (cases "mem_view w r") (auto simp: mem_refs_iff selects_def)
  then have "inj_on (\<lambda>r. the (mem_view w r)) (set (filter (selects w c k ns sel) (mem_refs w)))"
    by (rule inj_on_mem_view)
  then show ?thesis by (simp only: distinct_map) (simp add: mem_refs_def)
qed

lemma mem_list_listed:
  assumes "mem_list c k ns sel w = (x, w')"
  shows "\<exists>objs. x = Inr objs \<and> w' = w \<and> distinct objs \<and> set objs = listed (mem_view w) c k ns sel"
  using assms mem_list_set [of w c k ns sel] mem_list_distinct [of w c k ns sel]
  unfolding mem_list_def by blast

lemma guarded_ok:
  "guarded F call m w = (x, w') \<longleftrightarrow>
   (case F call of None \<Rightarrow> m w = (x, w') | Some msg \<Rightarrow> x = Inl (ApiError (OtherApi msg)) \<and> w' = w)"
  by (auto simp: guarded_def io_ok split: option.split)

lemma preserves_ref:
  "preserves_key init f \<Longrightarrow> ref_of c x = ref_of c init \<Longrightarrow> ref_of c (f x) = ref_of c init"
  by (simp add: preserves_key_def ref_of_def)

lemma mem_update_view:
  assumes "preserves_key init f" and "mem_update c init f w = (Inr u, w')"
  shows "mem_view w' = updated (mem_view w) c init f"
proof (cases "mem_view w (ref_of c init)")
  case None
  then show ?thesis
    using preserves_ref [OF assms(1), of c init] assms(2)
    by (auto simp: mem_update_def mem_view_put updated_def Let_def split: if_splits)
next
  case (Some obj)
  then have "ref_of c obj = ref_of c init"
    using mem_view_ref [of w "ref_of c init" obj] by (simp add: ref_of_def)
  with Some show ?thesis
    using preserves_ref [OF assms(1), of c obj] assms(2)
    by (auto simp: mem_update_def mem_view_put updated_def Let_def split: if_splits)
qed

lemma mem_update_refused: "mem_update c init f w = (Inl e, w') \<Longrightarrow> w' = w"
  by (auto simp: mem_update_def Let_def split: if_splits)

lemma after_delete_ref: "after_delete obj = Some obj' \<Longrightarrow> ref_of c obj' = ref_of c obj"
  by (auto simp: after_delete_def ref_of_def split: if_splits)

lemmas mem_ops = mem_client_def guarded_ok mem_get_def mem_create_def mem_delete_def mem_update_def
  mem_annotate_def io_ok

interpretation mem: kube_api "mem_client F" mem_view for F
proof unfold_locales
  fix c key obj and w
  show "mem_view w (c, key) = Some obj \<Longrightarrow> key_of obj = key"
    using mem_view_ref [of w "(c, key)"] by (auto simp: ref_of_def)
next
  fix c k ns sel w objs w'
  show "api_List (mem_client F) c k ns sel w = (Inr objs, w') \<Longrightarrow>
      mem_view w' = mem_view w \<and> distinct objs \<and> set objs = listed (mem_view w) c k ns sel"
    using mem_list_listed [of c k ns sel w]
    by (fastforce simp: mem_client_def guarded_ok split: option.splits)
next
  fix c k ns sel w e w'
  show "api_List (mem_client F) c k ns sel w = (Inl e, w') \<Longrightarrow>
      mem_view w' = mem_view w \<and> (IsNoMatchError e \<longrightarrow> (\<forall>ns n. mem_view w (c, k, ns, n) = None))"
    using mem_list_listed [of c k ns sel w]
    by (fastforce simp: mem_client_def guarded_ok split: option.splits)
next
  fix init f c u w and w'
  assume "preserves_key init f" "api_CreateOrUpdate (mem_client F) c init f w = (Inr u, w')"
  then show "mem_view w' = updated (mem_view w) c init f"
    using mem_update_view [of init f c w u w']
    by (cases "F (CallUpdate (ref_of c init))") (simp_all add: mem_client_def guarded_def io_ok)
next
  fix init f c e w and w'
  assume "preserves_key init f" "api_CreateOrUpdate (mem_client F) c init f w = (Inl e, w')"
  then show "mem_view w' = mem_view w \<or> mem_view w' = updated (mem_view w) c init f"
    using mem_update_refused [of c init f w e w']
    by (cases "F (CallUpdate (ref_of c init))") (simp_all add: mem_client_def guarded_def io_ok)
next
  fix r w u w'
  assume "api_Delete (mem_client F) r w = (Inr u, w')"
  then show "mem_view w r \<noteq> None \<and> mem_view w' = deleted (mem_view w) r"
    using mem_view_ref [of w r] after_delete_ref [of _ _ "fst r"]
    by (auto simp: mem_ops deleted_def mem_view_del mem_view_put split: option.splits)
qed (auto simp: mem_ops mem_view_put split: option.splits if_splits)

interpretation mem_up: kube_api_writes "mem_client (\<lambda>_. None)" mem_view mem_admits
  by unfold_locales
     (auto simp: mem_client_def guarded_def mem_get_def mem_list_def mem_create_def mem_delete_def
       mem_update_def Let_def ref_of_def key_of_def new_object_def split: option.split)

end
