(* ===== verification/Regexp.thy ===== *)
theory Regexp
  imports GoStrings
begin

text \<open>
  The regular expressions the program compiles with \<^verbatim>\<open>regexp.MustCompile\<close>. Both patterns are
  anchored at both ends, so \<^verbatim>\<open>MatchString\<close> is membership of the runes of the string in the
  language of the pattern. The matcher computes with derivatives; it is proved to decide the
  language, and the language of a dotted list of labels is characterised label by label.
\<close>

section \<open>Patterns, their language, and the matcher\<close>

text \<open>\<open>Class\<close> is a character class (a list of ranges of runes), \<open>Upto n r\<close> is
  \<^verbatim>\<open>r{0,n}\<close>, \<open>Opt r\<close> is \<^verbatim>\<open>r?\<close>.\<close>

datatype rexp =
    Zero
  | One
  | Class "(nat \<times> nat) list"
  | Alt rexp rexp
  | Seq rexp rexp
  | Star rexp
  | Upto nat rexp

definition Opt :: "rexp \<Rightarrow> rexp" where
  "Opt r = Alt One r"

definition in_class :: "(nat \<times> nat) list \<Rightarrow> nat \<Rightarrow> bool" where
  "in_class cs c \<longleftrightarrow> (\<exists>(lo, hi) \<in> set cs. lo \<le> c \<and> c \<le> hi)"

inductive_set star :: "'a list set \<Rightarrow> 'a list set" for L where
  star_nil: "[] \<in> star L"
| star_step: "u \<in> L \<Longrightarrow> v \<in> star L \<Longrightarrow> u @ v \<in> star L"

primrec upto_lang :: "nat \<Rightarrow> 'a list set \<Rightarrow> 'a list set" where
  "upto_lang 0 L = {[]}"
| "upto_lang (Suc n) L = {[]} \<union> {u @ v | u v. u \<in> L \<and> v \<in> upto_lang n L}"

primrec lang :: "rexp \<Rightarrow> nat list set" where
  "lang Zero = {}"
| "lang One = {[]}"
| "lang (Class cs) = {[c] | c. in_class cs c}"
| "lang (Alt r s) = lang r \<union> lang s"
| "lang (Seq r s) = {u @ v | u v. u \<in> lang r \<and> v \<in> lang s}"
| "lang (Star r) = star (lang r)"
| "lang (Upto n r) = upto_lang n (lang r)"

primrec nullable :: "rexp \<Rightarrow> bool" where
  "nullable Zero = False"
| "nullable One = True"
| "nullable (Class cs) = False"
| "nullable (Alt r s) = (nullable r \<or> nullable s)"
| "nullable (Seq r s) = (nullable r \<and> nullable s)"
| "nullable (Star r) = True"
| "nullable (Upto n r) = True"

text \<open>
  The constructors of a derivative drop what adds nothing: without them the derivatives of a starred
  label double with every character.
\<close>

fun is_alt_of :: "rexp \<Rightarrow> rexp \<Rightarrow> bool" where
  "is_alt_of s (Alt a b) = (is_alt_of s a \<or> is_alt_of s b)"
| "is_alt_of s r = (s = r)"

fun alt :: "rexp \<Rightarrow> rexp \<Rightarrow> rexp" where
  "alt r (Alt a b) = alt (alt r a) b"
| "alt r s = (if r = Zero then s else if s = Zero \<or> is_alt_of s r then r else Alt r s)"

definition seq :: "rexp \<Rightarrow> rexp \<Rightarrow> rexp" where
  "seq r s = (if r = Zero then Zero else if r = One then s else Seq r s)"

lemma is_alt_of_lang: "is_alt_of s r \<Longrightarrow> lang s \<subseteq> lang r"
  by (induction s r rule: is_alt_of.induct) auto

lemma is_alt_of_absorb: "is_alt_of s r \<Longrightarrow> lang r \<union> lang s = lang r"
  using is_alt_of_lang by (simp add: Un_absorb2)

lemma lang_alt [simp]: "lang (alt r s) = lang r \<union> lang s"
  by (induction r s rule: alt.induct)
     (simp_all del: lang.simps add: lang.simps(1,4) Un_assoc is_alt_of_absorb)

lemma lang_seq [simp]: "lang (seq r s) = lang (Seq r s)"
  by (auto simp: seq_def)

fun deriv :: "nat \<Rightarrow> rexp \<Rightarrow> rexp" where
  "deriv c Zero = Zero"
| "deriv c One = Zero"
| "deriv c (Class cs) = (if in_class cs c then One else Zero)"
| "deriv c (Alt r s) = alt (deriv c r) (deriv c s)"
| "deriv c (Seq r s) =
     (if nullable r then alt (seq (deriv c r) s) (deriv c s) else seq (deriv c r) s)"
| "deriv c (Star r) = seq (deriv c r) (Star r)"
| "deriv c (Upto 0 r) = Zero"
| "deriv c (Upto (Suc n) r) = seq (deriv c r) (Upto n r)"

definition accepts :: "rexp \<Rightarrow> nat list \<Rightarrow> bool" where
  "accepts r s = nullable (foldl (\<lambda>r c. deriv c r) r s)"

definition MatchString :: "rexp \<Rightarrow> string \<Rightarrow> bool" where
  "MatchString r s = accepts r (runes s)"

subsection \<open>The matcher decides the language\<close>

lemma concI: "u \<in> A \<Longrightarrow> v \<in> B \<Longrightarrow> u @ v \<in> {u @ v | u v. u \<in> A \<and> v \<in> B}"
  by blast

lemma class_conc:
  "c # s \<in> {u @ v | u v. u \<in> lang (Class cs) \<and> v \<in> B} \<longleftrightarrow> in_class cs c \<and> s \<in> B"
  using concI [of "[c]" "lang (Class cs)" s B] by auto

lemma Nil_in_upto [simp]: "[] \<in> upto_lang n L"
  by (cases n) auto

lemma upto_Suc_mono: "s \<in> upto_lang n L \<Longrightarrow> s \<in> upto_lang (Suc n) L"
proof (induction n arbitrary: s)
  case 0
  then show ?case by simp
next
  case (Suc n)
  then consider "s = []" | u v where "s = u @ v" "u \<in> L" "v \<in> upto_lang n L" by auto
  then show ?case
  proof cases
    case (2 u v)
    with Suc.IH [of v] show ?thesis by (auto simp del: upto_lang.simps simp: upto_lang.simps(2) [of "Suc n"])
  qed simp
qed

lemma nullable_iff: "nullable r \<longleftrightarrow> [] \<in> lang r"
  by (induction r) (auto intro: star.star_nil)

lemma star_Cons_split:
  assumes "c # s \<in> star L"
  shows "\<exists>u v. s = u @ v \<and> c # u \<in> L \<and> v \<in> star L"
  using assms by (induction "c # s" rule: star.induct) (auto simp: append_eq_Cons_conv)

lemma upto_Cons_split:
  "c # s \<in> upto_lang (Suc n) L \<Longrightarrow> \<exists>u v. s = u @ v \<and> c # u \<in> L \<and> v \<in> upto_lang n L"
proof (induction n arbitrary: s)
  case 0
  then show ?case by (auto simp: append_eq_Cons_conv)
next
  case (Suc n)
  then obtain u v where uv: "c # s = u @ v" "u \<in> L" "v \<in> upto_lang (Suc n) L" by auto
  show ?case
  proof (cases u)
    case Nil
    with uv have "c # s \<in> upto_lang (Suc n) L" by simp
    with Suc.IH obtain u' v' where "s = u' @ v'" "c # u' \<in> L" "v' \<in> upto_lang n L" by blast
    then show ?thesis using upto_Suc_mono by blast
  next
    case (Cons a u')
    with uv show ?thesis by auto
  qed
qed

lemma deriv_lang: "s \<in> lang (deriv c r) \<longleftrightarrow> c # s \<in> lang r"
proof (induction c r arbitrary: s rule: deriv.induct)
  case (5 c r t)
  have split: "c # s \<in> lang (Seq r t) \<longleftrightarrow>
      (\<exists>u v. s = u @ v \<and> c # u \<in> lang r \<and> v \<in> lang t) \<or> ([] \<in> lang r \<and> c # s \<in> lang t)"
    by (auto simp: append_eq_Cons_conv Cons_eq_append_conv)
  show ?case using 5 split by (auto simp: nullable_iff)
next
  case (6 c r)
  show ?case
    using 6 star_Cons_split [of c s "lang r"] star.star_step [of "c # _" "lang r"]
    by (auto simp: append_Cons [symmetric] simp del: append_Cons)
next
  case (8 c n r)
  show ?case
  proof
    assume "s \<in> lang (deriv c (Upto (Suc n) r))"
    then obtain u v where "s = u @ v" "c # u \<in> lang r" "v \<in> upto_lang n (lang r)"
      using 8 by auto
    then show "c # s \<in> lang (Upto (Suc n) r)"
      using concI [of "c # u" "lang r" v "upto_lang n (lang r)"] by simp
  next
    assume "c # s \<in> lang (Upto (Suc n) r)"
    then show "s \<in> lang (deriv c (Upto (Suc n) r))"
      using 8 upto_Cons_split [of c s n "lang r"] by auto
  qed
qed (auto simp: in_class_def)

lemma accepts_iff: "accepts r s \<longleftrightarrow> s \<in> lang r"
  unfolding accepts_def
  by (induction s arbitrary: r) (simp_all add: nullable_iff deriv_lang)

section \<open>Dotted lists of labels\<close>

text \<open>
  Both patterns have the shape \<open>L(\.L)*\<close> where \<open>L\<close> is one label: an end character,
  optionally followed by middle characters and an end character.
\<close>

definition label :: "(nat \<times> nat) list \<Rightarrow> rexp \<Rightarrow> rexp" where
  "label ends mid = Seq (Class ends) (Opt (Seq mid (Class ends)))"

definition dotted :: "rexp \<Rightarrow> rexp" where
  "dotted l = Seq l (Star (Seq (Class [(46, 46)]) l))"

definition label_shape :: "(nat \<times> nat) list \<Rightarrow> (nat \<times> nat) list \<Rightarrow> nat list \<Rightarrow> bool" where
  "label_shape ends mid x \<longleftrightarrow>
     x \<noteq> [] \<and> in_class ends (hd x) \<and> in_class ends (last x) \<and> (\<forall>c \<in> set x. in_class mid c)"

lemma star_class: "s \<in> star (lang (Class cs)) \<longleftrightarrow> (\<forall>c \<in> set s. in_class cs c)"
proof
  show "s \<in> star (lang (Class cs)) \<Longrightarrow> \<forall>c \<in> set s. in_class cs c"
    by (induction rule: star.induct) auto
  show "\<forall>c \<in> set s. in_class cs c \<Longrightarrow> s \<in> star (lang (Class cs))"
  proof (induction s)
    case Nil
    show ?case by (rule star.star_nil)
  next
    case (Cons c s)
    then have "[c] @ s \<in> star (lang (Class cs))" by (intro star.star_step) auto
    then show ?case by simp
  qed
qed

lemma upto_class:
  "s \<in> upto_lang n (lang (Class cs)) \<longleftrightarrow> length s \<le> n \<and> (\<forall>c \<in> set s. in_class cs c)"
proof (induction n arbitrary: s)
  case 0
  then show ?case by auto
next
  case (Suc n)
  show ?case
  proof (cases s)
    case (Cons c t)
    have "s \<in> upto_lang (Suc n) (lang (Class cs)) \<longleftrightarrow>
        c # t \<in> {u @ v | u v. u \<in> lang (Class cs) \<and> v \<in> upto_lang n (lang (Class cs))}"
      using Cons by simp
    also have "\<dots> \<longleftrightarrow> in_class cs c \<and> t \<in> upto_lang n (lang (Class cs))" by (rule class_conc)
    finally show ?thesis using Cons by (auto simp: Suc simp del: lang.simps)
  qed simp
qed

lemma label_lang:
  assumes sub: "\<And>c. in_class ends c \<Longrightarrow> in_class mid c"
    and m: "\<And>s. s \<in> lang m \<longleftrightarrow> P s \<and> (\<forall>c \<in> set s. in_class mid c)"
  shows "x \<in> lang (label ends m) \<longleftrightarrow>
     label_shape ends mid x \<and> (length x = 1 \<or> P (butlast (tl x)))"
proof
  assume "x \<in> lang (label ends m)"
  then consider a where "x = [a]" "in_class ends a"
    | a u b where "x = a # u @ [b]" "in_class ends a" "in_class ends b" "u \<in> lang m"
    by (auto simp: label_def Opt_def)
  then show "label_shape ends mid x \<and> (length x = 1 \<or> P (butlast (tl x)))"
    using sub m by cases (auto simp: label_shape_def)
next
  assume r: "label_shape ends mid x \<and> (length x = 1 \<or> P (butlast (tl x)))"
  then obtain a xs where x: "x = a # xs" by (cases x) (auto simp: label_shape_def)
  show "x \<in> lang (label ends m)"
  proof (cases xs rule: rev_cases)
    case Nil
    with x r show ?thesis by (auto simp: label_def Opt_def label_shape_def)
  next
    case (snoc u b)
    with x r have "u \<in> lang m" by (auto simp: m label_shape_def)
    moreover have "in_class ends a" "in_class ends b" using x snoc r by (auto simp: label_shape_def)
    moreover from calculation have "u @ [b] \<in> lang (Seq m (Class ends))"
      using concI [of u "lang m" "[b]" "lang (Class ends)"] by simp
    ultimately show ?thesis
      using concI [of "[a]" "lang (Class ends)" "u @ [b]" "lang (Opt (Seq m (Class ends)))"] x snoc
      by (simp add: label_def Opt_def)
  qed
qed

lemma label_star_lang:
  assumes "\<And>c. in_class ends c \<Longrightarrow> in_class mid c"
  shows "x \<in> lang (label ends (Star (Class mid))) \<longleftrightarrow> label_shape ends mid x"
  by (subst label_lang [where P = "\<lambda>_. True" and mid = mid, OF assms])
     (auto simp: star_class [simplified])

lemma label_upto_lang:
  assumes "\<And>c. in_class ends c \<Longrightarrow> in_class mid c"
  shows "x \<in> lang (label ends (Upto n (Class mid))) \<longleftrightarrow> label_shape ends mid x \<and> length x \<le> n + 2"
proof -
  have "x \<in> lang (label ends (Upto n (Class mid))) \<longleftrightarrow>
     label_shape ends mid x \<and> (length x = 1 \<or> length (butlast (tl x)) \<le> n)"
    by (subst label_lang [where P = "\<lambda>s. length s \<le> n" and mid = mid, OF assms])
       (simp_all only: lang.simps(7) upto_class)
  then show ?thesis by auto
qed

lemma dotted_lang:
  assumes nodot: "\<And>x. x \<in> lang l \<Longrightarrow> 46 \<notin> set x"
  shows "s \<in> lang (dotted l) \<longleftrightarrow> (\<forall>x \<in> set (Split 46 s). x \<in> lang l)"
proof
  let ?T = "{u @ v | u v. u \<in> lang (Class [(46, 46)]) \<and> v \<in> lang l}"
  have tail: "\<forall>x \<in> set (tl (Split 46 (a @ t))). x \<in> lang l"
    and hd: "hd (Split 46 (a @ t)) = a"
    if "t \<in> star ?T" "46 \<notin> set a" for a t
    using that
  proof (induction arbitrary: a rule: star.induct)
    case star_nil
    case 1 then show ?case by (simp add: Split_single)
    case 2 then show ?case by (simp add: Split_single)
  next
    case (star_step u v)
    then obtain y where u: "u = 46 # y" "y \<in> lang l" by (auto simp: in_class_def)
    with nodot have ny: "46 \<notin> set y" by blast
    have sp: "Split 46 (a @ u @ v) = a # Split 46 (y @ v)" if "46 \<notin> set a" for a
      using that u by (simp add: Split_append_sep)
    obtain z zs where zs: "Split 46 (y @ v) = z # zs" by (cases "Split 46 (y @ v)") auto
    case 1
    with star_step.IH [OF ny] zs u sp show ?case by auto
    case 2
    with sp show ?case by simp
  qed
  assume "s \<in> lang (dotted l)"
  then obtain a t where s: "s = a @ t" "a \<in> lang l" "t \<in> star ?T" by (auto simp: dotted_def)
  obtain z zs where zs: "Split 46 s = z # zs" by (cases "Split 46 s") auto
  show "\<forall>x \<in> set (Split 46 s). x \<in> lang l"
    using tail [OF s(3) nodot [OF s(2)]] hd [OF s(3) nodot [OF s(2)]] s(1,2) zs by auto
next
  assume all: "\<forall>x \<in> set (Split 46 s). x \<in> lang l"
  have step: "concat (map ((#) 46) ys) \<in> star (lang (Seq (Class [(46, 46)]) l))"
    if "\<forall>x \<in> set ys. x \<in> lang l" for ys
    using that
  proof (induction ys)
    case Nil
    show ?case by (simp add: star.star_nil)
  next
    case (Cons y ys)
    have "46 # y \<in> lang (Seq (Class [(46, 46)]) l)"
      using Cons.prems concI [of "[46]" "lang (Class [(46, 46)])" y "lang l"]
      by (simp add: in_class_def)
    from star.star_step [OF this] Cons show ?case by simp
  qed
  have join: "Join (x # ys) [46] = x @ concat (map ((#) 46) ys)" for x :: "nat list" and ys
    by (induction ys arbitrary: x) (auto simp: Join_Cons)
  obtain x ys where sp: "Split 46 s = x # ys" by (cases "Split 46 s") auto
  have "s = x @ concat (map ((#) 46) ys)"
    using Join_Split [of 46 s] by (simp only: sp join)
  moreover have "x \<in> lang l" and "\<forall>x \<in> set ys. x \<in> lang l" using all sp by auto
  ultimately show "s \<in> lang (dotted l)" using step by (auto simp: dotted_def)
qed

end
