(* ===== verification/Vault_Bundle.thy ===== *)
theory Vault_Bundle
  imports Json
begin

text \<open>
  The two embedded ArgoCD Vault Plugin bundles
  (\<^verbatim>\<open>internal/argocd/configurations/*/argocd-vault.yaml\<close>) as \<^verbatim>\<open>text/template\<close> parses
  them: line by line, literal text and field references. The files contain no other template
  action. \<open>execute_template\<close> is \<^verbatim>\<open>Execute\<close> with the option \<^verbatim>\<open>missingkey=error\<close>.
\<close>

datatype seg = Text string | Field "string list"

definition missing_key :: "string list \<Rightarrow> go_error" where
  "missing_key path = Errorf (''map has no entry for key at .'' @ Join path ''.'')"

text \<open>A string is printed as it is; the data the program passes has nothing else at a leaf.\<close>

primrec print_value :: "json \<Rightarrow> string" where
  "print_value JNull = ''<no value>''"
| "print_value (JBool b) = (if b then ''true'' else ''false'')"
| "print_value (JNum n) = n"
| "print_value (JStr s) = s"
| "print_value (JArr xs) = ''[...]''"
| "print_value (JObj m) = ''map[...]''"

fun execute_line :: "json \<Rightarrow> seg list \<Rightarrow> go_error + string" where
  "execute_line data [] = Inr []"
| "execute_line data (Text s # segs) =
     (case execute_line data segs of Inl e \<Rightarrow> Inl e | Inr t \<Rightarrow> Inr (s @ t))"
| "execute_line data (Field path # segs) =
     (case jget data path of
        None \<Rightarrow> Inl (missing_key path)
      | Some v \<Rightarrow>
          (case execute_line data segs of Inl e \<Rightarrow> Inl e | Inr t \<Rightarrow> Inr (print_value v @ t)))"

fun execute_template :: "json \<Rightarrow> seg list list \<Rightarrow> go_error + string list" where
  "execute_template data [] = Inr []"
| "execute_template data (l # ls) =
     (case execute_line data l of
        Inl e \<Rightarrow> Inl e
      | Inr s \<Rightarrow> (case execute_template data ls of Inl e \<Rightarrow> Inl e | Inr ss \<Rightarrow> Inr (s # ss)))"

definition newline :: string where
  "newline = [CHR 0x0A]"

definition argocdVaultInternalYAML :: "seg list list" where
  "argocdVaultInternalYAML = [
    [Text (''global:'')],
    [Text (''  repository: ''), Field [''Values'', ''global'', ''image'', ''repository'']],
    [Text (''  tag: ''), Field [''Values'', ''global'', ''image'', ''tag'']],
    [Text (''  imagePullSecrets:'')],
    [Text (''    - name: artifactory'')],
    [Text (''repoServer:'')],
    [Text (''  deploymentAnnotations:'')],
    [Text (''    secret.reloader.stakater.com/reload: '' @ [CHR 0x22] @ ''vault-configuration'' @ [CHR 0x22])],
    [Text (''  imagePullSecrets:'')],
    [Text (''    - name: artifactory'')],
    [Text (''  volumes:'')],
    [Text (''    - name: cmp-plugin'')],
    [Text (''      configMap:'')],
    [Text (''        name: cmp-plugin'')],
    [Text (''    - name: custom-tools'')],
    [Text (''      emptyDir: {}'')],
    [Text (''    - name: cmp-tmp'')],
    [Text (''      emptyDir: {}'')],
    [Text (''    - name: k8s-sa-project'')],
    [Text (''      projected:'')],
    [Text (''        sources:'')],
    [Text (''          - serviceAccountToken:'')],
    [Text (''              path: token'')],
    [Text (''              expirationSeconds: 3600'')],
    [Text (''          - configMap:'')],
    [Text (''              name: kube-root-ca.crt'')],
    [Text (''              items:'')],
    [Text (''                - key: ca.crt'')],
    [Text (''                  path: ca.crt'')],
    [Text (''          - downwardAPI:'')],
    [Text (''              items:'')],
    [Text (''                - path: namespace'')],
    [Text (''                  fieldRef:'')],
    [Text (''                    fieldPath: metadata.namespace'')],
    [Text (''  initContainers:'')],
    [Text (''    - name: avp-binary'')],
    [Text (''      image: ''), Field [''VaultPlugin'', ''Registry''], Text ('':''), Field [''VaultPlugin'', ''Tag'']],
    [Text (''      command: [ sh, -c ]'')],
    [Text (''      args:'')],
    [Text (''        - >-'')],
    [Text (''          cp /usr/local/bin/argocd-vault-plugin /custom-tools/ &&'')],
    [Text (''          cp /usr/local/bin/avp-helm /custom-tools/'')],
    [Text (''      volumeMounts:'')],
    [Text (''        - mountPath: /custom-tools'')],
    [Text (''          name: custom-tools'')],
    [Text (''        - name: k8s-sa-project'')],
    [Text (''          mountPath: /var/run/secrets/kubernetes.io/serviceaccount'')],
    [Text (''          readOnly: true'')],
    [Text (''  extraContainers:'')],
    [Text (''    # argocd-vault-plugin with Helm'')],
    [Text (''    - name: avp-helm'')],
    [Text (''      command: [ /var/run/argocd/argocd-cmp-server ]'')],
    [Text (''      image: ''), Field [''Values'', ''global'', ''image'', ''repository''], Text ('':''), Field [''Values'', ''global'', ''image'', ''tag'']],
    [Text (''      envFrom:'')],
    [Text (''        - secretRef:'')],
    [Text (''            name: vault-configuration'')],
    [Text (''      env:'')],
    [Text (''        - name: ARGOCD_EXEC_TIMEOUT'')],
    [Text (''          valueFrom:'')],
    [Text (''            configMapKeyRef:'')],
    [Text (''              name: argocd-cm-exec-timeout'')],
    [Text (''              key: argocd.exec.timeout'')],
    [Text (''              optional: true'')],
    [Text (''      volumeMounts:'')],
    [Text (''        - mountPath: /var/run/argocd'')],
    [Text (''          name: var-files'')],
    [Text (''        - mountPath: /home/argocd/cmp-server/plugins'')],
    [Text (''          name: plugins'')],
    [Text (''        - mountPath: /tmp'')],
    [Text (''          name: cmp-tmp'')],
    [Text (''        # Register plugins into sidecar'')],
    [Text (''        - mountPath: /home/argocd/cmp-server/config/plugin.yaml'')],
    [Text (''          subPath: avp-helm.yaml'')],
    [Text (''          name: cmp-plugin'')],
    [Text (''        # Important: Mount tools into $PATH'')],
    [Text (''        - name: custom-tools'')],
    [Text (''          subPath: argocd-vault-plugin'')],
    [Text (''          mountPath: /usr/local/bin/argocd-vault-plugin'')],
    [Text (''        - name: custom-tools'')],
    [Text (''          subPath: avp-helm'')],
    [Text (''          mountPath: /usr/local/bin/avp-helm'')],
    [Text (''        - name: k8s-sa-project'')],
    [Text (''          mountPath: /var/run/secrets/kubernetes.io/serviceaccount'')],
    [Text (''          readOnly: true'')],
    [Text (''    - name: avp-helm-no-discover'')],
    [Text (''      command: [ /var/run/argocd/argocd-cmp-server ]'')],
    [Text (''      image: ''), Field [''Values'', ''global'', ''image'', ''repository''], Text ('':''), Field [''Values'', ''global'', ''image'', ''tag'']],
    [Text (''      envFrom:'')],
    [Text (''        - secretRef:'')],
    [Text (''            name: vault-configuration'')],
    [Text (''      env:'')],
    [Text (''        - name: ARGOCD_EXEC_TIMEOUT'')],
    [Text (''          valueFrom:'')],
    [Text (''            configMapKeyRef:'')],
    [Text (''              name: argocd-cm-exec-timeout'')],
    [Text (''              key: argocd.exec.timeout'')],
    [Text (''              optional: true'')],
    [Text (''      volumeMounts:'')],
    [Text (''        - mountPath: /var/run/argocd'')],
    [Text (''          name: var-files'')],
    [Text (''        - mountPath: /home/argocd/cmp-server/plugins'')],
    [Text (''          name: plugins'')],
    [Text (''        - mountPath: /tmp'')],
    [Text (''          name: cmp-tmp'')],
    [Text (''        # Register plugins into sidecar'')],
    [Text (''        - mountPath: /home/argocd/cmp-server/config/plugin.yaml'')],
    [Text (''          subPath: argocd-vault-plugin-helm-no-discover.yaml'')],
    [Text (''          name: cmp-plugin'')],
    [Text (''        # Important: Mount tools into $PATH'')],
    [Text (''        - name: custom-tools'')],
    [Text (''          subPath: argocd-vault-plugin'')],
    [Text (''          mountPath: /usr/local/bin/argocd-vault-plugin'')],
    [Text (''        - name: custom-tools'')],
    [Text (''          subPath: avp-helm'')],
    [Text (''          mountPath: /usr/local/bin/avp-helm'')],
    [Text (''        - name: k8s-sa-project'')],
    [Text (''          mountPath: /var/run/secrets/kubernetes.io/serviceaccount'')],
    [Text (''          readOnly: true'')],
    [Text (''    # argocd-vault-plugin with Kustomize'')],
    [Text (''    - name: avp-kustomize'')],
    [Text (''      command: [ /var/run/argocd/argocd-cmp-server ]'')],
    [Text (''      image: ''), Field [''Values'', ''global'', ''image'', ''repository''], Text ('':''), Field [''Values'', ''global'', ''image'', ''tag'']],
    [Text (''      envFrom:'')],
    [Text (''        - secretRef:'')],
    [Text (''            name: vault-configuration'')],
    [Text (''      env:'')],
    [Text (''        - name: ARGOCD_EXEC_TIMEOUT'')],
    [Text (''          valueFrom:'')],
    [Text (''            configMapKeyRef:'')],
    [Text (''              name: argocd-cm-exec-timeout'')],
    [Text (''              key: argocd.exec.timeout'')],
    [Text (''              optional: true'')],
    [Text (''      volumeMounts:'')],
    [Text (''        - mountPath: /var/run/argocd'')],
    [Text (''          name: var-files'')],
    [Text (''        - mountPath: /home/argocd/cmp-server/plugins'')],
    [Text (''          name: plugins'')],
    [Text (''        - mountPath: /tmp'')],
    [Text (''          name: cmp-tmp'')],
    [Text (''        # Register plugins into sidecar'')],
    [Text (''        - mountPath: /home/argocd/cmp-server/config/plugin.yaml'')],
    [Text (''          subPath: avp-kustomize.yaml'')],
    [Text (''          name: cmp-plugin'')],
    [Text (''        # Important: Mount tools into $PATH'')],
    [Text (''        - name: custom-tools'')],
    [Text (''          subPath: argocd-vault-plugin'')],
    [Text (''          mountPath: /usr/local/bin/argocd-vault-plugin'')],
    [Text (''        - name: k8s-sa-project'')],
    [Text (''          mountPath: /var/run/secrets/kubernetes.io/serviceaccount'')],
    [Text (''          readOnly: true'')],
    [Text (''    # argocd-vault-plugin with plain YAML'')],
    [Text (''    - name: avp'')],
    [Text (''      command: [ /var/run/argocd/argocd-cmp-server ]'')],
    [Text (''      image: ''), Field [''Values'', ''global'', ''image'', ''repository''], Text ('':''), Field [''Values'', ''global'', ''image'', ''tag'']],
    [Text (''      envFrom:'')],
    [Text (''        - secretRef:'')],
    [Text (''            name: vault-configuration'')],
    [Text (''      env:'')],
    [Text (''        - name: ARGOCD_EXEC_TIMEOUT'')],
    [Text (''          valueFrom:'')],
    [Text (''            configMapKeyRef:'')],
    [Text (''              name: argocd-cm-exec-timeout'')],
    [Text (''              key: argocd.exec.timeout'')],
    [Text (''              optional: true'')],
    [Text (''      volumeMounts:'')],
    [Text (''        - mountPath: /var/run/argocd'')],
    [Text (''          name: var-files'')],
    [Text (''        - mountPath: /home/argocd/cmp-server/plugins'')],
    [Text (''          name: plugins'')],
    [Text (''        - mountPath: /tmp'')],
    [Text (''          name: cmp-tmp'')],
    [Text (''        # Register plugins into sidecar'')],
    [Text (''        - mountPath: /home/argocd/cmp-server/config/plugin.yaml'')],
    [Text (''          subPath: avp.yaml'')],
    [Text (''          name: cmp-plugin'')],
    [Text (''        # Important: Mount tools into $PATH'')],
    [Text (''        - name: custom-tools'')],
    [Text (''          subPath: argocd-vault-plugin'')],
    [Text (''          mountPath: /usr/local/bin/argocd-vault-plugin'')],
    [Text (''        - name: k8s-sa-project'')],
    [Text (''          mountPath: /var/run/secrets/kubernetes.io/serviceaccount'')],
    [Text (''          readOnly: true'')],
    [],
    [Text (''extraObjects:'')],
    [Text (''  - apiVersion: v1'')],
    [Text (''    kind: ConfigMap'')],
    [Text (''    metadata:'')],
    [Text (''      name: cmp-plugin'')],
    [Text (''    data:'')],
    [Text (''      avp-kustomize.yaml: |'')],
    [Text (''        ---'')],
    [Text (''        apiVersion: argoproj.io/v1alpha1'')],
    [Text (''        kind: ConfigManagementPlugin'')],
    [Text (''        metadata:'')],
    [Text (''          name: argocd-vault-plugin-kustomize'')],
    [Text (''        spec:'')],
    [Text (''          allowConcurrency: true'')],
    [Text (''          discover:'')],
    [Text (''            find:'')],
    [Text (''              command:'')],
    [Text (''                - find'')],
    [Text (''                - '' @ [CHR 0x22] @ ''.'' @ [CHR 0x22])],
    [Text (''                - -name'')],
    [Text (''                - kustomization.yaml'')],
    [Text (''          generate:'')],
    [Text (''            command:'')],
    [Text (''              - sh'')],
    [Text (''              - '' @ [CHR 0x22] @ ''-c'' @ [CHR 0x22])],
    [Text (''              - '' @ [CHR 0x22] @ ''kustomize build . | argocd-vault-plugin generate ${ARGOCD_ENV_AVP_DISABLE_TOKEN_CACHE:+--disable-token-cache} -'' @ [CHR 0x22])],
    [Text (''          lockRepo: false'')],
    [Text (''      avp-helm.yaml: |'')],
    [Text (''        ---'')],
    [Text (''        apiVersion: argoproj.io/v1alpha1'')],
    [Text (''        kind: ConfigManagementPlugin'')],
    [Text (''        metadata:'')],
    [Text (''          name: argocd-vault-plugin-helm'')],
    [Text (''        spec:'')],
    [Text (''          allowConcurrency: true'')],
    [Text (''          discover:'')],
    [Text (''            find:'')],
    [Text (''              command:'')],
    [Text (''                - sh'')],
    [Text (''                - '' @ [CHR 0x22] @ ''-c'' @ [CHR 0x22])],
    [Text (''                - '' @ [CHR 0x22] @ ''find . -name '' @ [CHR 0x27] @ ''Chart.yaml'' @ [CHR 0x27] @ '' && find . -name '' @ [CHR 0x27] @ ''values.yaml'' @ [CHR 0x27, CHR 0x22])],
    [Text (''          init:'')],
    [Text (''            command:'')],
    [Text (''              - '' @ [CHR 0x22] @ ''avp-helm'' @ [CHR 0x22])],
    [Text (''              - '' @ [CHR 0x22] @ ''init'' @ [CHR 0x22])],
    [Text (''          generate:'')],
    [Text (''            command:'')],
    [Text (''              - bash'')],
    [Text (''              - '' @ [CHR 0x22] @ ''-c'' @ [CHR 0x22])],
    [Text (''              - '' @ [CHR 0x22] @ ''eval $(avp-helm generate)'' @ [CHR 0x22])],
    [Text (''          lockRepo: false'')],
    [Text (''      argocd-vault-plugin-helm-no-discover.yaml: |'')],
    [Text (''        ---'')],
    [Text (''        apiVersion: argoproj.io/v1alpha1'')],
    [Text (''        kind: ConfigManagementPlugin'')],
    [Text (''        metadata:'')],
    [Text (''          name: argocd-vault-plugin-helm-no-discover'')],
    [Text (''        spec:'')],
    [Text (''          allowConcurrency: true'')],
    [Text (''          init:'')],
    [Text (''            command:'')],
    [Text (''              - '' @ [CHR 0x22] @ ''avp-helm'' @ [CHR 0x22])],
    [Text (''              - '' @ [CHR 0x22] @ ''init'' @ [CHR 0x22])],
    [Text (''          generate:'')],
    [Text (''            command:'')],
    [Text (''              - bash'')],
    [Text (''              - '' @ [CHR 0x22] @ ''-c'' @ [CHR 0x22])],
    [Text (''              - '' @ [CHR 0x22] @ ''eval $(avp-helm generate)'' @ [CHR 0x22])],
    [Text (''          lockRepo: false'')],
    [Text (''      avp.yaml: |'')],
    [Text (''        ---'')],
    [Text (''        apiVersion: argoproj.io/v1alpha1'')],
    [Text (''        kind: ConfigManagementPlugin'')],
    [Text (''        metadata:'')],
    [Text (''          name: argocd-vault-plugin'')],
    [Text (''        spec:'')],
    [Text (''          allowConcurrency: true'')],
    [Text (''          discover:'')],
    [Text (''            find:'')],
    [Text (''              command:'')],
    [Text (''                - sh'')],
    [Text (''                - '' @ [CHR 0x22] @ ''-c'' @ [CHR 0x22])],
    [Text (''                - '' @ [CHR 0x22] @ ''find . -name '' @ [CHR 0x27] @ ''*.yaml'' @ [CHR 0x27] @ '' | xargs -I {} grep '' @ [CHR 0x5C, CHR 0x22] @ ''<path'' @ [CHR 0x5C, CHR 0x5C] @ ''|avp'' @ [CHR 0x5C, CHR 0x5C] @ ''.kubernetes'' @ [CHR 0x5C, CHR 0x5C] @ ''.io'' @ [CHR 0x5C, CHR 0x22] @ '' {} | grep .'' @ [CHR 0x22])],
    [Text (''          generate:'')],
    [Text (''            command:'')],
    [Text (''              - sh'')],
    [Text (''              - '' @ [CHR 0x22] @ ''-c'' @ [CHR 0x22])],
    [Text (''              - '' @ [CHR 0x27] @ ''argocd-vault-plugin generate ${ARGOCD_ENV_AVP_DISABLE_TOKEN_CACHE:+--disable-token-cache} .'' @ [CHR 0x27])],
    [Text (''          lockRepo: false'')],
    [],
    [Text (''  - apiVersion: rbac.authorization.k8s.io/v1'')],
    [Text (''    kind: ClusterRoleBinding'')],
    [Text (''    metadata:'')],
    [Text (''      name: argocd-repo-server-auth-delegator'')],
    [Text (''    roleRef:'')],
    [Text (''      apiGroup: rbac.authorization.k8s.io'')],
    [Text (''      kind: ClusterRole'')],
    [Text (''      name: system:auth-delegator'')],
    [Text (''    subjects:'')],
    [Text (''      - kind: ServiceAccount'')],
    [Text (''        name: argocd-repo-server'')],
    [Text (''        namespace: ''), Field [''Release'', ''Namespace'']],
    [],
    [Text (''  - apiVersion: v1'')],
    [Text (''    kind: Secret'')],
    [Text (''    metadata:'')],
    [Text (''      name: vault-configuration'')],
    [Text (''    type: Opaque'')],
    [Text (''    stringData: {}'')]]"

definition argocdVaultOpenSourceYAML :: "seg list list" where
  "argocdVaultOpenSourceYAML = [
    [Text (''global:'')],
    [Text (''  repository: ''), Field [''Values'', ''global'', ''image'', ''repository'']],
    [Text (''  tag: ''), Field [''Values'', ''global'', ''image'', ''tag'']],
    [Text (''repoServer:'')],
    [Text (''  deploymentAnnotations:'')],
    [Text (''    secret.reloader.stakater.com/reload: '' @ [CHR 0x22] @ ''vault-configuration'' @ [CHR 0x22])],
    [Text (''  volumes:'')],
    [Text (''    - name: cmp-plugin'')],
    [Text (''      configMap:'')],
    [Text (''        name: cmp-plugin'')],
    [Text (''    - name: custom-tools'')],
    [Text (''      emptyDir: {}'')],
    [Text (''    - name: cmp-tmp'')],
    [Text (''      emptyDir: {}'')],
    [Text (''    - name: k8s-sa-project'')],
    [Text (''      projected:'')],
    [Text (''        sources:'')],
    [Text (''          - serviceAccountToken:'')],
    [Text (''              path: token'')],
    [Text (''              expirationSeconds: 3600'')],
    [Text (''          - configMap:'')],
    [Text (''              name: kube-root-ca.crt'')],
    [Text (''              items:'')],
    [Text (''                - key: ca.crt'')],
    [Text (''                  path: ca.crt'')],
    [Text (''          - downwardAPI:'')],
    [Text (''              items:'')],
    [Text (''                - path: namespace'')],
    [Text (''                  fieldRef:'')],
    [Text (''                    fieldPath: metadata.namespace'')],
    [Text (''  initContainers:'')],
    [Text (''    - name: avp-binary'')],
    [Text (''      image: alpine:3.17'')],
    [Text (''      command: [ sh, -c ]'')],
    [Text (''      args:'')],
    [Text (''        - |-'')],
    [Text (''          apk add --no-cache curl bash &&'')],
    [Text (''          curl -fsSL -o /usr/local/bin/envsubst '' @ [CHR 0x22] @ ''https://github.com/a8m/envsubst/releases/latest/download/envsubst-Linux-x86_64'' @ [CHR 0x22] @ '' &&'')],
    [Text (''          chmod +x /usr/local/bin/envsubst &&'')],
    [Text (''          curl -fsSL -o /usr/local/bin/jq '' @ [CHR 0x22] @ ''https://github.com/stedolan/jq/releases/download/jq-1.6/jq-linux64'' @ [CHR 0x22] @ '' &&'')],
    [Text (''          chmod +x /usr/local/bin/jq &&'')],
    [Text (''          curl -fsSL -o /usr/local/bin/yq4 '' @ [CHR 0x22] @ ''https://github.com/mikefarah/yq/releases/download/v4.33.3/yq_linux_amd64'' @ [CHR 0x22] @ '' &&'')],
    [Text (''          chmod +x /usr/local/bin/yq4 &&'')],
    [Text (''          curl -fsSL -o /custom-tools/avp-helm '' @ [CHR 0x22] @ ''https://raw.githubusercontent.com/openmcp-project/service-provider-argocd/add-argocd-vault-plugin-implementation/internal/argocd/configurations/open-source/binaries/avp_helm_linux_amd64'' @ [CHR 0x22] @ '' &&'')],
    [Text (''          chmod +x /custom-tools/avp-helm &&'')],
    [Text (''          curl -fsSL -o /custom-tools/argocd-vault-plugin '' @ [CHR 0x22] @ ''https://raw.githubusercontent.com/openmcp-project/service-provider-argocd/add-argocd-vault-plugin-implementation/internal/argocd/configurations/open-source/binaries/argocd-vault-plugin_1.18.2_linux_amd64'' @ [CHR 0x22] @ '' &&'')],
    [Text (''          chmod +x /custom-tools/argocd-vault-plugin'')],
    [Text (''      volumeMounts:'')],
    [Text (''        - mountPath: /custom-tools'')],
    [Text (''          name: custom-tools'')],
    [Text (''  extraContainers:'')],
    [Text (''    # argocd-vault-plugin with Helm'')],
    [Text (''    - name: avp-helm'')],
    [Text (''      command: [ /var/run/argocd/argocd-cmp-server ]'')],
    [Text (''      image: ''), Field [''Values'', ''global'', ''image'', ''repository''], Text ('':''), Field [''Values'', ''global'', ''image'', ''tag'']],
    [Text (''      envFrom:'')],
    [Text (''        - secretRef:'')],
    [Text (''            name: vault-configuration'')],
    [Text (''      env:'')],
    [Text (''        - name: ARGOCD_EXEC_TIMEOUT'')],
    [Text (''          valueFrom:'')],
    [Text (''            configMapKeyRef:'')],
    [Text (''              name: argocd-cm-exec-timeout'')],
    [Text (''              key: argocd.exec.timeout'')],
    [Text (''              optional: true'')],
    [Text (''      volumeMounts:'')],
    [Text (''        - mountPath: /var/run/argocd'')],
    [Text (''          name: var-files'')],
    [Text (''        - mountPath: /home/argocd/cmp-server/plugins'')],
    [Text (''          name: plugins'')],
    [Text (''        - mountPath: /tmp'')],
    [Text (''          name: cmp-tmp'')],
    [Text (''        # Register plugins into sidecar'')],
    [Text (''        - mountPath: /home/argocd/cmp-server/config/plugin.yaml'')],
    [Text (''          subPath: avp-helm.yaml'')],
    [Text (''          name: cmp-plugin'')],
    [Text (''        # Important: Mount tools into $PATH'')],
    [Text (''        - name: custom-tools'')],
    [Text (''          subPath: argocd-vault-plugin'')],
    [Text (''          mountPath: /usr/local/bin/argocd-vault-plugin'')],
    [Text (''        - name: custom-tools'')],
    [Text (''          subPath: avp-helm'')],
    [Text (''          mountPath: /usr/local/bin/avp-helm'')],
    [Text (''        - name: k8s-sa-project'')],
    [Text (''          mountPath: /var/run/secrets/kubernetes.io/serviceaccount'')],
    [Text (''          readOnly: true'')],
    [Text (''    - name: avp-helm-no-discover'')],
    [Text (''      command: [ /var/run/argocd/argocd-cmp-server ]'')],
    [Text (''      image: ''), Field [''Values'', ''global'', ''image'', ''repository''], Text ('':''), Field [''Values'', ''global'', ''image'', ''tag'']],
    [Text (''      envFrom:'')],
    [Text (''        - secretRef:'')],
    [Text (''            name: vault-configuration'')],
    [Text (''      env:'')],
    [Text (''        - name: ARGOCD_EXEC_TIMEOUT'')],
    [Text (''          valueFrom:'')],
    [Text (''            configMapKeyRef:'')],
    [Text (''              name: argocd-cm-exec-timeout'')],
    [Text (''              key: argocd.exec.timeout'')],
    [Text (''              optional: true'')],
    [Text (''      volumeMounts:'')],
    [Text (''        - mountPath: /var/run/argocd'')],
    [Text (''          name: var-files'')],
    [Text (''        - mountPath: /home/argocd/cmp-server/plugins'')],
    [Text (''          name: plugins'')],
    [Text (''        - mountPath: /tmp'')],
    [Text (''          name: cmp-tmp'')],
    [Text (''        # Register plugins into sidecar'')],
    [Text (''        - mountPath: /home/argocd/cmp-server/config/plugin.yaml'')],
    [Text (''          subPath: argocd-vault-plugin-helm-no-discover.yaml'')],
    [Text (''          name: cmp-plugin'')],
    [Text (''        # Important: Mount tools into $PATH'')],
    [Text (''        - name: custom-tools'')],
    [Text (''          subPath: argocd-vault-plugin'')],
    [Text (''          mountPath: /usr/local/bin/argocd-vault-plugin'')],
    [Text (''        - name: custom-tools'')],
    [Text (''          subPath: avp-helm'')],
    [Text (''          mountPath: /usr/local/bin/avp-helm'')],
    [Text (''        - name: k8s-sa-project'')],
    [Text (''          mountPath: /var/run/secrets/kubernetes.io/serviceaccount'')],
    [Text (''          readOnly: true'')],
    [Text (''    # argocd-vault-plugin with Kustomize'')],
    [Text (''    - name: avp-kustomize'')],
    [Text (''      command: [ /var/run/argocd/argocd-cmp-server ]'')],
    [Text (''      image: ''), Field [''Values'', ''global'', ''image'', ''repository''], Text ('':''), Field [''Values'', ''global'', ''image'', ''tag'']],
    [Text (''      envFrom:'')],
    [Text (''        - secretRef:'')],
    [Text (''            name: vault-configuration'')],
    [Text (''      env:'')],
    [Text (''        - name: ARGOCD_EXEC_TIMEOUT'')],
    [Text (''          valueFrom:'')],
    [Text (''            configMapKeyRef:'')],
    [Text (''              name: argocd-cm-exec-timeout'')],
    [Text (''              key: argocd.exec.timeout'')],
    [Text (''              optional: true'')],
    [Text (''      volumeMounts:'')],
    [Text (''        - mountPath: /var/run/argocd'')],
    [Text (''          name: var-files'')],
    [Text (''        - mountPath: /home/argocd/cmp-server/plugins'')],
    [Text (''          name: plugins'')],
    [Text (''        - mountPath: /tmp'')],
    [Text (''          name: cmp-tmp'')],
    [Text (''        # Register plugins into sidecar'')],
    [Text (''        - mountPath: /home/argocd/cmp-server/config/plugin.yaml'')],
    [Text (''          subPath: avp-kustomize.yaml'')],
    [Text (''          name: cmp-plugin'')],
    [Text (''        # Important: Mount tools into $PATH'')],
    [Text (''        - name: custom-tools'')],
    [Text (''          subPath: argocd-vault-plugin'')],
    [Text (''          mountPath: /usr/local/bin/argocd-vault-plugin'')],
    [Text (''        - name: k8s-sa-project'')],
    [Text (''          mountPath: /var/run/secrets/kubernetes.io/serviceaccount'')],
    [Text (''          readOnly: true'')],
    [Text (''    # argocd-vault-plugin with plain YAML'')],
    [Text (''    - name: avp'')],
    [Text (''      command: [ /var/run/argocd/argocd-cmp-server ]'')],
    [Text (''      image: ''), Field [''Values'', ''global'', ''image'', ''repository''], Text ('':''), Field [''Values'', ''global'', ''image'', ''tag'']],
    [Text (''      envFrom:'')],
    [Text (''        - secretRef:'')],
    [Text (''            name: vault-configuration'')],
    [Text (''      env:'')],
    [Text (''        - name: ARGOCD_EXEC_TIMEOUT'')],
    [Text (''          valueFrom:'')],
    [Text (''            configMapKeyRef:'')],
    [Text (''              name: argocd-cm-exec-timeout'')],
    [Text (''              key: argocd.exec.timeout'')],
    [Text (''              optional: true'')],
    [Text (''      volumeMounts:'')],
    [Text (''        - mountPath: /var/run/argocd'')],
    [Text (''          name: var-files'')],
    [Text (''        - mountPath: /home/argocd/cmp-server/plugins'')],
    [Text (''          name: plugins'')],
    [Text (''        - mountPath: /tmp'')],
    [Text (''          name: cmp-tmp'')],
    [Text (''        # Register plugins into sidecar'')],
    [Text (''        - mountPath: /home/argocd/cmp-server/config/plugin.yaml'')],
    [Text (''          subPath: avp.yaml'')],
    [Text (''          name: cmp-plugin'')],
    [Text (''        # Important: Mount tools into $PATH'')],
    [Text (''        - name: custom-tools'')],
    [Text (''          subPath: argocd-vault-plugin'')],
    [Text (''          mountPath: /usr/local/bin/argocd-vault-plugin'')],
    [Text (''        - name: k8s-sa-project'')],
    [Text (''          mountPath: /var/run/secrets/kubernetes.io/serviceaccount'')],
    [Text (''          readOnly: true'')],
    [],
    [Text (''extraObjects:'')],
    [Text (''  - apiVersion: v1'')],
    [Text (''    kind: ConfigMap'')],
    [Text (''    metadata:'')],
    [Text (''      name: cmp-plugin'')],
    [Text (''    data:'')],
    [Text (''      avp-kustomize.yaml: |'')],
    [Text (''        ---'')],
    [Text (''        apiVersion: argoproj.io/v1alpha1'')],
    [Text (''        kind: ConfigManagementPlugin'')],
    [Text (''        metadata:'')],
    [Text (''          name: argocd-vault-plugin-kustomize'')],
    [Text (''        spec:'')],
    [Text (''          allowConcurrency: true'')],
    [Text (''          discover:'')],
    [Text (''            find:'')],
    [Text (''              command:'')],
    [Text (''                - find'')],
    [Text (''                - '' @ [CHR 0x22] @ ''.'' @ [CHR 0x22])],
    [Text (''                - -name'')],
    [Text (''                - kustomization.yaml'')],
    [Text (''          generate:'')],
    [Text (''            command:'')],
    [Text (''              - sh'')],
    [Text (''              - '' @ [CHR 0x22] @ ''-c'' @ [CHR 0x22])],
    [Text (''              - '' @ [CHR 0x22] @ ''kustomize build . | argocd-vault-plugin generate ${ARGOCD_ENV_AVP_DISABLE_TOKEN_CACHE:+--disable-token-cache} -'' @ [CHR 0x22])],
    [Text (''          lockRepo: false'')],
    [Text (''      avp-helm.yaml: |'')],
    [Text (''        ---'')],
    [Text (''        apiVersion: argoproj.io/v1alpha1'')],
    [Text (''        kind: ConfigManagementPlugin'')],
    [Text (''        metadata:'')],
    [Text (''          name: argocd-vault-plugin-helm'')],
    [Text (''        spec:'')],
    [Text (''          allowConcurrency: true'')],
    [Text (''          discover:'')],
    [Text (''            find:'')],
    [Text (''              command:'')],
    [Text (''                - sh'')],
    [Text (''                - '' @ [CHR 0x22] @ ''-c'' @ [CHR 0x22])],
    [Text (''                - '' @ [CHR 0x22] @ ''find . -name '' @ [CHR 0x27] @ ''Chart.yaml'' @ [CHR 0x27] @ '' && find . -name '' @ [CHR 0x27] @ ''values.yaml'' @ [CHR 0x27, CHR 0x22])],
    [Text (''          init:'')],
    [Text (''            command:'')],
    [Text (''              - '' @ [CHR 0x22] @ ''avp-helm'' @ [CHR 0x22])],
    [Text (''              - '' @ [CHR 0x22] @ ''init'' @ [CHR 0x22])],
    [Text (''          generate:'')],
    [Text (''            command:'')],
    [Text (''              - bash'')],
    [Text (''              - '' @ [CHR 0x22] @ ''-c'' @ [CHR 0x22])],
    [Text (''              - '' @ [CHR 0x22] @ ''eval $(avp-helm generate)'' @ [CHR 0x22])],
    [Text (''          lockRepo: false'')],
    [Text (''      argocd-vault-plugin-helm-no-discover.yaml: |'')],
    [Text (''        ---'')],
    [Text (''        apiVersion: argoproj.io/v1alpha1'')],
    [Text (''        kind: ConfigManagementPlugin'')],
    [Text (''        metadata:'')],
    [Text (''          name: argocd-vault-plugin-helm-no-discover'')],
    [Text (''        spec:'')],
    [Text (''          allowConcurrency: true'')],
    [Text (''          init:'')],
    [Text (''            command:'')],
    [Text (''              - '' @ [CHR 0x22] @ ''avp-helm'' @ [CHR 0x22])],
    [Text (''              - '' @ [CHR 0x22] @ ''init'' @ [CHR 0x22])],
    [Text (''          generate:'')],
    [Text (''            command:'')],
    [Text (''              - bash'')],
    [Text (''              - '' @ [CHR 0x22] @ ''-c'' @ [CHR 0x22])],
    [Text (''              - '' @ [CHR 0x22] @ ''eval $(avp-helm generate)'' @ [CHR 0x22])],
    [Text (''          lockRepo: false'')],
    [Text (''      avp.yaml: |'')],
    [Text (''        ---'')],
    [Text (''        apiVersion: argoproj.io/v1alpha1'')],
    [Text (''        kind: ConfigManagementPlugin'')],
    [Text (''        metadata:'')],
    [Text (''          name: argocd-vault-plugin'')],
    [Text (''        spec:'')],
    [Text (''          allowConcurrency: true'')],
    [Text (''          discover:'')],
    [Text (''            find:'')],
    [Text (''              command:'')],
    [Text (''                - sh'')],
    [Text (''                - '' @ [CHR 0x22] @ ''-c'' @ [CHR 0x22])],
    [Text (''                - '' @ [CHR 0x22] @ ''find . -name '' @ [CHR 0x27] @ ''*.yaml'' @ [CHR 0x27] @ '' | xargs -I {} grep '' @ [CHR 0x5C, CHR 0x22] @ ''<path'' @ [CHR 0x5C, CHR 0x5C] @ ''|avp'' @ [CHR 0x5C, CHR 0x5C] @ ''.kubernetes'' @ [CHR 0x5C, CHR 0x5C] @ ''.io'' @ [CHR 0x5C, CHR 0x22] @ '' {} | grep .'' @ [CHR 0x22])],
    [Text (''          generate:'')],
    [Text (''            command:'')],
    [Text (''              - sh'')],
    [Text (''              - '' @ [CHR 0x22] @ ''-c'' @ [CHR 0x22])],
    [Text (''              - '' @ [CHR 0x27] @ ''argocd-vault-plugin generate ${ARGOCD_ENV_AVP_DISABLE_TOKEN_CACHE:+--disable-token-cache} .'' @ [CHR 0x27])],
    [Text (''          lockRepo: false'')],
    [],
    [Text (''  - apiVersion: rbac.authorization.k8s.io/v1'')],
    [Text (''    kind: ClusterRoleBinding'')],
    [Text (''    metadata:'')],
    [Text (''      name: argocd-repo-server-auth-delegator'')],
    [Text (''    roleRef:'')],
    [Text (''      apiGroup: rbac.authorization.k8s.io'')],
    [Text (''      kind: ClusterRole'')],
    [Text (''      name: system:auth-delegator'')],
    [Text (''    subjects:'')],
    [Text (''      - kind: ServiceAccount'')],
    [Text (''        name: argocd-repo-server'')],
    [Text (''        namespace: ''), Field [''Release'', ''Namespace'']],
    [],
    [Text (''  - apiVersion: v1'')],
    [Text (''    kind: Secret'')],
    [Text (''    metadata:'')],
    [Text (''      name: vault-configuration'')],
    [Text (''    type: Opaque'')],
    [Text (''    stringData: {}'')]]"

text \<open>The field references of a template; a template runs without error exactly when each resolves.\<close>

fun line_fields :: "seg list \<Rightarrow> string list list" where
  "line_fields [] = []"
| "line_fields (Text s # segs) = line_fields segs"
| "line_fields (Field p # segs) = p # line_fields segs"

definition fields_of :: "seg list list \<Rightarrow> string list list" where
  "fields_of ls = concat (map line_fields ls)"

lemma execute_line_ok:
  "(\<exists>s. execute_line data l = Inr s) \<longleftrightarrow> (\<forall>p \<in> set (line_fields l). jget data p \<noteq> None)"
  by (induction data l rule: execute_line.induct) (auto split: option.splits sum.splits)

lemma execute_template_ok:
  "(\<exists>ss. execute_template data ls = Inr ss) \<longleftrightarrow> (\<forall>p \<in> set (fields_of ls). jget data p \<noteq> None)"
proof (induction ls)
  case Nil
  then show ?case by (simp add: fields_of_def)
next
  case (Cons l ls)
  show ?case
    using Cons execute_line_ok [of data l]
    by (auto simp: fields_of_def split: sum.splits)
qed

definition bundle_fields :: "string list set" where
  "bundle_fields =
     {[''Release'', ''Namespace''],
      [''Values'', ''global'', ''image'', ''repository''],
      [''Values'', ''global'', ''image'', ''tag''],
      [''VaultPlugin'', ''Registry''],
      [''VaultPlugin'', ''Tag'']}"

lemma internal_fields: "set (fields_of argocdVaultInternalYAML) \<subseteq> bundle_fields"
  by (simp add: argocdVaultInternalYAML_def fields_of_def bundle_fields_def)

lemma open_source_fields: "set (fields_of argocdVaultOpenSourceYAML) \<subseteq> bundle_fields"
  by (simp add: argocdVaultOpenSourceYAML_def fields_of_def bundle_fields_def)

end
