(* ===== verification/Values.thy ===== *)
theory Values
  imports Regexp Vault_Bundle Api_Types
begin

text \<open>
  \<^verbatim>\<open>internal/argocd/values.go\<close>: the Helm values of the ArgoCD release. The operator's values
  are overlaid, in this order, by the vault plugin fragment, the exposure fragment and the CA
  fragment. X.509 and PEM decoding, the YAML conversion and float64 numbers are operations of the record
  \<open>values_lib\<close>; everything else is computed.
\<close>

section \<open>Libraries\<close>

record Certificate =
  Subject_CommonName :: string
  DNSNames :: "string list"

record pem_block =
  block_Type :: string
  block_Bytes :: string

text \<open>\<^verbatim>\<open>pem.Decode\<close> returns no block, or a block and the rest of the input. \<open>Float64\<close> is how a number
  comes back that was decoded as a float64 and encoded again, none for a number out of range.\<close>

record values_lib =
  pem_Decode :: "string \<Rightarrow> (pem_block \<times> string) option"
  ParseCertificate :: "string \<Rightarrow> go_error + Certificate"
  YAMLToJSON :: "string \<Rightarrow> go_error + json"
  Float64 :: "string \<Rightarrow> string option"

text \<open>What \<^verbatim>\<open>pem.Decode\<close> documents about the rest: it is what follows the block.\<close>

definition pem_progress :: "values_lib \<Rightarrow> bool" where
  "pem_progress lib \<longleftrightarrow>
     (\<forall>s b rest. pem_Decode lib s = Some (b, rest) \<longrightarrow> length rest < length s)"

section \<open>Constants\<close>

definition DefaultNamespace :: string where "DefaultNamespace = ''argocd''"
definition serverTLSSecretName :: string where "serverTLSSecretName = ''argocd-server-tls''"

section \<open>Inputs\<close>

record ExposureValues =
  ev_Enabled :: bool
  ev_Host :: string
  ev_AllowedIPs :: "string list"
  ev_DNSClass :: string
  ev_DNSTTL :: int
  ev_CertPurpose :: string
  ev_ReloaderEnabled :: bool

definition zero_exposure :: ExposureValues where
  "zero_exposure = \<lparr>ev_Enabled = False, ev_Host = [], ev_AllowedIPs = [], ev_DNSClass = [],
     ev_DNSTTL = 0, ev_CertPurpose = [], ev_ReloaderEnabled = False\<rparr>"

record vaultPluginValues =
  vpv_enabled :: bool
  vpv_registry :: string
  vpv_tag :: string
  vpv_namespace :: string
  vpv_openSource :: bool

section \<open>Image pull secrets named in the values\<close>

text \<open>
  Decoding into a struct: a key sets the field whose name it equals up to case folding, a null sets
  nothing (an absent list), and a value of another shape is an error. The entries are visited in
  the order of the document. A list is decoded over the elements its slice already has, also those
  beyond its length, and what an element does not mention keeps its value; so the slice is its
  elements and the spare ones behind them.
\<close>

type_synonym ref_slice = "string list \<times> string list"

definition fold_rune :: "nat \<Rightarrow> nat" where
  "fold_rune r = (if 65 \<le> r \<and> r \<le> 90 then r + 32 else if r = 383 then 115
                  else if r = 8490 then 107 else r)"

definition same_field :: "string \<Rightarrow> string \<Rightarrow> bool" where
  "same_field name key \<longleftrightarrow> map fold_rune (runes key) = map fold_rune (runes name)"

definition type_error :: "string \<Rightarrow> go_error" where
  "type_error field = Errorf (''json: cannot unmarshal value into Go struct field '' @ field)"

fun decode_name :: "string \<Rightarrow> jmap \<Rightarrow> go_error + string" where
  "decode_name name [] = Inr name"
| "decode_name name ((key, v) # m) =
     (if same_field ''name'' key then
        (case v of
           JStr s \<Rightarrow> decode_name s m
         | JNull \<Rightarrow> decode_name name m
         | _ \<Rightarrow> Inl (type_error ''imagePullSecretsValues.global.imagePullSecrets.name''))
      else decode_name name m)"

fun decode_refs :: "string list \<Rightarrow> json list \<Rightarrow> go_error + string list" where
  "decode_refs olds [] = Inr []"
| "decode_refs olds (v # vs) =
     (let old = (case olds of [] \<Rightarrow> [] | n # _ \<Rightarrow> n) in
      case v of
        JObj m \<Rightarrow>
          (case decode_name old m of
             Inl e \<Rightarrow> Inl e
           | Inr n \<Rightarrow> (case decode_refs (tl olds) vs of Inl e \<Rightarrow> Inl e | Inr ns \<Rightarrow> Inr (n # ns)))
      | JNull \<Rightarrow> (case decode_refs (tl olds) vs of Inl e \<Rightarrow> Inl e | Inr ns \<Rightarrow> Inr (old # ns))
      | _ \<Rightarrow> Inl (type_error ''imagePullSecretsValues.global.imagePullSecrets''))"

definition decode_slice :: "ref_slice \<Rightarrow> json list \<Rightarrow> go_error + ref_slice" where
  "decode_slice refs vs =
     (case decode_refs (fst refs @ snd refs) vs of
        Inl e \<Rightarrow> Inl e
      | Inr names \<Rightarrow> Inr (names, if vs = [] then [] else drop (length vs) (fst refs @ snd refs)))"

fun decode_global :: "ref_slice \<Rightarrow> jmap \<Rightarrow> go_error + ref_slice" where
  "decode_global refs [] = Inr refs"
| "decode_global refs ((key, v) # m) =
     (if same_field ''imagePullSecrets'' key then
        (case v of
           JArr vs \<Rightarrow>
             (case decode_slice refs vs of Inl e \<Rightarrow> Inl e | Inr refs' \<Rightarrow> decode_global refs' m)
         | JNull \<Rightarrow> decode_global ([], []) m
         | _ \<Rightarrow> Inl (type_error ''imagePullSecretsValues.global.imagePullSecrets''))
      else decode_global refs m)"

fun decode_values :: "ref_slice \<Rightarrow> jmap \<Rightarrow> go_error + ref_slice" where
  "decode_values refs [] = Inr refs"
| "decode_values refs ((key, v) # m) =
     (if same_field ''global'' key then
        (case v of
           JObj g \<Rightarrow>
             (case decode_global refs g of Inl e \<Rightarrow> Inl e | Inr refs' \<Rightarrow> decode_values refs' m)
         | JNull \<Rightarrow> decode_values refs m
         | _ \<Rightarrow> Inl (type_error ''imagePullSecretsValues.global''))
      else decode_values refs m)"

fun unmarshal_refs :: "raw_json \<Rightarrow> go_error + string list" where
  "unmarshal_refs RawEmpty = Inl (Errorf ''unexpected end of JSON input'')"
| "unmarshal_refs (RawInvalid msg) = Inl (Errorf msg)"
| "unmarshal_refs (RawNonObject k) = Inl (type_error ''imagePullSecretsValues'')"
| "unmarshal_refs (RawObject m) =
     (case decode_values ([], []) m of Inl e \<Rightarrow> Inl e | Inr refs \<Rightarrow> Inr (fst refs))"

definition raw_empty :: "raw_json option \<Rightarrow> bool" where
  "raw_empty values \<longleftrightarrow> (case values of None \<Rightarrow> True | Some r \<Rightarrow> r = RawEmpty)"

definition ImagePullSecretNames :: "raw_json option \<Rightarrow> go_error + string list" where
  "ImagePullSecretNames values =
     (if raw_empty values then Inr []
      else case unmarshal_refs (the values) of
        Inl e \<Rightarrow> Inl (Wrap ''decoding values to extract global.imagePullSecrets'' e)
      | Inr refs \<Rightarrow> Inr (filter (\<lambda>n. n \<noteq> []) refs))"

section \<open>The fragments\<close>

definition toAnySlice :: "string list \<Rightarrow> json list" where
  "toAnySlice xs = map JStr xs"

text \<open>Assigning a further key of a Go map: \<open>m[k] = v\<close>.\<close>

definition exposureFragment :: "ExposureValues \<Rightarrow> jmap" where
  "exposureFragment e =
     (let annotations =
            [(''dns.gardener.cloud/dnsnames'', JStr (ev_Host e)),
             (''dns.gardener.cloud/class'', JStr (ev_DNSClass e)),
             (''dns.gardener.cloud/ttl'', JStr (Itoa (ev_DNSTTL e))),
             (''cert.gardener.cloud/purpose'', JStr (ev_CertPurpose e)),
             (''cert.gardener.cloud/commonname'', JStr (ev_Host e)),
             (''cert.gardener.cloud/dnsnames'', JStr (ev_Host e)),
             (''cert.gardener.cloud/secretname'', JStr serverTLSSecretName)];
          service0 = [(''type'', JStr ''LoadBalancer''), (''annotations'', JObj annotations)];
          service =
            (if ev_AllowedIPs e \<noteq> []
             then AList.update ''loadBalancerSourceRanges'' (JArr (toAnySlice (ev_AllowedIPs e))) service0
             else service0);
          server0 = [(''service'', JObj service)];
          server =
            (if ev_ReloaderEnabled e
             then AList.update ''deploymentAnnotations''
                    (JObj [(''secret.reloader.stakater.com/reload'',
                            JStr (Join [''argocd-secret'', serverTLSSecretName] '', ''))]) server0
             else server0)
      in [(''server'', JObj server),
          (''configs'', JObj [(''cm'', JObj [(''url'', JStr (''https://'' @ ev_Host e))])])])"

subsection \<open>The CA bundle\<close>

definition alnum_class :: "(nat \<times> nat) list" where
  "alnum_class = [(65, 90), (97, 122), (48, 57)]"

definition alnum_hyphen_class :: "(nat \<times> nat) list" where
  "alnum_hyphen_class = [(65, 90), (97, 122), (48, 57), (45, 45)]"

definition hostKeyPattern :: rexp where
  "hostKeyPattern = dotted (label alnum_class (Star (Class alnum_hyphen_class)))"

definition isValidHostKey :: "string \<Rightarrow> bool" where
  "isValidHostKey host =
     (if host = [] \<or> length host > 253 then False else MatchString hostKeyPattern host)"

text \<open>The loop of \<^verbatim>\<open>parseCertificates\<close>, with a bound on its iterations.\<close>

fun parse_loop ::
  "values_lib \<Rightarrow> nat \<Rightarrow> string \<Rightarrow> Certificate list \<Rightarrow> (go_error + Certificate list) option" where
  "parse_loop lib 0 rest certs = None"
| "parse_loop lib (Suc n) rest certs =
     (case pem_Decode lib rest of
        None \<Rightarrow> Some (Inr certs)
      | Some (block, rest') \<Rightarrow>
          if block_Type block \<noteq> ''CERTIFICATE'' then parse_loop lib n rest' certs
          else (case ParseCertificate lib (block_Bytes block) of
                  Inl e \<Rightarrow> Some (Inl (Wrap ''parsing certificate'' e))
                | Inr cert \<Rightarrow> parse_loop lib n rest' (certs @ [cert])))"

text \<open>Every block consumes input, so the length of the input bounds the iterations.\<close>

definition parseCertificates :: "values_lib \<Rightarrow> string \<Rightarrow> go_error + Certificate list" where
  "parseCertificates lib caCert =
     (case parse_loop lib (Suc (length caCert)) caCert [] of
        None \<Rightarrow> Inl (Errorf ''pem.Decode made no progress'')
      | Some (Inl e) \<Rightarrow> Inl e
      | Some (Inr certs) \<Rightarrow>
          if certs = [] then Inl (Errorf ''no PEM certificate block found in CA bundle'')
          else Inr certs)"

fun collect_names :: "string list \<Rightarrow> string list \<Rightarrow> string list" where
  "collect_names [] hosts = hosts"
| "collect_names (dns # names) hosts =
     collect_names names
       (if isValidHostKey dns \<and> dns \<notin> set hosts then hosts @ [dns] else hosts)"

text \<open>The set \<^verbatim>\<open>seen\<close> of the code is the set of the hosts collected so far.\<close>

definition collectDNSHosts :: "Certificate list \<Rightarrow> string list" where
  "collectDNSHosts certs = foldl (\<lambda>hosts cert. collect_names (DNSNames cert) hosts) [] certs"

definition certHostnames :: "values_lib \<Rightarrow> string \<Rightarrow> go_error + string list" where
  "certHostnames lib caCert =
     (case parseCertificates lib caCert of
        Inl e \<Rightarrow> Inl e
      | Inr certs \<Rightarrow>
          (let hosts = collectDNSHosts certs;
               cn = Subject_CommonName (hd certs);
               hosts' = (if hosts = [] \<and> isValidHostKey cn then hosts @ [cn] else hosts)
           in if hosts' = [] then
                Inl (Errorf ''certificate has no DNS SAN and no usable common name to key argocd-tls-certs-cm by hostname'')
              else Inr hosts'))"

definition certificates_of :: "string \<Rightarrow> string list \<Rightarrow> jmap" where
  "certificates_of caCert hosts = foldl (\<lambda>m host. AList.update host (JStr caCert) m) [] hosts"

definition caBundleFragment :: "values_lib \<Rightarrow> string \<Rightarrow> go_error + jmap" where
  "caBundleFragment lib caCert =
     (case certHostnames lib caCert of
        Inl e \<Rightarrow> Inl e
      | Inr hosts \<Rightarrow>
          Inr [(''configs'', JObj [(''tls'', JObj
                 [(''certificates'', JObj (certificates_of caCert hosts))])])])"

subsection \<open>The vault plugin\<close>

primrec go_type_name :: "json \<Rightarrow> string" where
  "go_type_name JNull = ''<nil>''"
| "go_type_name (JBool b) = ''bool''"
| "go_type_name (JNum n) = ''float64''"
| "go_type_name (JStr s) = ''string''"
| "go_type_name (JArr xs) = ''[]interface {}''"
| "go_type_name (JObj m) = ''map[string]interface {}''"

definition globalImageRepository :: "jmap \<Rightarrow> go_error + string" where
  "globalImageRepository values =
     (case map_of values ''global'' of
        Some (JObj global) \<Rightarrow>
          (case map_of global ''image'' of
             Some (JObj img) \<Rightarrow>
               (case map_of img ''repository'' of
                  None \<Rightarrow> Inl (Errorf ''global.image.repository is required but is unset'')
                | Some raw \<Rightarrow>
                    (case raw of
                       JStr repository \<Rightarrow>
                         if repository = [] then
                           Inl (Errorf (''global.image.repository must be a non-empty string, got '' @
                                  go_type_name raw))
                         else Inr repository
                     | _ \<Rightarrow> Inl (Errorf (''global.image.repository must be a non-empty string, got '' @
                                  go_type_name raw))))
           | _ \<Rightarrow> Inl (Errorf ''global.image.repository is required but global.image is unset''))
      | _ \<Rightarrow> Inl (Errorf ''global.image.repository is required but global is unset''))"

definition template_data :: "vaultPluginValues \<Rightarrow> string \<Rightarrow> string \<Rightarrow> json" where
  "template_data vaultPlugin repository version =
     JObj [(''Release'', JObj [(''Namespace'', JStr (vpv_namespace vaultPlugin))]),
           (''Values'', JObj [(''global'', JObj [(''image'', JObj
              [(''repository'', JStr repository), (''tag'', JStr version)])])]),
           (''VaultPlugin'', JObj [(''Registry'', JStr (vpv_registry vaultPlugin)),
              (''Tag'', JStr (vpv_tag vaultPlugin))])]"

definition bundle_source :: "bool \<Rightarrow> seg list list" where
  "bundle_source openSource =
     (if openSource then argocdVaultOpenSourceYAML else argocdVaultInternalYAML)"

text \<open>\<^verbatim>\<open>json.Unmarshal\<close> of an object into \<^verbatim>\<open>map[string]any\<close>.\<close>

definition unmarshal_any :: "values_lib \<Rightarrow> jmap \<Rightarrow> go_error + jmap" where
  "unmarshal_any lib m =
     (if in_range (Float64 lib) (JObj m) then Inr (float_map (Float64 lib) m)
      else Inl (Errorf ''json: cannot unmarshal number into Go value of type float64''))"

definition vaultPluginFragment ::
  "values_lib \<Rightarrow> vaultPluginValues \<Rightarrow> string \<Rightarrow> string \<Rightarrow> go_error + jmap" where
  "vaultPluginFragment lib vaultPlugin repository version =
     (case execute_template (template_data vaultPlugin repository version)
             (bundle_source (vpv_openSource vaultPlugin)) of
        Inl e \<Rightarrow> Inl (Wrap ''rendering argocd-vault.yaml template'' e)
      | Inr rendered \<Rightarrow>
          (case YAMLToJSON lib (Join rendered newline) of
             Inl e \<Rightarrow> Inl (Wrap ''converting argocd-vault.yaml to JSON'' e)
           | Inr (JObj fragment) \<Rightarrow>
               (case unmarshal_any lib fragment of
                  Inl e \<Rightarrow> Inl (Wrap ''decoding argocd-vault.yaml'' e) | Inr m \<Rightarrow> Inr m)
           | Inr JNull \<Rightarrow> Inr []
           | Inr _ \<Rightarrow> Inl (Wrap ''decoding argocd-vault.yaml''
                (Errorf ''json: cannot unmarshal value into Go value of type map[string]interface {}''))))"

definition mergeVaultPlugin ::
  "values_lib \<Rightarrow> jmap \<Rightarrow> vaultPluginValues \<Rightarrow> string \<Rightarrow> go_error + jmap" where
  "mergeVaultPlugin lib values vaultPlugin version =
     (case globalImageRepository values of
        Inl e \<Rightarrow> Inl (Wrap ''loading vault plugin values'' e)
      | Inr repository \<Rightarrow>
          (case vaultPluginFragment lib vaultPlugin repository version of
             Inl e \<Rightarrow> Inl (Wrap ''loading vault plugin values'' e)
           | Inr vaultFragment \<Rightarrow> Inr (deepMerge values vaultFragment)))"

section \<open>Layering\<close>

definition mergeFragments ::
  "values_lib \<Rightarrow> jmap \<Rightarrow> ExposureValues \<Rightarrow> string \<Rightarrow> vaultPluginValues \<Rightarrow> string \<Rightarrow> go_error + jmap" where
  "mergeFragments lib values exposure caCert vaultPlugin version =
     (case (if vpv_enabled vaultPlugin then mergeVaultPlugin lib values vaultPlugin version
            else Inr values) of
        Inl e \<Rightarrow> Inl e
      | Inr values1 \<Rightarrow>
          (let values2 = (if ev_Enabled exposure then deepMerge values1 (exposureFragment exposure)
                          else values1)
           in if caCert \<noteq> [] then
                (case caBundleFragment lib caCert of
                   Inl e \<Rightarrow> Inl (Wrap ''building CA bundle values'' e)
                 | Inr fragment \<Rightarrow> Inr (deepMerge values2 fragment))
              else Inr values2))"

fun unmarshal_map :: "values_lib \<Rightarrow> raw_json \<Rightarrow> go_error + jmap" where
  "unmarshal_map lib RawEmpty = Inl (Errorf ''unexpected end of JSON input'')"
| "unmarshal_map lib (RawInvalid msg) = Inl (Errorf msg)"
| "unmarshal_map lib (RawNonObject k) =
     Inl (Errorf (''json: cannot unmarshal '' @ k @ '' into Go value of type map[string]interface {}''))"
| "unmarshal_map lib (RawObject m) = unmarshal_any lib m"

text \<open>\<^verbatim>\<open>json.Marshal\<close> of a map that came from JSON and strings cannot fail.\<close>

definition marshal :: "jmap \<Rightarrow> raw_json" where
  "marshal values = RawObject (sort_key fst (map (\<lambda>kv. (fst kv, canon (snd kv))) values))"

definition buildValues ::
  "values_lib \<Rightarrow> raw_json option \<Rightarrow> ExposureValues \<Rightarrow> string \<Rightarrow> vaultPluginValues \<Rightarrow> string \<Rightarrow>
   go_error + raw_json option" where
  "buildValues lib base exposure caCert vaultPlugin version =
     (case (if raw_empty base then Inr [] else unmarshal_map lib (the base)) of
        Inl e \<Rightarrow> Inl (Wrap ''decoding operator-supplied values'' e)
      | Inr values \<Rightarrow>
          (case mergeFragments lib values exposure caCert vaultPlugin version of
             Inl e \<Rightarrow> Inl e
           | Inr values' \<Rightarrow> if values' = [] then Inr None else Inr (Some (marshal values'))))"

end
