(* ===== verification/Provisioner.thy ===== *)
theory Provisioner
  imports Kube Values
begin

text \<open>
  \<^verbatim>\<open>internal/argocd/provisioner.go\<close>, \<^verbatim>\<open>endpoint.go\<close> and \<^verbatim>\<open>constants.go\<close>: the
  operations that declare an ArgoCD installation as Flux resources on the platform cluster. Every
  operation takes the client \<open>api\<close> and the provisioner \<open>p\<close>, and is a computation over the world the
  client acts on; errors are values, and a computation that fails leaves the world as the calls made
  up to then left it. The two clients of the Go struct are the two clusters the one \<open>api\<close> is pointed
  at. Log output is not modelled.
\<close>

section \<open>Constants\<close>

definition defaultAppProjectName :: string where "defaultAppProjectName = ''default''"
definition ociRepositoryName :: string where "ociRepositoryName = ''argocd''"
definition helmReleaseName :: string where "helmReleaseName = ''argocd''"
definition reloaderOCIRepositoryName :: string where "reloaderOCIRepositoryName = ''argocd-reloader''"
definition reloaderHelmReleaseName :: string where "reloaderHelmReleaseName = ''argocd-reloader''"
definition kubeConfigSecretKey :: string where "kubeConfigSecretKey = ''kubeconfig''"
definition labelPartOf :: string where "labelPartOf = ''app.kubernetes.io/part-of''"
definition labelPartOfValue :: string where "labelPartOfValue = ''argocd''"
definition labelComponent :: string where "labelComponent = ''app.kubernetes.io/component''"
definition labelServerValue :: string where "labelServerValue = ''server''"
definition managedByLabel :: string where "managedByLabel = ''app.kubernetes.io/managed-by''"
definition managedByArgoCDValue :: string where "managedByArgoCDValue = ''service-provider-argocd''"
definition managedByReloaderValue :: string where
  "managedByReloaderValue = ''service-provider-argocd-reloader''"
definition caBundleLabel :: string where
  "caBundleLabel = ''argocd.services.open-control-plane.io/ca-bundle''"
definition chartPullSecretLabel :: string where
  "chartPullSecretLabel = ''argocd.services.open-control-plane.io/chart-pull-secret''"
definition imagePullSecretManagedByValue :: string where
  "imagePullSecretManagedByValue = managedByArgoCDValue"

section \<open>State\<close>

record provisioner =
  p_platformClient :: cluster
  p_mcpClient :: cluster
  p_tenantNamespace :: string
  p_mcpNamespace :: string
  p_kubeConfigSecretName :: string
  p_podNamespace :: string
  p_pollInterval :: int
  p_exposure :: ExposureValues
  p_reloader :: "ReloaderConfig option"
  p_caBundleSecret :: string
  p_caBundleSourceNamespace :: string
  p_caCert :: string
  p_vaultPluginEnabled :: bool
  p_vaultPluginRegistry :: string
  p_vaultPluginTag :: string
  p_vaultPluginOpenSource :: bool

record ProvisionerConfig =
  cfg_PlatformClient :: cluster
  cfg_MCPClient :: cluster
  cfg_TenantNamespace :: string
  cfg_MCPNamespace :: string
  cfg_KubeConfigSecretName :: string
  cfg_PodNamespace :: string
  cfg_PollInterval :: int
  cfg_Exposure :: ExposureValues
  cfg_Reloader :: "ReloaderConfig option"
  cfg_CABundleSecret :: string
  cfg_CABundleSourceNamespace :: string
  cfg_VaultPluginEnabled :: bool
  cfg_VaultPluginRegistry :: string
  cfg_VaultPluginTag :: string
  cfg_VaultPluginOpenSource :: bool

definition NewProvisioner :: "ProvisionerConfig \<Rightarrow> provisioner" where
  "NewProvisioner cfg0 =
     (let cfg = (if cfg_MCPNamespace cfg0 = [] then cfg0\<lparr>cfg_MCPNamespace := DefaultNamespace\<rparr> else cfg0)
      in \<lparr>p_platformClient = cfg_PlatformClient cfg,
          p_mcpClient = cfg_MCPClient cfg,
          p_tenantNamespace = cfg_TenantNamespace cfg,
          p_mcpNamespace = cfg_MCPNamespace cfg,
          p_kubeConfigSecretName = cfg_KubeConfigSecretName cfg,
          p_podNamespace = cfg_PodNamespace cfg,
          p_pollInterval = cfg_PollInterval cfg,
          p_exposure = cfg_Exposure cfg,
          p_reloader = cfg_Reloader cfg,
          p_caBundleSecret = cfg_CABundleSecret cfg,
          p_caBundleSourceNamespace = cfg_CABundleSourceNamespace cfg,
          p_caCert = [],
          p_vaultPluginEnabled = cfg_VaultPluginEnabled cfg,
          p_vaultPluginRegistry = cfg_VaultPluginRegistry cfg,
          p_vaultPluginTag = cfg_VaultPluginTag cfg,
          p_vaultPluginOpenSource = cfg_VaultPluginOpenSource cfg\<rparr>)"

section \<open>Objects\<close>

definition setManagedByValue :: "string \<Rightarrow> kobj \<Rightarrow> kobj" where
  "setManagedByValue value obj = set_label managedByLabel value obj"

definition secret_Type :: "kobj \<Rightarrow> string" where
  "secret_Type obj = (case o_Body obj of Secret t d \<Rightarrow> t | _ \<Rightarrow> [])"

definition secret_Data :: "kobj \<Rightarrow> (string \<times> string) list" where
  "secret_Data obj = (case o_Body obj of Secret t d \<Rightarrow> d | _ \<Rightarrow> [])"

definition set_spec :: "HelmReleaseSpec \<Rightarrow> kobj \<Rightarrow> kobj" where
  "set_spec spec obj =
     obj\<lparr>o_Body := HelmRelease (Some spec) (case o_Body obj of HelmRelease _ cs \<Rightarrow> cs | _ \<Rightarrow> [])\<rparr>"

definition platform_secret :: "provisioner \<Rightarrow> string \<Rightarrow> string \<Rightarrow> obj_ref" where
  "platform_secret p namespace name = (p_platformClient p, KSecret, namespace, name)"

definition mcp_secret :: "provisioner \<Rightarrow> string \<Rightarrow> obj_ref" where
  "mcp_secret p name = (p_mcpClient p, KSecret, p_mcpNamespace p, name)"

definition flux_ref :: "provisioner \<Rightarrow> kind \<Rightarrow> string \<Rightarrow> obj_ref" where
  "flux_ref p k name = (p_platformClient p, k, p_tenantNamespace p, name)"

section \<open>Image pull secrets\<close>

definition ensureMCPNamespace :: "'w kube_client \<Rightarrow> provisioner \<Rightarrow> (go_error, 'w, unit) io" where
  "ensureMCPNamespace api p =
     io_try (api_Create api (p_mcpClient p) (new_object (p_mcpNamespace p) [] NamespaceObj))
       (\<lambda>r. case r of
          Inl e \<Rightarrow> if IsAlreadyExists e then io_return () else io_error e
        | Inr _ \<Rightarrow> io_return ())"

definition copyImagePullSecret ::
  "'w kube_client \<Rightarrow> provisioner \<Rightarrow> string \<Rightarrow> (go_error, 'w, unit) io" where
  "copyImagePullSecret api p name =
     io_bind (io_map_error
        (Wrap (''getting image pull secret '' @ quoted name @ '' from namespace '' @ quoted (p_podNamespace p)))
        (api_Get api (platform_secret p (p_podNamespace p) name))) (\<lambda>source.
     io_bind (io_map_error
        (Wrap (''ensuring namespace '' @ quoted (p_mcpNamespace p) @ '' exists on the MCP''))
        (ensureMCPNamespace api p)) (\<lambda>_.
     io_map_error
        (Wrap (''replicating image pull secret '' @ quoted name @ '' to namespace '' @
               quoted (p_mcpNamespace p) @ '' on the MCP''))
        (api_CreateOrUpdate api (p_mcpClient p)
           (new_object name (p_mcpNamespace p) (Secret [] []))
           (\<lambda>target. (setManagedByValue imagePullSecretManagedByValue target)
              \<lparr>o_Body := Secret (secret_Type source) (secret_Data source)\<rparr>))))"

definition pruneImagePullSecrets ::
  "'w kube_client \<Rightarrow> provisioner \<Rightarrow> string list \<Rightarrow> (go_error, 'w, unit) io" where
  "pruneImagePullSecrets api p keep =
     io_bind (io_map_error
        (Wrap (''listing replicated image pull secrets in namespace '' @ quoted (p_mcpNamespace p)))
        (api_List api (p_mcpClient p) KSecret (Some (p_mcpNamespace p))
           [(managedByLabel, imagePullSecretManagedByValue)])) (\<lambda>items.
     io_for items (\<lambda>item.
       if o_Name item \<in> set keep then io_return ()
       else io_map_error (Wrap (''deleting orphaned image pull secret '' @ quoted (o_Name item)))
              (IgnoreNotFound (api_Delete api (ref_of (p_mcpClient p) item)))))"

definition reconcileImagePullSecrets ::
  "'w kube_client \<Rightarrow> provisioner \<Rightarrow> raw_json option \<Rightarrow> (go_error, 'w, unit) io" where
  "reconcileImagePullSecrets api p values =
     io_bind (io_lift (ImagePullSecretNames values)) (\<lambda>names.
     io_bind (io_for names (copyImagePullSecret api p)) (\<lambda>_.
     pruneImagePullSecrets api p names))"

definition removeImagePullSecrets :: "'w kube_client \<Rightarrow> provisioner \<Rightarrow> (go_error, 'w, unit) io" where
  "removeImagePullSecrets api p = pruneImagePullSecrets api p []"

section \<open>Chart pull secrets\<close>

definition add_name :: "string \<Rightarrow> string list \<Rightarrow> string list" where
  "add_name name names = (if name = [] \<or> name \<in> set names then names else names @ [name])"

definition chartPullSecretNames :: "ArgoCDVersion \<Rightarrow> ReloaderConfig option \<Rightarrow> string list" where
  "chartPullSecretNames version reloader =
     (let names = add_name (v_ChartPullSecret version) []
      in case reloader of None \<Rightarrow> names | Some r \<Rightarrow> add_name (rl_ChartPullSecret r) names)"

definition copyChartPullSecret ::
  "'w kube_client \<Rightarrow> provisioner \<Rightarrow> string \<Rightarrow> (go_error, 'w, unit) io" where
  "copyChartPullSecret api p name =
     io_bind (io_map_error
        (Wrap (''getting chart pull secret '' @ quoted name @ '' from namespace '' @ quoted (p_podNamespace p)))
        (api_Get api (platform_secret p (p_podNamespace p) name))) (\<lambda>source.
     io_map_error
        (Wrap (''replicating chart pull secret '' @ quoted name @ '' to tenant namespace '' @
               quoted (p_tenantNamespace p)))
        (api_CreateOrUpdate api (p_platformClient p)
           (new_object name (p_tenantNamespace p) (Secret [] []))
           (\<lambda>target. (set_label chartPullSecretLabel ''true''
                (setManagedByValue managedByArgoCDValue target))
              \<lparr>o_Body := Secret (secret_Type source) (secret_Data source)\<rparr>)))"

definition pruneChartPullSecrets ::
  "'w kube_client \<Rightarrow> provisioner \<Rightarrow> string list \<Rightarrow> (go_error, 'w, unit) io" where
  "pruneChartPullSecrets api p keep =
     io_bind (io_map_error
        (Wrap (''listing replicated chart pull secrets in namespace '' @ quoted (p_tenantNamespace p)))
        (api_List api (p_platformClient p) KSecret (Some (p_tenantNamespace p))
           [(chartPullSecretLabel, ''true'')])) (\<lambda>items.
     io_for items (\<lambda>item.
       if o_Name item \<in> set keep then io_return ()
       else io_map_error (Wrap (''deleting orphaned chart pull secret '' @ quoted (o_Name item)))
              (IgnoreNotFound (api_Delete api (ref_of (p_platformClient p) item)))))"

definition reconcileChartPullSecrets ::
  "'w kube_client \<Rightarrow> provisioner \<Rightarrow> ArgoCDVersion \<Rightarrow> (go_error, 'w, unit) io" where
  "reconcileChartPullSecrets api p version =
     (let names = chartPullSecretNames version (p_reloader p)
      in io_bind (io_for names (copyChartPullSecret api p)) (\<lambda>_. pruneChartPullSecrets api p names))"

definition removeChartPullSecrets :: "'w kube_client \<Rightarrow> provisioner \<Rightarrow> (go_error, 'w, unit) io" where
  "removeChartPullSecrets api p = pruneChartPullSecrets api p []"

section \<open>The CA bundle\<close>

text \<open>\<^verbatim>\<open>ensureCABundle\<close> sets a field of the provisioner, so it returns the provisioner.\<close>

definition ensureCABundle :: "'w kube_client \<Rightarrow> provisioner \<Rightarrow> (go_error, 'w, provisioner) io" where
  "ensureCABundle api p =
     (if p_caBundleSecret p = [] then io_return p
      else
        io_bind (io_map_error
          (Wrap (''reading CA bundle secret '' @ quoted (p_caBundleSecret p) @ '' from namespace '' @
                 quoted (p_caBundleSourceNamespace p)))
          (api_Get api (platform_secret p (p_caBundleSourceNamespace p) (p_caBundleSecret p)))) (\<lambda>src.
        io_bind (io_map_error
          (Wrap (''syncing CA bundle secret to tenant namespace '' @ quoted (p_tenantNamespace p)))
          (api_CreateOrUpdate api (p_platformClient p)
             (new_object (p_caBundleSecret p) (p_tenantNamespace p) (Secret [] []))
             (\<lambda>dst. (set_label caBundleLabel ''true'' (setManagedByValue managedByArgoCDValue dst))
                \<lparr>o_Body := Secret (secret_Type src) (secret_Data src)\<rparr>))) (\<lambda>_.
        io_return (p\<lparr>p_caCert := (case map_of (secret_Data src) ''ca.crt'' of None \<Rightarrow> [] | Some s \<Rightarrow> s)\<rparr>))))"

definition RemoveCABundle :: "'w kube_client \<Rightarrow> provisioner \<Rightarrow> (go_error, 'w, unit) io" where
  "RemoveCABundle api p =
     (if p_caBundleSecret p \<noteq> [] then
        IgnoreNotFound (api_Delete api (platform_secret p (p_tenantNamespace p) (p_caBundleSecret p)))
      else
        io_bind (io_map_error
          (Wrap (''listing CA bundle secrets in tenant namespace '' @ quoted (p_tenantNamespace p)))
          (api_List api (p_platformClient p) KSecret (Some (p_tenantNamespace p))
             [(caBundleLabel, ''true'')])) (\<lambda>items.
        io_for items (\<lambda>item.
          io_map_error (Wrap (''deleting CA bundle secret '' @ quoted (o_Name item)))
            (IgnoreNotFound (api_Delete api (ref_of (p_platformClient p) item))))))"

definition reconcileCABundle :: "'w kube_client \<Rightarrow> provisioner \<Rightarrow> (go_error, 'w, provisioner) io" where
  "reconcileCABundle api p =
     (if p_caBundleSecret p \<noteq> [] then ensureCABundle api p
      else io_bind (RemoveCABundle api p) (\<lambda>_. io_return p))"

section \<open>Flux resources\<close>

definition local_ref :: "string \<Rightarrow> string option" where
  "local_ref name = (if name \<noteq> [] then Some name else None)"

definition argocd_repository :: "provisioner \<Rightarrow> string \<Rightarrow> ArgoCDVersion \<Rightarrow> OCIRepositorySpec" where
  "argocd_repository p url version =
     \<lparr>oci_Interval = p_pollInterval p, oci_URL = url, oci_Tag = v_ChartVersion version,
      oci_SecretRef = local_ref (v_ChartPullSecret version),
      oci_CertSecretRef = local_ref (p_caBundleSecret p)\<rparr>"

definition applyOCIRepository ::
  "'w kube_client \<Rightarrow> provisioner \<Rightarrow> string \<Rightarrow> ArgoCDVersion \<Rightarrow> (go_error, 'w, unit) io" where
  "applyOCIRepository api p url version =
     api_CreateOrUpdate api (p_platformClient p)
       (new_object ociRepositoryName (p_tenantNamespace p) (OCIRepository None))
       (\<lambda>repo. (setManagedByValue managedByArgoCDValue repo)
          \<lparr>o_Body := OCIRepository (Some (argocd_repository p url version))\<rparr>)"

definition vault_values :: "provisioner \<Rightarrow> vaultPluginValues" where
  "vault_values p =
     \<lparr>vpv_enabled = p_vaultPluginEnabled p, vpv_registry = p_vaultPluginRegistry p,
      vpv_tag = p_vaultPluginTag p, vpv_namespace = p_mcpNamespace p,
      vpv_openSource = p_vaultPluginOpenSource p\<rparr>"

definition argocd_release :: "provisioner \<Rightarrow> raw_json option \<Rightarrow> HelmReleaseSpec" where
  "argocd_release p values =
     \<lparr>hr_Interval = p_pollInterval p,
      hr_ChartRef = \<lparr>ref_Kind = ''OCIRepository'', ref_Name = ociRepositoryName,
        ref_Namespace = p_tenantNamespace p\<rparr>,
      hr_KubeConfigSecret = p_kubeConfigSecretName p,
      hr_KubeConfigKey = kubeConfigSecretKey,
      hr_Install = \<lparr>ins_CRDs = ''Create'', ins_CreateNamespace = True,
        ins_Timeout = Some (10 * minute), ins_Retries = 3\<rparr>,
      hr_Upgrade = \<lparr>upg_CRDs = ''CreateReplace'', upg_Retries = 3\<rparr>,
      hr_Uninstall = \<lparr>uns_KeepHistory = False, uns_Timeout = Some (5 * minute)\<rparr>,
      hr_DriftDetection = ''enabled'',
      hr_Values = values,
      hr_TargetNamespace = p_mcpNamespace p,
      hr_StorageNamespace = p_mcpNamespace p\<rparr>"

definition applyHelmRelease ::
  "values_lib \<Rightarrow> 'w kube_client \<Rightarrow> provisioner \<Rightarrow> ArgoCDVersion \<Rightarrow> (go_error, 'w, unit) io" where
  "applyHelmRelease lib api p version =
     io_bind (io_map_error (Wrap ''building Helm values'')
       (io_lift (buildValues lib (v_Values version) (p_exposure p) (p_caCert p) (vault_values p)
          (v_Version version)))) (\<lambda>values.
     api_CreateOrUpdate api (p_platformClient p)
       (new_object helmReleaseName (p_tenantNamespace p) (HelmRelease None []))
       (\<lambda>hr. set_spec (argocd_release p values) (setManagedByValue managedByArgoCDValue hr)))"

definition reloader_repository :: "provisioner \<Rightarrow> ReloaderConfig \<Rightarrow> OCIRepositorySpec" where
  "reloader_repository p r =
     \<lparr>oci_Interval = p_pollInterval p, oci_URL = rl_ChartURL r, oci_Tag = rl_ChartVersion r,
      oci_SecretRef = local_ref (rl_ChartPullSecret r),
      oci_CertSecretRef = local_ref (p_caBundleSecret p)\<rparr>"

definition applyReloaderOCIRepository ::
  "'w kube_client \<Rightarrow> provisioner \<Rightarrow> ReloaderConfig \<Rightarrow> (go_error, 'w, unit) io" where
  "applyReloaderOCIRepository api p r =
     api_CreateOrUpdate api (p_platformClient p)
       (new_object reloaderOCIRepositoryName (p_tenantNamespace p) (OCIRepository None))
       (\<lambda>repo. (setManagedByValue managedByReloaderValue repo)
          \<lparr>o_Body := OCIRepository (Some (reloader_repository p r))\<rparr>)"

definition reloader_release :: "provisioner \<Rightarrow> ReloaderConfig \<Rightarrow> HelmReleaseSpec" where
  "reloader_release p r =
     \<lparr>hr_Interval = p_pollInterval p,
      hr_ChartRef = \<lparr>ref_Kind = ''OCIRepository'', ref_Name = reloaderOCIRepositoryName,
        ref_Namespace = p_tenantNamespace p\<rparr>,
      hr_KubeConfigSecret = p_kubeConfigSecretName p,
      hr_KubeConfigKey = kubeConfigSecretKey,
      hr_Install = \<lparr>ins_CRDs = [], ins_CreateNamespace = False, ins_Timeout = None, ins_Retries = 3\<rparr>,
      hr_Upgrade = \<lparr>upg_CRDs = [], upg_Retries = 3\<rparr>,
      hr_Uninstall = \<lparr>uns_KeepHistory = False, uns_Timeout = Some (5 * minute)\<rparr>,
      hr_DriftDetection = ''enabled'',
      hr_Values = rl_Values r,
      hr_TargetNamespace = p_mcpNamespace p,
      hr_StorageNamespace = p_mcpNamespace p\<rparr>"

definition applyReloaderHelmRelease ::
  "'w kube_client \<Rightarrow> provisioner \<Rightarrow> ReloaderConfig \<Rightarrow> (go_error, 'w, unit) io" where
  "applyReloaderHelmRelease api p r =
     api_CreateOrUpdate api (p_platformClient p)
       (new_object reloaderHelmReleaseName (p_tenantNamespace p) (HelmRelease None []))
       (\<lambda>hr. set_spec (reloader_release p r) (setManagedByValue managedByReloaderValue hr))"

definition removeReloaderResources :: "'w kube_client \<Rightarrow> provisioner \<Rightarrow> (go_error, 'w, unit) io" where
  "removeReloaderResources api p =
     io_bind (io_map_error (Wrap ''deleting Reloader HelmRelease'')
       (IgnoreNotFound (api_Delete api (flux_ref p KHelmRelease reloaderHelmReleaseName)))) (\<lambda>_.
     io_map_error (Wrap ''deleting Reloader OCIRepository'')
       (IgnoreNotFound (api_Delete api (flux_ref p KOCIRepository reloaderOCIRepositoryName))))"

text \<open>Errors of the addon are logged and dropped, so the computation cannot fail.\<close>

definition log_error :: "(go_error, 'w, unit) io \<Rightarrow> (go_error, 'w, unit) io" where
  "log_error m = io_try m (\<lambda>r. io_return ())"

definition reconcileReloader :: "'w kube_client \<Rightarrow> provisioner \<Rightarrow> (go_error, 'w, unit) io" where
  "reconcileReloader api p =
     (case p_reloader p of
        Some r \<Rightarrow>
          io_bind (log_error (applyReloaderOCIRepository api p r)) (\<lambda>_.
          log_error (applyReloaderHelmRelease api p r))
      | None \<Rightarrow> log_error (removeReloaderResources api p))"

section \<open>Install, Ready, Uninstall\<close>

definition Install ::
  "values_lib \<Rightarrow> 'w kube_client \<Rightarrow> provisioner \<Rightarrow> ArgoCDVersion \<Rightarrow> (go_error, 'w, unit) io" where
  "Install lib api p version =
     (case v_ChartURL version of
        None \<Rightarrow> io_error (Errorf (''version '' @ quoted (v_Version version) @ '' is missing a chart URL''))
      | Some url \<Rightarrow>
          io_bind (io_map_error (Wrap ''reconciling image pull secrets'')
            (reconcileImagePullSecrets api p (v_Values version))) (\<lambda>_.
          io_bind (io_map_error (Wrap ''reconciling chart pull secrets'')
            (reconcileChartPullSecrets api p version)) (\<lambda>_.
          io_bind (io_map_error (Wrap ''reconciling CA bundle'') (reconcileCABundle api p)) (\<lambda>p'.
          io_bind (io_map_error (Wrap ''reconciling OCIRepository'')
            (applyOCIRepository api p' url version)) (\<lambda>_.
          io_bind (io_map_error (Wrap ''reconciling HelmRelease'')
            (applyHelmRelease lib api p' version)) (\<lambda>_.
          reconcileReloader api p'))))))"

definition release_conditions :: "kobj \<Rightarrow> condition list" where
  "release_conditions obj = (case o_Body obj of HelmRelease _ cs \<Rightarrow> cs | _ \<Rightarrow> [])"

definition Ready :: "'w kube_client \<Rightarrow> provisioner \<Rightarrow> (go_error, 'w, bool \<times> string) io" where
  "Ready api p =
     io_bind (io_map_error (Wrap ''getting HelmRelease'')
       (api_Get api (flux_ref p KHelmRelease helmReleaseName))) (\<lambda>hr.
     case find_condition ''Ready'' (release_conditions hr) of
       Some cond \<Rightarrow> io_return (cond_Status cond = ConditionTrue, cond_Message cond)
     | None \<Rightarrow> io_return (False, ''HelmRelease has not reported readiness yet''))"

definition Uninstall :: "'w kube_client \<Rightarrow> provisioner \<Rightarrow> (go_error, 'w, unit) io" where
  "Uninstall api p =
     io_bind (io_map_error (Wrap ''deleting HelmRelease'')
       (IgnoreNotFound (api_Delete api (flux_ref p KHelmRelease helmReleaseName)))) (\<lambda>_.
     io_bind (io_map_error (Wrap ''deleting OCIRepository'')
       (IgnoreNotFound (api_Delete api (flux_ref p KOCIRepository ociRepositoryName)))) (\<lambda>_.
     io_bind (io_map_error (Wrap ''removing replicated image pull secrets'')
       (removeImagePullSecrets api p)) (\<lambda>_.
     io_bind (io_map_error (Wrap ''removing replicated chart pull secrets'')
       (removeChartPullSecrets api p)) (\<lambda>_.
     removeReloaderResources api p))))"

text \<open>One probe of \<^verbatim>\<open>IsUninstalled\<close>: found, gone, or an error.\<close>

definition gone :: "'w kube_client \<Rightarrow> obj_ref \<Rightarrow> string \<Rightarrow> (go_error, 'w, bool) io" where
  "gone api r msg =
     io_try (api_Get api r) (\<lambda>x. case x of
        Inr _ \<Rightarrow> io_return False
      | Inl e \<Rightarrow> if IsNotFound e then io_return True else io_error (Wrap msg e))"

definition IsUninstalled :: "'w kube_client \<Rightarrow> provisioner \<Rightarrow> (go_error, 'w, bool) io" where
  "IsUninstalled api p =
     io_bind (gone api (flux_ref p KHelmRelease helmReleaseName) ''getting HelmRelease'') (\<lambda>g1.
     if \<not> g1 then io_return False else
     io_bind (gone api (flux_ref p KOCIRepository ociRepositoryName) ''getting OCIRepository'') (\<lambda>g2.
     if \<not> g2 then io_return False else
     io_bind (gone api (flux_ref p KHelmRelease reloaderHelmReleaseName)
       ''getting Reloader HelmRelease'') (\<lambda>g3.
     if \<not> g3 then io_return False else
     io_bind (gone api (flux_ref p KOCIRepository reloaderOCIRepositoryName)
       ''getting Reloader OCIRepository'') (\<lambda>g4.
     if \<not> g4 then io_return False else io_return True))))"

section \<open>The deletion guard\<close>

definition listResourcesByGVK ::
  "'w kube_client \<Rightarrow> provisioner \<Rightarrow> kind \<Rightarrow> string \<Rightarrow> (go_error, 'w, kobj list) io" where
  "listResourcesByGVK api p gvk resourceName =
     io_try (api_List api (p_mcpClient p) gvk None []) (\<lambda>x. case x of
        Inl e \<Rightarrow> if IsNoMatchError e then io_return []
                 else io_error (Wrap (''listing '' @ resourceName) e)
      | Inr items \<Rightarrow> io_return items)"

definition countResourcesByGVK ::
  "'w kube_client \<Rightarrow> provisioner \<Rightarrow> kind \<Rightarrow> string \<Rightarrow> (go_error, 'w, nat) io" where
  "countResourcesByGVK api p gvk resourceName =
     io_bind (listResourcesByGVK api p gvk resourceName) (\<lambda>items. io_return (length items))"

fun count_projects :: "provisioner \<Rightarrow> kobj list \<Rightarrow> nat \<Rightarrow> nat" where
  "count_projects p [] count = count"
| "count_projects p (item # items) count =
     (if o_Name item = defaultAppProjectName \<and> o_Namespace item = p_mcpNamespace p
      then count_projects p items count else count_projects p items (Suc count))"

definition countUserAppProjects :: "'w kube_client \<Rightarrow> provisioner \<Rightarrow> (go_error, 'w, nat) io" where
  "countUserAppProjects api p =
     io_bind (listResourcesByGVK api p KAppProject ''ArgoCD AppProjects'') (\<lambda>items.
     io_return (count_projects p items 0))"

definition CountUserArgoCDResources :: "'w kube_client \<Rightarrow> provisioner \<Rightarrow> (go_error, 'w, nat) io" where
  "CountUserArgoCDResources api p =
     io_bind (countResourcesByGVK api p KApplication ''ArgoCD Applications'') (\<lambda>applications.
     io_bind (countResourcesByGVK api p KApplicationSet ''ArgoCD ApplicationSets'') (\<lambda>applicationSets.
     io_bind (countUserAppProjects api p) (\<lambda>appProjects.
     io_return (applications + applicationSets + appProjects))))"

section \<open>The endpoint\<close>

text \<open>
  \<^verbatim>\<open>Endpoint\<close> returns the endpoint beside an error as well, but no caller reads it then, so an
  error carries no endpoint here.
\<close>

definition has_address :: "kobj \<Rightarrow> bool" where
  "has_address svc =
     (case o_Body svc of Service t ingress \<Rightarrow> t = ''LoadBalancer'' \<and> ingress \<noteq> [] | _ \<Rightarrow> False)"

definition Endpoint :: "'w kube_client \<Rightarrow> provisioner \<Rightarrow> (go_error, 'w, string \<times> bool) io" where
  "Endpoint api p =
     (if \<not> ev_Enabled (p_exposure p) then io_return ([], True)
      else
        (let endpoint = ''https://'' @ ev_Host (p_exposure p)
         in io_try (api_Get api (mcp_secret p serverTLSSecretName)) (\<lambda>x. case x of
              Inl e \<Rightarrow>
                if IsNotFound e then io_return (endpoint, False)
                else io_error (Wrap ''getting ArgoCD server TLS secret'' e)
            | Inr _ \<Rightarrow>
                io_bind (io_map_error (Wrap ''listing ArgoCD server Services'')
                  (api_List api (p_mcpClient p) KService (Some (p_mcpNamespace p))
                     [(labelPartOf, labelPartOfValue), (labelComponent, labelServerValue)])) (\<lambda>items.
                io_return (endpoint, list_ex has_address items)))))"

end
