(* ===== verification/GoNet.thy ===== *)
theory GoNet
  imports GoStrings
begin

text \<open>
  What the program uses of Go's \<^verbatim>\<open>net/url\<close> and \<^verbatim>\<open>net\<close>: whether
  \<^verbatim>\<open>url.Parse\<close> accepts a string and the \<^verbatim>\<open>Hostname\<close> of what it returns, and whether
  \<^verbatim>\<open>net.ParseCIDR\<close> accepts a string. The functions follow the standard library step by step;
  the texts of the library's error messages are abbreviated.
\<close>

section \<open>Characters and cuts\<close>

definition is_digit :: "char \<Rightarrow> bool" where
  "is_digit c \<longleftrightarrow> 48 \<le> byte c \<and> byte c \<le> 57"

definition is_letter :: "char \<Rightarrow> bool" where
  "is_letter c \<longleftrightarrow> 65 \<le> byte c \<and> byte c \<le> 90 \<or> 97 \<le> byte c \<and> byte c \<le> 122"

definition is_hex :: "char \<Rightarrow> bool" where
  "is_hex c \<longleftrightarrow> is_digit c \<or> 65 \<le> byte c \<and> byte c \<le> 70 \<or> 97 \<le> byte c \<and> byte c \<le> 102"

definition unhex :: "char \<Rightarrow> nat" where
  "unhex c =
     (if is_digit c then byte c - 48 else if byte c \<le> 70 then byte c - 55 else byte c - 87)"

text \<open>\<^verbatim>\<open>strings.Cut\<close> at a byte: what is before it, what follows it, whether it occurs.\<close>

definition cut :: "char \<Rightarrow> string \<Rightarrow> string \<times> string \<times> bool" where
  "cut c s = (takeWhile (\<lambda>x. x \<noteq> c) s, drop (Suc (length (takeWhile (\<lambda>x. x \<noteq> c) s))) s, c \<in> set s)"

text \<open>Before and after the last occurrence of a byte.\<close>

definition before_last :: "char \<Rightarrow> string \<Rightarrow> string" where
  "before_last c s = rev (drop (Suc (length (takeWhile (\<lambda>x. x \<noteq> c) (rev s)))) (rev s))"

definition after_last :: "char \<Rightarrow> string \<Rightarrow> string" where
  "after_last c s = rev (takeWhile (\<lambda>x. x \<noteq> c) (rev s))"

section \<open>IP addresses\<close>

text \<open>A field of an IPv4 address: digits, no leading zero, at most 255.\<close>

definition decimal :: "string \<Rightarrow> nat" where
  "decimal s = foldl (\<lambda>n c. n * 10 + (byte c - 48)) 0 s"

definition ipv4_field :: "string \<Rightarrow> bool" where
  "ipv4_field s \<longleftrightarrow>
     s \<noteq> [] \<and> list_all is_digit s \<and> (length s = 1 \<or> hd s \<noteq> CHR ''0'') \<and> decimal s \<le> 255"

definition ipv4 :: "string \<Rightarrow> bool" where
  "ipv4 s \<longleftrightarrow> length (Split (CHR ''.'') s) = 4 \<and> list_all ipv4_field (Split (CHR ''.'') s)"

text \<open>
  The end of the IPv6 parser after \<open>i\<close> of eight fields, and its loop: a group of one to four hex
  digits, or a trailing IPv4 address, then the end, a colon, or the one ellipsis. The first
  argument bounds the groups still to come.
\<close>

definition ipv6_end :: "nat \<Rightarrow> bool \<Rightarrow> string \<Rightarrow> bool" where
  "ipv6_end i ellipsis s \<longleftrightarrow> s = [] \<and> (if i < 8 then ellipsis else \<not> ellipsis)"

fun ipv6_groups :: "nat \<Rightarrow> nat \<Rightarrow> bool \<Rightarrow> string \<Rightarrow> bool" where
  "ipv6_groups 0 i ellipsis s = ipv6_end i ellipsis s"
| "ipv6_groups (Suc n) i ellipsis s =
     (let hex = takeWhile is_hex s; rest = dropWhile is_hex s in
      if hex = [] \<or> length hex > 4 then False
      else case rest of
        [] \<Rightarrow> ipv6_end (Suc i) ellipsis []
      | c # more \<Rightarrow>
          if c = CHR ''.'' then
            (ellipsis \<or> i = 6) \<and> i + 2 \<le> 8 \<and> ipv4 s \<and> ipv6_end (i + 2) ellipsis []
          else if c \<noteq> CHR '':'' then False
          else case more of
            [] \<Rightarrow> False
          | d # more' \<Rightarrow>
              if d = CHR '':'' then
                \<not> ellipsis \<and>
                (if more' = [] then ipv6_end (Suc i) True [] else ipv6_groups n (Suc i) True more')
              else ipv6_groups n (Suc i) ellipsis more)"

definition ipv6 :: "string \<Rightarrow> bool" where
  "ipv6 s =
     (if starts_with ''::'' s then
        (if length s = 2 then True else ipv6_groups 8 0 True (drop 2 s))
      else ipv6_groups 8 0 False s)"

text \<open>\<^verbatim>\<open>netip.ParseAddr\<close>: the length of the address in bits and its zone.\<close>

definition ParseAddr :: "string \<Rightarrow> (nat \<times> string) option" where
  "ParseAddr s =
     (case dropWhile (\<lambda>c. c \<noteq> CHR ''.'' \<and> c \<noteq> CHR '':'' \<and> c \<noteq> CHR ''%'') s of
        [] \<Rightarrow> None
      | c # _ \<Rightarrow>
          if c = CHR ''.'' then (if ipv4 s then Some (32, []) else None)
          else if c = CHR ''%'' then None
          else
            (let (addr, zone, found) = cut (CHR ''%'') s
             in if found \<and> zone = [] then None
                else if ipv6 addr then Some (128, zone) else None))"

text \<open>\<^verbatim>\<open>net.ParseCIDR\<close> accepts: an address without a zone, and a prefix length of decimal digits.\<close>

definition ParseCIDR_ok :: "string \<Rightarrow> bool" where
  "ParseCIDR_ok s =
     (let (addr, mask, found) = cut (CHR ''/'') s
      in found \<and>
         (case ParseAddr addr of
            None \<Rightarrow> False
          | Some (bits, zone) \<Rightarrow> zone = [] \<and> mask \<noteq> [] \<and> list_all is_digit mask \<and> decimal mask \<le> bits))"

section \<open>URLs\<close>

text \<open>Percent-encoding: the component a string is unescaped for decides which escapes and which bytes
  are accepted.\<close>

datatype component = Host_part | Zone_part | Other_part

definition host_byte :: "char \<Rightarrow> bool" where
  "host_byte c \<longleftrightarrow>
     is_letter c \<or> is_digit c \<or> c \<in> set ''!$&()*+,;=:[]<>-_.~'' \<or> byte c = 34 \<or> byte c = 39"

fun unescape :: "component \<Rightarrow> string \<Rightarrow> go_error + string" where
  "unescape m [] = Inr []"
| "unescape m (c # s) =
     (if c = CHR ''%'' then
        (case s of
           a # b # s' \<Rightarrow>
             if \<not> (is_hex a \<and> is_hex b) then Inl (Errorf ''invalid URL escape'')
             else
               (let v = unhex a * 16 + unhex b in
                if v \<noteq> 37 \<and> (m = Host_part \<and> unhex a < 8 \<or>
                     m = Zone_part \<and> v \<noteq> 32 \<and> \<not> host_byte (char_of v))
                then Inl (Errorf ''invalid URL escape'')
                else map_sum id (\<lambda>t. char_of v # t) (unescape m s'))
         | _ \<Rightarrow> Inl (Errorf ''invalid URL escape''))
      else if m \<noteq> Other_part \<and> byte c < 128 \<and> \<not> host_byte c then
        Inl (Errorf ''invalid character in host name'')
      else map_sum id (\<lambda>t. c # t) (unescape m s))"

text \<open>\<^verbatim>\<open>getScheme\<close>: the scheme (empty when there is none) and the rest.\<close>

fun scheme_chars :: "string \<Rightarrow> string \<Rightarrow> string \<Rightarrow> go_error + string \<times> string" where
  "scheme_chars raw done [] = Inr ([], raw)"
| "scheme_chars raw done (c # s) =
     (if is_letter c then scheme_chars raw (done @ [c]) s
      else if is_digit c \<or> c \<in> set ''+-.'' then
        (if done = [] then Inr ([], raw) else scheme_chars raw (done @ [c]) s)
      else if c = CHR '':'' then
        (if done = [] then Inl (Errorf ''missing protocol scheme'') else Inr (done, s))
      else Inr ([], raw))"

definition getScheme :: "string \<Rightarrow> go_error + string \<times> string" where
  "getScheme raw = scheme_chars raw [] raw"

definition validOptionalPort :: "string \<Rightarrow> bool" where
  "validOptionalPort port \<longleftrightarrow> (case port of [] \<Rightarrow> True | c # ds \<Rightarrow> c = CHR '':'' \<and> list_all is_digit ds)"

fun split_zone :: "string \<Rightarrow> (string \<times> string) option" where
  "split_zone [] = None"
| "split_zone (c # s) =
     (if starts_with ''%25'' (c # s) then Some ([], c # s)
      else map_option (\<lambda>(a, z). (c # a, z)) (split_zone s))"

definition parse_literal :: "string \<Rightarrow> go_error + string" where
  "parse_literal lit =
     (case (case split_zone lit of
              None \<Rightarrow> unescape Host_part lit
            | Some (a, z) \<Rightarrow>
                (case unescape Host_part a of
                   Inl e \<Rightarrow> Inl e
                 | Inr a' \<Rightarrow> map_sum id (\<lambda>z'. a' @ z') (unescape Zone_part z))) of
        Inl e \<Rightarrow> Inl e
      | Inr name \<Rightarrow>
          (case ParseAddr name of
             Some (bits, zone) \<Rightarrow> if bits = 128 then Inr name else Inl (Errorf ''invalid IP-literal'')
           | None \<Rightarrow> Inl (Errorf ''invalid host'')))"

definition parseHost :: "string \<Rightarrow> go_error + string" where
  "parseHost host =
     (if CHR ''['' \<in> set host then
        (if CHR '']'' \<notin> set (after_last (CHR ''['') host) then Inl (Errorf ''missing ] in host'')
         else
           (let colonPort = after_last (CHR '']'') host;
                lit = before_last (CHR '']'') (after_last (CHR ''['') host)
            in if \<not> validOptionalPort colonPort then Inl (Errorf ''invalid port after host'')
               else if before_last (CHR ''['') host \<noteq> [] then Inl (Errorf ''invalid IP-literal'')
               else map_sum id (\<lambda>name. ''['' @ name @ '']'' @ colonPort) (parse_literal lit)))
      else if CHR '':'' \<in> set host \<and>
              \<not> validOptionalPort (drop (length (takeWhile (\<lambda>x. x \<noteq> CHR '':'') host)) host) then
        Inl (Errorf ''invalid port after host'')
      else unescape Host_part host)"

definition validUserinfo :: "string \<Rightarrow> bool" where
  "validUserinfo s \<longleftrightarrow>
     list_all (\<lambda>c. is_letter c \<or> is_digit c \<or> c \<in> set ''-._:~!$&()*+,;=%@'' \<or> byte c = 39) s"

definition parseAuthority :: "string \<Rightarrow> go_error + string" where
  "parseAuthority authority =
     (if CHR ''@'' \<notin> set authority then parseHost authority
      else
        (case parseHost (after_last (CHR ''@'') authority) of
           Inl e \<Rightarrow> Inl e
         | Inr host \<Rightarrow>
             (let userinfo = before_last (CHR ''@'') authority in
              if \<not> validUserinfo userinfo then Inl (Errorf ''net/url: invalid userinfo'')
              else case unescape Other_part userinfo of Inl e \<Rightarrow> Inl e | Inr _ \<Rightarrow> Inr host)))"

text \<open>\<^verbatim>\<open>url.Parse\<close>, reduced to the host of the result.\<close>

definition parse_rest :: "string \<Rightarrow> string \<Rightarrow> go_error + string" where
  "parse_rest scheme rest =
     (if \<not> starts_with ''/'' rest \<and> scheme \<noteq> [] then Inr []
      else if \<not> starts_with ''/'' rest \<and> CHR '':'' \<in> set (fst (cut (CHR ''/'') rest)) then
        Inl (Errorf ''first path segment in URL cannot contain colon'')
      else if (scheme \<noteq> [] \<or> \<not> starts_with ''///'' rest) \<and> starts_with ''//'' rest then
        (let authority = takeWhile (\<lambda>x. x \<noteq> CHR ''/'') (drop 2 rest);
             path = dropWhile (\<lambda>x. x \<noteq> CHR ''/'') (drop 2 rest)
         in case parseAuthority authority of
              Inl e \<Rightarrow> Inl e
            | Inr host \<Rightarrow> map_sum id (\<lambda>_. host) (unescape Other_part path))
      else map_sum id (\<lambda>_. []) (unescape Other_part rest))"

definition url_host :: "string \<Rightarrow> go_error + string" where
  "url_host raw =
     (let (u, frag, _) = cut (CHR ''#'') raw in
      case (if list_ex (\<lambda>c. byte c < 32 \<or> byte c = 127) u then
              Inl (Errorf ''net/url: invalid control character in URL'')
            else if u = ''*'' then Inr []
            else case getScheme u of
              Inl e \<Rightarrow> Inl e
            | Inr (scheme, rest) \<Rightarrow> parse_rest scheme (fst (cut (CHR ''?'') rest))) of
        Inl e \<Rightarrow> Inl (Wrap (''parse '' @ quoted raw) e)
      | Inr host \<Rightarrow>
          (case unescape Other_part frag of
             Inl e \<Rightarrow> Inl (Wrap (''parse '' @ quoted raw) e)
           | Inr _ \<Rightarrow> Inr host))"

text \<open>\<^verbatim>\<open>(*URL).Hostname\<close>.\<close>

definition strip_port :: "string \<Rightarrow> string" where
  "strip_port hostport =
     (let host =
        (if CHR '':'' \<in> set hostport \<and> list_all is_digit (after_last (CHR '':'') hostport)
         then before_last (CHR '':'') hostport else hostport)
      in if starts_with ''['' host \<and> HasSuffix host '']'' then butlast (tl host) else host)"

definition parse_hostname :: "string \<Rightarrow> go_error + string" where
  "parse_hostname raw = map_sum id strip_port (url_host raw)"

section \<open>Examples and facts\<close>

lemma parse_examples:
  "parse_hostname ''https://api.dev.example.com:443/x?y#z'' = Inr ''api.dev.example.com''"
  "parse_hostname ''api.dev.example.com'' = Inr []"
  "parse_hostname ''api.dev.example.com:443'' = Inr []"
  "parse_hostname ''https://[::1]:6443'' = Inr ''::1''"
  "isl (parse_hostname ''1.2.3.4:443'')" "isl (parse_hostname ''https://a b'')"
  "isl (parse_hostname ''https://api.x.y:80:90'')" "isl (parse_hostname ''https://x[::1]'')"
  by code_simp+

lemma cidr_examples:
  "ParseCIDR_ok ''203.0.113.0/24''" "ParseCIDR_ok ''2001:db8::/32''" "ParseCIDR_ok ''::ffff:10.0.0.1/96''"
  "\<not> ParseCIDR_ok ''203.0.113.5''" "\<not> ParseCIDR_ok ''203.0.113.0/33''" "\<not> ParseCIDR_ok ''10.0.0.01/8''"
  "\<not> ParseCIDR_ok ''fe80::1%eth0/64''" "\<not> ParseCIDR_ok ''1:2:3:4:5:6:7:8:9/64''" "\<not> ParseCIDR_ok ''1::2::3/64''"
  by code_simp+

lemma cut_append:
  "c \<in> set s \<Longrightarrow> takeWhile (\<lambda>x. x \<noteq> c) s @ c # drop (Suc (length (takeWhile (\<lambda>x. x \<noteq> c) s))) s = s"
  by (induction s) auto

lemma ParseAddr_bits: "ParseAddr s = Some (bits, zone) \<Longrightarrow> bits = 32 \<or> bits = 128"
  by (auto simp: ParseAddr_def Let_def split: list.splits if_splits prod.splits)

text \<open>An accepted range names a prefix that fits its address.\<close>

lemma ParseCIDR_bounds:
  assumes "ParseCIDR_ok s"
  shows "\<exists>addr mask bits. s = addr @ ''/'' @ mask \<and> ParseAddr addr = Some (bits, []) \<and>
    (bits = 32 \<or> bits = 128) \<and> mask \<noteq> [] \<and> list_all is_digit mask \<and> decimal mask \<le> bits"
proof -
  let ?addr = "takeWhile (\<lambda>x. x \<noteq> CHR ''/'') s"
  let ?mask = "drop (Suc (length ?addr)) s"
  have found: "CHR ''/'' \<in> set s" using assms by (simp add: ParseCIDR_ok_def cut_def)
  then have s: "s = ?addr @ ''/'' @ ?mask" using cut_append [of "CHR ''/''" s] by simp
  show ?thesis
    using assms s ParseAddr_bits
    by (intro exI [of _ ?addr] exI [of _ ?mask])
       (fastforce simp: ParseCIDR_ok_def cut_def split: option.splits)
qed

end
