(* ===== verification/Controller.thy ===== *)
theory Controller
  imports Provisioner GoNet
begin

text \<open>
  \<^verbatim>\<open>internal/controller/provider_controller.go\<close>: the reconciler. A handler takes the ArgoCD
  resource and the world and returns the resource with the status it leaves, the outcome (an
  error, or the interval after which to come back, 0 for none) and the world. What the handlers
  call outside the repository is the record \<open>env\<close>: the client, the status helpers, the decoding
  libraries, \<^verbatim>\<open>StableMCPNamespace\<close> and the operation annotation's constants. The
  ProviderConfig a handler gets is never nil. Log output is not modelled.
\<close>

section \<open>Constants\<close>

definition reasonReconciling :: string where "reasonReconciling = ''Reconciling''"
definition reasonInvalidVersion :: string where "reasonInvalidVersion = ''InvalidVersion''"
definition reasonInvalidExposure :: string where "reasonInvalidExposure = ''InvalidExposure''"
definition reasonEndpointPending :: string where "reasonEndpointPending = ''EndpointPending''"
definition reasonInstallFailed :: string where "reasonInstallFailed = ''InstallFailed''"
definition reasonUninstalling :: string where "reasonUninstalling = ''Uninstalling''"
definition reasonProvisionerCreationFailed :: string where
  "reasonProvisionerCreationFailed = ''ProvisionerCreationFailed''"
definition reasonReadinessCheckFailed :: string where
  "reasonReadinessCheckFailed = ''ReadinessCheckFailed''"
definition reasonFailedToListApplications :: string where
  "reasonFailedToListApplications = ''FailedToListApplications''"
definition reasonTerminating :: string where "reasonTerminating = ''Terminating''"

definition requeueInterval :: int where "requeueInterval = 10 * second"

section \<open>State and surroundings\<close>

record ArgoCDReconciler =
  OnboardingCluster :: cluster
  PlatformCluster :: cluster
  PodNamespace :: string

record ClusterContext =
  MCPCluster :: cluster
  APIServerEndpoint :: string
  MCPAccessSecret_Namespace :: string
  MCPAccessSecret_Name :: string

record 'w env =
  env_api :: "'w kube_client"
  env_status :: status_lib
  env_values :: values_lib
  StableMCPNamespace :: "string \<Rightarrow> string \<Rightarrow> go_error + string"
  OperationAnnotation :: string
  OperationAnnotationValueIgnore :: string
  OperationAnnotationValueReconcile :: string

type_synonym outcome = "go_error + int"

section \<open>Exposure\<close>

text \<open>
  With the flag \<^verbatim>\<open>(?i)\<close> a class contains every rune that folds to one of its members: for
  \<^verbatim>\<open>[a-z]\<close> also the long s (U+017F) and the Kelvin sign (U+212A).
\<close>

definition host_end_class :: "(nat \<times> nat) list" where
  "host_end_class = [(97, 122), (48, 57), (65, 90), (383, 383), (8490, 8490)]"

definition host_mid_class :: "(nat \<times> nat) list" where
  "host_mid_class = [(97, 122), (48, 57), (45, 45), (65, 90), (383, 383), (8490, 8490)]"

definition hostPattern :: rexp where
  "hostPattern = dotted (label host_end_class (Upto 61 (Class host_mid_class)))"

definition deriveRootDomain :: "string \<Rightarrow> go_error + string" where
  "deriveRootDomain serverURL0 =
     (let serverURL = TrimSpace serverURL0 in
      if serverURL = [] then Inl (Errorf ''empty apiserver URL'')
      else case parse_hostname serverURL of
        Inl e \<Rightarrow> Inl (Wrap (''parsing apiserver URL '' @ quoted serverURL) e)
      | Inr hostname \<Rightarrow>
          (let host = (if hostname = [] then serverURL else hostname);
               labels = Split (CHR ''.'') host
           in if length labels < 3 \<or> hd labels \<noteq> ''api'' then
                Inl (Errorf (''apiserver host '' @ quoted host @ '' is not shaped like '' @
                  quoted ''api.<domain>'' @ ''; cannot derive base domain''))
              else Inr (Join (tl labels) ''.'')))"

definition composeHost :: "string \<Rightarrow> string \<Rightarrow> go_error + string" where
  "composeHost host0 mcpAPIServerHost =
     (let host = TrimSuffix (TrimSpace host0) ''.'' in
      if CHR ''.'' \<in> set host then Inr host
      else case deriveRootDomain mcpAPIServerHost of
        Inl e \<Rightarrow> Inl (Wrap (''spec.exposure.host '' @ quoted host @
            '' is a bare label but the base domain could not be derived from the MCP apiserver host'') e)
      | Inr baseDomain \<Rightarrow> Inr (host @ ''.'' @ baseDomain))"

fun check_cidrs :: "string list \<Rightarrow> go_error + unit" where
  "check_cidrs [] = Inr ()"
| "check_cidrs (cidr # cidrs) =
     (if \<not> ParseCIDR_ok (TrimSpace cidr) then
        Inl (Wrap (''spec.exposure.allowedIPs entry '' @ quoted cidr @
               '' is not a valid CIDR range (for example 203.0.113.0/24 or 203.0.113.5/32)'')
             (Errorf (''invalid CIDR address: '' @ TrimSpace cidr)))
      else check_cidrs cidrs)"

definition validateExposure :: "ArgoCD \<Rightarrow> string \<Rightarrow> go_error + unit" where
  "validateExposure obj mcpAPIServerHost =
     (case spec_Exposure (Spec obj) of
        None \<Rightarrow> Inr ()
      | Some e \<Rightarrow>
          if se_Host e = [] then Inl (Errorf ''spec.exposure.host is required when spec.exposure is set'')
          else if \<not> MatchString hostPattern (se_Host e) then
            Inl (Errorf (''spec.exposure.host '' @ quoted (se_Host e) @
              '' is not a valid DNS name: each label must be 1-63 characters, start and end with an alphanumeric, and contain only letters, digits or hyphens''))
          else case check_cidrs (se_AllowedIPs e) of
            Inl err \<Rightarrow> Inl err
          | Inr _ \<Rightarrow>
              (case composeHost (se_Host e) mcpAPIServerHost of
                 Inl err \<Rightarrow> Inl err
               | Inr fqdn \<Rightarrow>
                   if length fqdn > 253 then
                     Inl (Errorf (''resolved exposure host '' @ quoted fqdn @
                       '' exceeds the maximum DNS name length of 253 characters''))
                   else Inr ()))"

definition resolveExposure :: "ArgoCD \<Rightarrow> ProviderConfig option \<Rightarrow> string \<Rightarrow> ExposureValues" where
  "resolveExposure obj pc mcpAPIServerHost =
     (case spec_Exposure (Spec obj) of
        None \<Rightarrow> zero_exposure
      | Some e \<Rightarrow>
          (let policy = effective_policy pc;
               reloaderEnabled = snd (effective_reloader pc);
               host = (case composeHost (se_Host e) mcpAPIServerHost of Inl _ \<Rightarrow> se_Host e | Inr h \<Rightarrow> h)
           in \<lparr>ev_Enabled = True, ev_Host = host, ev_AllowedIPs = se_AllowedIPs e,
               ev_DNSClass = ep_DNSClass policy, ev_DNSTTL = ep_DNSTTL policy,
               ev_CertPurpose = ep_CertPurpose policy, ev_ReloaderEnabled = reloaderEnabled\<rparr>))"

section \<open>Building the provisioner\<close>

definition resolveReloader :: "ProviderConfig option \<Rightarrow> ReloaderConfig option" where
  "resolveReloader pc =
     (case effective_reloader pc of (cfg, ok) \<Rightarrow> if \<not> ok then None else Some cfg)"

definition resolveVaultPlugin :: "ArgoCD \<Rightarrow> ProviderConfig option \<Rightarrow> bool" where
  "resolveVaultPlugin obj pc =
     (if \<not> VaultPluginEnabled pc then False
      else case spec_VaultPlugin (Spec obj) of None \<Rightarrow> False | Some v \<Rightarrow> vp_Enabled v)"

definition providerNamespace :: "ArgoCD option \<Rightarrow> string" where
  "providerNamespace obj = (case obj of None \<Rightarrow> [] | Some obj \<Rightarrow> spec_NamespaceOverride (Spec obj))"

definition newProvisioner ::
  "'w env \<Rightarrow> ArgoCDReconciler \<Rightarrow> ArgoCD \<Rightarrow> ProviderConfig \<Rightarrow> ClusterContext \<Rightarrow> go_error + provisioner" where
  "newProvisioner env r obj pc ctx =
     (case (if MCPAccessSecret_Namespace ctx = [] then
              (case StableMCPNamespace env (Name obj) (Namespace obj) of
                 Inl e \<Rightarrow> Inl (Wrap ''determining tenant namespace'' e)
               | Inr ns \<Rightarrow> Inr ns)
            else Inr (MCPAccessSecret_Namespace ctx)) of
        Inl e \<Rightarrow> Inl e
      | Inr tenantNamespace \<Rightarrow>
          (let (vaultRegistry, vaultTag) = VaultPluginImage (Some pc)
           in Inr (NewProvisioner
                \<lparr>cfg_PlatformClient = PlatformCluster r,
                 cfg_MCPClient = MCPCluster ctx,
                 cfg_TenantNamespace = tenantNamespace,
                 cfg_MCPNamespace = providerNamespace (Some obj),
                 cfg_KubeConfigSecretName = MCPAccessSecret_Name ctx,
                 cfg_PodNamespace = PodNamespace r,
                 cfg_PollInterval = PollInterval pc,
                 cfg_Exposure = resolveExposure obj (Some pc) (APIServerEndpoint ctx),
                 cfg_Reloader = resolveReloader (Some pc),
                 cfg_CABundleSecret = CABundleSecret (Some pc),
                 cfg_CABundleSourceNamespace = PodNamespace r,
                 cfg_VaultPluginEnabled = resolveVaultPlugin obj (Some pc),
                 cfg_VaultPluginRegistry = vaultRegistry,
                 cfg_VaultPluginTag = vaultTag,
                 cfg_VaultPluginOpenSource = OpenSource (Some pc)\<rparr>)))"

section \<open>Watched secrets\<close>

definition versionReferencesSecret :: "ArgoCDVersion \<Rightarrow> string \<Rightarrow> bool" where
  "versionReferencesSecret version secretName =
     (if v_ChartPullSecret version = secretName then True
      else case ImagePullSecretNames (v_Values version) of
        Inl e \<Rightarrow> False
      | Inr names \<Rightarrow> list_ex (\<lambda>name. name = secretName) names)"

definition IsReferencedSecret ::
  "ArgoCDReconciler \<Rightarrow> kobj option \<Rightarrow> ProviderConfig option \<Rightarrow> bool" where
  "IsReferencedSecret r secret pc =
     (case (secret, pc) of
        (Some s, Some c) \<Rightarrow>
          if o_Namespace s \<noteq> PodNamespace r then False
          else if list_ex (\<lambda>version. versionReferencesSecret version (o_Name s)) (pc_Versions (pc_Spec c))
          then True
          else (case pc_Reloader (pc_Spec c) of None \<Rightarrow> False | Some cfg \<Rightarrow> rl_ChartPullSecret cfg = o_Name s)
      | _ \<Rightarrow> False)"

section \<open>Create and update\<close>

definition handleOperationAnnotation ::
  "'w env \<Rightarrow> ArgoCDReconciler \<Rightarrow> ArgoCD \<Rightarrow> (go_error, 'w, bool \<times> ArgoCD) io" where
  "handleOperationAnnotation env r obj =
     (case map_of (Annotations obj) (OperationAnnotation env) of
        None \<Rightarrow> io_return (False, obj)
      | Some value \<Rightarrow>
          if value = OperationAnnotationValueIgnore env then io_return (True, obj)
          else if value = OperationAnnotationValueReconcile env then
            io_bind (io_map_error (Wrap ''failed to remove reconcile operation annotation'')
              (api_RemoveAnnotation (env_api env) (OnboardingCluster r) (OperationAnnotation env)
                 (OperationAnnotationValueReconcile env) obj)) (\<lambda>obj'. io_return (False, obj'))
          else io_return (False, obj))"

definition reconcileEndpoint ::
  "'w env \<Rightarrow> provisioner \<Rightarrow> ArgoCD \<Rightarrow> 'w \<Rightarrow> (ArgoCD \<times> outcome) \<times> 'w" where
  "reconcileEndpoint env p obj w =
     (case Endpoint (env_api env) p w of
        (Inl e, w') \<Rightarrow> ((obj, Inl e), w')
      | (Inr (endpoint, ready), w') \<Rightarrow>
          if \<not> ready then
            ((StatusProgressing (env_status env) reasonEndpointPending
                ''waiting for LoadBalancer address and managed TLS certificate'' (set_endpoint [] obj),
              Inr requeueInterval), w')
          else ((StatusReady (env_status env) (set_endpoint endpoint obj), Inr 0), w'))"

text \<open>
  The part of \<^verbatim>\<open>CreateOrUpdate\<close> from \<^verbatim>\<open>provisioner.Install\<close> on. The certificate that
  \<^verbatim>\<open>Install\<close> stores in the provisioner is not read by what follows.
\<close>

definition install_and_report ::
  "'w env \<Rightarrow> provisioner \<Rightarrow> ArgoCDVersion \<Rightarrow> ArgoCD \<Rightarrow> 'w \<Rightarrow> (ArgoCD \<times> outcome) \<times> 'w" where
  "install_and_report env p version obj w =
     (case Install (env_values env) (env_api env) p version w of
        (Inl e, w1) \<Rightarrow> ((StatusFailed (env_status env) reasonInstallFailed (Error e) obj, Inl e), w1)
      | (Inr _, w1) \<Rightarrow>
          (case Ready (env_api env) p w1 of
             (Inl e, w2) \<Rightarrow>
               ((StatusFailed (env_status env) reasonReadinessCheckFailed (Error e) obj, Inl e), w2)
           | (Inr (ready, message), w2) \<Rightarrow>
               if \<not> ready then
                 ((StatusProgressing (env_status env) reasonReconciling message obj,
                   Inr requeueInterval), w2)
               else if spec_Exposure (Spec obj) = None then
                 ((StatusReady (env_status env) (set_endpoint [] obj), Inr 0), w2)
               else reconcileEndpoint env p obj w2))"

definition invalid_version_message :: "string \<Rightarrow> string" where
  "invalid_version_message v =
     ''requested version '' @ quoted v @ '' is not offered by the provider configuration''"

definition CreateOrUpdate ::
  "'w env \<Rightarrow> ArgoCDReconciler \<Rightarrow> ProviderConfig \<Rightarrow> ClusterContext \<Rightarrow> ArgoCD \<Rightarrow> 'w \<Rightarrow>
   (ArgoCD \<times> outcome) \<times> 'w" where
  "CreateOrUpdate env r pc ctx obj0 w =
     (case handleOperationAnnotation env r obj0 w of
        (Inl e, w1) \<Rightarrow> ((obj0, Inl e), w1)
      | (Inr (skip, obj1), w1) \<Rightarrow>
          if skip then ((obj1, Inr 0), w1)
          else
            (let obj = StatusProgressing (env_status env) reasonReconciling ''Reconcile is in progress'' obj1;
                 (version, ok) = SelectVersion pc (spec_Version (Spec obj))
             in if \<not> ok then
                  ((StatusFailed (env_status env) reasonInvalidVersion
                      (invalid_version_message (spec_Version (Spec obj))) obj, Inr 0), w1)
                else case validateExposure obj (APIServerEndpoint ctx) of
                  Inl e \<Rightarrow>
                    ((StatusFailed (env_status env) reasonInvalidExposure (Error e) obj, Inr 0), w1)
                | Inr _ \<Rightarrow>
                    (case newProvisioner env r obj pc ctx of
                       Inl e \<Rightarrow>
                         ((StatusFailed (env_status env) reasonProvisionerCreationFailed (Error e) obj, Inl e), w1)
                     | Inr p \<Rightarrow> install_and_report env p version obj w1)))"

section \<open>Delete\<close>

text \<open>\<^verbatim>\<open>Delete\<close> from \<^verbatim>\<open>provisioner.Uninstall\<close> on.\<close>

definition uninstall_and_report ::
  "'w env \<Rightarrow> provisioner \<Rightarrow> ArgoCD \<Rightarrow> 'w \<Rightarrow> (ArgoCD \<times> outcome) \<times> 'w" where
  "uninstall_and_report env p obj w =
     (case Uninstall (env_api env) p w of
        (Inl e, w1) \<Rightarrow> ((StatusFailed (env_status env) reasonUninstalling (Error e) obj, Inl e), w1)
      | (Inr _, w1) \<Rightarrow>
          (case IsUninstalled (env_api env) p w1 of
             (Inl e, w2) \<Rightarrow> ((StatusFailed (env_status env) reasonUninstalling (Error e) obj, Inl e), w2)
           | (Inr uninstalled, w2) \<Rightarrow>
               if \<not> uninstalled then ((obj, Inr requeueInterval), w2)
               else (case RemoveCABundle (env_api env) p w2 of
                       (Inl e, w3) \<Rightarrow> ((obj, Inl e), w3)
                     | (Inr _, w3) \<Rightarrow> ((obj, Inr 0), w3))))"

definition Delete ::
  "'w env \<Rightarrow> ArgoCDReconciler \<Rightarrow> ProviderConfig \<Rightarrow> ClusterContext \<Rightarrow> ArgoCD \<Rightarrow> 'w \<Rightarrow>
   (ArgoCD \<times> outcome) \<times> 'w" where
  "Delete env r pc ctx obj0 w =
     (let obj = StatusTerminatingWithReason (env_status env) reasonTerminating
                  ''Resource termination initiated; cleanup tasks are in progress'' obj0
      in case newProvisioner env r obj pc ctx of
           Inl e \<Rightarrow>
             ((StatusFailed (env_status env) reasonProvisionerCreationFailed (Error e) obj, Inl e), w)
         | Inr p \<Rightarrow>
             (case CountUserArgoCDResources (env_api env) p w of
                (Inl e, w1) \<Rightarrow>
                  ((StatusFailed (env_status env) reasonFailedToListApplications (Error e) obj, Inl e), w1)
              | (Inr appsCount, w1) \<Rightarrow>
                  if appsCount > 0 then
                    ((StatusTerminatingWithReason (env_status env) reasonTerminating
                        ''deletion blocked: ArgoCD CR(s) still present'' obj, Inr requeueInterval), w1)
                  else uninstall_and_report env p obj w1))"

end
