(* ===== verification/Values_Correct.thy ===== *)
theory Values_Correct
  imports Values
begin

text \<open>
  What \<^verbatim>\<open>values.go\<close> guarantees: the host keys are exactly the dotted host names, the
  certificate loop stops, the bundle templates always render, the layers keep their precedence and
  what they carry, and the result depends on the operator's document and not on the order in which
  Go happens to visit a map.
\<close>

section \<open>Host names\<close>

definition alnum :: "char \<Rightarrow> bool" where
  "alnum c \<longleftrightarrow> (48 \<le> byte c \<and> byte c \<le> 57) \<or> (65 \<le> byte c \<and> byte c \<le> 90) \<or>
     (97 \<le> byte c \<and> byte c \<le> 122)"

text \<open>An RFC 1123 label without its length limit.\<close>

definition host_label :: "string \<Rightarrow> bool" where
  "host_label l \<longleftrightarrow> l \<noteq> [] \<and> alnum (hd l) \<and> alnum (last l) \<and> (\<forall>c \<in> set l. alnum c \<or> c = CHR ''-'')"

lemma byte_inj: "byte c = byte d \<longleftrightarrow> c = d"
  by (simp add: byte_def)

lemma byte_dot: "byte c = 46 \<longleftrightarrow> c = CHR ''.''"
  using byte_inj [of c "CHR ''.''"] by (simp add: byte_def)

lemma byte_hyphen: "byte c = 45 \<longleftrightarrow> c = CHR ''-''"
  using byte_inj [of c "CHR ''-''"] by (simp add: byte_def)

lemma Split_map_byte: "Split 46 (map byte s) = map (map byte) (Split (CHR ''.'') s)"
proof (induction s)
  case Nil
  then show ?case by simp
next
  case (Cons c s)
  obtain y ys where "Split (CHR ''.'') s = y # ys" by (cases "Split (CHR ''.'') s") auto
  with Cons show ?case by (simp add: byte_dot)
qed

lemma Split_set: "\<Union> (set ` set (Split c s)) = set s - {c}"
proof (induction s)
  case Nil
  then show ?case by simp
next
  case (Cons a s)
  obtain y ys where "Split c s = y # ys" by (cases "Split c s") auto
  with Cons show ?case by auto
qed

text \<open>
  A dotted pattern whose classes are ASCII accepts a string exactly when the string is ASCII and
  each of its dot-separated labels is accepted.
\<close>

lemma dotted_match:
  assumes ascii_class: "\<And>x. x \<in> lang l \<Longrightarrow> 46 \<notin> set x \<and> (\<forall>r \<in> set x. r < 128)"
  shows "MatchString (dotted l) s \<longleftrightarrow>
     ascii s \<and> (\<forall>x \<in> set (Split (CHR ''.'') s). map byte x \<in> lang l)"
proof -
  have "MatchString (dotted l) s \<longleftrightarrow> (\<forall>x \<in> set (Split 46 (runes s)). x \<in> lang l)"
    unfolding MatchString_def accepts_iff using ascii_class by (intro dotted_lang) blast
  also have "\<dots> \<longleftrightarrow> ascii s \<and> (\<forall>x \<in> set (Split 46 (runes s)). x \<in> lang l)"
  proof -
    have "ascii s" if all: "\<forall>x \<in> set (Split 46 (runes s)). x \<in> lang l"
    proof -
      have "\<forall>r \<in> set (runes s) - {46}. r < 128"
        using all ascii_class unfolding Split_set [symmetric] by blast
      then show ?thesis by (auto simp: ascii_iff_runes)
    qed
    then show ?thesis by blast
  qed
  finally show ?thesis by (auto simp: runes_ascii Split_map_byte)
qed

lemma in_alnum: "in_class alnum_class (byte c) \<longleftrightarrow> alnum c"
  by (auto simp: in_class_def alnum_class_def alnum_def)

lemma in_alnum_hyphen: "in_class alnum_hyphen_class (byte c) \<longleftrightarrow> alnum c \<or> c = CHR ''-''"
  by (auto simp: in_class_def alnum_hyphen_class_def alnum_def byte_hyphen [symmetric])

lemma alnum_sub: "in_class alnum_class r \<Longrightarrow> in_class alnum_hyphen_class r"
  by (auto simp: in_class_def alnum_hyphen_class_def alnum_class_def)

lemma alnum_hyphen_ascii: "in_class alnum_hyphen_class r \<Longrightarrow> r \<noteq> 46 \<and> r < 128"
  by (auto simp: in_class_def alnum_hyphen_class_def)

lemma label_shape_bytes:
  "label_shape alnum_class alnum_hyphen_class (map byte x) \<longleftrightarrow> host_label x"
  by (cases "x = []") (auto simp: label_shape_def host_label_def in_alnum in_alnum_hyphen
      hd_map last_map)

lemma label_shape_ascii:
  "label_shape alnum_class alnum_hyphen_class x \<Longrightarrow> 46 \<notin> set x \<and> (\<forall>r \<in> set x. r < 128)"
  using alnum_hyphen_ascii by (auto simp: label_shape_def)

lemma host_label_ascii: "host_label l \<Longrightarrow> ascii l"
  by (auto simp: host_label_def ascii_def alnum_def byte_hyphen [symmetric])

lemma Split_ascii: "(\<forall>x \<in> set (Split (CHR ''.'') s). ascii x) \<Longrightarrow> ascii s"
proof -
  assume all: "\<forall>x \<in> set (Split (CHR ''.'') s). ascii x"
  have "byte c < 128" if "c \<in> set s" for c
  proof (cases "c = CHR ''.''")
    case True
    then show ?thesis by (simp add: byte_def)
  next
    case False
    with that have "c \<in> \<Union> (set ` set (Split (CHR ''.'') s))" by (simp add: Split_set)
    with all show ?thesis by (auto simp: ascii_def)
  qed
  then show ?thesis by (simp add: ascii_def)
qed

lemma isValidHostKey_iff:
  "isValidHostKey host \<longleftrightarrow> length host \<le> 253 \<and> (\<forall>l \<in> set (Split (CHR ''.'') host). host_label l)"
proof -
  have "MatchString hostKeyPattern host \<longleftrightarrow>
      ascii host \<and> (\<forall>l \<in> set (Split (CHR ''.'') host). host_label l)"
    unfolding hostKeyPattern_def
    by (subst dotted_match)
       (simp_all add: label_star_lang [OF alnum_sub] label_shape_bytes label_shape_ascii)
  moreover have "\<forall>l \<in> set (Split (CHR ''.'') host). host_label l \<Longrightarrow> ascii host"
    using host_label_ascii Split_ascii by blast
  moreover have "host = [] \<Longrightarrow> \<not> (\<forall>l \<in> set (Split (CHR ''.'') host). host_label l)"
    by (simp add: host_label_def)
  ultimately show ?thesis by (auto simp: isValidHostKey_def)
qed

section \<open>Certificates\<close>

lemma parse_loop_stops:
  "pem_progress lib \<Longrightarrow> length rest < n \<Longrightarrow> \<exists>r. parse_loop lib n rest certs = Some r"
proof (induction lib n rest certs rule: parse_loop.induct)
  case (1 lib rest certs)
  then show ?case by simp
next
  case (2 lib n rest certs)
  show ?case
  proof (cases "pem_Decode lib rest")
    case None
    then show ?thesis by simp
  next
    case (Some br)
    obtain block rest' where br: "br = (block, rest')" by (cases br)
    have "length rest' < n" using 2 Some br by (fastforce simp: pem_progress_def)
    then show ?thesis using 2 Some br by (auto split: sum.split)
  qed
qed

lemma parse_loop_more: "parse_loop lib n rest certs = Some r \<Longrightarrow> parse_loop lib (n + k) rest certs = Some r"
  by (induction lib n rest certs rule: parse_loop.induct)
     (auto split: option.splits sum.splits if_splits)

lemma collect_names_set:
  "set (collect_names names hosts) = set hosts \<union> {n \<in> set names. isValidHostKey n}"
  by (induction names hosts rule: collect_names.induct) auto

lemma collect_names_distinct: "distinct hosts \<Longrightarrow> distinct (collect_names names hosts)"
  by (induction names hosts rule: collect_names.induct) auto

lemma collectDNSHosts_gen:
  "set (foldl (\<lambda>hosts cert. collect_names (DNSNames cert) hosts) hs certs) =
     set hs \<union> {n. \<exists>c \<in> set certs. n \<in> set (DNSNames c) \<and> isValidHostKey n}"
  by (induction certs arbitrary: hs) (auto simp: collect_names_set)

lemma collectDNSHosts_set:
  "set (collectDNSHosts certs) = {n. \<exists>c \<in> set certs. n \<in> set (DNSNames c) \<and> isValidHostKey n}"
  by (simp add: collectDNSHosts_def collectDNSHosts_gen)

lemma collectDNSHosts_distinct: "distinct (collectDNSHosts certs)"
proof -
  have "distinct hs \<Longrightarrow> distinct (foldl (\<lambda>hosts cert. collect_names (DNSNames cert) hosts) hs certs)" for hs
    by (induction certs arbitrary: hs) (auto simp: collect_names_distinct)
  then show ?thesis by (simp add: collectDNSHosts_def)
qed

lemma parseCertificates_ne: "parseCertificates lib ca = Inr certs \<Longrightarrow> certs \<noteq> []"
  by (auto simp: parseCertificates_def split: option.splits sum.splits if_splits)

lemma certHostnames_ok:
  assumes "certHostnames lib ca = Inr hosts"
  obtains certs where "parseCertificates lib ca = Inr certs" "certs \<noteq> []"
    and "hosts = (if collectDNSHosts certs = [] then [Subject_CommonName (hd certs)]
                  else collectDNSHosts certs)"
    and "hosts \<noteq> []" "distinct hosts" "\<forall>h \<in> set hosts. isValidHostKey h"
proof -
  from assms obtain certs where c: "parseCertificates lib ca = Inr certs"
    by (auto simp: certHostnames_def split: sum.splits)
  let ?hs = "collectDNSHosts certs" and ?cn = "Subject_CommonName (hd certs)"
  from assms c have h: "hosts = (if ?hs = [] \<and> isValidHostKey ?cn then ?hs @ [?cn] else ?hs)"
    and ne: "hosts \<noteq> []"
    by (auto simp: certHostnames_def Let_def split: if_splits)
  have v: "?hs = [] \<Longrightarrow> isValidHostKey ?cn" using h ne by (auto split: if_splits)
  show thesis
  proof (rule that [OF c parseCertificates_ne [OF c] _ ne])
    show "hosts = (if ?hs = [] then [?cn] else ?hs)" using h v by auto
    show "distinct hosts" using h collectDNSHosts_distinct [of certs] by auto
    show "\<forall>h \<in> set hosts. isValidHostKey h"
      using h v collectDNSHosts_set [of certs] by (auto split: if_splits)
  qed
qed

lemma certificates_of_map:
  "map_of (certificates_of ca hosts) h = (if h \<in> set hosts then Some (JStr ca) else None)"
proof -
  have "map_of (foldl (\<lambda>m host. AList.update host (JStr ca) m) m hosts) h =
      (if h \<in> set hosts then Some (JStr ca) else map_of m h)" for m
    by (induction hosts arbitrary: m) (auto simp: maps_simps)
  then show ?thesis by (simp add: certificates_of_def)
qed

lemma wf_certificates_of: "wf_json (JObj (certificates_of ca hosts))"
proof -
  have "wf_json (JObj m) \<Longrightarrow> wf_json (JObj (foldl (\<lambda>m host. AList.update host (JStr ca) m) m hosts))" for m
    by (induction hosts arbitrary: m) (simp_all add: wf_update del: wf_json.simps(2))
  from this [of "[]"] show ?thesis by (simp add: certificates_of_def)
qed

section \<open>The bundles\<close>

lemma bundle_source_fields: "set (fields_of (bundle_source b)) \<subseteq> bundle_fields"
  by (simp add: bundle_source_def internal_fields open_source_fields)

lemma template_data_fields: "p \<in> bundle_fields \<Longrightarrow> jget (template_data v r ver) p \<noteq> None"
  by (auto simp: bundle_fields_def template_data_def)

lemma bundle_renders: "\<exists>ss. execute_template (template_data v r ver) (bundle_source b) = Inr ss"
  unfolding execute_template_ok using bundle_source_fields template_data_fields by blast

section \<open>Layers\<close>

text \<open>The three overlays; a layer that is switched off is empty.\<close>

definition vault_layer :: "values_lib \<Rightarrow> jmap \<Rightarrow> vaultPluginValues \<Rightarrow> string \<Rightarrow> go_error + jmap" where
  "vault_layer lib values vp version =
     (if vpv_enabled vp then
        (case globalImageRepository values of
           Inl e \<Rightarrow> Inl (Wrap ''loading vault plugin values'' e)
         | Inr repository \<Rightarrow>
             (case vaultPluginFragment lib vp repository version of
                Inl e \<Rightarrow> Inl (Wrap ''loading vault plugin values'' e) | Inr f \<Rightarrow> Inr f))
      else Inr [])"

definition exposure_layer :: "ExposureValues \<Rightarrow> jmap" where
  "exposure_layer e = (if ev_Enabled e then exposureFragment e else [])"

definition ca_layer :: "values_lib \<Rightarrow> string \<Rightarrow> go_error + jmap" where
  "ca_layer lib ca =
     (if ca \<noteq> [] then (case caBundleFragment lib ca of
        Inl e \<Rightarrow> Inl (Wrap ''building CA bundle values'' e) | Inr f \<Rightarrow> Inr f) else Inr [])"

lemma mergeFragments_layers:
  "mergeFragments lib values e ca vp version =
     (case vault_layer lib values vp version of
        Inl err \<Rightarrow> Inl err
      | Inr v \<Rightarrow>
          (case ca_layer lib ca of
             Inl err \<Rightarrow> Inl err
           | Inr c \<Rightarrow> Inr (deepMerge (deepMerge (deepMerge values v) (exposure_layer e)) c)))"
  by (auto simp: mergeFragments_def mergeVaultPlugin_def vault_layer_def exposure_layer_def
      ca_layer_def Let_def split: sum.split)

lemma wf_exposureFragment: "wf_json (JObj (exposureFragment e))"
  by (simp add: exposureFragment_def Let_def toAnySlice_def)

lemma wf_exposure_layer: "wf_json (JObj (exposure_layer e))"
  using wf_exposureFragment by (simp add: exposure_layer_def del: wf_json.simps(2)) simp

lemma ca_layer_ok:
  "ca_layer lib ca = Inr c \<longleftrightarrow>
     (ca = [] \<and> c = []) \<or>
     (ca \<noteq> [] \<and> (\<exists>hosts. certHostnames lib ca = Inr hosts \<and>
        c = [(''configs'', JObj [(''tls'', JObj [(''certificates'', JObj (certificates_of ca hosts))])])]))"
  by (auto simp: ca_layer_def caBundleFragment_def split: sum.splits)

lemma wf_ca_layer: "ca_layer lib ca = Inr c \<Longrightarrow> wf_json (JObj c)"
  using wf_certificates_of by (auto simp: ca_layer_ok simp del: wf_json.simps(2)) (auto simp: wf_json.simps(2))

text \<open>A JSON document decodes into a Go map, whose keys are distinct at every level.\<close>

definition yaml_wf :: "values_lib \<Rightarrow> bool" where
  "yaml_wf lib \<longleftrightarrow> (\<forall>s v. YAMLToJSON lib s = Inr v \<longrightarrow> wf_json v)"

definition raw_wf :: "raw_json option \<Rightarrow> bool" where
  "raw_wf r \<longleftrightarrow> (case r of Some (RawObject m) \<Rightarrow> wf_json (JObj m) | _ \<Rightarrow> True)"

lemma yaml_wfD: "YAMLToJSON lib s = Inr v \<Longrightarrow> yaml_wf lib \<Longrightarrow> wf_json v"
  by (simp add: yaml_wf_def)

lemma wf_float_map: "wf_json (JObj (float_map f m)) \<longleftrightarrow> wf_json (JObj m)"
  using wf_float [of f "JObj m"] by (simp only: float_json_obj)

lemma unmarshal_any_wf: "unmarshal_any lib m = Inr v \<Longrightarrow> wf_json (JObj m) \<Longrightarrow> wf_json (JObj v)"
  by (auto simp: unmarshal_any_def wf_float_map simp del: wf_json.simps split: if_splits)

lemma wf_vault_layer:
  assumes "yaml_wf lib" and "vault_layer lib values vp version = Inr v"
  shows "wf_json (JObj v)"
proof (cases "v = []")
  case False
  with assms(2) obtain s m where "YAMLToJSON lib s = Inr (JObj m)" "unmarshal_any lib m = Inr v"
    by (auto simp: vault_layer_def vaultPluginFragment_def split: sum.splits json.splits if_splits)
  then show ?thesis using unmarshal_any_wf yaml_wfD [OF _ assms(1)] by blast
qed simp

subsection \<open>Reading a layered result\<close>

lemma map_of_marshal:
  "distinct (map fst m) \<Longrightarrow>
   map_of (sort_key fst (map (\<lambda>kv. (fst kv, canon (snd kv))) m)) k = map_option canon (map_of m k)"
proof -
  assume d: "distinct (map fst m)"
  let ?ys = "map (\<lambda>kv. (fst kv, canon (snd kv))) m"
  have ys: "distinct (map fst ?ys)" using d by (simp add: comp_def)
  have "map_of (sort_key fst ?ys) = map_of ?ys"
    by (rule map_of_inject_set [THEN iffD2])
       (use ys in \<open>simp_all only: distinct_map distinct_sort set_sort\<close>)
  then show ?thesis by (simp add: map_of_canon_entries)
qed

lemma jget_canon: "wf_json v \<Longrightarrow> jget (canon v) p = map_option canon (jget v p)"
proof (induction p arbitrary: v)
  case Nil
  then show ?case by simp
next
  case (Cons k ks)
  show ?case
  proof (cases v)
    case (JObj m)
    show ?thesis
    proof (cases "map_of m k")
      case None
      then show ?thesis using Cons.prems JObj by (simp add: map_of_marshal)
    next
      case (Some u)
      have "wf_json u" using Cons.prems JObj Some wf_lookup by blast
      from Cons.IH [OF this] Some show ?thesis using Cons.prems JObj by (simp add: map_of_marshal)
    qed
  qed simp_all
qed

lemma wf_jget: "jget v p = Some u \<Longrightarrow> wf_json v \<Longrightarrow> wf_json u"
  by (induction v p rule: jget.induct) (auto split: option.splits dest: map_of_SomeD)

lemma marshal_canon: "marshal m = RawObject r \<longleftrightarrow> canon (JObj m) = JObj r"
  by (simp add: marshal_def)

definition raw_map :: "raw_json option \<Rightarrow> jmap" where
  "raw_map r = (case r of Some (RawObject m) \<Rightarrow> m | _ \<Rightarrow> [])"

definition base_map :: "values_lib \<Rightarrow> raw_json option \<Rightarrow> jmap" where
  "base_map lib r = float_map (Float64 lib) (raw_map r)"

text \<open>
  A successful build is the canonical form of the operator's map under the three layers; the empty
  map is no values at all.
\<close>

definition decoded_base :: "values_lib \<Rightarrow> raw_json option \<Rightarrow> go_error + jmap" where
  "decoded_base lib base = (if raw_empty base then Inr [] else unmarshal_map lib (the base))"

text \<open>The operator's document is absent or an object whose numbers are in range.\<close>

definition base_ok :: "values_lib \<Rightarrow> raw_json option \<Rightarrow> bool" where
  "base_ok lib base \<longleftrightarrow>
     raw_empty base \<or> (case base of Some (RawObject m) \<Rightarrow> in_range (Float64 lib) (JObj m) | _ \<Rightarrow> False)"

lemma decoded_base_ok:
  "decoded_base lib base = Inr m \<longleftrightarrow> base_ok lib base \<and> m = base_map lib base"
  by (cases base; cases "the base")
     (auto simp: decoded_base_def raw_empty_def base_map_def raw_map_def base_ok_def unmarshal_any_def)

lemma buildValues_ok:
  "buildValues lib base e ca vp version = Inr out \<longleftrightarrow>
     base_ok lib base \<and>
     (\<exists>v c. vault_layer lib (base_map lib base) vp version = Inr v \<and> ca_layer lib ca = Inr c \<and>
        (let m = deepMerge (deepMerge (deepMerge (base_map lib base) v) (exposure_layer e)) c
         in out = (if m = [] then None else Some (marshal m))))"
proof (cases "decoded_base lib base")
  case (Inl err)
  then have "\<not> base_ok lib base"
    using decoded_base_ok [of lib base "base_map lib base"] by auto
  with Inl show ?thesis unfolding buildValues_def decoded_base_def [symmetric] by simp
next
  case (Inr m)
  then have "base_ok lib base" "m = base_map lib base"
    by (simp_all add: decoded_base_ok)
  with Inr show ?thesis
    unfolding buildValues_def decoded_base_def [symmetric] mergeFragments_layers
    by (cases "vault_layer lib (base_map lib base) vp version"; cases "ca_layer lib ca")
       (simp_all add: Let_def eq_commute [of out] del: deepMerge_eq_Nil)
qed

definition out_json :: "raw_json option \<Rightarrow> json" where
  "out_json r = (case r of Some (RawObject m) \<Rightarrow> JObj m | _ \<Rightarrow> JObj [])"

lemma out_json_marshal: "out_json (if m = [] then None else Some (marshal m)) = canon (JObj m)"
  by (simp add: out_json_def marshal_def)

lemma wf_base_map: "raw_wf base \<Longrightarrow> wf_json (JObj (base_map lib base))"
  by (simp only: base_map_def wf_float_map) (auto simp: raw_wf_def raw_map_def split: option.splits raw_json.splits)

lemma buildValues_layers:
  assumes "buildValues lib base e ca vp version = Inr out" and "raw_wf base" and "yaml_wf lib"
  obtains v c where "vault_layer lib (base_map lib base) vp version = Inr v" and "ca_layer lib ca = Inr c"
    and "wf_json (JObj v)" "wf_json (JObj c)" "wf_json (JObj (base_map lib base))"
    and "wf_json (JObj (deepMerge (deepMerge (deepMerge (base_map lib base) v) (exposure_layer e)) c))"
    and "out_json out = canon (JObj (deepMerge (deepMerge (deepMerge (base_map lib base) v) (exposure_layer e)) c))"
proof -
  from assms(1) obtain v c where vc: "vault_layer lib (base_map lib base) vp version = Inr v"
      "ca_layer lib ca = Inr c"
    and out: "out = (let m = deepMerge (deepMerge (deepMerge (base_map lib base) v) (exposure_layer e)) c
         in if m = [] then None else Some (marshal m))"
    unfolding buildValues_ok by (auto simp: Let_def)
  note wf = wf_vault_layer [OF assms(3) vc(1)] wf_ca_layer [OF vc(2)] wf_base_map [OF assms(2)]
  show thesis
  proof (rule that [OF vc wf])
    show "wf_json (JObj (deepMerge (deepMerge (deepMerge (base_map lib base) v) (exposure_layer e)) c))"
      by (intro wf_deepMerge wf wf_exposure_layer)
    show "out_json out = canon (JObj (deepMerge (deepMerge (deepMerge (base_map lib base) v) (exposure_layer e)) c))"
      by (simp only: out Let_def out_json_marshal)
  qed
qed

text \<open>The exposure fragment and the CA fragment live under different keys.\<close>

lemma exposure_keys:
  "jget (JObj (exposureFragment e)) (k # ks) = Some v \<Longrightarrow> \<not> is_obj v \<Longrightarrow>
   k = ''server'' \<or> k = ''configs'' \<and> ks = [''cm'', ''url'']"
proof -
  assume a: "jget (JObj (exposureFragment e)) (k # ks) = Some v" "\<not> is_obj v"
  show ?thesis
  proof (cases "k = ''configs''")
    case True
    then obtain k2 ks2 where ks: "ks = k2 # ks2"
      using a by (cases ks) (auto simp: exposureFragment_def Let_def)
    then have k2: "k2 = ''cm''" using a True by (auto simp: exposureFragment_def Let_def split: if_splits)
    then obtain k3 ks3 where ks2: "ks2 = k3 # ks3"
      using a True ks by (cases ks2) (auto simp: exposureFragment_def Let_def)
    then have "k3 = ''url'' \<and> ks3 = []"
      using a True ks k2 by (cases ks3) (auto simp: exposureFragment_def Let_def split: if_splits)
    then show ?thesis using True ks k2 ks2 by simp
  next
    case False
    then show ?thesis using a by (auto simp: exposureFragment_def Let_def split: if_splits)
  qed
qed

lemma exposure_misses_ca:
  assumes "jget (JObj (exposureFragment e)) p = Some v" "\<not> is_obj v" "ca_layer lib ca = Inr c"
  shows "c = [] \<or> misses c p"
proof (cases p)
  case Nil
  then show ?thesis using assms by auto
next
  case (Cons k ks)
  from exposure_keys [OF assms(1) [unfolded Cons] assms(2)] assms(3) Cons show ?thesis
    by (auto simp: ca_layer_ok)
qed

text \<open>Strings and lists of strings are their own canonical form.\<close>

fun plain :: "json \<Rightarrow> bool" where
  "plain (JArr xs) = (\<forall>x \<in> set xs. \<exists>s. x = JStr s)"
| "plain (JObj m) = (\<forall>kv \<in> set m. plain (snd kv))"
| "plain v = True"

lemma jget_plain: "plain u \<Longrightarrow> jget u p = Some v \<Longrightarrow> plain v"
  by (induction u p rule: jget.induct) (auto split: option.splits dest!: map_of_SomeD)

lemma canon_plain: "plain v \<Longrightarrow> \<not> is_obj v \<Longrightarrow> canon v = v"
  by (cases v) (auto intro!: map_idI)

lemma plain_exposureFragment: "plain (JObj (exposureFragment e))"
  by (simp add: exposureFragment_def Let_def toAnySlice_def)

lemma exposure_leaf_canon:
  "jget (JObj (exposureFragment e)) p = Some v \<Longrightarrow> \<not> is_obj v \<Longrightarrow> canon v = v"
  by (rule canon_plain [OF jget_plain [OF plain_exposureFragment]])

subsection \<open>The layers depend on lookups alone\<close>

lemma globalImageRepository_canon:
  assumes "wf_json (JObj m)" and "canon (JObj m) = JObj mc"
  shows "globalImageRepository mc = globalImageRepository m"
proof -
  have sub: "distinct (map fst m')" if "jget (JObj m) p = Some (JObj m')" for p m'
    using wf_jget [OF that] assms(1) by blast
  have mc: "map_of mc k = map_option canon (map_of m k)" for k
    using assms map_of_marshal [of m k] by auto
  show ?thesis
  proof (cases "map_of m ''global''")
    case g: (Some g)
    show ?thesis
    proof (cases g)
      case (JObj gm)
      have gm: "map_of (sort_key fst (map (\<lambda>kv. (fst kv, canon (snd kv))) gm)) k =
          map_option canon (map_of gm k)" for k
        using sub [of "[''global'']"] g JObj by (simp add: map_of_marshal)
      show ?thesis
      proof (cases "map_of gm ''image''")
        case i: (Some i)
        show ?thesis
        proof (cases i)
          case im: (JObj im)
          have "map_of (sort_key fst (map (\<lambda>kv. (fst kv, canon (snd kv))) im)) k =
              map_option canon (map_of im k)" for k
            using sub [of "[''global'', ''image'']"] g JObj i im by (simp add: map_of_marshal)
          then show ?thesis
            using mc g gm i im JObj
            by (cases "map_of im ''repository''"; cases "the (map_of im ''repository'')")
               (simp_all add: globalImageRepository_def)
        qed (use mc g gm i JObj in \<open>simp_all add: globalImageRepository_def\<close>)
      qed (use mc g gm JObj in \<open>simp add: globalImageRepository_def\<close>)
    qed (use mc g in \<open>simp_all add: globalImageRepository_def\<close>)
  qed (use mc in \<open>simp add: globalImageRepository_def\<close>)
qed

lemma globalImageRepository_cong:
  assumes "wf_json (JObj m)" "wf_json (JObj m')" "canon (JObj m) = canon (JObj m')"
  shows "globalImageRepository m = globalImageRepository m'"
  using globalImageRepository_canon [OF assms(1)] globalImageRepository_canon [OF assms(2)] assms(3)
  by (metis canon.simps(2))

section \<open>An example library\<close>

text \<open>
  A library that computes, for evaluating the model: certificates are written between angle
  brackets as a comma separated list of names, the first of them the common name, and every YAML
  document is converted to the same small fragment.
\<close>

definition example_pem_Decode :: "string \<Rightarrow> (pem_block \<times> string) option" where
  "example_pem_Decode s =
     (case dropWhile (\<lambda>c. c \<noteq> CHR ''<'') s of
        [] \<Rightarrow> None
      | _ # t \<Rightarrow>
          Some (\<lparr>block_Type = ''CERTIFICATE'', block_Bytes = takeWhile (\<lambda>c. c \<noteq> CHR ''>'') t\<rparr>,
                dropWhile (\<lambda>c. c \<noteq> CHR ''>'') t))"

definition example_ParseCertificate :: "string \<Rightarrow> go_error + Certificate" where
  "example_ParseCertificate b =
     (if b = [] then Inl (Errorf ''x509: malformed certificate'')
      else Inr \<lparr>Subject_CommonName = hd (Split (CHR '','') b), DNSNames = tl (Split (CHR '','') b)\<rparr>)"

definition example_lib :: values_lib where
  "example_lib =
     \<lparr>pem_Decode = example_pem_Decode, ParseCertificate = example_ParseCertificate,
      YAMLToJSON = (\<lambda>s. Inr (JObj [(''repoServer'', JObj [(''replicas'', JNum ''2'')])])),
      Float64 = (\<lambda>n. if n = ''9007199254740993'' then Some ''9007199254740992'' else if n = ''1e400'' then None else Some n)\<rparr>"

lemma example_pem_progress: "pem_progress example_lib"
  unfolding pem_progress_def
proof (intro allI impI)
  fix s b rest
  assume d: "pem_Decode example_lib s = Some (b, rest)"
  then obtain c t where t: "dropWhile (\<lambda>c. c \<noteq> CHR ''<'') s = c # t"
    and rest: "rest = dropWhile (\<lambda>c. c \<noteq> CHR ''>'') t"
    by (auto simp: example_lib_def example_pem_Decode_def split: list.splits)
  have "length rest \<le> length t" unfolding rest by (rule length_dropWhile_le)
  also have "length t < length s" using length_dropWhile_le [of "\<lambda>c. c \<noteq> CHR ''<''" s] t by simp
  finally show "length rest < length s" .
qed

lemma example_yaml_wf: "yaml_wf example_lib"
  by (simp add: yaml_wf_def example_lib_def)

definition example_exposure :: ExposureValues where
  "example_exposure = \<lparr>ev_Enabled = True, ev_Host = ''argo.example.com'',
     ev_AllowedIPs = [''10.0.0.0/8''], ev_DNSClass = ''garden'', ev_DNSTTL = 3600,
     ev_CertPurpose = ''managed'', ev_ReloaderEnabled = True\<rparr>"

definition example_vault :: vaultPluginValues where
  "example_vault = \<lparr>vpv_enabled = True, vpv_registry = ''registry/avp'', vpv_tag = ''1.0'',
     vpv_namespace = ''argocd'', vpv_openSource = False\<rparr>"

definition vault_off :: vaultPluginValues where
  "vault_off = \<lparr>vpv_enabled = False, vpv_registry = [], vpv_tag = [], vpv_namespace = [],
     vpv_openSource = False\<rparr>"

definition example_base :: jmap where
  "example_base =
     [(''server'', JObj [(''replicas'', JNum ''3''),
        (''service'', JObj [(''type'', JStr ''ClusterIP'')])]),
      (''global'', JObj [(''image'', JObj [(''repository'', JStr ''quay.io/argoproj/argocd'')])])]"

definition example_base' :: jmap where
  "example_base' = [example_base ! 1, example_base ! 0]"

definition example_ca :: string where
  "example_ca = ''<ca,git.corp.example,registry.corp.example>''"

section \<open>Properties\<close>

lemma vault_layer_cong:
  "globalImageRepository m = globalImageRepository m' \<Longrightarrow>
   vault_layer lib m vp version = vault_layer lib m' vp version"
  by (simp add: vault_layer_def)

lemma canon_layers_cong:
  assumes "wf_json (JObj m)" "wf_json (JObj m')" "canon (JObj m) = canon (JObj m')"
    and "wf_json (JObj v)" "wf_json (JObj c)"
  shows "canon (JObj (deepMerge (deepMerge (deepMerge m v) (exposure_layer e)) c)) =
         canon (JObj (deepMerge (deepMerge (deepMerge m' v) (exposure_layer e)) c))"
  by (intro deepMerge_canon_cong wf_deepMerge assms wf_exposure_layer refl)

text \<open>C34. The values do not depend on the order in which Go visits its maps: two decodings of the
  operator's document that differ in the order of the keys at any level build the same values, or
  fail with the same error.\<close>

theorem buildValues_order_independent:
  assumes "wf_json (JObj m)" and "wf_json (JObj m')" and "canon (JObj m) = canon (JObj m')"
    and "yaml_wf lib"
  shows "buildValues lib (Some (RawObject m)) exposure caCert vaultPlugin version =
         buildValues lib (Some (RawObject m')) exposure caCert vaultPlugin version"
proof -
  let ?f = "Float64 lib"
  let ?n = "float_map ?f m" and ?n' = "float_map ?f m'"
  have range: "in_range ?f (JObj m) \<longleftrightarrow> in_range ?f (JObj m')"
    using in_range_canon [of ?f "JObj m"] in_range_canon [of ?f "JObj m'"] assms(3) by simp
  have wf: "wf_json (JObj ?n)" "wf_json (JObj ?n')" using assms(1,2) by (simp_all only: wf_float_map)
  have canon: "canon (JObj ?n) = canon (JObj ?n')"
    using canon_float [of ?f "JObj m"] canon_float [of ?f "JObj m'"] assms(3) by (simp only: float_json_obj)
  have v: "vault_layer lib ?n vaultPlugin version = vault_layer lib ?n' vaultPlugin version"
    by (rule vault_layer_cong) (rule globalImageRepository_cong [OF wf canon])
  have empty: "m = [] \<longleftrightarrow> m' = []"
    using arg_cong [OF assms(3), of "\<lambda>j. case j of JObj r \<Rightarrow> length r | _ \<Rightarrow> 0"] by auto
  show ?thesis
    using canon_layers_cong [OF wf canon wf_vault_layer [OF assms(4)] wf_ca_layer] empty range
    by (cases "vault_layer lib ?n' vaultPlugin version"; cases "ca_layer lib caCert"; cases "in_range ?f (JObj m')")
       (simp_all add: buildValues_def raw_empty_def mergeFragments_layers v marshal_def unmarshal_any_def del: in_range.simps)
qed

lemma buildValues_order_independent_witness:
  "buildValues example_lib (Some (RawObject example_base)) example_exposure example_ca example_vault ''v3'' =
   buildValues example_lib (Some (RawObject example_base')) example_exposure example_ca example_vault ''v3''
   \<and> example_base \<noteq> example_base'"
proof (rule conjI)
  show "buildValues example_lib (Some (RawObject example_base)) example_exposure example_ca example_vault ''v3'' =
   buildValues example_lib (Some (RawObject example_base')) example_exposure example_ca example_vault ''v3''"
    by (rule buildValues_order_independent)
       (simp_all add: example_base_def example_base'_def example_yaml_wf)
qed (simp add: example_base_def example_base'_def)

text \<open>C32. Nothing the operator supplies, no vault bundle and no certificate drops or changes a
  setting the exposure needs: every leaf of the exposure fragment is in the built values.\<close>

theorem exposure_always_applied:
  assumes "buildValues lib base exposure caCert vaultPlugin version = Inr out"
    and "ev_Enabled exposure"
    and "jget (JObj (exposureFragment exposure)) p = Some leaf" and "\<not> is_obj leaf"
    and "raw_wf base" and "yaml_wf lib"
  shows "jget (out_json out) p = Some leaf"
proof -
  obtain v c where c: "ca_layer lib caCert = Inr c" "wf_json (JObj c)"
    and wf: "wf_json (JObj v)" "wf_json (JObj (base_map lib base))"
      "wf_json (JObj (deepMerge (deepMerge (deepMerge (base_map lib base) v) (exposure_layer exposure)) c))"
    and out: "out_json out =
      canon (JObj (deepMerge (deepMerge (deepMerge (base_map lib base) v) (exposure_layer exposure)) c))"
    using buildValues_layers [OF assms(1,5,6)] by metis
  have e: "exposure_layer exposure = exposureFragment exposure"
    using assms(2) by (simp add: exposure_layer_def)
  have "jget (JObj (deepMerge (deepMerge (base_map lib base) v) (exposureFragment exposure))) p = Some leaf"
    by (rule jget_deepMerge_leaf [OF wf_exposureFragment assms(3,4)])
  then have "jget (JObj (deepMerge (deepMerge (deepMerge (base_map lib base) v) (exposureFragment exposure)) c)) p
      = Some leaf"
    using exposure_misses_ca [OF assms(3,4) c(1)] jget_deepMerge_misses [OF c(2)] by auto
  then show ?thesis
    using out wf(3) exposure_leaf_canon [OF assms(3,4)] by (simp add: jget_canon e del: canon.simps)
qed

definition example_layered :: jmap where
  "example_layered = deepMerge (deepMerge example_base (exposure_layer example_exposure))
     [(''configs'', JObj [(''tls'', JObj [(''certificates'',
         JObj (certificates_of example_ca [''git.corp.example'', ''registry.corp.example'']))])])]"

lemma example_certHostnames:
  "certHostnames example_lib example_ca = Inr [''git.corp.example'', ''registry.corp.example'']"
  by code_simp

lemma example_ca_layer:
  "ca_layer example_lib example_ca =
     Inr [(''configs'', JObj [(''tls'', JObj [(''certificates'',
         JObj (certificates_of example_ca [''git.corp.example'', ''registry.corp.example'']))])])]"
  by (simp add: ca_layer_def caBundleFragment_def example_certHostnames) (simp add: example_ca_def)

lemma vault_off_layer: "vault_layer lib values vault_off version = Inr []"
  by (simp add: vault_layer_def vault_off_def)

lemma example_build:
  "buildValues example_lib (Some (RawObject example_base)) example_exposure example_ca vault_off ''v3'' =
     Inr (Some (marshal example_layered))"
proof -
  have "base_map example_lib (Some (RawObject example_base)) = example_base"
    by (simp add: base_map_def raw_map_def float_map_def example_base_def example_lib_def)
  moreover have "base_ok example_lib (Some (RawObject example_base))"
    by (simp add: base_ok_def example_base_def example_lib_def)
  moreover have "example_layered \<noteq> []"
    by (simp add: example_layered_def del: deepMerge.simps(2))
  ultimately show ?thesis
    unfolding buildValues_ok vault_off_layer example_ca_layer
    by (simp add: Let_def example_layered_def del: deepMerge.simps(2) deepMerge_eq_Nil)
qed

lemma example_raw_wf: "raw_wf (Some (RawObject example_base))"
  by (simp add: raw_wf_def example_base_def)

lemma exposure_always_applied_witness:
  "jget (out_json (Some (marshal example_layered)))
     [''server'', ''service'', ''annotations'', ''dns.gardener.cloud/dnsnames''] =
   Some (JStr ''argo.example.com'')"
  by (rule exposure_always_applied [OF example_build _ _ _ example_raw_wf example_yaml_wf])
     (simp_all add: example_exposure_def exposureFragment_def Let_def)

text \<open>C36. A configured CA bundle is trusted for every host it names: the built values hold the
  bundle under each host name of the certificates, each a usable key, and there is at least one.\<close>

theorem ca_trusted_for_every_host:
  assumes "buildValues lib base exposure caCert vaultPlugin version = Inr out"
    and "caCert \<noteq> []" and "raw_wf base" and "yaml_wf lib"
  shows "\<exists>hosts. certHostnames lib caCert = Inr hosts \<and> hosts \<noteq> [] \<and>
     (\<forall>h \<in> set hosts. isValidHostKey h \<and>
        jget (out_json out) [''configs'', ''tls'', ''certificates'', h] = Some (JStr caCert))"
proof -
  obtain v c where c: "ca_layer lib caCert = Inr c" "wf_json (JObj c)"
    and wf: "wf_json (JObj (deepMerge (deepMerge (deepMerge (base_map lib base) v) (exposure_layer exposure)) c))"
    and out: "out_json out =
      canon (JObj (deepMerge (deepMerge (deepMerge (base_map lib base) v) (exposure_layer exposure)) c))"
    using buildValues_layers [OF assms(1,3,4)] by metis
  obtain hosts where hosts: "certHostnames lib caCert = Inr hosts"
    and c_eq: "c = [(''configs'', JObj [(''tls'', JObj [(''certificates'', JObj (certificates_of caCert hosts))])])]"
    using c(1) assms(2) by (auto simp: ca_layer_ok)
  have ok: "hosts \<noteq> []" "\<forall>h \<in> set hosts. isValidHostKey h"
    using certHostnames_ok [OF hosts] by metis+
  have "jget (out_json out) [''configs'', ''tls'', ''certificates'', h] = Some (JStr caCert)"
    if "h \<in> set hosts" for h
  proof -
    have "jget (JObj c) [''configs'', ''tls'', ''certificates'', h] = Some (JStr caCert)"
      using that by (simp add: c_eq certificates_of_map)
    from jget_deepMerge_leaf [OF c(2) this] show ?thesis
      using out wf by (simp add: jget_canon del: canon.simps(2) jget.simps)
  qed
  with hosts ok show ?thesis by blast
qed

lemma ca_trusted_for_every_host_witness:
  "\<exists>hosts. certHostnames example_lib example_ca = Inr hosts \<and> hosts \<noteq> [] \<and>
     (\<forall>h \<in> set hosts. isValidHostKey h \<and>
        jget (out_json (Some (marshal example_layered))) [''configs'', ''tls'', ''certificates'', h] =
          Some (JStr example_ca))"
  by (rule ca_trusted_for_every_host [OF example_build _ example_raw_wf example_yaml_wf])
     (simp add: example_ca_def)

text \<open>C33. Whatever the overlays do not name is kept, up to its numbers: without the vault plugin, every path of
  the operator's values outside \<^verbatim>\<open>server\<close> and \<^verbatim>\<open>configs\<close> reads as the operator wrote it, with each
  number replaced by the float64 it is read into. An integer of more than 53 bits is not what was
  written.\<close>

theorem operator_values_kept:
  assumes "buildValues lib base exposure caCert vaultPlugin version = Inr out"
    and "\<not> vpv_enabled vaultPlugin" and "k \<noteq> ''server''" and "k \<noteq> ''configs''"
    and "raw_wf base" and "yaml_wf lib"
  shows "jget (out_json out) (k # ks) =
    map_option (\<lambda>v. canon (float_json (Float64 lib) v)) (jget (JObj (raw_map base)) (k # ks))"
proof -
  obtain v c where v: "vault_layer lib (base_map lib base) vaultPlugin version = Inr v"
    and c: "ca_layer lib caCert = Inr c" "wf_json (JObj c)"
    and wf: "wf_json (JObj (deepMerge (deepMerge (deepMerge (base_map lib base) v) (exposure_layer exposure)) c))"
    and out: "out_json out =
      canon (JObj (deepMerge (deepMerge (deepMerge (base_map lib base) v) (exposure_layer exposure)) c))"
    using buildValues_layers [OF assms(1,5,6)] by metis
  have "v = []" using v assms(2) by (simp add: vault_layer_def)
  moreover have "c = [] \<or> misses c (k # ks)"
    using c(1) assms(4) by (auto simp: ca_layer_ok)
  moreover have "exposure_layer exposure = [] \<or> misses (exposure_layer exposure) (k # ks)"
    using assms(3,4) by (simp add: exposure_layer_def exposureFragment_def Let_def)
  ultimately have "jget (JObj (deepMerge (deepMerge (deepMerge (base_map lib base) v) (exposure_layer exposure)) c))
      (k # ks) = jget (JObj (base_map lib base)) (k # ks)"
    using jget_deepMerge_misses [OF c(2)] jget_deepMerge_misses [OF wf_exposure_layer]
    by (auto simp del: jget.simps)
  moreover have "jget (JObj (base_map lib base)) (k # ks) =
      map_option (float_json (Float64 lib)) (jget (JObj (raw_map base)) (k # ks))"
    by (simp only: base_map_def float_json_obj [symmetric] jget_float)
  ultimately show ?thesis
    using out wf by (simp add: jget_canon option.map_comp comp_def del: canon.simps jget.simps)
qed

lemma example_number_build:
  "buildValues example_lib (Some (RawObject [(''seed'', JNum ''9007199254740993'')])) zero_exposure [] vault_off ''v3'' =
     Inr (Some (marshal [(''seed'', JNum ''9007199254740992'')]))"
  by (simp add: buildValues_def raw_empty_def unmarshal_any_def float_map_def example_lib_def mergeFragments_def
      zero_exposure_def vault_off_def)

lemma operator_values_kept_witness:
  "jget (out_json (Some (marshal [(''seed'', JNum ''9007199254740992'')]))) [''seed''] = Some (JNum ''9007199254740992'') \<and>
   jget (JObj (raw_map (Some (RawObject [(''seed'', JNum ''9007199254740993'')])))) [''seed''] = Some (JNum ''9007199254740993'')"
proof
  let ?base = "Some (RawObject [(''seed'', JNum ''9007199254740993'')])"
  have "jget (out_json (Some (marshal [(''seed'', JNum ''9007199254740992'')]))) [''seed''] =
      map_option (\<lambda>v. canon (float_json (Float64 example_lib) v)) (jget (JObj (raw_map ?base)) [''seed''])"
    by (rule operator_values_kept [OF example_number_build _ _ _ _ example_yaml_wf]) (simp_all add: vault_off_def raw_wf_def)
  then show "jget (out_json (Some (marshal [(''seed'', JNum ''9007199254740992'')]))) [''seed''] = Some (JNum ''9007199254740992'')"
    by (simp add: raw_map_def example_lib_def)
qed (simp add: raw_map_def)

text \<open>C35. Exactly when a build of the values fails: the operator's document is not an object or has a number out of range, the
  vault plugin is on and the repository of the image is missing or the rendered bundle does not
  convert to a map, or a CA bundle is configured and yields no host name.\<close>

theorem buildValues_succeeds_iff:
  "(\<exists>out. buildValues lib base exposure caCert vaultPlugin version = Inr out) \<longleftrightarrow>
     base_ok lib base \<and>
     (\<not> vpv_enabled vaultPlugin \<or>
        (\<exists>repository rendered fragment.
           globalImageRepository (base_map lib base) = Inr repository \<and>
           execute_template (template_data vaultPlugin repository version)
             (bundle_source (vpv_openSource vaultPlugin)) = Inr rendered \<and>
           YAMLToJSON lib (Join rendered newline) = Inr fragment \<and>
           (is_obj fragment \<or> fragment = JNull) \<and> in_range (Float64 lib) fragment)) \<and>
     (caCert = [] \<or> (\<exists>hosts. certHostnames lib caCert = Inr hosts))"
proof -
  have v: "(\<exists>v. vault_layer lib m vaultPlugin version = Inr v) \<longleftrightarrow>
      \<not> vpv_enabled vaultPlugin \<or>
        (\<exists>repository rendered fragment.
           globalImageRepository m = Inr repository \<and>
           execute_template (template_data vaultPlugin repository version)
             (bundle_source (vpv_openSource vaultPlugin)) = Inr rendered \<and>
           YAMLToJSON lib (Join rendered newline) = Inr fragment \<and>
           (is_obj fragment \<or> fragment = JNull) \<and> in_range (Float64 lib) fragment)" for m
    by (auto simp: vault_layer_def vaultPluginFragment_def unmarshal_any_def split: sum.splits json.splits if_splits)
  have c: "(\<exists>c. ca_layer lib caCert = Inr c) \<longleftrightarrow>
      caCert = [] \<or> (\<exists>hosts. certHostnames lib caCert = Inr hosts)"
    by (auto simp: ca_layer_ok)
  show ?thesis unfolding v [symmetric] c [symmetric] buildValues_ok Let_def by blast
qed

lemma buildValues_succeeds_iff_witness:
  "(\<exists>out. buildValues example_lib None example_exposure [] vault_off ''v3'' = Inr out) \<longleftrightarrow>
     base_ok example_lib None \<and>
     (\<not> vpv_enabled vault_off \<or>
        (\<exists>repository rendered fragment.
           globalImageRepository (base_map example_lib None) = Inr repository \<and>
           execute_template (template_data vault_off repository ''v3'')
             (bundle_source (vpv_openSource vault_off)) = Inr rendered \<and>
           YAMLToJSON example_lib (Join rendered newline) = Inr fragment \<and>
           (is_obj fragment \<or> fragment = JNull) \<and> in_range (Float64 example_lib) fragment)) \<and>
     (([] :: string) = [] \<or> (\<exists>hosts. certHostnames example_lib [] = Inr hosts))"
  by (rule buildValues_succeeds_iff)

text \<open>The bundled vault configurations always render: the template option
  \<^verbatim>\<open>missingkey=error\<close> never fires, for either bundle and any image, tag and namespace, and an
  error of the fragment comes from the YAML conversion.\<close>

theorem vault_bundle_always_renders:
  "(\<exists>rendered. execute_template (template_data vaultPlugin repository version) (bundle_source b) = Inr rendered) \<and>
   (\<forall>e. vaultPluginFragment lib vaultPlugin repository version \<noteq>
        Inl (Wrap ''rendering argocd-vault.yaml template'' e))"
  using bundle_renders by (auto simp: vaultPluginFragment_def split: sum.splits json.splits) (metis sum.distinct(1))

text \<open>A host key is a list of RFC 1123 labels joined by dots, of at most 253 bytes; the pattern
  sets no limit on the length of a label.\<close>

theorem isValidHostKey_labels:
  "isValidHostKey host \<longleftrightarrow>
     length host \<le> 253 \<and> (\<forall>l \<in> set (Split (CHR ''.'') host). host_label l)"
  by (rule isValidHostKey_iff)

lemma isValidHostKey_labels_witness:
  "isValidHostKey ''git.example-1.com'' \<longleftrightarrow>
     length ''git.example-1.com'' \<le> 253 \<and> (\<forall>l \<in> set (Split (CHR ''.'') ''git.example-1.com''). host_label l)"
  by (rule isValidHostKey_labels)

text \<open>C39. Parsing a CA bundle ends: as many iterations as the bundle has bytes, and one, are enough,
  further ones change nothing, and the bound is never reported as an error.\<close>

theorem parseCertificates_terminates:
  assumes "pem_progress lib"
  shows "\<exists>r. (\<forall>k. parse_loop lib (Suc (length caCert) + k) caCert [] = Some r) \<and>
     parseCertificates lib caCert =
       (case r of Inl e \<Rightarrow> Inl e
        | Inr certs \<Rightarrow> if certs = [] then Inl (Errorf ''no PEM certificate block found in CA bundle'')
                       else Inr certs)"
proof -
  obtain r where r: "parse_loop lib (Suc (length caCert)) caCert [] = Some r"
    using parse_loop_stops [OF assms, of caCert "Suc (length caCert)" "[]"] by auto
  then show ?thesis
    using parse_loop_more [OF r]
    by (intro exI [of _ r]) (simp add: parseCertificates_def split: sum.split)
qed

lemma parseCertificates_terminates_witness:
  "\<exists>r. (\<forall>k. parse_loop example_lib (Suc (length example_ca) + k) example_ca [] = Some r) \<and>
     parseCertificates example_lib example_ca =
       (case r of Inl e \<Rightarrow> Inl e
        | Inr certs \<Rightarrow> if certs = [] then Inl (Errorf ''no PEM certificate block found in CA bundle'')
                       else Inr certs)"
  by (rule parseCertificates_terminates [OF example_pem_progress])

text \<open>The host names of a CA bundle: a successful extraction returns distinct, valid keys, at
  least one; they are the DNS names of the certificates that are valid keys, or, when there is none,
  the common name of the first certificate.\<close>

theorem certHostnames_spec:
  assumes "certHostnames lib caCert = Inr hosts"
  shows "\<exists>certs. parseCertificates lib caCert = Inr certs \<and>
     hosts \<noteq> [] \<and> distinct hosts \<and>
     set hosts =
       (let names = {n. \<exists>c \<in> set certs. n \<in> set (DNSNames c) \<and> isValidHostKey n}
        in if names = {} then {Subject_CommonName (hd certs)} else names) \<and>
     (\<forall>h \<in> set hosts. isValidHostKey h)"
proof -
  obtain certs where c: "parseCertificates lib caCert = Inr certs"
    and h: "hosts = (if collectDNSHosts certs = [] then [Subject_CommonName (hd certs)]
                  else collectDNSHosts certs)"
    and ok: "hosts \<noteq> []" "distinct hosts" "\<forall>h \<in> set hosts. isValidHostKey h"
    using certHostnames_ok [OF assms] by metis
  have "set hosts = (let names = set (collectDNSHosts certs)
      in if names = {} then {Subject_CommonName (hd certs)} else names)"
    by (simp add: h)
  then show ?thesis using c ok unfolding collectDNSHosts_set by blast
qed

lemma certHostnames_spec_witness:
  "\<exists>certs. parseCertificates example_lib example_ca = Inr certs \<and>
     [''git.corp.example'', ''registry.corp.example''] \<noteq> [] \<and>
     distinct [''git.corp.example'', ''registry.corp.example''] \<and>
     set [''git.corp.example'', ''registry.corp.example''] =
       (let names = {n. \<exists>c \<in> set certs. n \<in> set (DNSNames c) \<and> isValidHostKey n}
        in if names = {} then {Subject_CommonName (hd certs)} else names) \<and>
     (\<forall>h \<in> set [''git.corp.example'', ''registry.corp.example'']. isValidHostKey h)"
  by (rule certHostnames_spec [OF example_certHostnames])

text \<open>The merge: every leaf of the overlay wins, and a path that leaves the overlay at a key it
  does not have keeps its value.\<close>

theorem deepMerge_precedence:
  assumes "wf_json (JObj src)"
  shows "(jget (JObj src) p = Some leaf \<and> \<not> is_obj leaf \<longrightarrow>
            jget (JObj (deepMerge dst src)) p = Some leaf) \<and>
         (misses src p \<longrightarrow> jget (JObj (deepMerge dst src)) p = jget (JObj dst) p)"
  using jget_deepMerge_leaf [OF assms] jget_deepMerge_misses [OF assms] by blast

lemma deepMerge_precedence_witness:
  "jget (JObj (deepMerge example_base (exposureFragment example_exposure)))
     [''server'', ''service'', ''type''] = Some (JStr ''LoadBalancer'') \<and>
   jget (JObj (deepMerge example_base (exposureFragment example_exposure))) [''server'', ''replicas''] =
     jget (JObj example_base) [''server'', ''replicas'']"
  using deepMerge_precedence [OF wf_exposureFragment [of example_exposure],
      of "[''server'', ''service'', ''type'']" "JStr ''LoadBalancer''" example_base]
    deepMerge_precedence [OF wf_exposureFragment [of example_exposure],
      of "[''server'', ''replicas'']" _ example_base]
  by (simp add: exposureFragment_def Let_def example_exposure_def del: deepMerge.simps)

subsection \<open>Pull secrets named in the values\<close>

definition pull_refs :: "string list \<Rightarrow> json" where
  "pull_refs names = JArr (map (\<lambda>n. JObj [(''name'', JStr n)]) names)"

lemma same_field_refl: "same_field n n"
  by (simp add: same_field_def)

lemma decode_refs_names: "decode_refs olds (map (\<lambda>n. JObj [(''name'', JStr n)]) names) = Inr names"
  by (induction names arbitrary: olds) (simp_all add: same_field_refl Let_def)

lemma decode_global_skip:
  "\<forall>kv \<in> set m. \<not> same_field ''imagePullSecrets'' (fst kv) \<Longrightarrow>
   decode_global refs (m @ m') = decode_global refs m'"
  by (induction m) auto

lemma decode_values_skip:
  "\<forall>kv \<in> set m. \<not> same_field ''global'' (fst kv) \<Longrightarrow> decode_values refs (m @ m') = decode_values refs m'"
  by (induction m) auto

lemmas decode_skip = decode_global_skip decode_values_skip
  decode_global_skip [where m' = "[]", simplified] decode_values_skip [where m' = "[]", simplified]

text \<open>The pull secrets the program replicates are those the chart will use: from a document that
  lists names under \<^verbatim>\<open>global.imagePullSecrets\<close>, among any other keys, exactly the non-empty names
  are extracted, in order.\<close>

theorem ImagePullSecretNames_reads_names:
  assumes "\<forall>kv \<in> set pre \<union> set post. \<not> same_field ''global'' (fst kv)"
    and "\<forall>kv \<in> set gpre \<union> set gpost. \<not> same_field ''imagePullSecrets'' (fst kv)"
  shows "ImagePullSecretNames (Some (RawObject
           (pre @ (''global'', JObj (gpre @ (''imagePullSecrets'', pull_refs names) # gpost)) # post))) =
         Inr (filter (\<lambda>n. n \<noteq> []) names)"
  using assms
  by (simp add: ImagePullSecretNames_def raw_empty_def pull_refs_def decode_skip same_field_refl
      decode_refs_names decode_slice_def)

lemma ImagePullSecretNames_reads_names_witness:
  "ImagePullSecretNames (Some (RawObject
      ([(''server'', JObj [])] @
       (''global'', JObj ([(''image'', JObj [])] @ (''imagePullSecrets'', pull_refs [''regcred'', [], ''mirror'']) # [])) # [])))
   = Inr (filter (\<lambda>n. n \<noteq> []) [''regcred'', [], ''mirror''])"
  by (rule ImagePullSecretNames_reads_names)
     (simp_all add: same_field_def runes_ascii ascii_def byte_def fold_rune_def)

end
