(* ===== verification/Exposure_Correct.thy ===== *)
theory Exposure_Correct
  imports Controller Values_Correct
begin

text \<open>
  What the checks of a tenant's exposure request guarantee: the language of the host pattern, the
  exact condition under which a request is accepted, that an accepted request resolves to the host
  that was checked, and the two ways in which an accepted host is not a DNS name.
\<close>

section \<open>The host pattern\<close>

lemma host_class_bytes:
  assumes "byte c < 128"
  shows "in_class host_end_class (byte c) \<longleftrightarrow> alnum c"
    and "in_class host_mid_class (byte c) \<longleftrightarrow> alnum c \<or> c = CHR ''-''"
  using assms
  by (auto simp: in_class_def host_end_class_def host_mid_class_def alnum_def byte_hyphen [symmetric])

lemma host_class_sub: "in_class host_end_class c \<Longrightarrow> in_class host_mid_class c"
  by (auto simp: in_class_def host_end_class_def host_mid_class_def)

lemma host_pattern_runes:
  "MatchString hostPattern host \<longleftrightarrow>
     (\<forall>x \<in> set (Split 46 (runes host)). label_shape host_end_class host_mid_class x \<and> length x \<le> 63)"
proof -
  have l: "x \<in> lang (label host_end_class (Upto 61 (Class host_mid_class))) \<longleftrightarrow>
      label_shape host_end_class host_mid_class x \<and> length x \<le> 63" for x
    using label_upto_lang [of host_end_class host_mid_class x 61, OF host_class_sub] by simp
  have "\<not> in_class host_mid_class 46" by (simp add: in_class_def host_mid_class_def)
  then show ?thesis
    unfolding MatchString_def accepts_iff hostPattern_def
    by (subst dotted_lang) (auto simp: l label_shape_def)
qed

lemma host_label_bytes:
  assumes "ascii l"
  shows "label_shape host_end_class host_mid_class (map byte l) \<longleftrightarrow> host_label l"
  using assms host_class_bytes
  by (cases "l = []") (auto simp: label_shape_def host_label_def hd_map last_map ascii_def)

lemma ascii_labels: "ascii s \<Longrightarrow> l \<in> set (Split (CHR ''.'') s) \<Longrightarrow> ascii l"
proof -
  assume s: "ascii s" and l: "l \<in> set (Split (CHR ''.'') s)"
  have "c \<in> set s" if "c \<in> set l" for c
    using that l Split_set [of "CHR ''.''" s] by blast
  with s show ?thesis by (auto simp: ascii_def)
qed

text \<open>The host pattern accepts exactly the dotted sequences of labels of 1 to 63 runes that start
  and end with a letter or digit (in Unicode case folding) and have only letters, digits and hyphens
  between; on ASCII hosts these are exactly the dotted DNS labels.\<close>

theorem host_pattern_labels:
  "(MatchString hostPattern host \<longleftrightarrow>
     (\<forall>x \<in> set (Split 46 (runes host)). label_shape host_end_class host_mid_class x \<and> length x \<le> 63)) \<and>
   (ascii host \<longrightarrow>
     (MatchString hostPattern host \<longleftrightarrow>
       (\<forall>l \<in> set (Split (CHR ''.'') host). host_label l \<and> length l \<le> 63)))"
proof (intro conjI impI)
  show "MatchString hostPattern host \<longleftrightarrow>
     (\<forall>x \<in> set (Split 46 (runes host)). label_shape host_end_class host_mid_class x \<and> length x \<le> 63)"
    by (rule host_pattern_runes)
  assume a: "ascii host"
  have "label_shape host_end_class host_mid_class (map byte l) \<longleftrightarrow> host_label l"
    if "l \<in> set (Split (CHR ''.'') host)" for l
    using that ascii_labels [OF a] host_label_bytes by blast
  then show "MatchString hostPattern host \<longleftrightarrow>
       (\<forall>l \<in> set (Split (CHR ''.'') host). host_label l \<and> length l \<le> 63)"
    unfolding host_pattern_runes runes_ascii [OF a] Split_map_byte by simp
qed

lemma host_pattern_labels_witness:
  "(MatchString hostPattern ''argocd.dev-1.example.com'' \<longleftrightarrow>
     (\<forall>x \<in> set (Split 46 (runes ''argocd.dev-1.example.com'')).
        label_shape host_end_class host_mid_class x \<and> length x \<le> 63)) \<and>
   (MatchString hostPattern ''argocd.dev-1.example.com'' \<longleftrightarrow>
     (\<forall>l \<in> set (Split (CHR ''.'') ''argocd.dev-1.example.com''). host_label l \<and> length l \<le> 63))"
proof -
  have "ascii ''argocd.dev-1.example.com''" by (simp add: ascii_def byte_def)
  with host_pattern_labels [of "''argocd.dev-1.example.com''"] show ?thesis by blast
qed

text \<open>The Kelvin sign folds to the letter k.\<close>

definition kelvin_host :: string where
  "kelvin_host = concat (replicate 63 (map char_of [226 :: nat, 132, 170]))"

lemma decode_kelvin: "decode_runes (concat (replicate n [226, 132, 170])) = replicate n 8490"
  by (induction n) (simp_all add: decode_rune.simps cont_def)

lemma kelvin_runes: "runes kelvin_host = replicate 63 8490"
proof -
  have bytes: "map byte (concat (replicate n (map char_of xs))) = concat (replicate n xs)"
    if "\<forall>x \<in> set xs. x < 256" for n and xs :: "nat list"
    using that by (induction n) (simp_all add: byte_def map_idI)
  have "map byte kelvin_host = concat (replicate 63 [226, 132, 170])"
    unfolding kelvin_host_def by (rule bytes) simp
  then show ?thesis unfolding runes_def by (simp only: decode_kelvin)
qed

text \<open>The pattern is not confined to DNS names: it accepts a label of 63 Kelvin signs, which is
  neither ASCII nor within the 63 bytes of a label.\<close>

theorem host_pattern_accepts_non_ascii:
  "MatchString hostPattern kelvin_host \<and> \<not> ascii kelvin_host \<and> length kelvin_host = 189"
proof -
  have sp: "Split 46 (runes kelvin_host) = [replicate 63 8490]"
    unfolding kelvin_runes by (rule Split_single) simp
  have "MatchString hostPattern kelvin_host"
    unfolding host_pattern_runes sp
    by (simp add: label_shape_def in_class_def host_end_class_def host_mid_class_def)
  moreover have "\<not> ascii kelvin_host"
    unfolding ascii_iff_runes kelvin_runes by simp
  moreover have "length kelvin_host = 189" by (simp add: kelvin_host_def length_concat sum_list_replicate)
  ultimately show ?thesis by blast
qed

section \<open>Accepting a request\<close>

text \<open>Trimming leaves a string alone that starts and ends with a visible ASCII character.\<close>

definition visible :: "char \<Rightarrow> bool" where
  "visible c \<longleftrightarrow> 33 \<le> byte c \<and> byte c \<le> 126"

lemma spaces_invisible:
  "e \<in> set space_encodings \<Longrightarrow> e \<noteq> [] \<and> \<not> visible (hd e) \<and> \<not> visible (last e)"
  by (auto simp: space_encodings_def visible_def byte_def)

lemma trim_front_id:
  assumes "s = [] \<or> visible (hd s)" and "\<And>e. e \<in> set encs \<Longrightarrow> e \<noteq> [] \<and> \<not> visible (hd e)"
  shows "trim_front encs s = s"
proof -
  have "\<not> starts_with e s" if "e \<in> set encs" for e
    using assms(1) assms(2) [OF that] by (cases e; cases s) auto
  then have "find (\<lambda>e. e \<noteq> [] \<and> starts_with e s) encs = None" by (auto simp: find_None_iff)
  then show ?thesis by (subst trim_front.simps) simp
qed

lemma TrimSpace_id: "visible (hd s) \<Longrightarrow> visible (last s) \<Longrightarrow> TrimSpace s = s"
proof -
  assume v: "visible (hd s)" "visible (last s)"
  have a: "trim_front space_encodings s = s"
    by (rule trim_front_id) (use v spaces_invisible in blast)+
  have "trim_front (map rev space_encodings) (rev s) = rev s"
    by (rule trim_front_id) (use v spaces_invisible in \<open>auto simp: hd_rev\<close>)
  then show ?thesis by (simp add: TrimSpace_def a)
qed

lemma visible_literals [simp]:
  "TrimSpace ''argocd'' = ''argocd''"
  "TrimSpace ''https://api.dev.example.com'' = ''https://api.dev.example.com''"
  "TrimSpace ''api.dev.example.com:6443'' = ''api.dev.example.com:6443''"
  "TrimSpace ''203.0.113.0/24'' = ''203.0.113.0/24''"
  by (rule TrimSpace_id; simp add: visible_def byte_def)+

lemma check_cidrs_iff: "check_cidrs cs = Inr u \<longleftrightarrow> (\<forall>c \<in> set cs. ParseCIDR_ok (TrimSpace c))"
  by (induction cs) auto

text \<open>The condition under which an exposure request is accepted.\<close>

definition exposure_acceptable :: "ServerExposure \<Rightarrow> string \<Rightarrow> bool" where
  "exposure_acceptable e url \<longleftrightarrow>
     se_Host e \<noteq> [] \<and> MatchString hostPattern (se_Host e) \<and>
     (\<forall>c \<in> set (se_AllowedIPs e). ParseCIDR_ok (TrimSpace c)) \<and>
     (\<exists>fqdn. composeHost (se_Host e) url = Inr fqdn \<and> length fqdn \<le> 253)"

lemma validateExposure_iff:
  "validateExposure obj url = Inr u \<longleftrightarrow>
     (\<forall>e. spec_Exposure (Spec obj) = Some e \<longrightarrow> exposure_acceptable e url)"
proof (cases "spec_Exposure (Spec obj)")
  case None
  then show ?thesis by (simp add: validateExposure_def)
next
  case (Some e)
  show ?thesis
  proof (cases "check_cidrs (se_AllowedIPs e)")
    case (Inl err)
    then have "\<not> (\<forall>c \<in> set (se_AllowedIPs e). ParseCIDR_ok (TrimSpace c))"
      using check_cidrs_iff [of "se_AllowedIPs e" "()"] by simp
    then show ?thesis using Some Inl by (simp add: validateExposure_def exposure_acceptable_def)
  next
    case (Inr v)
    then have "\<forall>c \<in> set (se_AllowedIPs e). ParseCIDR_ok (TrimSpace c)" using check_cidrs_iff by blast
    then show ?thesis using Some Inr
      by (cases "composeHost (se_Host e) url") (auto simp: validateExposure_def exposure_acceptable_def)
  qed
qed

lemma composeHost_dot: "composeHost host url = Inr fqdn \<Longrightarrow> CHR ''.'' \<in> set fqdn"
  by (auto simp: composeHost_def Let_def split: if_splits sum.splits)

text \<open>C31. A request that was accepted resolves to what was checked: the host given to the chart is the
  composed one, never the raw host (the fallback for an error is not taken), it has a domain and at
  most 253 bytes, and the source ranges are CIDR ranges.\<close>

theorem validated_exposure_resolves:
  assumes "validateExposure obj url = Inr u" and "spec_Exposure (Spec obj) = Some e"
  shows "\<exists>fqdn. composeHost (se_Host e) url = Inr fqdn \<and>
     ev_Host (resolveExposure obj pc url) = fqdn \<and> length fqdn \<le> 253 \<and> CHR ''.'' \<in> set fqdn \<and>
     ev_Enabled (resolveExposure obj pc url) \<and>
     (\<forall>c \<in> set (ev_AllowedIPs (resolveExposure obj pc url)). ParseCIDR_ok (TrimSpace c))"
proof -
  from assms obtain fqdn where "composeHost (se_Host e) url = Inr fqdn" "length fqdn \<le> 253"
    "\<forall>c \<in> set (se_AllowedIPs e). ParseCIDR_ok (TrimSpace c)"
    by (auto simp: validateExposure_iff exposure_acceptable_def)
  then show ?thesis
    using composeHost_dot by (auto simp: resolveExposure_def assms(2) Let_def)
qed

definition example_exposed :: ArgoCD where
  "example_exposed =
     \<lparr>Name = ''demo'', Namespace = ''project'', Generation = 1, Annotations = [],
      Spec = \<lparr>spec_Version = ''v3'', spec_NamespaceOverride = [],
        spec_Exposure = Some \<lparr>se_Host = ''argocd'', se_AllowedIPs = [''203.0.113.0/24'']\<rparr>,
        spec_VaultPlugin = None\<rparr>,
      Status = \<lparr>st_Conditions = [], st_ObservedGeneration = 0, st_Phase = [], st_Endpoint = []\<rparr>\<rparr>"

lemma example_host_ok: "MatchString hostPattern ''argocd''"
proof -
  have "ascii ''argocd''" by (simp add: ascii_def byte_def)
  moreover have "host_label ''argocd''" by (simp add: host_label_def alnum_def byte_def)
  ultimately show ?thesis
    using host_label_bytes [of "''argocd''"]
    by (simp add: host_pattern_runes runes_ascii Split_single byte_def)
qed

lemma example_parsed:
  "parse_hostname ''https://api.dev.example.com'' = Inr ''api.dev.example.com''"
  "parse_hostname ''api.dev.example.com:6443'' = Inr []"
  "TrimSuffix ''argocd'' ''.'' = ''argocd''" "ParseCIDR_ok ''203.0.113.0/24''"
  by code_simp+

lemma deriveRootDomain_eq:
  assumes "TrimSpace url = s" and "s \<noteq> []" and "parse_hostname s = Inr h"
    and "(if h = [] then s else h) = Join (''api'' # ls) ''.''"
    and "\<forall>l \<in> set ls. CHR ''.'' \<notin> set l" and "2 \<le> length ls"
  shows "deriveRootDomain url = Inr (Join ls ''.'')"
proof -
  have "Split (CHR ''.'') (if h = [] then s else h) = ''api'' # ls"
    unfolding assms(4) by (rule Split_Join) (use assms(5) in auto)
  then show ?thesis using assms(1-3,6) by (simp add: deriveRootDomain_def Let_def)
qed

lemma composeHost_bare:
  "TrimSuffix (TrimSpace host) ''.'' = h \<Longrightarrow> CHR ''.'' \<notin> set h \<Longrightarrow> deriveRootDomain url = Inr d \<Longrightarrow>
   composeHost host url = Inr (h @ ''.'' @ d)"
  by (simp add: composeHost_def Let_def)

lemma example_domains:
  "deriveRootDomain ''https://api.dev.example.com'' = Inr (Join [''dev'', ''example'', ''com''] ''.'')"
  "deriveRootDomain ''api.dev.example.com:6443'' = Inr (Join [''dev'', ''example'', ''com:6443''] ''.'')"
  by (rule deriveRootDomain_eq [OF visible_literals(2) _ example_parsed(1)]; simp)
     (rule deriveRootDomain_eq [OF visible_literals(3) _ example_parsed(2)]; simp)

lemma example_composed:
  "composeHost ''argocd'' ''https://api.dev.example.com'' = Inr ''argocd.dev.example.com''"
  "composeHost ''argocd'' ''api.dev.example.com:6443'' = Inr ''argocd.dev.example.com:6443''"
  using composeHost_bare [OF _ _ example_domains(1), of "''argocd''" "''argocd''"]
    composeHost_bare [OF _ _ example_domains(2), of "''argocd''" "''argocd''"]
  by (simp_all add: example_parsed)

lemma example_validated:
  "validateExposure example_exposed ''https://api.dev.example.com'' = Inr ()"
  "validateExposure example_exposed ''api.dev.example.com:6443'' = Inr ()"
  by (simp_all add: validateExposure_iff exposure_acceptable_def example_exposed_def example_composed
      example_host_ok example_parsed)

lemma validated_exposure_resolves_witness:
  "\<exists>fqdn. composeHost ''argocd'' ''https://api.dev.example.com'' = Inr fqdn \<and>
     ev_Host (resolveExposure example_exposed None ''https://api.dev.example.com'') = fqdn \<and>
     length fqdn \<le> 253"
proof -
  have "spec_Exposure (Spec example_exposed) = Some \<lparr>se_Host = ''argocd'', se_AllowedIPs = [''203.0.113.0/24'']\<rparr>"
    by (simp add: example_exposed_def)
  from validated_exposure_resolves [OF example_validated(1) this, of None] show ?thesis
    unfolding ServerExposure.select_convs by blast
qed

text \<open>An API server endpoint without a scheme keeps its port: \<^verbatim>\<open>url.Parse\<close> reads
  "api.dev.example.com:6443" as the scheme "api.dev.example.com", the host name is empty, and the
  code goes on with the whole string. The request is accepted, and the host it resolves to ends in
  a port.\<close>

theorem schemeless_endpoint_keeps_port:
  "deriveRootDomain ''api.dev.example.com:6443'' = Inr ''dev.example.com:6443'' \<and>
   validateExposure example_exposed ''api.dev.example.com:6443'' = Inr () \<and>
   ev_Host (resolveExposure example_exposed pc ''api.dev.example.com:6443'') = ''argocd.dev.example.com:6443''"
  by (simp add: example_domains example_validated)
     (simp add: resolveExposure_def example_exposed_def example_composed Let_def)

end
