(* ===== verification/Secrets_Correct.thy ===== *)
theory Secrets_Correct
  imports Provisioner
begin

text \<open>
  Replicated secrets. Image pull secrets (onto the MCP), chart pull secrets (into the tenant
  namespace) and the CA bundle follow one discipline: copy what is referenced, stamp the copy,
  delete the stamped copies that are no longer referenced. The locale \<open>secret_replica\<close> is the
  contract of a copy and a prune operation; the facts about a reconciliation are proved from it
  once, and both kinds of pull secrets of the provisioner are instances.
\<close>

section \<open>Untouched objects\<close>

text \<open>A run leaves alone what is not in \<open>A\<close> and not owned, whether it succeeds or not.\<close>

definition hands_off ::
  "('w \<Rightarrow> store) \<Rightarrow> (obj_ref \<Rightarrow> kobj \<Rightarrow> bool) \<Rightarrow> obj_ref set \<Rightarrow> 'w \<Rightarrow> 'w \<Rightarrow> bool" where
  "hands_off view owned A w w' \<longleftrightarrow>
     (\<forall>r. r \<notin> A \<and> (\<forall>obj. view w r = Some obj \<longrightarrow> \<not> owned r obj) \<longrightarrow> view w' r = view w r)"

lemma hands_off_refl: "hands_off view owned A w w"
  by (simp add: hands_off_def)

lemma hands_off_trans:
  assumes "hands_off view owned A w w'" and "hands_off view owned A w' w''"
  shows "hands_off view owned A w w''"
  unfolding hands_off_def
proof (intro allI impI)
  fix r
  assume r: "r \<notin> A \<and> (\<forall>obj. view w r = Some obj \<longrightarrow> \<not> owned r obj)"
  with assms(1) have eq: "view w' r = view w r" unfolding hands_off_def by blast
  with r have "r \<notin> A \<and> (\<forall>obj. view w' r = Some obj \<longrightarrow> \<not> owned r obj)" by simp
  with assms(2) have "view w'' r = view w' r" unfolding hands_off_def by blast
  with eq show "view w'' r = view w r" by simp
qed

interpretation hands_off: run_relation "hands_off view owned A" for view owned A
  by unfold_locales (rule hands_off_refl, rule hands_off_trans)

lemma hands_off_same_outside: "same_outside view A w w' \<Longrightarrow> hands_off view owned A w w'"
  by (auto simp: same_outside_def hands_off_def)

lemma keeps_hands_off: "io_keeps (same_outside view A) m \<Longrightarrow> io_keeps (hands_off view owned A) m"
  unfolding io_keeps_def by (blast intro: hands_off_same_outside)

lemma hands_off_mono:
  assumes "hands_off view owned A w w'" and "A \<subseteq> B" and "\<And>r obj. owned r obj \<Longrightarrow> owned' r obj"
  shows "hands_off view owned' B w w'"
  unfolding hands_off_def
proof (intro allI impI)
  fix r
  assume r: "r \<notin> B \<and> (\<forall>obj. view w r = Some obj \<longrightarrow> \<not> owned' r obj)"
  then have "r \<notin> A" "\<forall>obj. view w r = Some obj \<longrightarrow> \<not> owned r obj" using assms(2,3) by blast+
  with assms(1) show "view w' r = view w r" unfolding hands_off_def by blast
qed

lemma keeps_hands_off_mono:
  "io_keeps (hands_off view owned A) m \<Longrightarrow> A \<subseteq> B \<Longrightarrow> (\<And>r obj. owned r obj \<Longrightarrow> owned' r obj) \<Longrightarrow>
   io_keeps (hands_off view owned' B) m"
  unfolding io_keeps_def using hands_off_mono by metis

section \<open>Pruning\<close>

text \<open>The common shape of the three pruning loops of the code.\<close>

definition prune_shape ::
  "'w kube_client \<Rightarrow> cluster \<Rightarrow> string \<Rightarrow> (string \<times> string) list \<Rightarrow> string list \<Rightarrow>
   (go_error \<Rightarrow> go_error) \<Rightarrow> (kobj \<Rightarrow> go_error \<Rightarrow> go_error) \<Rightarrow> (go_error, 'w, unit) io" where
  "prune_shape api c ns sel keep list_err del_err =
     io_bind (io_map_error list_err (api_List api c KSecret (Some ns) sel)) (\<lambda>items.
     io_for items (\<lambda>item.
       if o_Name item \<in> set keep then io_return ()
       else io_map_error (del_err item) (IgnoreNotFound (api_Delete api (ref_of c item)))))"

text \<open>What pruning leaves: a selected object that is not kept is gone, or marked while it has
  finalizers.\<close>

definition selected :: "cluster \<Rightarrow> string \<Rightarrow> (string \<times> string) list \<Rightarrow> obj_ref \<Rightarrow> kobj \<Rightarrow> bool" where
  "selected c ns sel r obj \<longleftrightarrow>
     (\<exists>n. r = (c, KSecret, ns, n)) \<and> matches_labels sel obj"

lemma selected_range: "selected c ns sel r obj \<Longrightarrow> r \<in> range (\<lambda>n. (c, KSecret, ns, n))"
  by (auto simp: selected_def)

definition pruned ::
  "store \<Rightarrow> cluster \<Rightarrow> string \<Rightarrow> (string \<times> string) list \<Rightarrow> string list \<Rightarrow> store" where
  "pruned s c ns sel keep = (\<lambda>r.
     case s r of
       None \<Rightarrow> None
     | Some obj \<Rightarrow>
         if selected c ns sel r obj \<and> snd (snd (snd r)) \<notin> set keep then after_delete obj else Some obj)"

lemma pruneImagePullSecrets_shape:
  "pruneImagePullSecrets api p keep =
     prune_shape api (p_mcpClient p) (p_mcpNamespace p) [(managedByLabel, imagePullSecretManagedByValue)] keep
       (Wrap (''listing replicated image pull secrets in namespace '' @ quoted (p_mcpNamespace p)))
       (\<lambda>item. Wrap (''deleting orphaned image pull secret '' @ quoted (o_Name item)))"
  unfolding pruneImagePullSecrets_def prune_shape_def by (rule refl)

lemma pruneChartPullSecrets_shape:
  "pruneChartPullSecrets api p keep =
     prune_shape api (p_platformClient p) (p_tenantNamespace p) [(chartPullSecretLabel, ''true'')] keep
       (Wrap (''listing replicated chart pull secrets in namespace '' @ quoted (p_tenantNamespace p)))
       (\<lambda>item. Wrap (''deleting orphaned chart pull secret '' @ quoted (o_Name item)))"
  unfolding pruneChartPullSecrets_def prune_shape_def by (rule refl)

lemma RemoveCABundle_shape:
  "p_caBundleSecret p = [] \<Longrightarrow>
   RemoveCABundle api p =
     prune_shape api (p_platformClient p) (p_tenantNamespace p) [(caBundleLabel, ''true'')] []
       (Wrap (''listing CA bundle secrets in tenant namespace '' @ quoted (p_tenantNamespace p)))
       (\<lambda>item. Wrap (''deleting CA bundle secret '' @ quoted (o_Name item)))"
  unfolding RemoveCABundle_def prune_shape_def by simp

lemmas prune_shapes = pruneImagePullSecrets_shape pruneChartPullSecrets_shape RemoveCABundle_shape

lemma after_delete_idem:
  "Option.bind x (\<lambda>y. Option.bind (after_delete y) after_delete) = Option.bind x after_delete"
  by (cases x) (auto simp: after_delete_def)

context kube_api
begin

lemma delete_items_keeps:
  "io_keeps (same_outside view (ref_of c ` {i \<in> set items. o_Name i \<notin> set keep}))
     (io_for items (\<lambda>item.
       if o_Name item \<in> set keep then io_return ()
       else io_map_error (h item) (IgnoreNotFound (api_Delete api (ref_of c item)))))"
  by (rule frame.keeps_for)
     (auto intro!: frame.keeps_return frame.keeps_map_error client_keeps)

lemma delete_items_ok:
  assumes "io_for items (\<lambda>item.
       if o_Name item \<in> set keep then io_return ()
       else io_map_error (h item) (IgnoreNotFound (api_Delete api (ref_of c item)))) w = (Inr u, w')"
  shows "view w' r = (if r \<in> ref_of c ` {i \<in> set items. o_Name i \<notin> set keep}
                      then Option.bind (view w r) after_delete else view w r)"
  using assms
proof (induction items arbitrary: w)
  case Nil
  then show ?case by (simp add: io_ok)
next
  case (Cons i items)
  then obtain w1 where
    hd: "(if o_Name i \<in> set keep then io_return ()
       else io_map_error (h i) (IgnoreNotFound (api_Delete api (ref_of c i)))) w = (Inr (), w1)"
    and tl: "view w' r = (if r \<in> ref_of c ` {i \<in> set items. o_Name i \<notin> set keep}
                      then Option.bind (view w1 r) after_delete else view w1 r)"
    by (auto simp: io_ok)
  show ?case
  proof (cases "o_Name i \<in> set keep")
    case True
    then show ?thesis using hd tl by (auto simp: io_ok)
  next
    case False
    then have "view w1 = deleted (view w) (ref_of c i)"
      using hd by (simp add: io_ok ignore_delete_ok)
    then show ?thesis using tl False by (auto simp: deleted_def after_delete_idem)
  qed
qed

lemma listed_ref:
  "obj \<in> listed (view w) c k (Some ns) sel \<Longrightarrow>
   ref_of c obj = (c, k, ns, o_Name obj) \<and> view w (c, k, ns, o_Name obj) = Some obj \<and> matches_labels sel obj"
proof -
  assume "obj \<in> listed (view w) c k (Some ns) sel"
  then obtain n where n: "view w (c, k, ns, n) = Some obj" "matches_labels sel obj"
    by (auto simp: listed_def)
  moreover have "key_of obj = (k, ns, n)" by (rule stored_key [OF n(1)])
  ultimately show ?thesis by (auto simp: ref_of_def key_of_def)
qed

lemma listed_refs:
  "r \<in> ref_of c ` {i \<in> listed (view w) c KSecret (Some ns) sel. o_Name i \<notin> set keep} \<longleftrightarrow>
   (\<exists>obj. view w r = Some obj \<and> selected c ns sel r obj \<and> snd (snd (snd r)) \<notin> set keep)"
proof
  assume "r \<in> ref_of c ` {i \<in> listed (view w) c KSecret (Some ns) sel. o_Name i \<notin> set keep}"
  then obtain i where "r = ref_of c i" "i \<in> listed (view w) c KSecret (Some ns) sel" "o_Name i \<notin> set keep"
    by blast
  then show "\<exists>obj. view w r = Some obj \<and> selected c ns sel r obj \<and> snd (snd (snd r)) \<notin> set keep"
    using listed_ref by (auto simp: selected_def)
next
  assume "\<exists>obj. view w r = Some obj \<and> selected c ns sel r obj \<and> snd (snd (snd r)) \<notin> set keep"
  then obtain obj n where "r = (c, KSecret, ns, n)" "view w r = Some obj" "matches_labels sel obj" "n \<notin> set keep"
    by (auto simp: selected_def)
  moreover then have "obj \<in> listed (view w) c KSecret (Some ns) sel" by (auto simp: listed_def)
  moreover then have "ref_of c obj = (c, KSecret, ns, o_Name obj)" using listed_ref by blast
  moreover have "o_Name obj = n" using calculation stored_ref [of w r obj] by (simp add: ref_of_def)
  ultimately show "r \<in> ref_of c ` {i \<in> listed (view w) c KSecret (Some ns) sel. o_Name i \<notin> set keep}"
    by (intro image_eqI [where x = obj]) auto
qed

lemma prune_ok:
  assumes "prune_shape api c ns sel keep e1 e2 w = (Inr u, w')"
  shows "view w' = pruned (view w) c ns sel keep"
proof
  fix r
  obtain items w1 where l: "api_List api c KSecret (Some ns) sel w = (Inr items, w1)"
    and d: "io_for items (\<lambda>item.
       if o_Name item \<in> set keep then io_return ()
       else io_map_error (e2 item) (IgnoreNotFound (api_Delete api (ref_of c item)))) w1 = (Inr u, w')"
    using assms by (auto simp: prune_shape_def io_ok)
  have "view w1 = view w" "set items = listed (view w) c KSecret (Some ns) sel" using list_ok [OF l] by simp_all
  then show "view w' r = pruned (view w) c ns sel keep r"
    using delete_items_ok [OF d, of r] listed_refs [of r c w ns sel keep]
    by (auto simp: pruned_def split: option.split)
qed

lemma prune_keeps:
  "io_keeps (hands_off view (\<lambda>r obj. selected c ns sel r obj \<and> snd (snd (snd r)) \<notin> set keep) A)
     (prune_shape api c ns sel keep e1 e2)"
proof (rule io_keepsI)
  fix w x w'
  assume run: "prune_shape api c ns sel keep e1 e2 w = (x, w')"
  obtain l w1 where l: "api_List api c KSecret (Some ns) sel w = (l, w1)" by fastforce
  show "hands_off view (\<lambda>r obj. selected c ns sel r obj \<and> snd (snd (snd r)) \<notin> set keep) A w w'"
  proof (cases l)
    case (Inl e)
    then have "view w' = view w" using run l list_err [of c KSecret "Some ns" sel w e w1]
      by (auto simp: prune_shape_def io_bind_def io_map_error_def)
    then show ?thesis by (simp add: hands_off_def)
  next
    case (Inr items)
    then have w1: "view w1 = view w" "set items = listed (view w) c KSecret (Some ns) sel"
      using l list_ok by blast+
    have "io_for items (\<lambda>item.
       if o_Name item \<in> set keep then io_return ()
       else io_map_error (e2 item) (IgnoreNotFound (api_Delete api (ref_of c item)))) w1 = (x, w')"
      using run l Inr by (simp add: prune_shape_def io_bind_def io_map_error_def)
    from io_keepsD [OF delete_items_keeps this] show ?thesis
      using listed_refs [of _ c w ns sel keep] w1 by (auto simp: hands_off_def same_outside_def)
  qed
qed

lemma prune_scope:
  "io_keeps (same_outside view (range (\<lambda>n. (c, KSecret, ns, n)))) (prune_shape api c ns sel keep e1 e2)"
proof (rule io_keepsI)
  fix w x w'
  assume "prune_shape api c ns sel keep e1 e2 w = (x, w')"
  from io_keepsD [OF prune_keeps this, of "{}"]
  show "same_outside view (range (\<lambda>n. (c, KSecret, ns, n))) w w'"
    unfolding hands_off_def same_outside_def using selected_range by blast
qed

end

section \<open>The contract of a replica\<close>

text \<open>A reconciliation: copy what is referenced, then prune the rest.\<close>

definition replicate_secrets ::
  "(string \<Rightarrow> (go_error, 'w, unit) io) \<Rightarrow> (string list \<Rightarrow> (go_error, 'w, unit) io) \<Rightarrow> string list \<Rightarrow>
   (go_error, 'w, unit) io" where
  "replicate_secrets copy prune names = io_bind (io_for names copy) (\<lambda>_. prune names)"

definition or_fresh :: "kobj \<Rightarrow> kobj option \<Rightarrow> kobj" where
  "or_fresh fresh x = (case x of None \<Rightarrow> fresh | Some obj \<Rightarrow> obj)"

lemma or_fresh_Some [simp]: "or_fresh fresh (Some obj) = obj"
  by (simp add: or_fresh_def)

text \<open>
  \<open>copy n\<close> writes the stamped contents of \<open>src n\<close> to \<open>dst n\<close> and may fill in the auxiliary
  objects \<open>aux\<close>; \<open>prune keep\<close> deletes the owned destinations that are not kept.
\<close>

locale secret_replica =
  fixes view :: "'w \<Rightarrow> store"
    and copy :: "string \<Rightarrow> (go_error, 'w, unit) io"
    and prune :: "string list \<Rightarrow> (go_error, 'w, unit) io"
    and src dst :: "string \<Rightarrow> obj_ref"
    and fresh :: "string \<Rightarrow> kobj"
    and stamp :: "body \<Rightarrow> kobj \<Rightarrow> kobj"
    and own :: "kobj \<Rightarrow> bool"
    and aux :: "obj_ref set"
    and fill :: "obj_ref \<Rightarrow> kobj option \<Rightarrow> kobj option"
  assumes copy_ok:
      "copy n w = (Inr u, w') \<Longrightarrow>
       \<exists>s. view w (src n) = Some s \<and>
           view w' (dst n) = Some (stamp (o_Body s) (or_fresh (fresh n) (view w (dst n))))"
    and copy_aux: "copy n w = (Inr u, w') \<Longrightarrow> r \<in> aux \<Longrightarrow> view w' r = fill r (view w r)"
    and copy_frame: "io_keeps (same_outside view (insert (dst n) aux)) (copy n)"
    and prune_result:
      "prune keep w = (Inr u, w') \<Longrightarrow>
       view w' (dst n) =
         (case view w (dst n) of None \<Rightarrow> None
          | Some obj \<Rightarrow> if own obj \<and> n \<notin> set keep then after_delete obj else Some obj)"
    and prune_frame:
      "io_keeps (hands_off view (\<lambda>r obj. (\<exists>n. r = dst n \<and> n \<notin> set keep) \<and> own obj) A) (prune keep)"
    and stamp_own: "own (stamp b t)"
    and stamp_body: "o_Body (stamp b t) = b"
    and stamp_idem: "stamp b (stamp b t) = stamp b t"
    and fill_idem: "fill r (fill r x) = fill r x"
    and dst_inj: "dst m = dst n \<Longrightarrow> m = n"
    and src_dst: "src m = dst n \<Longrightarrow> m = n"
    and aux_disjoint: "src n \<notin> aux" "dst n \<notin> aux"
begin

lemma copies_frame: "io_keeps (same_outside view (dst ` set names \<union> aux)) (io_for names copy)"
  by (rule frame.keeps_for) (auto intro: keeps_outside_mono [OF copy_frame])

lemma copies_ok:
  "io_for names copy w = (Inr u, w') \<Longrightarrow> n \<in> set names \<Longrightarrow>
   \<exists>s. view w (src n) = Some s \<and>
       view w' (dst n) = Some (stamp (o_Body s) (or_fresh (fresh n) (view w (dst n))))"
proof (induction names arbitrary: w)
  case Nil
  then show ?case by simp
next
  case (Cons x names)
  then obtain w1 where x: "copy x w = (Inr (), w1)" and rest: "io_for names copy w1 = (Inr u, w')"
    by (auto simp: io_ok)
  obtain s where s: "view w (src x) = Some s"
      "view w1 (dst x) = Some (stamp (o_Body s) (or_fresh (fresh x) (view w (dst x))))"
    using copy_ok [OF x] by blast
  have f1: "r \<noteq> dst x \<Longrightarrow> r \<notin> aux \<Longrightarrow> view w1 r = view w r" for r
    by (rule same_outsideD [OF io_keepsD [OF copy_frame x]]) simp
  show ?case
  proof (cases "n \<in> set names")
    case True
    from Cons.IH [OF rest True] obtain s1 where s1: "view w1 (src n) = Some s1"
      "view w' (dst n) = Some (stamp (o_Body s1) (or_fresh (fresh n) (view w1 (dst n))))" by blast
    show ?thesis
    proof (cases "n = x")
      case nx: True
      have "o_Body s1 = o_Body s"
      proof (cases "src x = dst x")
        case True
        then show ?thesis using s s1(1) nx by (auto simp: stamp_body)
      next
        case False
        then show ?thesis using f1 [OF False] aux_disjoint(1) s(1) s1(1) nx by auto
      qed
      then show ?thesis using s s1(2) nx by (simp add: stamp_idem)
    next
      case False
      have "src n \<noteq> dst x" "dst n \<noteq> dst x" using False src_dst dst_inj by blast+
      then have "view w1 (src n) = view w (src n)" "view w1 (dst n) = view w (dst n)"
        using f1 aux_disjoint by blast+
      then show ?thesis using s1 by (intro exI [of _ s1]) simp
    qed
  next
    case False
    then have nx: "n = x" using Cons.prems(2) by simp
    have "view w' (dst x) = view w1 (dst x)"
      by (rule same_outsideD [OF io_keepsD [OF copies_frame rest]])
         (use False nx aux_disjoint dst_inj in auto)
    then show ?thesis using s nx by simp
  qed
qed

lemma copies_aux:
  "io_for names copy w = (Inr u, w') \<Longrightarrow> r \<in> aux \<Longrightarrow>
   view w' r = (if names = [] then view w r else fill r (view w r))"
proof (induction names arbitrary: w)
  case Nil
  then show ?case by (simp add: io_ok)
next
  case (Cons x names)
  then obtain w1 where x: "copy x w = (Inr (), w1)" and rest: "io_for names copy w1 = (Inr u, w')"
    by (auto simp: io_ok)
  show ?case using Cons.IH [OF rest Cons.prems(2)] copy_aux [OF x Cons.prems(2)]
    by (simp add: fill_idem)
qed

text \<open>
  What a successful reconciliation leaves, key by key: each referenced destination holds the
  stamped contents of its source, an owned destination that is not referenced is gone (or marked,
  while it has finalizers), the auxiliary objects are filled in, and nothing else is changed.
\<close>

lemma replicate_referenced:
  assumes "replicate_secrets copy prune names w = (Inr u, w')" and "n \<in> set names"
  shows "\<exists>s. view w (src n) = Some s \<and>
       view w' (dst n) = Some (stamp (o_Body s) (or_fresh (fresh n) (view w (dst n))))"
proof -
  obtain w1 where c: "io_for names copy w = (Inr (), w1)" and p: "prune names w1 = (Inr u, w')"
    using assms(1) by (auto simp: replicate_secrets_def io_ok)
  show ?thesis using copies_ok [OF c assms(2)] prune_result [OF p, of n] assms(2) by auto
qed

lemma replicate_unreferenced:
  assumes "replicate_secrets copy prune names w = (Inr u, w')" and "n \<notin> set names"
  shows "view w' (dst n) =
    (case view w (dst n) of None \<Rightarrow> None
     | Some obj \<Rightarrow> if own obj then after_delete obj else Some obj)"
proof -
  obtain w1 where c: "io_for names copy w = (Inr (), w1)" and p: "prune names w1 = (Inr u, w')"
    using assms(1) by (auto simp: replicate_secrets_def io_ok)
  have "view w1 (dst n) = view w (dst n)"
    by (rule same_outsideD [OF io_keepsD [OF copies_frame c]])
       (use assms(2) dst_inj aux_disjoint in auto)
  then show ?thesis using prune_result [OF p, of n] assms(2) by (auto split: option.split)
qed

lemma replicate_elsewhere:
  assumes "replicate_secrets copy prune names w = (Inr u, w')" and "r \<notin> range dst"
  shows "view w' r = (if r \<in> aux \<and> names \<noteq> [] then fill r (view w r) else view w r)"
proof -
  obtain w1 where c: "io_for names copy w = (Inr (), w1)" and p: "prune names w1 = (Inr u, w')"
    using assms(1) by (auto simp: replicate_secrets_def io_ok)
  have "view w' r = view w1 r"
    using io_keepsD [OF prune_frame [where A = "{}"] p] assms(2) unfolding hands_off_def by blast
  moreover have "r \<notin> aux \<Longrightarrow> view w1 r = view w r"
    by (rule same_outsideD [OF io_keepsD [OF copies_frame c]]) (use assms(2) in auto)
  ultimately show ?thesis using copies_aux [OF c, of r] by (cases "r \<in> aux") simp_all
qed

lemma replicate_hands_off:
  "io_keeps (hands_off view (\<lambda>r obj. r \<in> range dst \<and> own obj) (dst ` set names \<union> aux))
     (replicate_secrets copy prune names)"
  unfolding replicate_secrets_def
  by (rule hands_off.keeps_bind [OF keeps_hands_off [OF copies_frame]])
     (rule keeps_hands_off_mono [OF prune_frame [where A = "{}"]], auto)

end

text \<open>On a cluster that answers, pruning succeeds, and copying exactly when the source exists and the
  cluster accepts the copy; then a reconciliation does so exactly when this holds for all names.\<close>

locale secret_replica_up = secret_replica +
  fixes ok :: "store \<Rightarrow> string \<Rightarrow> body \<Rightarrow> bool"
  assumes copy_up: "(\<exists>w'. copy n w = (Inr (), w')) \<longleftrightarrow> (\<exists>s. view w (src n) = Some s \<and> ok (view w) n (o_Body s))"
    and ok_kept: "copy m w = (Inr (), w') \<Longrightarrow> m \<noteq> n \<Longrightarrow> ok (view w') n b \<longleftrightarrow> ok (view w) n b"
    and ok_copied: "copy n w = (Inr (), w') \<Longrightarrow> view w (src n) = Some s \<Longrightarrow> ok (view w') n (o_Body s)"
    and prune_up: "\<exists>w'. prune keep w = (Inr (), w')"
begin

lemma copied_again:
  assumes "copy m w = (Inr (), w')"
  shows "(\<exists>s. view w' (src n) = Some s \<and> ok (view w') n (o_Body s)) \<longleftrightarrow>
    (\<exists>s. view w (src n) = Some s \<and> ok (view w) n (o_Body s))"
proof (cases "n = m")
  case False
  have "view w' (src n) = view w (src n)"
    by (rule same_outsideD [OF io_keepsD [OF copy_frame assms]]) (use False src_dst aux_disjoint in auto)
  then show ?thesis using ok_kept [OF assms, of n] False by simp
next
  case True
  obtain s where s: "view w (src m) = Some s" "ok (view w) m (o_Body s)" using copy_up assms by blast
  have "\<exists>s'. view w' (src m) = Some s' \<and> o_Body s' = o_Body s"
  proof (cases "src m = dst m")
    case same: True
    then show ?thesis using copy_ok [OF assms] s(1) stamp_body by auto
  next
    case False
    have "view w' (src m) = view w (src m)"
      by (rule same_outsideD [OF io_keepsD [OF copy_frame assms]]) (use False aux_disjoint in simp)
    then show ?thesis using s(1) by simp
  qed
  then show ?thesis using True s ok_copied [OF assms s(1)] by auto
qed

lemma copies_succeed:
  "(\<exists>w'. io_for names copy w = (Inr (), w')) \<longleftrightarrow>
     (\<forall>n \<in> set names. \<exists>s. view w (src n) = Some s \<and> ok (view w) n (o_Body s))"
proof (induction names arbitrary: w)
  case (Cons m names)
  have "(\<exists>w'. io_for (m # names) copy w = (Inr (), w')) \<longleftrightarrow>
      (\<exists>w1. copy m w = (Inr (), w1) \<and> (\<exists>w'. io_for names copy w1 = (Inr (), w')))"
    by (auto simp: io_ok)
  also have "\<dots> \<longleftrightarrow> (\<exists>w1. copy m w = (Inr (), w1)) \<and>
      (\<forall>n \<in> set names. \<exists>s. view w (src n) = Some s \<and> ok (view w) n (o_Body s))"
    using copied_again unfolding Cons.IH by blast
  finally show ?case unfolding copy_up by simp
qed (simp add: io_return_def)

lemma replicate_succeeds:
  "(\<exists>w'. replicate_secrets copy prune names w = (Inr (), w')) \<longleftrightarrow>
     (\<forall>n \<in> set names. \<exists>s. view w (src n) = Some s \<and> ok (view w) n (o_Body s))"
  unfolding copies_succeed [symmetric] using prune_up by (auto simp: replicate_secrets_def io_ok)

end

section \<open>Both kinds of pull secrets are replicas\<close>

lemma secret_body: "kind_of (o_Body s) = KSecret \<Longrightarrow> Secret (secret_Type s) (secret_Data s) = o_Body s"
  by (cases "o_Body s") (simp_all add: secret_Type_def secret_Data_def)

definition image_own :: "kobj \<Rightarrow> bool" where
  "image_own obj \<longleftrightarrow> label_of obj managedByLabel = Some imagePullSecretManagedByValue"

definition chart_own :: "kobj \<Rightarrow> bool" where
  "chart_own obj \<longleftrightarrow> label_of obj chartPullSecretLabel = Some ''true''"

definition ca_own :: "kobj \<Rightarrow> bool" where
  "ca_own obj \<longleftrightarrow> label_of obj caBundleLabel = Some ''true''"

definition mcp_namespace_ref :: "provisioner \<Rightarrow> obj_ref" where
  "mcp_namespace_ref p = (p_mcpClient p, KNamespace, [], p_mcpNamespace p)"

lemma labels_distinct [simp]:
  "chartPullSecretLabel \<noteq> managedByLabel" "managedByLabel \<noteq> chartPullSecretLabel"
  "caBundleLabel \<noteq> managedByLabel" "managedByLabel \<noteq> caBundleLabel"
  "caBundleLabel \<noteq> chartPullSecretLabel" "chartPullSecretLabel \<noteq> caBundleLabel"
  by (simp_all add: chartPullSecretLabel_def managedByLabel_def caBundleLabel_def)

lemma selected_own:
  "selected c ns [(managedByLabel, imagePullSecretManagedByValue)] r obj \<longleftrightarrow>
     (\<exists>n. r = (c, KSecret, ns, n)) \<and> image_own obj"
  "selected c ns [(chartPullSecretLabel, ''true'')] r obj \<longleftrightarrow>
     (\<exists>n. r = (c, KSecret, ns, n)) \<and> chart_own obj"
  "selected c ns [(caBundleLabel, ''true'')] r obj \<longleftrightarrow>
     (\<exists>n. r = (c, KSecret, ns, n)) \<and> ca_own obj"
  by (auto simp: selected_def matches_labels_def image_own_def chart_own_def ca_own_def)

lemma setManagedByValue_simps [simp]:
  "key_of (setManagedByValue v obj) = key_of obj"
  "o_Body (setManagedByValue v obj) = o_Body obj"
  "label_of (setManagedByValue v obj) = (label_of obj)(managedByLabel \<mapsto> v)"
  by (simp_all add: setManagedByValue_def)

lemma preserves_image_copy [simp]:
  "preserves_key (new_object n ns (Secret [] []))
     (\<lambda>target. (setManagedByValue v target)\<lparr>o_Body := Secret t d\<rparr>)"
  "preserves_key (new_object n ns (Secret [] []))
     (\<lambda>target. (set_label k x (setManagedByValue v target))\<lparr>o_Body := Secret t d\<rparr>)"
  by (simp_all add: preserves_key_def)

definition stamp_image :: "body \<Rightarrow> kobj \<Rightarrow> kobj" where
  "stamp_image b t = (setManagedByValue imagePullSecretManagedByValue t)\<lparr>o_Body := b\<rparr>"

definition stamp_chart :: "body \<Rightarrow> kobj \<Rightarrow> kobj" where
  "stamp_chart b t =
     (set_label chartPullSecretLabel ''true'' (setManagedByValue managedByArgoCDValue t))\<lparr>o_Body := b\<rparr>"

definition stamp_ca :: "body \<Rightarrow> kobj \<Rightarrow> kobj" where
  "stamp_ca b t =
     (set_label caBundleLabel ''true'' (setManagedByValue managedByArgoCDValue t))\<lparr>o_Body := b\<rparr>"

lemmas stamp_defs = stamp_image_def stamp_chart_def stamp_ca_def

lemma update_absorb: "map_of m k = Some v \<Longrightarrow> AList.update k v m = m"
  by (induction m) (auto split: if_splits)

text \<open>Stamping what is already stamped writes the contents and nothing else.\<close>

lemma set_label_absorb: "label_of obj k = Some v \<Longrightarrow> set_label k v obj = obj"
  by (simp add: label_of_def set_label_def update_absorb split: option.splits)

lemma stamp_idem [simp]:
  "stamp_image b (stamp_image b t) = stamp_image b t"
  "stamp_chart b (stamp_chart b t) = stamp_chart b t"
  "stamp_ca b (stamp_ca b t) = stamp_ca b t"
  "stamp_ca b (stamp_chart c (stamp_ca b (stamp_chart c t))) = stamp_ca b (stamp_chart c t)"
  by (simp_all add: stamp_defs setManagedByValue_def set_label_absorb)

lemma stamp_body [simp]:
  "o_Body (stamp_image b t) = b" "o_Body (stamp_chart b t) = b" "o_Body (stamp_ca b t) = b"
  by (simp_all add: stamp_defs)

lemma stamp_own [simp]: "image_own (stamp_image b t)" "chart_own (stamp_chart b t)" "ca_own (stamp_ca b t)"
  by (simp_all add: stamp_defs image_own_def chart_own_def ca_own_def)

lemma stamp_other [simp]:
  "ca_own (stamp_chart b t) = ca_own t" "chart_own (stamp_ca b t) = chart_own t"
  by (simp_all add: stamp_defs chart_own_def ca_own_def)

definition fresh_secret :: "string \<Rightarrow> string \<Rightarrow> kobj" where
  "fresh_secret ns n = new_object n ns (Secret [] [])"

text \<open>The namespace on the MCP is created when it is missing.\<close>

definition fill_namespace :: "provisioner \<Rightarrow> obj_ref \<Rightarrow> kobj option \<Rightarrow> kobj option" where
  "fill_namespace p r x = Some (or_fresh (new_object (p_mcpNamespace p) [] NamespaceObj) x)"

context kube_api
begin

lemma ensureMCPNamespace_keeps:
  "mcp_namespace_ref p \<in> A \<Longrightarrow> io_keeps (same_outside view A) (ensureMCPNamespace api p)"
  unfolding ensureMCPNamespace_def
  by (rule frame.keeps_try)
     (auto simp: mcp_namespace_ref_def ref_of_def intro!: client_keeps frame.keeps_intros split: sum.split)

lemma copyImage_keeps:
  "io_keeps (same_outside view (insert (mcp_secret p n) {mcp_namespace_ref p})) (copyImagePullSecret api p n)"
  unfolding copyImagePullSecret_def
  by (intro frame.keeps_intros client_keeps ensureMCPNamespace_keeps)
     (simp_all add: ref_of_def mcp_secret_def)

lemma copyChart_keeps:
  "io_keeps (same_outside view {platform_secret p (p_tenantNamespace p) n}) (copyChartPullSecret api p n)"
  unfolding copyChartPullSecret_def
  by (intro frame.keeps_intros client_keeps) (simp_all add: ref_of_def platform_secret_def)

lemma stored_secret: "view w (c, KSecret, ns, n) = Some s \<Longrightarrow> Secret (secret_Type s) (secret_Data s) = o_Body s"
  using stored_key [of w c "(KSecret, ns, n)" s] by (simp add: key_of_def secret_body)

lemma ensureMCPNamespace_ok:
  assumes "ensureMCPNamespace api p w = (Inr u, w')"
  shows "view w' (mcp_namespace_ref p) = fill_namespace p r (view w (mcp_namespace_ref p))"
proof -
  let ?ns = "new_object (p_mcpNamespace p) [] NamespaceObj"
  have ref: "ref_of (p_mcpClient p) ?ns = mcp_namespace_ref p"
    by (simp add: ref_of_def mcp_namespace_ref_def)
  obtain x w1 where c: "api_Create api (p_mcpClient p) ?ns w = (x, w1)" by fastforce
  show ?thesis
  proof (cases x)
    case (Inl e)
    then have "IsAlreadyExists e" "w' = w1"
      using assms c by (auto simp: ensureMCPNamespace_def io_try_eq io_ok split: if_splits)
    then show ?thesis using create_err [of "p_mcpClient p" ?ns w e w1] c Inl ref
      by (auto simp: fill_namespace_def)
  next
    case (Inr y)
    then have "w' = w1" using assms c by (auto simp: ensureMCPNamespace_def io_try_eq io_ok)
    then show ?thesis using create_ok [of "p_mcpClient p" ?ns w y w1] c Inr ref
      by (auto simp: fill_namespace_def or_fresh_def)
  qed
qed

lemma copyImage_ok:
  assumes "copyImagePullSecret api p n w = (Inr u, w')"
  shows "\<exists>s. view w (platform_secret p (p_podNamespace p) n) = Some s \<and>
     view w' (mcp_secret p n) =
       Some (stamp_image (o_Body s) (or_fresh (fresh_secret (p_mcpNamespace p) n) (view w (mcp_secret p n)))) \<and>
     view w' (mcp_namespace_ref p) = fill_namespace p r (view w (mcp_namespace_ref p))"
proof -
  let ?src = "platform_secret p (p_podNamespace p) n"
  obtain s w1 w2 where g: "api_Get api ?src w = (Inr s, w1)"
    and e: "ensureMCPNamespace api p w1 = (Inr (), w2)"
    and c: "api_CreateOrUpdate api (p_mcpClient p) (new_object n (p_mcpNamespace p) (Secret [] []))
           (\<lambda>target. (setManagedByValue imagePullSecretManagedByValue target)
              \<lparr>o_Body := Secret (secret_Type s) (secret_Data s)\<rparr>) w2 = (Inr u, w')"
    using assms by (auto simp: copyImagePullSecret_def io_ok)
  have s: "view w ?src = Some s" "view w1 = view w" using get_ok [OF g] by simp_all
  have body: "Secret (secret_Type s) (secret_Data s) = o_Body s"
    using s stored_secret by (simp add: platform_secret_def)
  have w2: "view w2 (mcp_secret p n) = view w (mcp_secret p n)"
    using same_outsideD [OF io_keepsD [OF ensureMCPNamespace_keeps e, of "{mcp_namespace_ref p}"]] s(2)
    by (simp add: mcp_secret_def mcp_namespace_ref_def)
  have "view w' (mcp_secret p n) =
       Some (stamp_image (o_Body s) (or_fresh (fresh_secret (p_mcpNamespace p) n) (view w (mcp_secret p n))))"
    using update_ok [OF preserves_image_copy(1) c] body w2
    by (simp add: updated_def ref_of_def mcp_secret_def stamp_image_def fresh_secret_def or_fresh_def)
  moreover have "view w' (mcp_namespace_ref p) = view w2 (mcp_namespace_ref p)"
    using update_ok [OF preserves_image_copy(1) c]
    by (simp add: updated_def ref_of_def mcp_namespace_ref_def)
  ultimately show ?thesis using s ensureMCPNamespace_ok [OF e, of r] by simp
qed

lemma copyChart_ok:
  assumes "copyChartPullSecret api p n w = (Inr u, w')"
  shows "\<exists>s. view w (platform_secret p (p_podNamespace p) n) = Some s \<and>
     view w' (platform_secret p (p_tenantNamespace p) n) =
       Some (stamp_chart (o_Body s) (or_fresh (fresh_secret (p_tenantNamespace p) n)
         (view w (platform_secret p (p_tenantNamespace p) n))))"
proof -
  let ?src = "platform_secret p (p_podNamespace p) n"
  obtain s w1 where g: "api_Get api ?src w = (Inr s, w1)"
    and c: "api_CreateOrUpdate api (p_platformClient p) (new_object n (p_tenantNamespace p) (Secret [] []))
           (\<lambda>target. (set_label chartPullSecretLabel ''true'' (setManagedByValue managedByArgoCDValue target))
              \<lparr>o_Body := Secret (secret_Type s) (secret_Data s)\<rparr>) w1 = (Inr u, w')"
    using assms by (auto simp: copyChartPullSecret_def io_ok)
  have s: "view w ?src = Some s" "view w1 = view w" using get_ok [OF g] by simp_all
  have "Secret (secret_Type s) (secret_Data s) = o_Body s"
    using s stored_secret by (simp add: platform_secret_def)
  then show ?thesis
    using s update_ok [OF preserves_image_copy(2) c]
    by (simp add: updated_def ref_of_def platform_secret_def stamp_chart_def fresh_secret_def or_fresh_def)
qed

end

sublocale kube_api < image: secret_replica view "copyImagePullSecret api p" "pruneImagePullSecrets api p"
    "platform_secret p (p_podNamespace p)" "mcp_secret p" "fresh_secret (p_mcpNamespace p)" stamp_image
    image_own "{mcp_namespace_ref p}" "fill_namespace p" for p
proof unfold_locales
  show "io_keeps (hands_off view (\<lambda>r obj. (\<exists>n. r = mcp_secret p n \<and> n \<notin> set keep) \<and> image_own obj) A)
     (pruneImagePullSecrets api p keep)" for keep A
    unfolding prune_shapes
    by (rule keeps_hands_off_mono [OF prune_keeps subset_refl]) (auto simp: selected_own mcp_secret_def)
next
  fix keep w u w' n
  assume "pruneImagePullSecrets api p keep w = (Inr u, w')"
  then show "view w' (mcp_secret p n) =
         (case view w (mcp_secret p n) of None \<Rightarrow> None
          | Some obj \<Rightarrow> if image_own obj \<and> n \<notin> set keep then after_delete obj else Some obj)"
    unfolding prune_shapes
    by (auto simp: prune_ok pruned_def selected_own mcp_secret_def split: option.split)
next
  fix n w u w' r
  assume c: "copyImagePullSecret api p n w = (Inr u, w')"
  from copyImage_ok [OF c] show "\<exists>s. view w (platform_secret p (p_podNamespace p) n) = Some s \<and>
     view w' (mcp_secret p n) =
       Some (stamp_image (o_Body s) (or_fresh (fresh_secret (p_mcpNamespace p) n) (view w (mcp_secret p n))))"
    by blast
  assume "r \<in> {mcp_namespace_ref p}"
  then show "view w' r = fill_namespace p r (view w r)" using copyImage_ok [OF c, of r] by blast
qed (fact copyImage_keeps | simp add: mcp_secret_def platform_secret_def mcp_namespace_ref_def fill_namespace_def)+

sublocale kube_api < chart: secret_replica view "copyChartPullSecret api p" "pruneChartPullSecrets api p"
    "platform_secret p (p_podNamespace p)" "platform_secret p (p_tenantNamespace p)"
    "fresh_secret (p_tenantNamespace p)" stamp_chart chart_own "{}" "\<lambda>_ x. x" for p
proof unfold_locales
  show "io_keeps (hands_off view (\<lambda>r obj. (\<exists>n. r = platform_secret p (p_tenantNamespace p) n \<and> n \<notin> set keep) \<and> chart_own obj) A)
     (pruneChartPullSecrets api p keep)" for keep A
    unfolding prune_shapes
    by (rule keeps_hands_off_mono [OF prune_keeps subset_refl]) (auto simp: selected_own platform_secret_def)
next
  fix keep w u w' n
  assume "pruneChartPullSecrets api p keep w = (Inr u, w')"
  then show "view w' (platform_secret p (p_tenantNamespace p) n) =
         (case view w (platform_secret p (p_tenantNamespace p) n) of None \<Rightarrow> None
          | Some obj \<Rightarrow> if chart_own obj \<and> n \<notin> set keep then after_delete obj else Some obj)"
    unfolding prune_shapes
    by (auto simp: prune_ok pruned_def selected_own platform_secret_def split: option.split)
qed (fact copyChart_ok copyChart_keeps | simp add: platform_secret_def)+

end
