(* ===== verification/Install_Correct.thy ===== *)
theory Install_Correct
  imports Secrets_Correct
begin

text \<open>
  What \<^verbatim>\<open>Install\<close> promises. \<open>install_spec\<close> is the desired state: a function from the store
  before to the store after, one step per kind of object, each step given key by key. A successful
  \<^verbatim>\<open>Install\<close> refines it on any cluster; on a cluster that answers, \<^verbatim>\<open>Install\<close> succeeds exactly
  when the desired state is defined, and reaches it. Whatever happens, nothing outside the
  provisioner's own objects is touched.
\<close>

section \<open>The desired state\<close>

definition prune_obj :: "(kobj \<Rightarrow> bool) \<Rightarrow> kobj option \<Rightarrow> kobj option" where
  "prune_obj own x =
     (case x of None \<Rightarrow> None | Some obj \<Rightarrow> if own obj then after_delete obj else Some obj)"

definition replica_step ::
  "cluster \<Rightarrow> string \<Rightarrow> (string \<Rightarrow> obj_ref) \<Rightarrow> (body \<Rightarrow> kobj \<Rightarrow> kobj) \<Rightarrow> (kobj \<Rightarrow> bool) \<Rightarrow>
   string list \<Rightarrow> store \<Rightarrow> store" where
  "replica_step c ns src stamp own names s = (\<lambda>r.
     case r of (c', k, ns', n) \<Rightarrow>
       if c' = c \<and> k = KSecret \<and> ns' = ns then
         (if n \<in> set names then
            (case s (src n) of
               None \<Rightarrow> s r
             | Some source \<Rightarrow> Some (stamp (o_Body source) (or_fresh (fresh_secret ns n) (s r))))
          else prune_obj own (s r))
       else s r)"

lemma replica_step_at:
  "replica_step c ns src stamp own names s (c, KSecret, ns, n) =
     (if n \<in> set names then
        (case s (src n) of
           None \<Rightarrow> s (c, KSecret, ns, n)
         | Some source \<Rightarrow>
             Some (stamp (o_Body source) (or_fresh (fresh_secret ns n) (s (c, KSecret, ns, n)))))
      else prune_obj own (s (c, KSecret, ns, n)))"
  by (simp add: replica_step_def)

lemma replica_step_elsewhere:
  "(\<And>n. r \<noteq> (c, KSecret, ns, n)) \<Longrightarrow> replica_step c ns src stamp own names s r = s r"
  by (cases r) (auto simp: replica_step_def)

definition image_step :: "provisioner \<Rightarrow> string list \<Rightarrow> store \<Rightarrow> store" where
  "image_step p names s =
     (let s' = replica_step (p_mcpClient p) (p_mcpNamespace p) (platform_secret p (p_podNamespace p))
                 stamp_image image_own names s
      in if names = [] then s'
         else s'(mcp_namespace_ref p := fill_namespace p (mcp_namespace_ref p) (s (mcp_namespace_ref p))))"

definition chart_step :: "provisioner \<Rightarrow> string list \<Rightarrow> store \<Rightarrow> store" where
  "chart_step p names s =
     replica_step (p_platformClient p) (p_tenantNamespace p) (platform_secret p (p_podNamespace p))
       stamp_chart chart_own names s"

definition ca_source :: "provisioner \<Rightarrow> obj_ref" where
  "ca_source p = platform_secret p (p_caBundleSourceNamespace p) (p_caBundleSecret p)"

definition ca_target :: "provisioner \<Rightarrow> obj_ref" where
  "ca_target p = platform_secret p (p_tenantNamespace p) (p_caBundleSecret p)"

definition ca_step :: "provisioner \<Rightarrow> store \<Rightarrow> store" where
  "ca_step p s =
     (if p_caBundleSecret p \<noteq> [] then
        (case s (ca_source p) of
           None \<Rightarrow> s
         | Some source \<Rightarrow>
             s(ca_target p \<mapsto> stamp_ca (o_Body source)
                 (or_fresh (fresh_secret (p_tenantNamespace p) (p_caBundleSecret p)) (s (ca_target p)))))
      else
        replica_step (p_platformClient p) (p_tenantNamespace p) (\<lambda>n. ca_source p) stamp_ca ca_own [] s)"

definition with_ca :: "provisioner \<Rightarrow> store \<Rightarrow> provisioner" where
  "with_ca p s =
     (if p_caBundleSecret p \<noteq> [] then
        p\<lparr>p_caCert := (case s (ca_source p) of None \<Rightarrow> []
           | Some source \<Rightarrow> (case map_of (secret_Data source) ''ca.crt'' of None \<Rightarrow> [] | Some c \<Rightarrow> c))\<rparr>
      else p)"

definition put_repository :: "provisioner \<Rightarrow> string \<Rightarrow> string \<Rightarrow> OCIRepositorySpec \<Rightarrow> store \<Rightarrow> store" where
  "put_repository p name value spec s =
     s(flux_ref p KOCIRepository name \<mapsto>
         (setManagedByValue value
            (or_fresh (new_object name (p_tenantNamespace p) (OCIRepository None))
               (s (flux_ref p KOCIRepository name))))
         \<lparr>o_Body := OCIRepository (Some spec)\<rparr>)"

definition put_release :: "provisioner \<Rightarrow> string \<Rightarrow> string \<Rightarrow> HelmReleaseSpec \<Rightarrow> store \<Rightarrow> store" where
  "put_release p name value spec s =
     s(flux_ref p KHelmRelease name \<mapsto>
         set_spec spec
           (setManagedByValue value
              (or_fresh (new_object name (p_tenantNamespace p) (HelmRelease None []))
                 (s (flux_ref p KHelmRelease name)))))"

definition values_of :: "values_lib \<Rightarrow> provisioner \<Rightarrow> ArgoCDVersion \<Rightarrow> go_error + raw_json option" where
  "values_of lib p version =
     buildValues lib (v_Values version) (p_exposure p) (p_caCert p) (vault_values p) (v_Version version)"

definition install_spec :: "values_lib \<Rightarrow> provisioner \<Rightarrow> ArgoCDVersion \<Rightarrow> store \<Rightarrow> store option" where
  "install_spec lib p version s =
     (case v_ChartURL version of None \<Rightarrow> None | Some url \<Rightarrow>
     (case ImagePullSecretNames (v_Values version) of Inl e \<Rightarrow> None | Inr names \<Rightarrow>
     if \<exists>n \<in> set names. s (platform_secret p (p_podNamespace p) n) = None then None else
     (let s1 = image_step p names s; chart_names = chartPullSecretNames version (p_reloader p) in
     if \<exists>n \<in> set chart_names. s1 (platform_secret p (p_podNamespace p) n) = None then None else
     (let s2 = chart_step p chart_names s1; p' = with_ca p s2 in
     if p_caBundleSecret p \<noteq> [] \<and> s2 (ca_source p) = None then None else
     (case values_of lib p' version of Inl e \<Rightarrow> None | Inr values \<Rightarrow>
     Some (put_release p helmReleaseName managedByArgoCDValue (argocd_release p' values)
            (put_repository p ociRepositoryName managedByArgoCDValue (argocd_repository p' url version)
              (ca_step p s2))))))))"

definition reloader_refs :: "provisioner \<Rightarrow> obj_ref set" where
  "reloader_refs p =
     {flux_ref p KOCIRepository reloaderOCIRepositoryName, flux_ref p KHelmRelease reloaderHelmReleaseName}"

section \<open>The steps of the code\<close>

lemma with_ca_simps [simp]:
  "p_platformClient (with_ca p s) = p_platformClient p"
  "p_mcpClient (with_ca p s) = p_mcpClient p"
  "p_tenantNamespace (with_ca p s) = p_tenantNamespace p"
  "p_mcpNamespace (with_ca p s) = p_mcpNamespace p"
  "p_podNamespace (with_ca p s) = p_podNamespace p"
  "p_pollInterval (with_ca p s) = p_pollInterval p"
  "p_exposure (with_ca p s) = p_exposure p"
  "p_reloader (with_ca p s) = p_reloader p"
  "p_caBundleSecret (with_ca p s) = p_caBundleSecret p"
  "p_kubeConfigSecretName (with_ca p s) = p_kubeConfigSecretName p"
  "vault_values (with_ca p s) = vault_values p"
  "flux_ref (with_ca p s) = flux_ref p"
  "reloader_refs (with_ca p s) = reloader_refs p"
  by (simp_all add: with_ca_def vault_values_def flux_ref_def reloader_refs_def fun_eq_iff)

lemma names_distinct [simp]:
  "ociRepositoryName \<noteq> reloaderOCIRepositoryName" "helmReleaseName \<noteq> reloaderHelmReleaseName"
  "reloaderOCIRepositoryName \<noteq> ociRepositoryName" "reloaderHelmReleaseName \<noteq> helmReleaseName"
  by (simp_all add: ociRepositoryName_def reloaderOCIRepositoryName_def helmReleaseName_def
      reloaderHelmReleaseName_def)

lemma reconcileImagePullSecrets_eq:
  "reconcileImagePullSecrets api p values =
     io_bind (io_lift (ImagePullSecretNames values))
       (replicate_secrets (copyImagePullSecret api p) (pruneImagePullSecrets api p))"
  by (simp add: reconcileImagePullSecrets_def replicate_secrets_def [abs_def])

lemma reconcileChartPullSecrets_eq:
  "reconcileChartPullSecrets api p version =
     replicate_secrets (copyChartPullSecret api p) (pruneChartPullSecrets api p)
       (chartPullSecretNames version (p_reloader p))"
  by (simp add: reconcileChartPullSecrets_def replicate_secrets_def Let_def)

lemma preserves_specs [simp]:
  "preserves_key (new_object n ns (OCIRepository a))
     (\<lambda>repo. (setManagedByValue v repo)\<lparr>o_Body := OCIRepository b\<rparr>)"
  "preserves_key (new_object n ns (HelmRelease hs cs)) (\<lambda>hr. set_spec spec (setManagedByValue v hr))"
  by (simp_all add: preserves_key_def set_spec_def)

context kube_api
begin

lemma reconcileImage_ok:
  assumes "reconcileImagePullSecrets api p values w = (Inr u, w')"
  shows "\<exists>names. ImagePullSecretNames values = Inr names \<and>
     (\<forall>n \<in> set names. view w (platform_secret p (p_podNamespace p) n) \<noteq> None) \<and>
     view w' = image_step p names (view w)"
proof -
  obtain names where names: "ImagePullSecretNames values = Inr names"
    and run: "replicate_secrets (copyImagePullSecret api p) (pruneImagePullSecrets api p) names w = (Inr u, w')"
    using assms by (auto simp: reconcileImagePullSecrets_eq io_ok)
  have "view w' r = image_step p names (view w) r" for r
  proof (cases "\<exists>n. r = mcp_secret p n")
    case True
    then obtain n where r: "r = mcp_secret p n" by blast
    then have ns: "r \<noteq> mcp_namespace_ref p" by (simp add: mcp_secret_def mcp_namespace_ref_def)
    show ?thesis
      using image.replicate_referenced [OF run, of n] image.replicate_unreferenced [OF run, of n] ns
      by (cases "n \<in> set names")
         (auto simp: image_step_def replica_step_at prune_obj_def Let_def r mcp_secret_def)
  next
    case False
    then have "r \<notin> range (mcp_secret p)" by blast
    note elsewhere = image.replicate_elsewhere [OF run this]
    have "replica_step (p_mcpClient p) (p_mcpNamespace p) src stamp_image image_own ns (view w) r = view w r" for src ns
      by (rule replica_step_elsewhere) (use False in \<open>simp add: mcp_secret_def\<close>)
    then show ?thesis using elsewhere by (auto simp: image_step_def Let_def)
  qed
  then have "view w' = image_step p names (view w)" by (rule ext)
  moreover have "\<forall>n \<in> set names. view w (platform_secret p (p_podNamespace p) n) \<noteq> None"
    using image.replicate_referenced [OF run] by fastforce
  ultimately show ?thesis using names by blast
qed

lemma reconcileChart_ok:
  assumes "reconcileChartPullSecrets api p version w = (Inr u, w')"
  shows "(\<forall>n \<in> set (chartPullSecretNames version (p_reloader p)).
            view w (platform_secret p (p_podNamespace p) n) \<noteq> None) \<and>
     view w' = chart_step p (chartPullSecretNames version (p_reloader p)) (view w)"
proof -
  let ?names = "chartPullSecretNames version (p_reloader p)"
  have run: "replicate_secrets (copyChartPullSecret api p) (pruneChartPullSecrets api p) ?names w = (Inr u, w')"
    using assms by (simp add: reconcileChartPullSecrets_eq)
  have "view w' r = chart_step p ?names (view w) r" for r
  proof (cases "\<exists>n. r = platform_secret p (p_tenantNamespace p) n")
    case True
    then obtain n where r: "r = platform_secret p (p_tenantNamespace p) n" by blast
    show ?thesis
      using chart.replicate_referenced [OF run, of n] chart.replicate_unreferenced [OF run, of n]
      by (cases "n \<in> set ?names") (auto simp: chart_step_def replica_step_at prune_obj_def r platform_secret_def)
  next
    case False
    then have "r \<notin> range (platform_secret p (p_tenantNamespace p))" by blast
    note elsewhere = chart.replicate_elsewhere [OF run this]
    show ?thesis
      unfolding chart_step_def
      by (subst replica_step_elsewhere) (use False elsewhere in \<open>simp_all add: platform_secret_def\<close>)
  qed
  then have "view w' = chart_step p ?names (view w)" by (rule ext)
  moreover have "\<forall>n \<in> set ?names. view w (platform_secret p (p_podNamespace p) n) \<noteq> None"
    using chart.replicate_referenced [OF run] by fastforce
  ultimately show ?thesis by blast
qed

lemma pruned_replica: "pruned s c ns sel [] = replica_step c ns src stamp own [] s"
  if "\<And>r obj. selected c ns sel r obj \<longleftrightarrow> (\<exists>n. r = (c, KSecret, ns, n)) \<and> own obj"
  using that by (auto simp: pruned_def replica_step_def prune_obj_def fun_eq_iff split: option.split)

lemma reconcileCA_ok:
  assumes "reconcileCABundle api p w = (Inr p', w')"
  shows "(p_caBundleSecret p \<noteq> [] \<longrightarrow> view w (ca_source p) \<noteq> None) \<and>
     view w' = ca_step p (view w) \<and> p' = with_ca p (view w)"
proof (cases "p_caBundleSecret p = []")
  case True
  then obtain u where "RemoveCABundle api p w = (Inr u, w')" "p' = p"
    using assms by (auto simp: reconcileCABundle_def io_ok)
  then show ?thesis
    using True pruned_replica [of "p_platformClient p" "p_tenantNamespace p" "[(caBundleLabel, ''true'')]" ca_own]
    by (auto simp: prune_shapes prune_ok ca_step_def with_ca_def selected_own)
next
  case False
  then obtain s w1 u where g: "api_Get api (ca_source p) w = (Inr s, w1)"
    and c: "api_CreateOrUpdate api (p_platformClient p)
             (new_object (p_caBundleSecret p) (p_tenantNamespace p) (Secret [] []))
             (\<lambda>dst. (set_label caBundleLabel ''true'' (setManagedByValue managedByArgoCDValue dst))
                \<lparr>o_Body := Secret (secret_Type s) (secret_Data s)\<rparr>) w1 = (Inr u, w')"
    and p': "p' = p\<lparr>p_caCert := (case map_of (secret_Data s) ''ca.crt'' of None \<Rightarrow> [] | Some c \<Rightarrow> c)\<rparr>"
    using assms by (auto simp: reconcileCABundle_def ensureCABundle_def io_ok ca_source_def)
  have s: "view w (ca_source p) = Some s" "view w1 = view w" using get_ok [OF g] by simp_all
  have "Secret (secret_Type s) (secret_Data s) = o_Body s"
    using s stored_secret by (simp add: ca_source_def platform_secret_def)
  then show ?thesis
    using False s p' update_ok [OF preserves_image_copy(2) c]
    by (simp add: ca_step_def with_ca_def updated_def ref_of_def ca_target_def platform_secret_def
        stamp_ca_def fresh_secret_def or_fresh_def)
qed

lemma repository_ok:
  assumes "api_CreateOrUpdate api (p_platformClient p)
       (new_object name (p_tenantNamespace p) (OCIRepository None))
       (\<lambda>repo. (setManagedByValue v repo)\<lparr>o_Body := OCIRepository (Some spec)\<rparr>) w = (Inr u, w')"
  shows "view w' = put_repository p name v spec (view w)"
  using update_ok [OF preserves_specs(1) assms]
  by (simp add: updated_def put_repository_def ref_of_def flux_ref_def or_fresh_def)

lemma release_ok:
  assumes "api_CreateOrUpdate api (p_platformClient p)
       (new_object name (p_tenantNamespace p) (HelmRelease None []))
       (\<lambda>hr. set_spec spec (setManagedByValue v hr)) w = (Inr u, w')"
  shows "view w' = put_release p name v spec (view w)"
  using update_ok [OF preserves_specs(2) assms]
  by (simp add: updated_def put_release_def ref_of_def flux_ref_def or_fresh_def)

lemma removeReloader_keeps:
  "reloader_refs p \<subseteq> A \<Longrightarrow> io_keeps (same_outside view A) (removeReloaderResources api p)"
  unfolding removeReloaderResources_def reloader_refs_def
  by (intro frame.keeps_intros client_keeps) auto

lemma reconcileReloader_keeps:
  "io_keeps (same_outside view (reloader_refs p)) (reconcileReloader api p)"
  unfolding reconcileReloader_def log_error_def applyReloaderOCIRepository_def applyReloaderHelmRelease_def
  by (cases "p_reloader p")
     (auto simp: reloader_refs_def ref_of_def flux_ref_def
       intro!: frame.keeps_intros client_keeps removeReloader_keeps)

lemma reconcileReloader_total: "fst (reconcileReloader api p w) = Inr ()"
  by (auto simp: reconcileReloader_def log_error_def io_try_eq io_bind_def io_return_def
      split: option.split prod.split sum.split)

lemma Install_inv:
  assumes "Install lib api p version w = (Inr u, w')"
  obtains url names vals w1 s2 p' where "v_ChartURL version = Some url"
    and "ImagePullSecretNames (v_Values version) = Inr names"
    and "\<forall>n \<in> set names. view w (platform_secret p (p_podNamespace p) n) \<noteq> None"
    and "\<forall>n \<in> set (chartPullSecretNames version (p_reloader p)).
           image_step p names (view w) (platform_secret p (p_podNamespace p) n) \<noteq> None"
    and "s2 = chart_step p (chartPullSecretNames version (p_reloader p)) (image_step p names (view w))"
    and "p_caBundleSecret p \<noteq> [] \<longrightarrow> s2 (ca_source p) \<noteq> None" and "p' = with_ca p s2"
    and "values_of lib p' version = Inr vals"
    and "view w1 = put_release p helmReleaseName managedByArgoCDValue (argocd_release p' vals)
            (put_repository p ociRepositoryName managedByArgoCDValue (argocd_repository p' url version)
              (ca_step p s2))"
    and "reconcileReloader api p' w1 = (Inr u, w')"
proof -
  obtain url where url: "v_ChartURL version = Some url"
    using assms by (auto simp: Install_def io_ok split: option.splits)
  from assms url obtain wa wb wc wd w1 p' vals where
    a: "reconcileImagePullSecrets api p (v_Values version) w = (Inr (), wa)"
    and b: "reconcileChartPullSecrets api p version wa = (Inr (), wb)"
    and c: "reconcileCABundle api p wb = (Inr p', wc)"
    and d: "applyOCIRepository api p' url version wc = (Inr (), wd)"
    and v: "buildValues lib (v_Values version) (p_exposure p') (p_caCert p') (vault_values p')
              (v_Version version) = Inr vals"
    and e: "api_CreateOrUpdate api (p_platformClient p')
       (new_object helmReleaseName (p_tenantNamespace p') (HelmRelease None []))
       (\<lambda>hr. set_spec (argocd_release p' vals) (setManagedByValue managedByArgoCDValue hr)) wd = (Inr (), w1)"
    and f: "reconcileReloader api p' w1 = (Inr u, w')"
    by (auto simp: Install_def applyHelmRelease_def io_ok)
  obtain names where A: "ImagePullSecretNames (v_Values version) = Inr names"
    "\<forall>n \<in> set names. view w (platform_secret p (p_podNamespace p) n) \<noteq> None"
    "view wa = image_step p names (view w)" using reconcileImage_ok [OF a] by blast
  note B = reconcileChart_ok [OF b] and C = reconcileCA_ok [OF c]
  have p': "p' = with_ca p (view wb)" using C by blast
  have D: "view wd = put_repository p ociRepositoryName managedByArgoCDValue (argocd_repository p' url version) (view wc)"
    using repository_ok [of p' ociRepositoryName _ _ wc _ wd] d p'
    by (simp add: applyOCIRepository_def put_repository_def)
  have E: "view w1 = put_release p helmReleaseName managedByArgoCDValue (argocd_release p' vals) (view wd)"
    using release_ok [OF e] p' by (simp add: put_release_def)
  show thesis
    by (rule that [OF url A(1,2) _ refl _ _ _ _ f])
       (use A(3) B C D E p' v in \<open>simp_all add: values_of_def\<close>)
qed

theorem Install_refines:
  assumes "Install lib api p version w = (Inr u, w')"
  shows "\<exists>s'. install_spec lib p version (view w) = Some s' \<and> (\<forall>r. r \<notin> reloader_refs p \<longrightarrow> view w' r = s' r)"
proof -
  from Install_inv [OF assms] obtain url names vals w1 s2 p' where
    h: "v_ChartURL version = Some url" "ImagePullSecretNames (v_Values version) = Inr names"
      "\<forall>n \<in> set names. view w (platform_secret p (p_podNamespace p) n) \<noteq> None"
      "\<forall>n \<in> set (chartPullSecretNames version (p_reloader p)).
           image_step p names (view w) (platform_secret p (p_podNamespace p) n) \<noteq> None"
      "p_caBundleSecret p \<noteq> [] \<longrightarrow> s2 (ca_source p) \<noteq> None" "values_of lib p' version = Inr vals"
    and s2: "s2 = chart_step p (chartPullSecretNames version (p_reloader p)) (image_step p names (view w))"
    and p': "p' = with_ca p s2"
    and w1: "view w1 = put_release p helmReleaseName managedByArgoCDValue (argocd_release p' vals)
            (put_repository p ociRepositoryName managedByArgoCDValue (argocd_repository p' url version)
              (ca_step p s2))"
    and r: "reconcileReloader api p' w1 = (Inr u, w')" .
  have spec: "install_spec lib p version (view w) = Some (view w1)"
    using h unfolding w1 p' s2 by (auto simp: install_spec_def Let_def)
  have "view w' r = view w1 r" if "r \<notin> reloader_refs p" for r
    by (rule same_outsideD [OF io_keepsD [OF reconcileReloader_keeps r]]) (use that p' in simp)
  with spec show ?thesis by blast
qed

end

section \<open>On any cluster: nothing else is touched\<close>

definition pull_secret_names :: "ArgoCDVersion \<Rightarrow> string list" where
  "pull_secret_names version =
     (case ImagePullSecretNames (v_Values version) of Inl e \<Rightarrow> [] | Inr names \<Rightarrow> names)"

text \<open>What an installation writes, and what it may delete.\<close>

definition install_scope :: "provisioner \<Rightarrow> ArgoCDVersion \<Rightarrow> obj_ref set" where
  "install_scope p version =
     {flux_ref p KOCIRepository ociRepositoryName, flux_ref p KHelmRelease helmReleaseName,
      ca_target p, mcp_namespace_ref p} \<union> reloader_refs p \<union>
     mcp_secret p ` set (pull_secret_names version) \<union>
     platform_secret p (p_tenantNamespace p) ` set (chartPullSecretNames version (p_reloader p))"

definition owned_secret :: "provisioner \<Rightarrow> obj_ref \<Rightarrow> kobj \<Rightarrow> bool" where
  "owned_secret p r obj \<longleftrightarrow>
     r \<in> range (mcp_secret p) \<and> image_own obj \<or>
     r \<in> range (platform_secret p (p_tenantNamespace p)) \<and> (chart_own obj \<or> ca_own obj)"

context kube_api
begin

lemma RemoveCABundle_hands_off:
  "ca_target p \<in> A \<Longrightarrow> io_keeps (hands_off view (owned_secret p) A) (RemoveCABundle api p)"
proof (cases "p_caBundleSecret p = []")
  case True
  then show ?thesis unfolding prune_shapes(3) [OF True]
    by (intro keeps_hands_off_mono [OF prune_keeps subset_refl])
       (auto simp: selected_own owned_secret_def platform_secret_def)
next
  case False
  assume "ca_target p \<in> A"
  then show ?thesis using False
    by (auto simp: RemoveCABundle_def ca_target_def intro!: keeps_hands_off client_keeps)
qed

lemma reconcileCA_hands_off:
  assumes "ca_target p \<in> A"
  shows "io_keeps (hands_off view (owned_secret p) A) (reconcileCABundle api p)"
proof (cases "p_caBundleSecret p = []")
  case True
  then show ?thesis
    by (auto simp: reconcileCABundle_def
        intro!: hands_off.keeps_intros RemoveCABundle_hands_off [OF assms])
next
  case False
  have "io_keeps (same_outside view A) (ensureCABundle api p)"
    unfolding ensureCABundle_def if_not_P [OF False]
    by (intro frame.keeps_intros client_keeps preserves_image_copy)
       (use assms in \<open>simp add: ca_target_def platform_secret_def ref_of_def\<close>)
  then show ?thesis using False by (simp add: reconcileCABundle_def keeps_hands_off)
qed

lemma reconcileCA_fields:
  "reconcileCABundle api p w = (Inr p', w') \<Longrightarrow> \<exists>c. p' = p\<lparr>p_caCert := c\<rparr>"
proof -
  assume "reconcileCABundle api p w = (Inr p', w')"
  then have p': "p' = with_ca p (view w)" using reconcileCA_ok by blast
  show ?thesis
  proof (cases "p_caBundleSecret p = []")
    case True
    then show ?thesis unfolding p' with_ca_def by (intro exI [of _ "p_caCert p"]) simp
  next
    case False
    then show ?thesis unfolding p' with_ca_def by auto
  qed
qed

lemma Install_hands_off:
  "io_keeps (hands_off view (owned_secret p) (install_scope p version)) (Install lib api p version)"
proof (cases "v_ChartURL version")
  case None
  then show ?thesis by (simp add: Install_def hands_off.keeps_error)
next
  case (Some url)
  let ?R = "hands_off view (owned_secret p) (install_scope p version)"
  have image: "io_keeps ?R (reconcileImagePullSecrets api p (v_Values version))"
  proof (cases "ImagePullSecretNames (v_Values version)")
    case (Inl e)
    then show ?thesis
      by (simp add: reconcileImagePullSecrets_eq io_keeps_def io_bind_def io_lift_def hands_off_refl)
  next
    case (Inr names)
    then have "reconcileImagePullSecrets api p (v_Values version) =
        replicate_secrets (copyImagePullSecret api p) (pruneImagePullSecrets api p) names"
      by (simp add: reconcileImagePullSecrets_eq fun_eq_iff io_bind_def io_lift_def)
    moreover have "io_keeps ?R (replicate_secrets (copyImagePullSecret api p) (pruneImagePullSecrets api p) names)"
      by (rule keeps_hands_off_mono [OF image.replicate_hands_off])
         (auto simp: install_scope_def pull_secret_names_def Inr owned_secret_def)
    ultimately show ?thesis by simp
  qed
  have chart: "io_keeps ?R (reconcileChartPullSecrets api p version)"
    unfolding reconcileChartPullSecrets_eq
    by (rule keeps_hands_off_mono [OF chart.replicate_hands_off])
       (auto simp: install_scope_def owned_secret_def)
  have ca: "io_keeps ?R (reconcileCABundle api p)"
    by (rule reconcileCA_hands_off) (simp add: install_scope_def)
  have rest: "io_keeps ?R (io_bind (io_map_error (Wrap ''reconciling OCIRepository'')
            (applyOCIRepository api p' url version)) (\<lambda>_.
          io_bind (io_map_error (Wrap ''reconciling HelmRelease'')
            (applyHelmRelease lib api p' version)) (\<lambda>_.
          reconcileReloader api p')))" if p': "p' = p\<lparr>p_caCert := c\<rparr>" for p' c
  proof -
    have refs: "reloader_refs p' = reloader_refs p" by (simp add: p' reloader_refs_def flux_ref_def)
    have "io_keeps (same_outside view (install_scope p version)) (reconcileReloader api p')"
      by (rule keeps_outside_mono [OF reconcileReloader_keeps]) (auto simp: refs install_scope_def)
    moreover have "io_keeps (same_outside view (install_scope p version)) (applyOCIRepository api p' url version)"
      unfolding applyOCIRepository_def
      by (intro client_keeps preserves_specs) (simp add: ref_of_def install_scope_def flux_ref_def p')
    moreover have "io_keeps (same_outside view (install_scope p version)) (applyHelmRelease lib api p' version)"
      unfolding applyHelmRelease_def
      by (intro frame.keeps_intros client_keeps preserves_specs)
         (simp add: ref_of_def install_scope_def flux_ref_def p')
    ultimately show ?thesis by (intro hands_off.keeps_intros keeps_hands_off)
  qed
  have "io_keeps ?R (io_bind (io_map_error (Wrap ''reconciling CA bundle'') (reconcileCABundle api p)) (\<lambda>p'.
          io_bind (io_map_error (Wrap ''reconciling OCIRepository'')
            (applyOCIRepository api p' url version)) (\<lambda>_.
          io_bind (io_map_error (Wrap ''reconciling HelmRelease'')
            (applyHelmRelease lib api p' version)) (\<lambda>_.
          reconcileReloader api p'))))"
  proof (rule hands_off.keeps_bind_value [OF hands_off.keeps_map_error [OF ca]])
    fix w p' w'
    assume "io_map_error (Wrap ''reconciling CA bundle'') (reconcileCABundle api p) w = (Inr p', w')"
    then have "reconcileCABundle api p w = (Inr p', w')" by (simp add: io_map_error_ok)
    from reconcileCA_fields [OF this] obtain c where "p' = p\<lparr>p_caCert := c\<rparr>" by blast
    then show "io_keeps ?R (io_bind (io_map_error (Wrap ''reconciling OCIRepository'')
            (applyOCIRepository api p' url version)) (\<lambda>_.
          io_bind (io_map_error (Wrap ''reconciling HelmRelease'')
            (applyHelmRelease lib api p' version)) (\<lambda>_.
          reconcileReloader api p')))" by (rule rest)
  qed
  then show ?thesis
    by (simp add: Install_def Some)
       (rule hands_off.keeps_bind [OF hands_off.keeps_map_error [OF image]],
        rule hands_off.keeps_bind [OF hands_off.keeps_map_error [OF chart]])
qed

end

section \<open>On a cluster that answers: success exactly when the writes are accepted\<close>

text \<open>The copy of a pull secret on the MCP: its namespace is there or may be created, and the copy is
  accepted once it is.\<close>

definition image_takes :: "(obj_ref \<Rightarrow> body \<Rightarrow> bool) \<Rightarrow> provisioner \<Rightarrow> store \<Rightarrow> string \<Rightarrow> body \<Rightarrow> bool" where
  "image_takes admits p s n b \<longleftrightarrow>
     (let r = mcp_namespace_ref p in
      (s r \<noteq> None \<or> admits r NamespaceObj) \<and>
      takes admits (s(r := fill_namespace p r (s r))) (mcp_secret p n) b)"

context kube_api_up
begin

lemma get_succeeds: "view w r = Some obj \<Longrightarrow> \<exists>w'. api_Get api r w = (Inr obj, w') \<and> view w' = view w"
  using get_up [of r w] get_ok [of r w obj] by (metis option.simps(5) prod.collapse)

lemma delete_succeeds: "\<exists>w'. IgnoreNotFound (api_Delete api r) w = (Inr (), w')"
proof -
  obtain x w1 where "api_Delete api r w = (x, w1)" by fastforce
  then show ?thesis using delete_up [of r w]
    by (auto simp: IgnoreNotFound_def io_try_eq io_return_def split: if_splits)
qed

lemma prune_succeeds: "\<exists>w'. prune_shape api c ns sel keep e1 e2 w = (Inr (), w')"
proof -
  obtain items w1 where l: "api_List api c KSecret (Some ns) sel w = (Inr items, w1)"
    using list_up [of c KSecret "Some ns" sel w] by (metis prod.collapse)
  have "\<exists>w'. io_for items (\<lambda>item.
       if o_Name item \<in> set keep then io_return ()
       else io_map_error (e2 item) (IgnoreNotFound (api_Delete api (ref_of c item)))) w1 = (Inr (), w') \<and> True"
    by (rule for_succeeds)
       (use delete_succeeds in \<open>auto simp: io_return_def io_map_error_ok\<close>)
  then show ?thesis using l by (auto simp: prune_shape_def io_bind_def io_map_error_def)
qed

lemma removeReloader_succeeds:
  "\<exists>w'. removeReloaderResources api p w = (Inr (), w') \<and>
     view w' = deleted (deleted (view w) (flux_ref p KHelmRelease reloaderHelmReleaseName))
       (flux_ref p KOCIRepository reloaderOCIRepositoryName)"
proof -
  obtain w1 where a: "IgnoreNotFound (api_Delete api (flux_ref p KHelmRelease reloaderHelmReleaseName)) w = (Inr (), w1)"
    using delete_succeeds by blast
  obtain w2 where b: "IgnoreNotFound (api_Delete api (flux_ref p KOCIRepository reloaderOCIRepositoryName)) w1 = (Inr (), w2)"
    using delete_succeeds by blast
  have "removeReloaderResources api p w = (Inr (), w2)"
    unfolding removeReloaderResources_def io_bind_ok io_map_error_ok using a b by blast
  then show ?thesis using ignore_delete_ok [OF a] ignore_delete_ok [OF b] by auto
qed

end

context kube_api_writes
begin

lemma update_succeeds:
  "preserves_key init f \<Longrightarrow>
   takes admits (view w) (ref_of c init) (o_Body (f (or_fresh init (view w (ref_of c init))))) \<longleftrightarrow>
   (\<exists>w'. api_CreateOrUpdate api c init f w = (Inr (), w'))"
  unfolding or_fresh_def update_up [symmetric] by (metis fst_conv prod.collapse)

lemma secret_update_succeeds:
  "takes admits (view w) (c, KSecret, ns, n) (Secret t d) \<longleftrightarrow>
   (\<exists>w'. api_CreateOrUpdate api c (new_object n ns (Secret [] []))
      (\<lambda>x. (setManagedByValue v x)\<lparr>o_Body := Secret t d\<rparr>) w = (Inr (), w'))"
  "takes admits (view w) (c, KSecret, ns, n) (Secret t d) \<longleftrightarrow>
   (\<exists>w'. api_CreateOrUpdate api c (new_object n ns (Secret [] []))
      (\<lambda>x. (set_label l y (setManagedByValue v x))\<lparr>o_Body := Secret t d\<rparr>) w = (Inr (), w'))"
  by (simp_all add: update_succeeds [symmetric] ref_of_def)

lemma ensureMCPNamespace_succeeds:
  "(\<exists>w'. ensureMCPNamespace api p w = (Inr (), w')) \<longleftrightarrow>
     view w (mcp_namespace_ref p) \<noteq> None \<or> admits (mcp_namespace_ref p) NamespaceObj"
proof -
  obtain x w1 where c: "api_Create api (p_mcpClient p) (new_object (p_mcpNamespace p) [] NamespaceObj) w = (x, w1)"
    by fastforce
  show ?thesis
  proof (cases "view w (mcp_namespace_ref p)")
    case None
    have "x = Inr () \<longleftrightarrow> admits (mcp_namespace_ref p) NamespaceObj"
      using create_up [of "p_mcpClient p" "p_mcpNamespace p" w] c None by (simp add: mcp_namespace_ref_def)
    moreover have "\<not> IsAlreadyExists e" if "x = Inl e" for e
      using create_err [of "p_mcpClient p" "new_object (p_mcpNamespace p) [] NamespaceObj" w e w1] c that None
      by (auto simp: mcp_namespace_ref_def ref_of_def)
    ultimately show ?thesis
      using c None by (cases x) (auto simp: ensureMCPNamespace_def io_try_eq io_return_def io_error_def)
  next
    case (Some obj)
    then have "x = Inl (ApiError (AlreadyExists (p_mcpNamespace p)))"
      using create_exists [of w "p_mcpClient p" "p_mcpNamespace p"] c by (simp add: mcp_namespace_ref_def)
    then show ?thesis using c Some by (simp add: ensureMCPNamespace_def io_try_eq io_return_def)
  qed
qed

lemma ensureMCPNamespace_view:
  assumes "ensureMCPNamespace api p w = (Inr u, w')"
  shows "view w' = (view w)(mcp_namespace_ref p := fill_namespace p r (view w (mcp_namespace_ref p)))"
  using ensureMCPNamespace_ok [OF assms, of r]
    same_outsideD [OF io_keepsD [OF ensureMCPNamespace_keeps assms, of "{mcp_namespace_ref p}"]]
  by (auto simp: fun_eq_iff)

lemma copyImage_succeeds:
  "(\<exists>w'. copyImagePullSecret api p n w = (Inr (), w')) \<longleftrightarrow>
     (\<exists>s. view w (platform_secret p (p_podNamespace p) n) = Some s \<and> image_takes admits p (view w) n (o_Body s))"
    (is "?runs \<longleftrightarrow> ?taken")
proof
  let ?src = "platform_secret p (p_podNamespace p) n"
  let ?copy = "\<lambda>s. api_CreateOrUpdate api (p_mcpClient p) (new_object n (p_mcpNamespace p) (Secret [] []))
    (\<lambda>target. (setManagedByValue imagePullSecretManagedByValue target)
       \<lparr>o_Body := Secret (secret_Type s) (secret_Data s)\<rparr>)"
  have body: "Secret (secret_Type s) (secret_Data s) = o_Body s" if "view w ?src = Some s" for s w
    using that stored_secret by (simp add: platform_secret_def)
  {
    assume ?runs
    then obtain s w1 w2 w3 where g: "api_Get api ?src w = (Inr s, w1)"
      and e: "ensureMCPNamespace api p w1 = (Inr (), w2)" and c: "?copy s w2 = (Inr (), w3)"
      by (auto simp: copyImagePullSecret_def io_ok)
    have s: "view w ?src = Some s" "view w1 = view w" using get_ok [OF g] by simp_all
    have "view w (mcp_namespace_ref p) \<noteq> None \<or> admits (mcp_namespace_ref p) NamespaceObj"
      using ensureMCPNamespace_succeeds [of p w1] e s(2) by auto
    moreover have "takes admits (view w2) (mcp_secret p n) (o_Body s)"
      unfolding mcp_secret_def body [OF s(1), symmetric] using secret_update_succeeds(1) c by blast
    ultimately show ?taken
      using s ensureMCPNamespace_view [OF e, of "mcp_namespace_ref p"] by (auto simp: image_takes_def Let_def)
  next
    assume ?taken
    then obtain s where s: "view w ?src = Some s" and t: "image_takes admits p (view w) n (o_Body s)" by blast
    obtain w1 where g: "api_Get api ?src w = (Inr s, w1)" "view w1 = view w" using get_succeeds [OF s] by blast
    obtain w2 where e: "ensureMCPNamespace api p w1 = (Inr (), w2)"
      using ensureMCPNamespace_succeeds [of p w1] t g(2) by (auto simp: image_takes_def Let_def)
    have "takes admits (view w2) (p_mcpClient p, KSecret, p_mcpNamespace p, n) (Secret (secret_Type s) (secret_Data s))"
      using t body [OF s] ensureMCPNamespace_view [OF e, of "mcp_namespace_ref p"] g(2)
      by (simp add: image_takes_def Let_def mcp_secret_def)
    then obtain w3 where "?copy s w2 = (Inr (), w3)" using secret_update_succeeds(1) by blast
    then show ?runs using g(1) e unfolding copyImagePullSecret_def by (auto simp: io_ok)
  }
qed

lemma copyChart_succeeds:
  "(\<exists>w'. copyChartPullSecret api p n w = (Inr (), w')) \<longleftrightarrow>
     (\<exists>s. view w (platform_secret p (p_podNamespace p) n) = Some s \<and>
       takes admits (view w) (platform_secret p (p_tenantNamespace p) n) (o_Body s))"
    (is "?runs \<longleftrightarrow> ?taken")
proof -
  let ?src = "platform_secret p (p_podNamespace p) n"
  have body: "Secret (secret_Type s) (secret_Data s) = o_Body s" if "view w ?src = Some s" for s
    using that stored_secret by (simp add: platform_secret_def)
  show ?thesis
  proof
    assume ?runs
    then obtain s w1 w2 where g: "api_Get api ?src w = (Inr s, w1)"
      and c: "api_CreateOrUpdate api (p_platformClient p) (new_object n (p_tenantNamespace p) (Secret [] []))
         (\<lambda>target. (set_label chartPullSecretLabel ''true'' (setManagedByValue managedByArgoCDValue target))
            \<lparr>o_Body := Secret (secret_Type s) (secret_Data s)\<rparr>) w1 = (Inr (), w2)"
      by (auto simp: copyChartPullSecret_def io_ok)
    have s: "view w ?src = Some s" "view w1 = view w" using get_ok [OF g] by simp_all
    have "takes admits (view w1) (platform_secret p (p_tenantNamespace p) n) (o_Body s)"
      unfolding platform_secret_def body [OF s(1), symmetric] using secret_update_succeeds(2) c by blast
    then show ?taken using s by auto
  next
    assume ?taken
    then obtain s where s: "view w ?src = Some s"
      and t: "takes admits (view w) (platform_secret p (p_tenantNamespace p) n) (o_Body s)" by blast
    obtain w1 where g: "api_Get api ?src w = (Inr s, w1)" "view w1 = view w" using get_succeeds [OF s] by blast
    have "takes admits (view w1) (p_platformClient p, KSecret, p_tenantNamespace p, n) (Secret (secret_Type s) (secret_Data s))"
      using t body [OF s] g(2) by (simp add: platform_secret_def)
    then show ?runs using g(1) secret_update_succeeds(2) unfolding copyChartPullSecret_def by (fastforce simp: io_ok)
  qed
qed

end

lemma mcp_secret_namespace: "(fst (mcp_secret p n), KNamespace, [], fst (snd (snd (mcp_secret p n)))) = mcp_namespace_ref p"
  by (simp add: mcp_secret_def mcp_namespace_ref_def)

lemma mcp_secret_not_namespace [simp]: "mcp_secret p n \<noteq> mcp_namespace_ref p"
  by (simp add: mcp_secret_def mcp_namespace_ref_def)

lemma image_takes_kept:
  assumes "t (mcp_namespace_ref p) = fill_namespace p r (s (mcp_namespace_ref p))"
    and "t (mcp_secret p n) = s (mcp_secret p n)" and "s (mcp_namespace_ref p) \<noteq> None \<or> admits (mcp_namespace_ref p) NamespaceObj"
  shows "image_takes admits p t n b \<longleftrightarrow> image_takes admits p s n b"
proof -
  let ?r = "mcp_namespace_ref p"
  have "takes admits (t(?r := fill_namespace p ?r (t ?r))) (mcp_secret p n) b \<longleftrightarrow>
      takes admits (s(?r := fill_namespace p ?r (s ?r))) (mcp_secret p n) b"
    by (rule takes_cong) (use assms in \<open>simp_all add: mcp_secret_namespace fill_namespace_def\<close>)
  then show ?thesis using assms by (simp add: image_takes_def Let_def fill_namespace_def)
qed

lemma takes_again: "t r = Some obj \<Longrightarrow> o_Body obj = b \<Longrightarrow> takes admits t r b"
  by (simp add: takes_def)

lemma image_takes_again:
  "t (mcp_namespace_ref p) \<noteq> None \<Longrightarrow> t (mcp_secret p n) = Some obj \<Longrightarrow> o_Body obj = b \<Longrightarrow> image_takes admits p t n b"
  by (simp add: image_takes_def Let_def takes_again)

sublocale kube_api_writes < image_up: secret_replica_up view "copyImagePullSecret api p" "pruneImagePullSecrets api p"
    "platform_secret p (p_podNamespace p)" "mcp_secret p" "fresh_secret (p_mcpNamespace p)" stamp_image
    image_own "{mcp_namespace_ref p}" "fill_namespace p" "image_takes admits p" for p
proof unfold_locales
  fix m n w w' b s
  show "(\<exists>w'. copyImagePullSecret api p n w = (Inr (), w')) \<longleftrightarrow>
      (\<exists>s. view w (platform_secret p (p_podNamespace p) n) = Some s \<and> image_takes admits p (view w) n (o_Body s))"
    by (rule copyImage_succeeds)
  assume run: "copyImagePullSecret api p m w = (Inr (), w')"
  note ok = copyImage_ok [OF run, of "mcp_namespace_ref p"]
  show "image_takes admits p (view w') n b \<longleftrightarrow> image_takes admits p (view w) n b" if "m \<noteq> n"
  proof (rule image_takes_kept)
    show "view w' (mcp_namespace_ref p) = fill_namespace p (mcp_namespace_ref p) (view w (mcp_namespace_ref p))"
      using ok by blast
    show "view w' (mcp_secret p n) = view w (mcp_secret p n)"
      by (rule same_outsideD [OF io_keepsD [OF copyImage_keeps run]])
         (use that in \<open>auto simp: mcp_secret_def mcp_namespace_ref_def\<close>)
    show "view w (mcp_namespace_ref p) \<noteq> None \<or> admits (mcp_namespace_ref p) NamespaceObj"
      using copyImage_succeeds [of p m w] run by (auto simp: image_takes_def Let_def)
  qed
next
  fix n w w' s
  assume run: "copyImagePullSecret api p n w = (Inr (), w')" and s: "view w (platform_secret p (p_podNamespace p) n) = Some s"
  show "image_takes admits p (view w') n (o_Body s)"
    using copyImage_ok [OF run, of "mcp_namespace_ref p"] s by (auto intro!: image_takes_again simp: fill_namespace_def)
qed (use prune_succeeds in \<open>auto simp: prune_shapes\<close>)

sublocale kube_api_writes < chart_up: secret_replica_up view "copyChartPullSecret api p" "pruneChartPullSecrets api p"
    "platform_secret p (p_podNamespace p)" "platform_secret p (p_tenantNamespace p)"
    "fresh_secret (p_tenantNamespace p)" stamp_chart chart_own "{}" "\<lambda>_ x. x"
    "\<lambda>s n. takes admits s (platform_secret p (p_tenantNamespace p) n)" for p
proof unfold_locales
  fix m n w w' b s
  show "(\<exists>w'. copyChartPullSecret api p n w = (Inr (), w')) \<longleftrightarrow>
      (\<exists>s. view w (platform_secret p (p_podNamespace p) n) = Some s \<and>
         takes admits (view w) (platform_secret p (p_tenantNamespace p) n) (o_Body s))"
    by (rule copyChart_succeeds)
  assume run: "copyChartPullSecret api p m w = (Inr (), w')"
  have kept: "view w' r = view w r" if "r \<noteq> platform_secret p (p_tenantNamespace p) m" for r
    by (rule same_outsideD [OF io_keepsD [OF copyChart_keeps run]]) (use that in simp)
  show "takes admits (view w') (platform_secret p (p_tenantNamespace p) n) b \<longleftrightarrow>
      takes admits (view w) (platform_secret p (p_tenantNamespace p) n) b" if "m \<noteq> n"
    by (rule takes_cong; rule kept) (use that in \<open>auto simp: platform_secret_def\<close>)
next
  fix n w w' s
  assume run: "copyChartPullSecret api p n w = (Inr (), w')" and s: "view w (platform_secret p (p_podNamespace p) n) = Some s"
  show "takes admits (view w') (platform_secret p (p_tenantNamespace p) n) (o_Body s)"
    using copyChart_ok [OF run] s by (auto intro!: takes_again)
qed (use prune_succeeds in \<open>auto simp: prune_shapes\<close>)

text \<open>What an installation writes is accepted, step by step: the copies of the pull secrets and of the CA
  bundle, whose places the steps before may have changed, and the two Flux objects.\<close>

definition install_accepted :: "(obj_ref \<Rightarrow> body \<Rightarrow> bool) \<Rightarrow> values_lib \<Rightarrow> provisioner \<Rightarrow> ArgoCDVersion \<Rightarrow> store \<Rightarrow> bool" where
  "install_accepted admits lib p version s \<longleftrightarrow>
     (case ImagePullSecretNames (v_Values version) of Inl e \<Rightarrow> True | Inr names \<Rightarrow>
      (let charts = chartPullSecretNames version (p_reloader p);
           s1 = image_step p names s; s2 = chart_step p charts s1; s3 = ca_step p s2; p' = with_ca p s2 in
       (\<forall>n \<in> set names. case s (platform_secret p (p_podNamespace p) n) of None \<Rightarrow> True
          | Some source \<Rightarrow> image_takes admits p s n (o_Body source)) \<and>
       (\<forall>n \<in> set charts. case s1 (platform_secret p (p_podNamespace p) n) of None \<Rightarrow> True
          | Some source \<Rightarrow> takes admits s1 (platform_secret p (p_tenantNamespace p) n) (o_Body source)) \<and>
       (p_caBundleSecret p \<noteq> [] \<longrightarrow> (case s2 (ca_source p) of None \<Rightarrow> True
          | Some source \<Rightarrow> takes admits s2 (ca_target p) (o_Body source))) \<and>
       (case v_ChartURL version of None \<Rightarrow> True
        | Some url \<Rightarrow> takes admits s3 (flux_ref p KOCIRepository ociRepositoryName)
            (OCIRepository (Some (argocd_repository p' url version)))) \<and>
       (case values_of lib p' version of Inl e \<Rightarrow> True
        | Inr vals \<Rightarrow> takes admits s3 (flux_ref p KHelmRelease helmReleaseName)
            (HelmRelease (Some (argocd_release p' vals)) []))))"

lemma takes_without_status:
  "takes admits s r (HelmRelease spec cs) \<longleftrightarrow> takes admits s r (HelmRelease spec [])"
  by (auto simp: takes_def without_status_def retyped_def split: option.split body.split)

context kube_api_writes
begin

lemma reconcileImage_succeeds:
  "(\<exists>w'. reconcileImagePullSecrets api p values w = (Inr (), w')) \<longleftrightarrow>
     (\<exists>names. ImagePullSecretNames values = Inr names \<and>
        (\<forall>n \<in> set names. \<exists>s. view w (platform_secret p (p_podNamespace p) n) = Some s \<and>
           image_takes admits p (view w) n (o_Body s)))"
  unfolding reconcileImagePullSecrets_eq
  by (cases "ImagePullSecretNames values") (auto simp: io_ok image_up.replicate_succeeds [symmetric])

lemma reconcileChart_succeeds:
  "(\<exists>w'. reconcileChartPullSecrets api p version w = (Inr (), w')) \<longleftrightarrow>
     (\<forall>n \<in> set (chartPullSecretNames version (p_reloader p)).
        \<exists>s. view w (platform_secret p (p_podNamespace p) n) = Some s \<and>
           takes admits (view w) (platform_secret p (p_tenantNamespace p) n) (o_Body s))"
  by (simp add: reconcileChartPullSecrets_eq chart_up.replicate_succeeds)

lemma reconcileCA_succeeds:
  "(\<exists>p' w'. reconcileCABundle api p w = (Inr p', w')) \<longleftrightarrow>
     (p_caBundleSecret p \<noteq> [] \<longrightarrow>
        (\<exists>s. view w (ca_source p) = Some s \<and> takes admits (view w) (ca_target p) (o_Body s)))"
proof (cases "p_caBundleSecret p = []")
  case True
  have "\<exists>w'. RemoveCABundle api p w = (Inr (), w')"
    unfolding prune_shapes(3) [OF True] by (rule prune_succeeds)
  then show ?thesis using True by (auto simp: reconcileCABundle_def io_bind_def io_return_def)
next
  case False
  have body: "Secret (secret_Type s) (secret_Data s) = o_Body s" if "view w (ca_source p) = Some s" for s w
    using that stored_secret by (simp add: ca_source_def platform_secret_def)
  have copied: "(\<exists>w2. api_CreateOrUpdate api (p_platformClient p)
        (new_object (p_caBundleSecret p) (p_tenantNamespace p) (Secret [] []))
        (\<lambda>dst. (set_label caBundleLabel ''true'' (setManagedByValue managedByArgoCDValue dst))
           \<lparr>o_Body := Secret (secret_Type s) (secret_Data s)\<rparr>) w1 = (Inr (), w2)) \<longleftrightarrow>
      takes admits (view w1) (ca_target p) (o_Body s)" if "view w (ca_source p) = Some s" for s w1
    unfolding body [OF that, symmetric] secret_update_succeeds(2) [symmetric]
    by (simp add: ca_target_def platform_secret_def)
  show ?thesis
  proof
    assume "\<exists>p' w'. reconcileCABundle api p w = (Inr p', w')"
    then obtain s w1 w2 where g: "api_Get api (ca_source p) w = (Inr s, w1)"
      and c: "api_CreateOrUpdate api (p_platformClient p)
        (new_object (p_caBundleSecret p) (p_tenantNamespace p) (Secret [] []))
        (\<lambda>dst. (set_label caBundleLabel ''true'' (setManagedByValue managedByArgoCDValue dst))
           \<lparr>o_Body := Secret (secret_Type s) (secret_Data s)\<rparr>) w1 = (Inr (), w2)"
      using False by (auto simp: reconcileCABundle_def ensureCABundle_def io_ok ca_source_def)
    have s: "view w (ca_source p) = Some s" "view w1 = view w" using get_ok [OF g] by simp_all
    moreover have "takes admits (view w1) (ca_target p) (o_Body s)" using copied [OF s(1), of w1] c by blast
    ultimately show "p_caBundleSecret p \<noteq> [] \<longrightarrow>
        (\<exists>s. view w (ca_source p) = Some s \<and> takes admits (view w) (ca_target p) (o_Body s))" by auto
  next
    assume "p_caBundleSecret p \<noteq> [] \<longrightarrow>
        (\<exists>s. view w (ca_source p) = Some s \<and> takes admits (view w) (ca_target p) (o_Body s))"
    then obtain s where s: "view w (ca_source p) = Some s" and t: "takes admits (view w) (ca_target p) (o_Body s)"
      using False by blast
    obtain w1 where g: "api_Get api (ca_source p) w = (Inr s, w1)" "view w1 = view w" using get_succeeds [OF s] by blast
    then obtain w2 where "api_CreateOrUpdate api (p_platformClient p)
        (new_object (p_caBundleSecret p) (p_tenantNamespace p) (Secret [] []))
        (\<lambda>dst. (set_label caBundleLabel ''true'' (setManagedByValue managedByArgoCDValue dst))
           \<lparr>o_Body := Secret (secret_Type s) (secret_Data s)\<rparr>) w1 = (Inr (), w2)"
      using copied [OF s, of w1] t by auto
    with False g show "\<exists>p' w'. reconcileCABundle api p w = (Inr p', w')"
      by (auto simp: reconcileCABundle_def ensureCABundle_def io_ok ca_source_def intro!: exI [of _ w2])
  qed
qed

lemma repository_succeeds:
  "(\<exists>w'. applyOCIRepository api p url version w = (Inr (), w')) \<longleftrightarrow>
     takes admits (view w) (flux_ref p KOCIRepository ociRepositoryName) (OCIRepository (Some (argocd_repository p url version)))"
  unfolding applyOCIRepository_def update_succeeds [OF preserves_specs(1), symmetric]
  by (simp add: ref_of_def flux_ref_def)

lemma release_body:
  assumes "view w (flux_ref p KHelmRelease n) = Some obj"
  shows "o_Body (set_spec spec (setManagedByValue v obj)) = HelmRelease (Some spec) (release_conditions obj)"
  using stored_key [of w "p_platformClient p" "(KHelmRelease, p_tenantNamespace p, n)" obj] assms
  by (cases "o_Body obj") (auto simp: flux_ref_def key_of_def set_spec_def release_conditions_def setManagedByValue_def)

lemma release_succeeds:
  "(\<exists>w'. applyHelmRelease lib api p version w = (Inr (), w')) \<longleftrightarrow>
     (\<exists>vals. values_of lib p version = Inr vals \<and>
        takes admits (view w) (flux_ref p KHelmRelease helmReleaseName) (HelmRelease (Some (argocd_release p vals)) []))"
proof -
  have "(\<exists>w'. api_CreateOrUpdate api (p_platformClient p)
        (new_object helmReleaseName (p_tenantNamespace p) (HelmRelease None []))
        (\<lambda>hr. set_spec spec (setManagedByValue managedByArgoCDValue hr)) w = (Inr (), w')) \<longleftrightarrow>
      takes admits (view w) (flux_ref p KHelmRelease helmReleaseName) (HelmRelease (Some spec) [])" for spec
  proof (cases "view w (flux_ref p KHelmRelease helmReleaseName)")
    case None
    then show ?thesis
      unfolding update_succeeds [OF preserves_specs(2), symmetric]
      by (simp add: ref_of_def flux_ref_def or_fresh_def set_spec_def)
         (simp add: setManagedByValue_def new_object_def set_label_def)
  next
    case (Some obj)
    then show ?thesis
      unfolding update_succeeds [OF preserves_specs(2), symmetric]
      using release_body [OF Some] takes_without_status
      by (simp add: ref_of_def flux_ref_def or_fresh_def)
  qed
  then show ?thesis
    by (cases "values_of lib p version") (auto simp: applyHelmRelease_def io_ok values_of_def)
qed

lemma Install_run_accepted:
  assumes run: "Install lib api p version w = (Inr (), w')"
  shows "install_accepted admits lib p version (view w)"
proof -
  let ?charts = "chartPullSecretNames version (p_reloader p)"
  have accepted: "install_accepted admits lib p version (view w) \<longleftrightarrow>
      (\<forall>n \<in> set names. case view w (platform_secret p (p_podNamespace p) n) of None \<Rightarrow> True
          | Some source \<Rightarrow> image_takes admits p (view w) n (o_Body source)) \<and>
      (\<forall>n \<in> set ?charts. case view wa (platform_secret p (p_podNamespace p) n) of None \<Rightarrow> True
          | Some source \<Rightarrow> takes admits (view wa) (platform_secret p (p_tenantNamespace p) n) (o_Body source)) \<and>
      (p_caBundleSecret p \<noteq> [] \<longrightarrow> (case view wb (ca_source p) of None \<Rightarrow> True
          | Some source \<Rightarrow> takes admits (view wb) (ca_target p) (o_Body source))) \<and>
      takes admits (view wc) (flux_ref p KOCIRepository ociRepositoryName) (OCIRepository (Some (argocd_repository p' url version))) \<and>
      (case values_of lib p' version of Inl e \<Rightarrow> True
        | Inr vals \<Rightarrow> takes admits (view wc) (flux_ref p KHelmRelease helmReleaseName) (HelmRelease (Some (argocd_release p' vals)) []))"
    if "v_ChartURL version = Some url" "ImagePullSecretNames (v_Values version) = Inr names"
      "view wa = image_step p names (view w)" "view wb = chart_step p ?charts (view wa)" "view wc = ca_step p (view wb)"
      "p' = with_ca p (view wb)" for url names wa wb wc p'
    unfolding that(6,5,4,3) by (simp only: install_accepted_def Let_def that(1,2) sum.case option.case)
  obtain url wa wb wc wd we p' where url: "v_ChartURL version = Some url"
    and a: "reconcileImagePullSecrets api p (v_Values version) w = (Inr (), wa)"
    and b: "reconcileChartPullSecrets api p version wa = (Inr (), wb)"
    and c: "reconcileCABundle api p wb = (Inr p', wc)"
    and d: "applyOCIRepository api p' url version wc = (Inr (), wd)"
    and e: "applyHelmRelease lib api p' version wd = (Inr (), we)"
    using run by (auto simp: Install_def io_ok split: option.splits)
  obtain names where names: "ImagePullSecretNames (v_Values version) = Inr names"
    and i: "\<forall>n \<in> set names. \<exists>s. view w (platform_secret p (p_podNamespace p) n) = Some s \<and>
         image_takes admits p (view w) n (o_Body s)"
    using reconcileImage_succeeds [of p "v_Values version" w] a by blast
  have va: "view wa = image_step p names (view w)" using reconcileImage_ok [OF a] names by auto
  have vb: "view wb = chart_step p ?charts (view wa)" using reconcileChart_ok [OF b] by blast
  have vc: "view wc = ca_step p (view wb)" and p': "p' = with_ca p (view wb)" using reconcileCA_ok [OF c] by blast+
  have vd: "view wd = put_repository p' ociRepositoryName managedByArgoCDValue (argocd_repository p' url version) (view wc)"
    using d unfolding applyOCIRepository_def by (rule repository_ok)
  have ch: "\<forall>n \<in> set ?charts. \<exists>s. view wa (platform_secret p (p_podNamespace p) n) = Some s \<and>
         takes admits (view wa) (platform_secret p (p_tenantNamespace p) n) (o_Body s)"
    using reconcileChart_succeeds b by blast
  have ca: "p_caBundleSecret p \<noteq> [] \<longrightarrow>
      (\<exists>s. view wb (ca_source p) = Some s \<and> takes admits (view wb) (ca_target p) (o_Body s))"
    using reconcileCA_succeeds c by blast
  have "takes admits (view wc) (flux_ref p' KOCIRepository ociRepositoryName) (OCIRepository (Some (argocd_repository p' url version)))"
    using repository_succeeds d by blast
  moreover obtain vals where vals: "values_of lib p' version = Inr vals"
    "takes admits (view wd) (flux_ref p' KHelmRelease helmReleaseName) (HelmRelease (Some (argocd_release p' vals)) [])"
    using release_succeeds [of lib p' version wd] e by blast
  moreover have "takes admits (view wd) (flux_ref p' KHelmRelease helmReleaseName) b =
      takes admits (view wc) (flux_ref p' KHelmRelease helmReleaseName) b" for b
    by (rule takes_cong) (simp_all add: vd put_repository_def flux_ref_def)
  ultimately show ?thesis
    using i ch ca unfolding accepted [OF url names va vb vc p'] p' by (auto split: option.split)
qed

lemma accepted_Install_run:
  assumes s': "install_spec lib p version (view w) = Some s'" and acc: "install_accepted admits lib p version (view w)"
  shows "\<exists>w'. Install lib api p version w = (Inr (), w')"
proof -
  let ?charts = "chartPullSecretNames version (p_reloader p)"
  from s' obtain url names vals s1 s2 p' where url: "v_ChartURL version = Some url"
    and names: "ImagePullSecretNames (v_Values version) = Inr names"
    and i: "\<forall>n \<in> set names. view w (platform_secret p (p_podNamespace p) n) \<noteq> None"
    and s1: "s1 = image_step p names (view w)"
    and c: "\<forall>n \<in> set ?charts. s1 (platform_secret p (p_podNamespace p) n) \<noteq> None"
    and s2: "s2 = chart_step p ?charts s1" and p': "p' = with_ca p s2"
    and ca: "p_caBundleSecret p \<noteq> [] \<longrightarrow> s2 (ca_source p) \<noteq> None"
    and vals: "values_of lib p' version = Inr vals"
    by (auto simp: install_spec_def Let_def split: option.splits sum.splits if_splits)
  from acc url names vals have
    ai: "\<forall>n \<in> set names. \<exists>s. view w (platform_secret p (p_podNamespace p) n) = Some s \<and> image_takes admits p (view w) n (o_Body s)" and
    ac: "\<forall>n \<in> set ?charts. \<exists>s. s1 (platform_secret p (p_podNamespace p) n) = Some s \<and>
       takes admits s1 (platform_secret p (p_tenantNamespace p) n) (o_Body s)" and
    aca: "p_caBundleSecret p \<noteq> [] \<longrightarrow> (\<exists>s. s2 (ca_source p) = Some s \<and> takes admits s2 (ca_target p) (o_Body s))" and
    ar: "takes admits (ca_step p s2) (flux_ref p KOCIRepository ociRepositoryName) (OCIRepository (Some (argocd_repository p' url version)))" and
    ah: "takes admits (ca_step p s2) (flux_ref p KHelmRelease helmReleaseName) (HelmRelease (Some (argocd_release p' vals)) [])"
    using i c ca unfolding install_accepted_def s1 s2 p' Let_def by (fastforce split: option.splits)+
  obtain wa where a: "reconcileImagePullSecrets api p (v_Values version) w = (Inr (), wa)"
    using reconcileImage_succeeds names ai by blast
  then have va: "view wa = s1" using reconcileImage_ok [OF a] names s1 by auto
  obtain wb where b: "reconcileChartPullSecrets api p version wa = (Inr (), wb)"
    using reconcileChart_succeeds [of p version wa] ac unfolding va by blast
  then have vb: "view wb = s2" using reconcileChart_ok [OF b] va s2 by simp
  obtain q wc where cc: "reconcileCABundle api p wb = (Inr q, wc)"
    using reconcileCA_succeeds [of p wb] aca unfolding vb by blast
  then have vc: "view wc = ca_step p s2" and q: "q = p'" using reconcileCA_ok [OF cc] vb p' by auto
  have flux: "flux_ref p' = flux_ref p" using p' by simp
  obtain wd where d: "applyOCIRepository api p' url version wc = (Inr (), wd)"
    using repository_succeeds [of p' url version wc] ar unfolding vc flux by blast
  have vd: "view wd = put_repository p' ociRepositoryName managedByArgoCDValue (argocd_repository p' url version) (view wc)"
    using d unfolding applyOCIRepository_def by (rule repository_ok)
  have "takes admits (view wd) (flux_ref p KHelmRelease helmReleaseName) b =
      takes admits (view wc) (flux_ref p KHelmRelease helmReleaseName) b" for b
    by (rule takes_cong) (simp_all add: vd put_repository_def flux_ref_def)
  then obtain we where e: "applyHelmRelease lib api p' version wd = (Inr (), we)"
    using release_succeeds [of lib p' version wd] vals ah unfolding vc flux by blast
  obtain wf where f: "reconcileReloader api p' we = (Inr (), wf)"
    using reconcileReloader_total [of p' we] by (metis prod.collapse)
  have "Install lib api p version w = (Inr (), wf)"
    unfolding Install_def url option.case io_bind_ok io_map_error_ok
    using a b cc q d e f by blast
  then show ?thesis by blast
qed

text \<open>An installation succeeds exactly when the desired state is defined and the clusters accept it. The
  errors of the addon are logged, so it has no part in this.\<close>

theorem Install_succeeds:
  "(\<exists>w'. Install lib api p version w = (Inr (), w')) \<longleftrightarrow>
     (\<exists>s'. install_spec lib p version (view w) = Some s') \<and> install_accepted admits lib p version (view w)"
  using Install_run_accepted Install_refines accepted_Install_run by blast

end

end
