(* ===== verification/Provisioner_Correct.thy ===== *)
theory Provisioner_Correct
  imports Install_Correct
begin

text \<open>
  What the operations of the provisioner guarantee: readiness, the endpoint, the deletion guard,
  uninstallation, and the properties of an installation read off its desired state.
\<close>

section \<open>Probes\<close>

text \<open>The Flux resources that \<^verbatim>\<open>IsUninstalled\<close> waits for.\<close>

definition flux_refs :: "provisioner \<Rightarrow> obj_ref set" where
  "flux_refs p =
     {flux_ref p KHelmRelease helmReleaseName, flux_ref p KOCIRepository ociRepositoryName} \<union> reloader_refs p"

definition user_resources :: "store \<Rightarrow> provisioner \<Rightarrow> obj_ref set" where
  "user_resources s p =
     {(p_mcpClient p, KApplication, ns, n) | ns n. s (p_mcpClient p, KApplication, ns, n) \<noteq> None} \<union>
     {(p_mcpClient p, KApplicationSet, ns, n) | ns n. s (p_mcpClient p, KApplicationSet, ns, n) \<noteq> None} \<union>
     {(p_mcpClient p, KAppProject, ns, n) | ns n.
        \<not> (n = defaultAppProjectName \<and> ns = p_mcpNamespace p) \<and> s (p_mcpClient p, KAppProject, ns, n) \<noteq> None}"

lemma user_resources_empty:
  "user_resources s p = {} \<longleftrightarrow>
     (\<forall>ns n. s (p_mcpClient p, KApplication, ns, n) = None) \<and>
     (\<forall>ns n. s (p_mcpClient p, KApplicationSet, ns, n) = None) \<and>
     (\<forall>ns n obj. s (p_mcpClient p, KAppProject, ns, n) = Some obj \<longrightarrow>
        n = defaultAppProjectName \<and> ns = p_mcpNamespace p)"
proof -
  have "{(p_mcpClient p, KAppProject, ns, n) | ns n.
        \<not> (n = defaultAppProjectName \<and> ns = p_mcpNamespace p) \<and> s (p_mcpClient p, KAppProject, ns, n) \<noteq> None} = {} \<longleftrightarrow>
      (\<forall>ns n obj. s (p_mcpClient p, KAppProject, ns, n) = Some obj \<longrightarrow>
        n = defaultAppProjectName \<and> ns = p_mcpNamespace p)"
    by blast
  moreover have "{(p_mcpClient p, k, ns, n) | ns n. s (p_mcpClient p, k, ns, n) \<noteq> None} = {} \<longleftrightarrow>
      (\<forall>ns n. s (p_mcpClient p, k, ns, n) = None)" for k
    by auto
  ultimately show ?thesis unfolding user_resources_def Un_empty by simp
qed

lemma count_projects_filter:
  "count_projects p items count =
     count + length (filter (\<lambda>i. \<not> (o_Name i = defaultAppProjectName \<and> o_Namespace i = p_mcpNamespace p)) items)"
  by (induction p items count rule: count_projects.induct) auto

text \<open>What uninstalling leaves at each key.\<close>

definition uninstall_step :: "provisioner \<Rightarrow> store \<Rightarrow> store" where
  "uninstall_step p s = (\<lambda>r.
     if r \<in> flux_refs p then Option.bind (s r) after_delete
     else
       (let x = (if r \<in> range (mcp_secret p) then prune_obj image_own (s r) else s r)
        in if r \<in> range (platform_secret p (p_tenantNamespace p)) then prune_obj chart_own x else x))"

text \<open>Reads: a run that leaves the view alone.\<close>

definition reads :: "('w \<Rightarrow> store) \<Rightarrow> ('e, 'w, 'a) io \<Rightarrow> bool" where
  "reads view m \<longleftrightarrow> io_keeps (same_outside view {}) m"

lemma readsD: "reads view m \<Longrightarrow> m w = (r, w') \<Longrightarrow> view w' = view w"
  unfolding reads_def by (rule ext) (metis io_keepsD same_outsideD empty_iff)

lemma listed_kind: "obj \<in> listed s c k None [] \<longleftrightarrow> (\<exists>ns n. s (c, k, ns, n) = Some obj)"
  by (auto simp: listed_def matches_labels_def)

context kube_api
begin

lemma gone_reads: "reads view (gone api r msg)"
  unfolding reads_def gone_def
  by (rule frame.keeps_try [OF get_keeps]) (auto split: sum.split intro!: frame.keeps_intros)

lemma gone_ok: "gone api r msg w = (Inr b, w') \<Longrightarrow> view w' = view w \<and> (b \<longleftrightarrow> view w r = None)"
proof -
  assume run: "gone api r msg w = (Inr b, w')"
  obtain x w1 where g: "api_Get api r w = (x, w1)" by fastforce
  show ?thesis using run g readsD [OF gone_reads run] get_ok [of r w _ w1] get_err [of r w _ w1]
    by (cases x) (auto simp: gone_def io_try_eq io_ok split: if_splits)
qed

lemma IsUninstalled_ok:
  assumes "IsUninstalled api p w = (Inr b, w')"
  shows "view w' = view w \<and> (b \<longleftrightarrow> (\<forall>r \<in> flux_refs p. view w r = None))"
proof -
  from assms obtain g1 w1 where g1: "gone api (flux_ref p KHelmRelease helmReleaseName) ''getting HelmRelease'' w = (Inr g1, w1)"
    by (auto simp: IsUninstalled_def io_bind_ok)
  note G1 = gone_ok [OF g1]
  show ?thesis
  proof (cases g1)
    case False
    then show ?thesis using assms g1 G1
      by (auto simp: IsUninstalled_def io_bind_def io_ok flux_refs_def)
  next
    case t1: True
    with assms g1 obtain g2 w2 where g2: "gone api (flux_ref p KOCIRepository ociRepositoryName) ''getting OCIRepository'' w1 = (Inr g2, w2)"
      by (auto simp: IsUninstalled_def io_bind_ok)
    note G2 = gone_ok [OF g2]
    show ?thesis
    proof (cases g2)
      case False
      then show ?thesis using assms g1 g2 G1 G2 t1
        by (auto simp: IsUninstalled_def io_bind_def io_ok flux_refs_def)
    next
      case t2: True
      with assms g1 g2 t1 obtain g3 w3 where
        g3: "gone api (flux_ref p KHelmRelease reloaderHelmReleaseName) ''getting Reloader HelmRelease'' w2 = (Inr g3, w3)"
        by (auto simp: IsUninstalled_def io_bind_ok)
      note G3 = gone_ok [OF g3]
      show ?thesis
      proof (cases g3)
        case False
        then show ?thesis using assms g1 g2 g3 G1 G2 G3 t1 t2
          by (auto simp: IsUninstalled_def io_bind_def io_ok flux_refs_def reloader_refs_def)
      next
        case t3: True
        with assms g1 g2 g3 t1 t2 obtain g4 w4 where
          g4: "gone api (flux_ref p KOCIRepository reloaderOCIRepositoryName) ''getting Reloader OCIRepository'' w3 = (Inr g4, w4)"
          by (auto simp: IsUninstalled_def io_bind_ok)
        show ?thesis using assms g1 g2 g3 g4 G1 G2 G3 gone_ok [OF g4] t1 t2 t3
          by (auto simp: IsUninstalled_def io_bind_def io_ok flux_refs_def reloader_refs_def split: if_splits)
      qed
    qed
  qed
qed

lemma IsUninstalled_reads: "reads view (IsUninstalled api p)"
  using gone_reads unfolding reads_def IsUninstalled_def
  by (intro frame.keeps_bind) (simp_all add: frame.keeps_intros)

lemma listGVK_ok:
  assumes "listResourcesByGVK api p k msg w = (Inr items, w')"
  shows "view w' = view w \<and> distinct items \<and> set items = listed (view w) (p_mcpClient p) k None []"
proof -
  obtain x w1 where l: "api_List api (p_mcpClient p) k None [] w = (x, w1)" by fastforce
  show ?thesis
  proof (cases x)
    case (Inl e)
    then have "IsNoMatchError e" "items = []" "w' = w1"
      using assms l by (auto simp: listResourcesByGVK_def io_try_eq io_ok split: if_splits)
    then show ?thesis using list_err [of "p_mcpClient p" k None "[]" w e w1] l Inl
      by (auto simp: listed_def)
  next
    case (Inr y)
    then have "y = items" "w' = w1" using assms l by (auto simp: listResourcesByGVK_def io_try_eq io_ok)
    then show ?thesis using list_ok [of "p_mcpClient p" k None "[]" w items w1] l Inr by simp
  qed
qed

lemma listGVK_reads: "reads view (listResourcesByGVK api p k msg)"
  unfolding reads_def listResourcesByGVK_def
  by (rule frame.keeps_try [OF list_keeps]) (auto split: sum.split intro!: frame.keeps_intros)

lemma Count_reads: "reads view (CountUserArgoCDResources api p)"
  using listGVK_reads unfolding reads_def CountUserArgoCDResources_def countResourcesByGVK_def countUserAppProjects_def
  by (intro frame.keeps_intros)

text \<open>A count is zero exactly when no user resource is left.\<close>

lemma Count_zero:
  assumes "CountUserArgoCDResources api p w = (Inr n, w')"
  shows "n = 0 \<longleftrightarrow> user_resources (view w) p = {}"
proof -
  from assms obtain as w1 ss w2 ps where a: "listResourcesByGVK api p KApplication ''ArgoCD Applications'' w = (Inr as, w1)"
    and s: "listResourcesByGVK api p KApplicationSet ''ArgoCD ApplicationSets'' w1 = (Inr ss, w2)"
    and pr: "listResourcesByGVK api p KAppProject ''ArgoCD AppProjects'' w2 = (Inr ps, w')"
    and n: "n = length as + length ss + count_projects p ps 0"
    by (auto simp: CountUserArgoCDResources_def countResourcesByGVK_def countUserAppProjects_def io_ok)
  note A = listGVK_ok [OF a] and S = listGVK_ok [OF s] and P = listGVK_ok [OF pr]
  let ?v = "view w" and ?c = "p_mcpClient p"
  have as0: "as = [] \<longleftrightarrow> (\<forall>ns m. ?v (?c, KApplication, ns, m) = None)"
  proof -
    have "set as = {obj. \<exists>ns m. ?v (?c, KApplication, ns, m) = Some obj}" using A listed_kind by blast
    then show ?thesis by (auto simp flip: set_empty)
  qed
  have ss0: "ss = [] \<longleftrightarrow> (\<forall>ns m. ?v (?c, KApplicationSet, ns, m) = None)"
  proof -
    have "set ss = {obj. \<exists>ns m. ?v (?c, KApplicationSet, ns, m) = Some obj}" using A S listed_kind by auto
    then show ?thesis by (auto simp flip: set_empty)
  qed
  have ps0: "count_projects p ps 0 = 0 \<longleftrightarrow>
      (\<forall>ns m obj. ?v (?c, KAppProject, ns, m) = Some obj \<longrightarrow> m = defaultAppProjectName \<and> ns = p_mcpNamespace p)"
  proof -
    have name: "?v (?c, KAppProject, ns, m) = Some obj \<Longrightarrow> o_Name obj = m \<and> o_Namespace obj = ns" for ns m obj
      using stored_key [of w ?c "(KAppProject, ns, m)" obj] by (simp add: key_of_def)
    have "count_projects p ps 0 = 0 \<longleftrightarrow>
        (\<forall>obj \<in> set ps. o_Name obj = defaultAppProjectName \<and> o_Namespace obj = p_mcpNamespace p)"
      by (simp add: count_projects_filter filter_empty_conv)
    also have "\<dots> \<longleftrightarrow> (\<forall>ns m obj. ?v (?c, KAppProject, ns, m) = Some obj \<longrightarrow>
        o_Name obj = defaultAppProjectName \<and> o_Namespace obj = p_mcpNamespace p)"
    proof -
      have "set ps = {obj. \<exists>ns m. ?v (?c, KAppProject, ns, m) = Some obj}"
        using A S P listed_kind by auto
      then show ?thesis by blast
    qed
    also have "\<dots> \<longleftrightarrow> (\<forall>ns m obj. ?v (?c, KAppProject, ns, m) = Some obj \<longrightarrow>
        m = defaultAppProjectName \<and> ns = p_mcpNamespace p)"
      by (intro iff_allI imp_cong refl) (drule name, simp)
    finally show ?thesis .
  qed
  show ?thesis using as0 ss0 ps0 by (simp add: n user_resources_empty)
qed

lemma Ready_ok:
  assumes "Ready api p w = (Inr (ready, msg), w')"
  shows "view w' = view w \<and>
    (\<exists>hr. view w (flux_ref p KHelmRelease helmReleaseName) = Some hr \<and>
      (ready \<longleftrightarrow> (\<exists>c. find_condition ''Ready'' (release_conditions hr) = Some c \<and> cond_Status c = ConditionTrue)))"
proof -
  obtain x w1 where g: "api_Get api (flux_ref p KHelmRelease helmReleaseName) w = (x, w1)" by fastforce
  show ?thesis
  proof (cases x)
    case (Inl e)
    then show ?thesis using assms g by (simp add: Ready_def io_bind_def io_map_error_def)
  next
    case (Inr hr)
    then show ?thesis using assms g get_ok [of _ w hr w1]
      by (auto simp: Ready_def io_bind_def io_map_error_def io_ok split: option.splits)
  qed
qed

lemma Ready_reads: "reads view (Ready api p)"
  unfolding reads_def Ready_def
  by (intro frame.keeps_intros get_keeps) (auto split: option.split intro: frame.keeps_intros)

lemma Endpoint_reads: "reads view (Endpoint api p)"
  unfolding reads_def Endpoint_def Let_def
  by (auto intro!: frame.keeps_intros client_keeps split: sum.split)

lemma Endpoint_ok:
  assumes "Endpoint api p w = (Inr (endpoint, ready), w')"
  shows "if ev_Enabled (p_exposure p) then
      endpoint = ''https://'' @ ev_Host (p_exposure p) \<and>
      (ready \<longleftrightarrow> view w (mcp_secret p serverTLSSecretName) \<noteq> None \<and>
        (\<exists>n svc. view w (p_mcpClient p, KService, p_mcpNamespace p, n) = Some svc \<and>
           label_of svc labelPartOf = Some labelPartOfValue \<and>
           label_of svc labelComponent = Some labelServerValue \<and> has_address svc))
    else endpoint = [] \<and> ready"
proof (cases "ev_Enabled (p_exposure p)")
  case False
  then show ?thesis using assms by (simp add: Endpoint_def io_ok)
next
  case True
  obtain x w1 where g: "api_Get api (mcp_secret p serverTLSSecretName) w = (x, w1)" by fastforce
  show ?thesis
  proof (cases x)
    case (Inl e)
    then show ?thesis using assms True g get_err [of _ w e w1]
      by (auto simp: Endpoint_def Let_def io_try_eq io_ok split: if_splits)
  next
    case (Inr tls)
    let ?sel = "[(labelPartOf, labelPartOfValue), (labelComponent, labelServerValue)]"
    from assms True g Inr obtain items w2 where
      l: "api_List api (p_mcpClient p) KService (Some (p_mcpNamespace p)) ?sel w1 = (Inr items, w2)"
      and e: "endpoint = ''https://'' @ ev_Host (p_exposure p)" and r: "ready = list_ex has_address items"
      by (auto simp: Endpoint_def Let_def io_try_eq io_ok)
    have w1: "view w1 = view w" "view w (mcp_secret p serverTLSSecretName) \<noteq> None"
      using get_ok g Inr by auto
    have "set items = listed (view w) (p_mcpClient p) KService (Some (p_mcpNamespace p)) ?sel"
      using list_ok [OF l] w1 by simp
    then have "ready \<longleftrightarrow> (\<exists>n svc. view w (p_mcpClient p, KService, p_mcpNamespace p, n) = Some svc \<and>
           label_of svc labelPartOf = Some labelPartOfValue \<and>
           label_of svc labelComponent = Some labelServerValue \<and> has_address svc)"
      by (auto simp: r list_ex_iff listed_def matches_labels_def)
    then show ?thesis using True e w1 by simp
  qed
qed

section \<open>Uninstall\<close>

lemma removeImage_ok:
  "removeImagePullSecrets api p w = (Inr u, w') \<Longrightarrow>
   view w' = pruned (view w) (p_mcpClient p) (p_mcpNamespace p)
     [(managedByLabel, imagePullSecretManagedByValue)] []"
  unfolding removeImagePullSecrets_def prune_shapes by (rule prune_ok)

lemma removeChart_ok:
  "removeChartPullSecrets api p w = (Inr u, w') \<Longrightarrow>
   view w' = pruned (view w) (p_platformClient p) (p_tenantNamespace p) [(chartPullSecretLabel, ''true'')] []"
  unfolding removeChartPullSecrets_def prune_shapes by (rule prune_ok)

lemma deleted_at: "deleted s r' r = (if r = r' then Option.bind (s r) after_delete else s r)"
  by (simp add: deleted_def)

lemma pruned_at:
  "pruned s (p_mcpClient p) (p_mcpNamespace p) [(managedByLabel, imagePullSecretManagedByValue)] [] r =
     (if r \<in> range (mcp_secret p) then prune_obj image_own (s r) else s r)"
  "pruned s (p_platformClient p) (p_tenantNamespace p) [(chartPullSecretLabel, ''true'')] [] r =
     (if r \<in> range (platform_secret p (p_tenantNamespace p)) then prune_obj chart_own (s r) else s r)"
  by (auto simp: pruned_def selected_own prune_obj_def mcp_secret_def platform_secret_def split: option.split)

lemma flux_ref_eq [simp]: "flux_ref p k n = flux_ref p k' n' \<longleftrightarrow> k = k' \<and> n = n'"
  by (auto simp: flux_ref_def)

lemma flux_not_secret:
  "r \<in> flux_refs p \<Longrightarrow> r \<notin> range (mcp_secret p) \<and> r \<notin> range (platform_secret p ns)"
  by (auto simp: flux_refs_def reloader_refs_def flux_ref_def mcp_secret_def platform_secret_def)

lemma Uninstall_ok:
  assumes "Uninstall api p w = (Inr u, w')"
  shows "view w' = uninstall_step p (view w)"
proof
  fix r
  from assms obtain w1 w2 w3 w4 w5 u1 u2 u3 where
    a: "IgnoreNotFound (api_Delete api (flux_ref p KHelmRelease helmReleaseName)) w = (Inr u1, w1)"
    and b: "IgnoreNotFound (api_Delete api (flux_ref p KOCIRepository ociRepositoryName)) w1 = (Inr u2, w2)"
    and c: "removeImagePullSecrets api p w2 = (Inr (), w3)"
    and d: "removeChartPullSecrets api p w3 = (Inr (), w4)"
    and e: "IgnoreNotFound (api_Delete api (flux_ref p KHelmRelease reloaderHelmReleaseName)) w4 = (Inr u3, w5)"
    and f: "IgnoreNotFound (api_Delete api (flux_ref p KOCIRepository reloaderOCIRepositoryName)) w5 = (Inr u, w')"
    by (auto simp: Uninstall_def removeReloaderResources_def io_ok)
  note vs = ignore_delete_ok [OF a] ignore_delete_ok [OF b] removeImage_ok [OF c] removeChart_ok [OF d]
    ignore_delete_ok [OF e] ignore_delete_ok [OF f]
  show "view w' r = uninstall_step p (view w) r"
  proof (cases "r \<in> flux_refs p")
    case True
    from flux_not_secret [OF this] have "r \<notin> range (mcp_secret p)"
      "r \<notin> range (platform_secret p (p_tenantNamespace p))" by blast+
    then have "view w' r = Option.bind (view w r) after_delete"
      using True unfolding vs deleted_at pruned_at
      by (auto simp: flux_refs_def reloader_refs_def)
    then show ?thesis using True by (simp add: uninstall_step_def)
  next
    case False
    then show ?thesis unfolding vs deleted_at pruned_at
      by (simp add: uninstall_step_def Let_def flux_refs_def reloader_refs_def)
  qed
qed

lemma Uninstall_hands_off:
  "io_keeps (hands_off view (\<lambda>r obj. r \<in> range (mcp_secret p) \<and> image_own obj \<or>
       r \<in> range (platform_secret p (p_tenantNamespace p)) \<and> chart_own obj) (flux_refs p))
     (Uninstall api p)"
proof -
  let ?own = "\<lambda>r obj. r \<in> range (mcp_secret p) \<and> image_own obj \<or>
       r \<in> range (platform_secret p (p_tenantNamespace p)) \<and> chart_own obj"
  have "io_keeps (hands_off view ?own (flux_refs p)) (removeImagePullSecrets api p)"
    unfolding removeImagePullSecrets_def
    by (rule keeps_hands_off_mono [OF image.prune_frame subset_refl]) auto
  moreover have "io_keeps (hands_off view ?own (flux_refs p)) (removeChartPullSecrets api p)"
    unfolding removeChartPullSecrets_def
    by (rule keeps_hands_off_mono [OF chart.prune_frame subset_refl]) auto
  moreover have "io_keeps (same_outside view (flux_refs p)) (removeReloaderResources api p)"
    by (rule removeReloader_keeps) (auto simp: flux_refs_def)
  moreover have "io_keeps (same_outside view (flux_refs p)) (IgnoreNotFound (api_Delete api r))"
    if "r \<in> flux_refs p" for r
    using that by (intro client_keeps)
  ultimately show ?thesis
    unfolding Uninstall_def
    by (intro hands_off.keeps_intros) (simp_all add: keeps_hands_off flux_refs_def)
qed

end

context kube_api_up
begin

lemma Uninstall_succeeds: "\<exists>w'. Uninstall api p w = (Inr (), w') \<and> view w' = uninstall_step p (view w)"
proof -
  obtain w1 where a: "IgnoreNotFound (api_Delete api (flux_ref p KHelmRelease helmReleaseName)) w = (Inr (), w1)"
    using delete_succeeds by blast
  obtain w2 where b: "IgnoreNotFound (api_Delete api (flux_ref p KOCIRepository ociRepositoryName)) w1 = (Inr (), w2)"
    using delete_succeeds by blast
  obtain w3 where c: "removeImagePullSecrets api p w2 = (Inr (), w3)"
    unfolding removeImagePullSecrets_def prune_shapes using prune_succeeds by blast
  obtain w4 where d: "removeChartPullSecrets api p w3 = (Inr (), w4)"
    unfolding removeChartPullSecrets_def prune_shapes using prune_succeeds by blast
  obtain w5 where e: "removeReloaderResources api p w4 = (Inr (), w5)"
    using removeReloader_succeeds by blast
  have "Uninstall api p w = (Inr (), w5)"
    unfolding Uninstall_def io_bind_ok io_map_error_ok using a b c d e by blast
  then show ?thesis using Uninstall_ok by blast
qed

lemma gone_succeeds: "gone api r msg w = (Inr (view w r = None), snd (gone api r msg w))"
  using get_up [of r w]
  by (cases "view w r"; cases "api_Get api r w") (auto simp: gone_def io_try_eq io_return_def)

lemma IsUninstalled_succeeds:
  "\<exists>w'. IsUninstalled api p w = (Inr (\<forall>r \<in> flux_refs p. view w r = None), w')"
proof -
  have bind: "(\<And>b w. \<exists>b' w'. f b w = (Inr b', w')) \<Longrightarrow>
      \<exists>b' w'. io_bind (gone api r msg) f w = (Inr b', w')" for f :: "bool \<Rightarrow> (go_error, 'a, bool) io" and r msg w
    by (subst io_bind_def, subst gone_succeeds) simp
  have "\<exists>b w'. IsUninstalled api p w = (Inr b, w')"
    unfolding IsUninstalled_def
    by (auto intro!: bind simp: io_return_def) (rule exI, assumption)+
  then show ?thesis using IsUninstalled_ok by blast
qed

end

end
