(* ===== verification/Install_Properties.thy ===== *)
theory Install_Properties
  imports Provisioner_Correct Values_Correct
begin

text \<open>
  The properties of an installation and of an uninstallation, stated over the definitions of the
  code: what a run writes, what it never touches, when it succeeds, that running it again changes
  nothing, and that what it declares refers to secrets that are there.
\<close>

section \<open>The clusters and namespaces the code relies on being different\<close>

definition separated :: "provisioner \<Rightarrow> bool" where
  "separated p \<longleftrightarrow>
     p_platformClient p \<noteq> p_mcpClient p \<and> p_podNamespace p \<noteq> p_tenantNamespace p \<and>
     p_caBundleSourceNamespace p \<noteq> p_tenantNamespace p"

lemma image_step_platform:
  "p_platformClient p \<noteq> p_mcpClient p \<Longrightarrow>
   image_step p names s (p_platformClient p, r) = s (p_platformClient p, r)"
  by (cases r) (auto simp: image_step_def replica_step_def Let_def mcp_namespace_ref_def)

lemma chart_step_elsewhere:
  "(\<And>n. r \<noteq> platform_secret p (p_tenantNamespace p) n) \<Longrightarrow> chart_step p names s r = s r"
  unfolding chart_step_def by (rule replica_step_elsewhere) (simp add: platform_secret_def)

lemma ca_step_elsewhere:
  "(\<And>n. r \<noteq> platform_secret p (p_tenantNamespace p) n) \<Longrightarrow> ca_step p s r = s r"
  by (auto simp: ca_step_def ca_target_def platform_secret_def split: option.split
      intro!: replica_step_elsewhere)

lemma sources_kept:
  assumes "separated p" and "ns = p_podNamespace p \<or> ns = p_caBundleSourceNamespace p"
  shows "image_step p names s (platform_secret p ns n) = s (platform_secret p ns n)"
    and "chart_step p names s (platform_secret p ns n) = s (platform_secret p ns n)"
    and "ca_step p s (platform_secret p ns n) = s (platform_secret p ns n)"
proof -
  have sep: "p_platformClient p \<noteq> p_mcpClient p" "ns \<noteq> p_tenantNamespace p"
    using assms by (auto simp: separated_def)
  have away: "platform_secret p ns n \<noteq> platform_secret p (p_tenantNamespace p) m" for m
    using sep(2) by (simp add: platform_secret_def)
  show "image_step p names s (platform_secret p ns n) = s (platform_secret p ns n)"
    using image_step_platform [OF sep(1)] by (simp add: platform_secret_def)
  show "chart_step p names s (platform_secret p ns n) = s (platform_secret p ns n)"
    by (rule chart_step_elsewhere) (rule away)
  show "ca_step p s (platform_secret p ns n) = s (platform_secret p ns n)"
    by (rule ca_step_elsewhere) (rule away)
qed

lemma with_ca_cong: "s (ca_source p) = s' (ca_source p) \<Longrightarrow> with_ca p s = with_ca p s'"
  by (simp add: with_ca_def)

text \<open>With the sources out of the way of the steps, the desired state is defined by the store before.\<close>

definition install_possible :: "values_lib \<Rightarrow> provisioner \<Rightarrow> ArgoCDVersion \<Rightarrow> store \<Rightarrow> bool" where
  "install_possible lib p version s \<longleftrightarrow>
     v_ChartURL version \<noteq> None \<and>
     (\<exists>names. ImagePullSecretNames (v_Values version) = Inr names \<and>
        (\<forall>n \<in> set names. s (platform_secret p (p_podNamespace p) n) \<noteq> None)) \<and>
     (\<forall>n \<in> set (chartPullSecretNames version (p_reloader p)).
        s (platform_secret p (p_podNamespace p) n) \<noteq> None) \<and>
     (p_caBundleSecret p \<noteq> [] \<longrightarrow> s (ca_source p) \<noteq> None) \<and>
     (\<exists>vals. values_of lib (with_ca p s) version = Inr vals)"

lemma install_spec_simp:
  assumes "separated p"
  shows "install_spec lib p version s =
    (case v_ChartURL version of None \<Rightarrow> None | Some url \<Rightarrow>
     (case ImagePullSecretNames (v_Values version) of Inl e \<Rightarrow> None | Inr names \<Rightarrow>
     if \<exists>n \<in> set names. s (platform_secret p (p_podNamespace p) n) = None then None else
     if \<exists>n \<in> set (chartPullSecretNames version (p_reloader p)).
          s (platform_secret p (p_podNamespace p) n) = None then None else
     if p_caBundleSecret p \<noteq> [] \<and> s (ca_source p) = None then None else
     (case values_of lib (with_ca p s) version of Inl e \<Rightarrow> None | Inr vals \<Rightarrow>
     Some (put_release p helmReleaseName managedByArgoCDValue (argocd_release (with_ca p s) vals)
            (put_repository p ociRepositoryName managedByArgoCDValue (argocd_repository p url version)
              (ca_step p (chart_step p (chartPullSecretNames version (p_reloader p)) (image_step p names s))))))))"
proof -
  note keep = sources_kept [OF assms]
  have ca: "chart_step p ns' (image_step p names s) (ca_source p) = s (ca_source p)" for names ns'
    using keep by (simp add: ca_source_def)
  have w: "with_ca p (chart_step p ns' (image_step p names s)) = with_ca p s" for names ns'
    by (rule with_ca_cong) (rule ca)
  have repo: "argocd_repository (with_ca p s) url version = argocd_repository p url version" for url
    by (simp add: argocd_repository_def)
  show ?thesis
    unfolding install_spec_def Let_def ca w repo keep(1) [OF disjI1, OF refl] by (rule refl)
qed

lemma install_spec_defined:
  assumes "separated p"
  shows "(\<exists>s'. install_spec lib p version s = Some s') \<longleftrightarrow> install_possible lib p version s"
  unfolding install_spec_simp [OF assms] install_possible_def
  by (cases "v_ChartURL version"; cases "ImagePullSecretNames (v_Values version)";
      cases "values_of lib (with_ca p s) version") simp_all

lemma install_spec_SomeE:
  assumes "separated p" and "install_spec lib p version s = Some s'"
  obtains url names vals where "v_ChartURL version = Some url"
    and "ImagePullSecretNames (v_Values version) = Inr names"
    and "\<forall>n \<in> set names. s (platform_secret p (p_podNamespace p) n) \<noteq> None"
    and "\<forall>n \<in> set (chartPullSecretNames version (p_reloader p)).
           s (platform_secret p (p_podNamespace p) n) \<noteq> None"
    and "p_caBundleSecret p \<noteq> [] \<longrightarrow> s (ca_source p) \<noteq> None"
    and "values_of lib (with_ca p s) version = Inr vals"
    and "s' = put_release p helmReleaseName managedByArgoCDValue (argocd_release (with_ca p s) vals)
            (put_repository p ociRepositoryName managedByArgoCDValue (argocd_repository p url version)
              (ca_step p (chart_step p (chartPullSecretNames version (p_reloader p)) (image_step p names s))))"
proof -
  obtain url where url: "v_ChartURL version = Some url"
    using assms(2) by (cases "v_ChartURL version") (simp_all add: install_spec_simp [OF assms(1)])
  obtain names where names: "ImagePullSecretNames (v_Values version) = Inr names"
    using assms(2) url by (cases "ImagePullSecretNames (v_Values version)") (simp_all add: install_spec_simp [OF assms(1)])
  obtain vals where vals: "values_of lib (with_ca p s) version = Inr vals"
    using assms(2) url names
    by (cases "values_of lib (with_ca p s) version") (simp_all add: install_spec_simp [OF assms(1)] split: if_splits)
  have "install_possible lib p version s" using assms install_spec_defined by blast
  then have src: "\<forall>n \<in> set names. s (platform_secret p (p_podNamespace p) n) \<noteq> None"
    "\<forall>n \<in> set (chartPullSecretNames version (p_reloader p)). s (platform_secret p (p_podNamespace p) n) \<noteq> None"
    "p_caBundleSecret p \<noteq> [] \<longrightarrow> s (ca_source p) \<noteq> None"
    using names by (auto simp: install_possible_def)
  show thesis
    by (rule that [OF url names src vals])
       (use assms(2) url names vals src in \<open>simp add: install_spec_simp [OF assms(1)] split: if_splits\<close>)
qed

section \<open>Installing again changes nothing\<close>

lemma own_deleting [simp]:
  "image_own (obj\<lparr>o_Deleting := d\<rparr>) = image_own obj" "chart_own (obj\<lparr>o_Deleting := d\<rparr>) = chart_own obj"
  "ca_own (obj\<lparr>o_Deleting := d\<rparr>) = ca_own obj"
  by (simp_all add: image_own_def chart_own_def ca_own_def)

lemma prune_obj_idem [simp]:
  "prune_obj image_own (prune_obj image_own x) = prune_obj image_own x"
  "prune_obj chart_own (prune_obj chart_own x) = prune_obj chart_own x"
  "prune_obj ca_own (prune_obj ca_own x) = prune_obj ca_own x"
  by (cases x; simp add: prune_obj_def after_delete_def)+

lemma prune_obj_both:
  "prune_obj ca_own (prune_obj chart_own (prune_obj ca_own (prune_obj chart_own x))) =
   prune_obj ca_own (prune_obj chart_own x)"
  by (cases x) (auto simp: prune_obj_def after_delete_def)

lemma fresh_not_own [simp]: "\<not> ca_own (fresh_secret ns n)" "\<not> chart_own (fresh_secret ns n)"
  by (simp_all add: fresh_secret_def ca_own_def chart_own_def new_object_def label_of_def)

lemma after_delete_self: "after_delete obj = Some obj \<longleftrightarrow> o_Finalizers obj \<noteq> [] \<and> o_Deleting obj"
  by (cases obj) (auto simp: after_delete_def)

lemma chart_own_stamp_ca:
  "chart_own obj \<Longrightarrow> after_delete obj = Some obj \<Longrightarrow> after_delete (stamp_ca b obj) = Some (stamp_ca b obj)"
  by (simp add: after_delete_self stamp_ca_def setManagedByValue_def)

text \<open>The chart and CA operations on one secret of the tenant namespace.\<close>

definition chart_cell :: "body option \<Rightarrow> kobj \<Rightarrow> kobj option \<Rightarrow> kobj option" where
  "chart_cell b fresh x =
     (case b of Some body \<Rightarrow> Some (stamp_chart body (or_fresh fresh x)) | None \<Rightarrow> prune_obj chart_own x)"

definition ca_cell :: "body option \<Rightarrow> kobj \<Rightarrow> kobj option \<Rightarrow> kobj option" where
  "ca_cell b fresh y = (case b of Some body \<Rightarrow> Some (stamp_ca body (or_fresh fresh y)) | None \<Rightarrow> y)"

lemma cells_idem:
  assumes "\<not> chart_own fresh"
  shows "ca_cell b2 fresh (chart_cell b1 fresh (ca_cell b2 fresh (chart_cell b1 fresh x))) =
    ca_cell b2 fresh (chart_cell b1 fresh x)"
proof (cases b1)
  case (Some body)
  then show ?thesis by (cases b2) (simp_all add: chart_cell_def ca_cell_def)
next
  case None
  show ?thesis
  proof (cases "prune_obj chart_own x")
    case n: None
    then show ?thesis using None assms
      by (cases b2) (auto simp: chart_cell_def ca_cell_def or_fresh_def prune_obj_def)
  next
    case (Some obj)
    then have p: "prune_obj chart_own (Some obj) = Some obj" using prune_obj_idem(2) [of x] by simp
    then have "prune_obj chart_own (Some (stamp_ca b obj)) = Some (stamp_ca b obj)" for b
      using chart_own_stamp_ca by (auto simp: prune_obj_def split: if_splits)
    then show ?thesis using Some p None by (cases b2) (simp_all add: chart_cell_def ca_cell_def)
  qed
qed

lemma cells_prune_idem:
  assumes "b1 = None \<or> (\<forall>obj. x = Some obj \<longrightarrow> \<not> ca_own obj)" and "\<not> ca_own fresh"
  shows "prune_obj ca_own (chart_cell b1 fresh (prune_obj ca_own (chart_cell b1 fresh x))) =
    prune_obj ca_own (chart_cell b1 fresh x)"
proof (cases b1)
  case None
  then show ?thesis by (simp add: chart_cell_def prune_obj_both)
next
  case (Some body)
  then have "\<not> ca_own (stamp_chart body (or_fresh fresh x))"
    using assms by (cases x) (auto simp: or_fresh_def)
  then show ?thesis using Some by (simp add: chart_cell_def prune_obj_def)
qed

lemma put_release_idem: "put_release p n v spec (put_release p n v spec s) = put_release p n v spec s"
  by (auto simp: put_release_def set_spec_def setManagedByValue_def set_label_absorb fun_eq_iff
      label_of_body)

lemma put_repository_idem: "put_repository p n v spec (put_repository p n v spec s) = put_repository p n v spec s"
  by (auto simp: put_repository_def setManagedByValue_def set_label_absorb fun_eq_iff)

lemma put_elsewhere:
  "r \<noteq> flux_ref p KHelmRelease n \<Longrightarrow> put_release p n v spec s r = s r"
  "r \<noteq> flux_ref p KOCIRepository n \<Longrightarrow> put_repository p n v o_spec s r = s r"
  by (simp_all add: put_release_def put_repository_def)

lemma put_at:
  "s (flux_ref p KHelmRelease n) = s' (flux_ref p KHelmRelease n) \<Longrightarrow>
     put_release p n v spec s (flux_ref p KHelmRelease n) = put_release p n v spec s' (flux_ref p KHelmRelease n)"
  "s (flux_ref p KOCIRepository n) = s' (flux_ref p KOCIRepository n) \<Longrightarrow>
     put_repository p n v o_spec s (flux_ref p KOCIRepository n) = put_repository p n v o_spec s' (flux_ref p KOCIRepository n)"
  by (simp_all add: put_release_def put_repository_def)

text \<open>The conditions under which a second run finds nothing to do.\<close>

definition no_ca_conflict :: "provisioner \<Rightarrow> ArgoCDVersion \<Rightarrow> store \<Rightarrow> bool" where
  "no_ca_conflict p version s \<longleftrightarrow>
     p_caBundleSecret p \<noteq> [] \<or>
     (\<forall>n \<in> set (chartPullSecretNames version (p_reloader p)).
        \<forall>obj. s (platform_secret p (p_tenantNamespace p) n) = Some obj \<longrightarrow> \<not> ca_own obj)"

definition secrets_step :: "provisioner \<Rightarrow> string list \<Rightarrow> string list \<Rightarrow> store \<Rightarrow> store" where
  "secrets_step p names charts s = ca_step p (chart_step p charts (image_step p names s))"

lemma chart_step_at:
  "chart_step p charts s (platform_secret p (p_tenantNamespace p) n) =
     chart_cell (if n \<in> set charts then map_option o_Body (s (platform_secret p (p_podNamespace p) n)) else None)
       (fresh_secret (p_tenantNamespace p) n) (s (platform_secret p (p_tenantNamespace p) n))"
  if "n \<in> set charts \<longrightarrow> s (platform_secret p (p_podNamespace p) n) \<noteq> None"
  using that by (auto simp: chart_step_def platform_secret_def [of p "p_tenantNamespace p"] replica_step_at chart_cell_def)

lemma ca_step_at:
  "ca_step p s (platform_secret p (p_tenantNamespace p) n) =
     (if p_caBundleSecret p \<noteq> [] then
        ca_cell (if n = p_caBundleSecret p then map_option o_Body (s (ca_source p)) else None)
          (fresh_secret (p_tenantNamespace p) n) (s (platform_secret p (p_tenantNamespace p) n))
      else prune_obj ca_own (s (platform_secret p (p_tenantNamespace p) n)))"
  if "p_caBundleSecret p \<noteq> [] \<longrightarrow> s (ca_source p) \<noteq> None"
  using that
  by (auto simp: ca_step_def platform_secret_def ca_target_def replica_step_at ca_cell_def)

lemma secrets_step_idem:
  assumes sep: "separated p"
    and img: "\<forall>n \<in> set names. s (platform_secret p (p_podNamespace p) n) \<noteq> None"
    and crt: "\<forall>n \<in> set charts. s (platform_secret p (p_podNamespace p) n) \<noteq> None"
    and ca: "p_caBundleSecret p \<noteq> [] \<longrightarrow> s (ca_source p) \<noteq> None"
    and free: "p_caBundleSecret p \<noteq> [] \<or> (\<forall>n \<in> set charts. \<forall>obj.
        s (platform_secret p (p_tenantNamespace p) n) = Some obj \<longrightarrow> \<not> ca_own obj)"
    and same: "\<And>r. fst (snd r) \<in> {KSecret, KNamespace} \<Longrightarrow> t r = secrets_step p names charts s r"
    and r: "fst (snd r) \<in> {KSecret, KNamespace}"
  shows "secrets_step p names charts t r = t r"
proof -
  have clusters: "p_platformClient p \<noteq> p_mcpClient p" using sep by (simp add: separated_def)
  have source: "t (platform_secret p ns n) = s (platform_secret p ns n)"
    if "ns = p_podNamespace p \<or> ns = p_caBundleSourceNamespace p" for ns n
    using same [of "platform_secret p ns n"] sources_kept [OF sep that]
    by (simp add: secrets_step_def platform_secret_def)
  have plat: "image_step p names u (platform_secret p ns n) = u (platform_secret p ns n)" for u ns n
    using image_step_platform [OF clusters] by (simp add: platform_secret_def)
  show ?thesis
  proof (cases "\<exists>n. r = platform_secret p (p_tenantNamespace p) n")
    case True
    then obtain n where rn: "r = platform_secret p (p_tenantNamespace p) n" by blast
    obtain b1 where b1: "b1 = (if n \<in> set charts then map_option o_Body (s (platform_secret p (p_podNamespace p) n)) else None)"
      by blast
    obtain b2 where b2: "b2 = (if n = p_caBundleSecret p then map_option o_Body (s (ca_source p)) else None)"
      by blast
    obtain f where f: "f = fresh_secret (p_tenantNamespace p) n" by blast
    have step: "secrets_step p names charts u r =
        (if p_caBundleSecret p \<noteq> [] then ca_cell b2 f (chart_cell b1 f (u r))
         else prune_obj ca_own (chart_cell b1 f (u r)))"
      if src: "\<And>ns m. ns = p_podNamespace p \<or> ns = p_caBundleSourceNamespace p \<Longrightarrow>
        u (platform_secret p ns m) = s (platform_secret p ns m)" for u
    proof -
      have c: "chart_step p charts (image_step p names u) r = chart_cell b1 f (u r)"
        unfolding rn b1 f
        by (subst chart_step_at) (use crt src in \<open>simp_all add: plat\<close>)
      have cs: "chart_step p charts (image_step p names u) (ca_source p) = s (ca_source p)"
        using sources_kept [OF sep] src by (simp add: ca_source_def)
      show ?thesis
        unfolding secrets_step_def rn
        by (subst ca_step_at) (use ca cs c rn b2 f in simp_all)
    qed
    have tr: "t r = secrets_step p names charts s r" by (rule same) (simp add: rn platform_secret_def)
    have free': "p_caBundleSecret p \<noteq> [] \<or> b1 = None \<or> (\<forall>obj. s r = Some obj \<longrightarrow> \<not> ca_own obj)"
      using free rn b1 by auto
    have own: "\<not> chart_own f" "\<not> ca_own f" by (simp_all add: f)
    show ?thesis
      using step [OF source] step [OF refl] tr cells_idem [OF own(1), of b2 b1 "s r"]
        cells_prune_idem [OF _ own(2), of b1 "s r"] free'
      by (cases "p_caBundleSecret p = []") simp_all
  next
    case False
    then have out: "secrets_step p names charts u r = image_step p names u r" for u
      unfolding secrets_step_def by (simp add: ca_step_elsewhere chart_step_elsewhere)
    have tr: "t r = image_step p names s r" using same [OF r] out by simp
    show ?thesis
    proof (cases "\<exists>n. r = mcp_secret p n")
      case True
      then obtain n where rn: "r = mcp_secret p n" by blast
      have rr: "r = (p_mcpClient p, KSecret, p_mcpNamespace p, n)" by (simp add: rn mcp_secret_def)
      have ns: "r \<noteq> mcp_namespace_ref p" by (simp add: rr mcp_namespace_ref_def)
      have at: "image_step p names u r =
          (if n \<in> set names then
             (case u (platform_secret p (p_podNamespace p) n) of None \<Rightarrow> u r
              | Some source \<Rightarrow> Some (stamp_image (o_Body source) (or_fresh (fresh_secret (p_mcpNamespace p) n) (u r))))
           else prune_obj image_own (u r))" for u
        using ns [unfolded rr] unfolding image_step_def Let_def rr by (simp add: replica_step_at)
      show ?thesis unfolding out unfolding at [of t] tr unfolding at [of s] source [OF disjI1, OF refl]
        using img by (auto split: option.split)
    next
      case mcp: False
      have rep: "replica_step (p_mcpClient p) (p_mcpNamespace p) src st own ns u r = u r" for src st own ns u
        by (rule replica_step_elsewhere) (use mcp in \<open>simp add: mcp_secret_def\<close>)
      show ?thesis unfolding out tr
        using tr by (auto simp: image_step_def Let_def rep fill_namespace_def)
    qed
  qed
qed

text \<open>A step looks at secrets, namespaces and the object it writes, so it does not see the addon.\<close>

lemma install_spec_idem:
  assumes "separated p" and "no_ca_conflict p version s" and "install_spec lib p version s = Some s'"
    and agree: "\<And>r. r \<notin> reloader_refs p \<Longrightarrow> t r = s' r"
  shows "\<exists>t'. install_spec lib p version t = Some t' \<and> (\<forall>r. r \<notin> reloader_refs p \<longrightarrow> t' r = s' r)"
proof -
  let ?charts = "chartPullSecretNames version (p_reloader p)"
  from install_spec_SomeE [OF assms(1,3)] obtain url names vals where
    h: "v_ChartURL version = Some url" "ImagePullSecretNames (v_Values version) = Inr names"
      "\<forall>n \<in> set names. s (platform_secret p (p_podNamespace p) n) \<noteq> None"
      "\<forall>n \<in> set ?charts. s (platform_secret p (p_podNamespace p) n) \<noteq> None"
      "p_caBundleSecret p \<noteq> [] \<longrightarrow> s (ca_source p) \<noteq> None"
      "values_of lib (with_ca p s) version = Inr vals"
    and s': "s' = put_release p helmReleaseName managedByArgoCDValue (argocd_release (with_ca p s) vals)
            (put_repository p ociRepositoryName managedByArgoCDValue (argocd_repository p url version)
              (secrets_step p names ?charts s))"
    unfolding secrets_step_def by blast
  have same: "t r = secrets_step p names ?charts s r" if "fst (snd r) \<in> {KSecret, KNamespace}" for r
  proof -
    have "r \<notin> reloader_refs p" "r \<noteq> flux_ref p KHelmRelease n" "r \<noteq> flux_ref p KOCIRepository n" for n
      using that by (auto simp: reloader_refs_def flux_ref_def)
    then show ?thesis using agree [of r] by (simp add: s' put_elsewhere)
  qed
  have source: "t (platform_secret p ns n) = s (platform_secret p ns n)"
    if "ns = p_podNamespace p \<or> ns = p_caBundleSourceNamespace p" for ns n
    using same [of "platform_secret p ns n"] sources_kept [OF assms(1) that]
    by (simp add: secrets_step_def platform_secret_def)
  have ca: "with_ca p t = with_ca p s"
    by (rule with_ca_cong) (simp add: ca_source_def source)
  have spec: "install_spec lib p version t = Some (put_release p helmReleaseName managedByArgoCDValue (argocd_release (with_ca p s) vals)
            (put_repository p ociRepositoryName managedByArgoCDValue (argocd_repository p url version)
              (secrets_step p names ?charts t)))"
    using h source by (auto simp: install_spec_simp [OF assms(1)] ca ca_source_def secrets_step_def)
  have step: "secrets_step p names ?charts t r = t r" if "fst (snd r) \<in> {KSecret, KNamespace}" for r
    using assms(2) h(3-5)
    by (intro secrets_step_idem [OF assms(1) h(3) h(4) h(5) _ same that]) (auto simp: no_ca_conflict_def)
  have other: "secrets_step p names ?charts u r = u r" if "fst (snd r) \<notin> {KSecret, KNamespace}" for u r
  proof -
    have "r \<noteq> platform_secret p ns n" "r \<noteq> mcp_namespace_ref p" "r \<noteq> (p_mcpClient p, KSecret, ns, n)" for ns n
      using that by (auto simp: platform_secret_def mcp_namespace_ref_def)
    then show ?thesis
      by (simp add: secrets_step_def ca_step_elsewhere chart_step_elsewhere image_step_def Let_def
          replica_step_elsewhere)
  qed
  have "put_release p helmReleaseName managedByArgoCDValue (argocd_release (with_ca p s) vals)
            (put_repository p ociRepositoryName managedByArgoCDValue (argocd_repository p url version)
              (secrets_step p names ?charts t)) r = s' r" if r: "r \<notin> reloader_refs p" for r
  proof -
    consider "r = flux_ref p KHelmRelease helmReleaseName" | "r = flux_ref p KOCIRepository ociRepositoryName"
      | "r \<noteq> flux_ref p KHelmRelease helmReleaseName" "r \<noteq> flux_ref p KOCIRepository ociRepositoryName" by blast
    then show ?thesis
    proof cases
      case 1
      have "t r = s' r" using agree [OF r] .
      then show ?thesis using 1 other
        by (simp add: put_release_def put_repository_def flux_ref_def s' set_spec_def setManagedByValue_def set_label_absorb)
    next
      case 2
      have "t r = s' r" using agree [OF r] .
      then show ?thesis using 2 other
        by (simp add: put_release_def put_repository_def flux_ref_def s' setManagedByValue_def set_label_absorb)
    next
      case 3
      then have "secrets_step p names ?charts t r = t r"
        using step [of r] other [of r t] by blast
      then show ?thesis using 3 agree [OF r] by (simp add: put_elsewhere)
    qed
  qed
  then show ?thesis using spec by blast
qed

section \<open>What is left, and that it is accepted again\<close>

lemma release_not_reloader [simp]:
  "flux_ref p KHelmRelease helmReleaseName \<notin> reloader_refs p"
  "flux_ref p KOCIRepository ociRepositoryName \<notin> reloader_refs p"
  "platform_secret p ns n \<notin> reloader_refs p" "mcp_secret p n \<notin> reloader_refs p"
  by (auto simp: reloader_refs_def flux_ref_def platform_secret_def mcp_secret_def)

lemma put_read:
  "put_release p n v spec s (flux_ref p KHelmRelease n) =
     Some (set_spec spec (setManagedByValue v
       (or_fresh (new_object n (p_tenantNamespace p) (HelmRelease None [])) (s (flux_ref p KHelmRelease n)))))"
  "put_repository p n v o_spec s (flux_ref p KOCIRepository n) =
     Some ((setManagedByValue v
       (or_fresh (new_object n (p_tenantNamespace p) (OCIRepository None)) (s (flux_ref p KOCIRepository n))))
         \<lparr>o_Body := OCIRepository (Some o_spec)\<rparr>)"
  by (simp_all add: put_release_def put_repository_def)

lemma argocd_with_ca:
  "argocd_repository (with_ca p s) url version = argocd_repository p url version"
  "argocd_release (with_ca p s) vals = argocd_release p vals"
  by (simp_all add: argocd_repository_def argocd_release_def)

lemma install_declared:
  assumes "kube_api api view" and "separated p" and "Install lib api p version w = (Inr u, w')"
  obtains url vals repo hr conds where "v_ChartURL version = Some url"
    and "values_of lib (with_ca p (view w)) version = Inr vals"
    and "view w' (flux_ref p KOCIRepository ociRepositoryName) = Some repo"
    and "o_Body repo = OCIRepository (Some (argocd_repository p url version))"
    and "label_of repo managedByLabel = Some managedByArgoCDValue"
    and "view w' (flux_ref p KHelmRelease helmReleaseName) = Some hr"
    and "o_Body hr = HelmRelease (Some (argocd_release p vals)) conds"
    and "label_of hr managedByLabel = Some managedByArgoCDValue"
proof -
  obtain s' where s: "install_spec lib p version (view w) = Some s'"
    and v: "\<forall>r. r \<notin> reloader_refs p \<longrightarrow> view w' r = s' r"
    using kube_api.Install_refines [OF assms(1,3)] by blast
  from install_spec_SomeE [OF assms(2) s] obtain url names vals where
    h: "v_ChartURL version = Some url" "values_of lib (with_ca p (view w)) version = Inr vals"
    and s': "s' = put_release p helmReleaseName managedByArgoCDValue (argocd_release (with_ca p (view w)) vals)
            (put_repository p ociRepositoryName managedByArgoCDValue (argocd_repository p url version)
              (ca_step p (chart_step p (chartPullSecretNames version (p_reloader p)) (image_step p names (view w)))))"
    by blast
  note s' = s' [unfolded argocd_with_ca]
  have "view w' (flux_ref p KOCIRepository ociRepositoryName) = s' (flux_ref p KOCIRepository ociRepositoryName)"
    "view w' (flux_ref p KHelmRelease helmReleaseName) = s' (flux_ref p KHelmRelease helmReleaseName)"
    using v by simp_all
  then show thesis using that [OF h] by (simp add: s' put_read put_elsewhere set_spec_def)
qed

text \<open>The sources are never written.\<close>

lemma install_keeps_sources:
  assumes "kube_api api view" and "separated p" and "Install lib api p version w = (Inr u, w')"
    and "ns = p_podNamespace p \<or> ns = p_caBundleSourceNamespace p"
  shows "view w' (platform_secret p ns n) = view w (platform_secret p ns n)"
proof -
  obtain s' where s: "install_spec lib p version (view w) = Some s'"
    and v: "\<forall>r. r \<notin> reloader_refs p \<longrightarrow> view w' r = s' r"
    using kube_api.Install_refines [OF assms(1,3)] by blast
  have "platform_secret p ns n \<noteq> flux_ref p KHelmRelease m" "platform_secret p ns n \<noteq> flux_ref p KOCIRepository m" for m
    by (simp_all add: platform_secret_def flux_ref_def)
  then have "s' (platform_secret p ns n) = view w (platform_secret p ns n)"
    using install_spec_SomeE [OF assms(2) s] sources_kept [OF assms(2,4)] by (metis put_elsewhere)
  then show ?thesis using v by simp
qed

lemma install_mcp_secrets:
  assumes "kube_api api view" and "separated p" and "Install lib api p version w = (Inr u, w')"
  shows "\<exists>names. ImagePullSecretNames (v_Values version) = Inr names \<and>
     (\<forall>n \<in> set names. view w (platform_secret p (p_podNamespace p) n) \<noteq> None) \<and>
     (\<forall>n. view w' (mcp_secret p n) =
       (if n \<in> set names then
         (case view w (platform_secret p (p_podNamespace p) n) of
            None \<Rightarrow> view w (mcp_secret p n)
          | Some source \<Rightarrow> Some (stamp_image (o_Body source)
              (or_fresh (fresh_secret (p_mcpNamespace p) n) (view w (mcp_secret p n)))))
       else prune_obj image_own (view w (mcp_secret p n))))"
proof -
  obtain s' where s: "install_spec lib p version (view w) = Some s'"
    and v: "\<forall>r. r \<notin> reloader_refs p \<longrightarrow> view w' r = s' r"
    using kube_api.Install_refines [OF assms(1,3)] by blast
  from install_spec_SomeE [OF assms(2) s] obtain url names vals where
    names: "ImagePullSecretNames (v_Values version) = Inr names"
    and src: "\<forall>n \<in> set names. view w (platform_secret p (p_podNamespace p) n) \<noteq> None"
    and s': "s' = put_release p helmReleaseName managedByArgoCDValue (argocd_release (with_ca p (view w)) vals)
            (put_repository p ociRepositoryName managedByArgoCDValue (argocd_repository p url version)
              (ca_step p (chart_step p (chartPullSecretNames version (p_reloader p)) (image_step p names (view w)))))"
    by blast
  have clusters: "p_platformClient p \<noteq> p_mcpClient p" using assms(2) by (simp add: separated_def)
  have "view w' (mcp_secret p n) = image_step p names (view w) (mcp_secret p n)" for n
  proof -
    have "view w' (mcp_secret p n) = s' (mcp_secret p n)" using v by simp
    also have "\<dots> = image_step p names (view w) (mcp_secret p n)"
      unfolding s' using clusters
      by (simp add: put_elsewhere ca_step_elsewhere chart_step_elsewhere mcp_secret_def flux_ref_def
          platform_secret_def)
    finally show ?thesis .
  qed
  moreover have "image_step p names (view w) (mcp_secret p n) =
      (if n \<in> set names then
         (case view w (platform_secret p (p_podNamespace p) n) of
            None \<Rightarrow> view w (mcp_secret p n)
          | Some source \<Rightarrow> Some (stamp_image (o_Body source)
              (or_fresh (fresh_secret (p_mcpNamespace p) n) (view w (mcp_secret p n)))))
       else prune_obj image_own (view w (mcp_secret p n)))" for n
    unfolding image_step_def Let_def mcp_secret_def by (simp add: mcp_namespace_ref_def replica_step_at)
  ultimately show ?thesis using names src by simp
qed

text \<open>What an installation leaves at a secret of the tenant namespace.\<close>

definition tenant_cell :: "provisioner \<Rightarrow> ArgoCDVersion \<Rightarrow> store \<Rightarrow> string \<Rightarrow> kobj option" where
  "tenant_cell p version s n =
     (let fresh = fresh_secret (p_tenantNamespace p) n;
          x = chart_cell
             (if n \<in> set (chartPullSecretNames version (p_reloader p))
              then map_option o_Body (s (platform_secret p (p_podNamespace p) n)) else None)
             fresh (s (platform_secret p (p_tenantNamespace p) n))
      in if p_caBundleSecret p \<noteq> [] then
           ca_cell (if n = p_caBundleSecret p then map_option o_Body (s (ca_source p)) else None) fresh x
         else prune_obj ca_own x)"

lemma install_tenant_secrets:
  assumes "kube_api api view" and "separated p" and "Install lib api p version w = (Inr u, w')"
  shows "(\<forall>n \<in> set (chartPullSecretNames version (p_reloader p)).
            view w (platform_secret p (p_podNamespace p) n) \<noteq> None) \<and>
     (p_caBundleSecret p \<noteq> [] \<longrightarrow> view w (ca_source p) \<noteq> None) \<and>
     (\<forall>n. view w' (platform_secret p (p_tenantNamespace p) n) = tenant_cell p version (view w) n)"
proof -
  let ?charts = "chartPullSecretNames version (p_reloader p)"
  obtain s' where s: "install_spec lib p version (view w) = Some s'"
    and v: "\<forall>r. r \<notin> reloader_refs p \<longrightarrow> view w' r = s' r"
    using kube_api.Install_refines [OF assms(1,3)] by blast
  show ?thesis
  proof (rule install_spec_SomeE [OF assms(2) s])
    fix url names vals
    assume crt: "\<forall>n \<in> set ?charts. view w (platform_secret p (p_podNamespace p) n) \<noteq> None"
      and ca: "p_caBundleSecret p \<noteq> [] \<longrightarrow> view w (ca_source p) \<noteq> None"
      and s': "s' = put_release p helmReleaseName managedByArgoCDValue (argocd_release (with_ca p (view w)) vals)
            (put_repository p ociRepositoryName managedByArgoCDValue (argocd_repository p url version)
              (ca_step p (chart_step p ?charts (image_step p names (view w)))))"
    let ?s1 = "image_step p names (view w)"
    let ?s2 = "chart_step p ?charts ?s1"
    have clusters: "p_platformClient p \<noteq> p_mcpClient p" using assms(2) by (simp add: separated_def)
    have plat: "?s1 (platform_secret p ns n) = view w (platform_secret p ns n)" for ns n
      using image_step_platform [OF clusters] by (simp add: platform_secret_def)
    have src: "?s2 (ca_source p) = view w (ca_source p)"
      using sources_kept [OF assms(2)] by (simp add: ca_source_def)
    have "view w' (platform_secret p (p_tenantNamespace p) n) = tenant_cell p version (view w) n" for n
    proof -
      let ?r = "platform_secret p (p_tenantNamespace p) n"
      have "view w' ?r = s' ?r" using v by simp
      also have "\<dots> = ca_step p ?s2 ?r"
        unfolding s' by (simp add: put_elsewhere platform_secret_def flux_ref_def)
      also have "\<dots> = (if p_caBundleSecret p \<noteq> [] then
          ca_cell (if n = p_caBundleSecret p then map_option o_Body (?s2 (ca_source p)) else None)
            (fresh_secret (p_tenantNamespace p) n) (?s2 ?r)
          else prune_obj ca_own (?s2 ?r))"
        by (rule ca_step_at) (use ca src in simp)
      also have "?s2 ?r = chart_cell (if n \<in> set ?charts then map_option o_Body (?s1 (platform_secret p (p_podNamespace p) n)) else None)
          (fresh_secret (p_tenantNamespace p) n) (?s1 ?r)"
        by (rule chart_step_at) (use crt plat in simp)
      finally show ?thesis unfolding tenant_cell_def Let_def plat src .
    qed
    with crt ca show ?thesis by blast
  qed
qed

text \<open>With the sources out of the way, what is accepted depends on the store before, but for the place of the
  CA bundle, which a pull secret may share.\<close>

lemma install_accepted_simp:
  assumes "separated p" and "ImagePullSecretNames (v_Values version) = Inr names"
  shows "install_accepted admits lib p version s \<longleftrightarrow>
     (\<forall>n \<in> set names. \<forall>source. s (platform_secret p (p_podNamespace p) n) = Some source \<longrightarrow>
        image_takes admits p s n (o_Body source)) \<and>
     (\<forall>n \<in> set (chartPullSecretNames version (p_reloader p)). \<forall>source.
        s (platform_secret p (p_podNamespace p) n) = Some source \<longrightarrow>
        takes admits s (platform_secret p (p_tenantNamespace p) n) (o_Body source)) \<and>
     (p_caBundleSecret p \<noteq> [] \<longrightarrow> (\<forall>source. s (ca_source p) = Some source \<longrightarrow>
        takes admits (chart_step p (chartPullSecretNames version (p_reloader p)) s) (ca_target p) (o_Body source))) \<and>
     (\<forall>url. v_ChartURL version = Some url \<longrightarrow>
        takes admits s (flux_ref p KOCIRepository ociRepositoryName) (OCIRepository (Some (argocd_repository p url version)))) \<and>
     (\<forall>vals. values_of lib (with_ca p s) version = Inr vals \<longrightarrow>
        takes admits s (flux_ref p KHelmRelease helmReleaseName) (HelmRelease (Some (argocd_release (with_ca p s) vals)) []))"
proof -
  let ?charts = "chartPullSecretNames version (p_reloader p)"
  let ?s1 = "image_step p names s" and ?s2 = "chart_step p ?charts (image_step p names s)"
  have sep: "p_platformClient p \<noteq> p_mcpClient p" using assms(1) by (simp add: separated_def)
  note platform = image_step_platform [OF sep, of names s]
  note keep = sources_kept [OF assms(1)]
  have src: "?s1 (platform_secret p (p_podNamespace p) n) = s (platform_secret p (p_podNamespace p) n)"
    "?s2 (ca_source p) = s (ca_source p)" for n
    using keep by (simp_all add: ca_source_def)
  have w: "with_ca p ?s2 = with_ca p s" by (rule with_ca_cong) (rule src(2))
  have repo: "argocd_repository (with_ca p s) url version = argocd_repository p url version" for url
    by (simp add: argocd_repository_def)
  have ns: "?s2 (p_platformClient p, KNamespace, [], m) = s (p_platformClient p, KNamespace, [], m)"
    "chart_step p ?charts s (p_platformClient p, KNamespace, [], m) = s (p_platformClient p, KNamespace, [], m)"
    "ca_step p ?s2 (p_platformClient p, KNamespace, [], m) = s (p_platformClient p, KNamespace, [], m)" for m
    using chart_step_elsewhere [of "(p_platformClient p, KNamespace, [], m)" p] ca_step_elsewhere [of "(p_platformClient p, KNamespace, [], m)" p]
    by (simp_all add: platform platform_secret_def)
  have flux: "ca_step p ?s2 (flux_ref p k n) = s (flux_ref p k n)" if "k \<noteq> KSecret" for k n
    using chart_step_elsewhere [of "flux_ref p k n" p] ca_step_elsewhere [of "flux_ref p k n" p] platform that
    by (simp add: platform_secret_def flux_ref_def)
  have charts: "takes admits ?s1 (platform_secret p (p_tenantNamespace p) n) b = takes admits s (platform_secret p (p_tenantNamespace p) n) b" for n b
    by (rule takes_cong) (simp_all add: platform platform_secret_def)
  have target: "?s2 (ca_target p) = chart_step p ?charts s (ca_target p)"
    using platform by (simp add: chart_step_def replica_step_def ca_target_def platform_secret_def split: option.split)
  have ca: "takes admits ?s2 (ca_target p) b = takes admits (chart_step p ?charts s) (ca_target p) b" for b
    by (rule takes_cong) (use ns target in \<open>simp_all add: ca_target_def platform_secret_def\<close>)
  have fluxes: "takes admits (ca_step p ?s2) (flux_ref p k n) b = takes admits s (flux_ref p k n) b" if "k \<noteq> KSecret" for k n b
    by (rule takes_cong) (use flux [OF that] ns(3) in \<open>simp_all add: flux_ref_def\<close>)
  show ?thesis
    unfolding install_accepted_def Let_def assms(2) sum.case src w repo charts ca
    by (cases "v_ChartURL version"; cases "values_of lib (with_ca p s) version")
       (auto simp: fluxes split: option.splits)
qed

text \<open>Where an installation has succeeded everything has the content it is to have, so that the writes of
  another run are accepted whatever the policy of the cluster (with the CA bundle apart from the pull
  secrets of the chart, whose copies would otherwise overwrite each other).\<close>

lemma prune_stamped:
  assumes "\<not> chart_own fresh"
  shows "prune_obj chart_own (Some (stamp_ca b (or_fresh fresh (prune_obj chart_own x)))) =
    Some (stamp_ca b (or_fresh fresh (prune_obj chart_own x)))"
proof (cases "prune_obj chart_own x")
  case None
  then show ?thesis using assms by (auto simp: or_fresh_def prune_obj_def)
next
  case (Some obj)
  then have "prune_obj chart_own (Some obj) = Some obj" using prune_obj_idem(2) [of x] by simp
  then have "prune_obj chart_own (Some (stamp_ca b obj)) = Some (stamp_ca b obj)"
    using chart_own_stamp_ca by (auto simp: prune_obj_def split: if_splits)
  then show ?thesis using Some by simp
qed

lemma install_mcp_namespace:
  assumes "kube_api api view" and "separated p" and "Install lib api p version w = (Inr u, w')"
    and "ImagePullSecretNames (v_Values version) = Inr names" and "names \<noteq> []"
  shows "view w' (mcp_namespace_ref p) = fill_namespace p (mcp_namespace_ref p) (view w (mcp_namespace_ref p))"
proof -
  obtain s' where s: "install_spec lib p version (view w) = Some s'"
    and v: "\<forall>r. r \<notin> reloader_refs p \<longrightarrow> view w' r = s' r"
    using kube_api.Install_refines [OF assms(1,3)] by blast
  have away: "mcp_namespace_ref p \<noteq> flux_ref p k n" "mcp_namespace_ref p \<noteq> platform_secret p ns n" for k n ns
    using assms(2) by (auto simp: mcp_namespace_ref_def flux_ref_def platform_secret_def separated_def)
  then have "mcp_namespace_ref p \<notin> reloader_refs p" by (simp add: reloader_refs_def)
  then have kept: "view w' (mcp_namespace_ref p) = s' (mcp_namespace_ref p)" using v by simp
  show ?thesis
    by (rule install_spec_SomeE [OF assms(2) s])
       (use assms(4,5) in \<open>simp add: kept put_elsewhere away ca_step_elsewhere chart_step_elsewhere image_step_def Let_def\<close>)
qed

lemma install_accepted_again:
  assumes api: "kube_api api view" and sep: "separated p" and free: "no_ca_conflict p version (view w)"
    and apart: "p_caBundleSecret p \<notin> set (chartPullSecretNames version (p_reloader p))"
    and run: "Install lib api p version w = (Inr u, w1)"
    and agree: "\<And>r. r \<notin> reloader_refs p \<Longrightarrow> r \<noteq> flux_ref p KHelmRelease helmReleaseName \<Longrightarrow> t r = view w1 r"
    and release: "\<And>vals. values_of lib (with_ca p (view w)) version = Inr vals \<Longrightarrow> \<exists>hr conds.
      t (flux_ref p KHelmRelease helmReleaseName) = Some hr \<and> o_Body hr = HelmRelease (Some (argocd_release p vals)) conds"
  shows "install_accepted admits lib p version t"
proof -
  let ?charts = "chartPullSecretNames version (p_reloader p)" and ?fresh = "fresh_secret (p_tenantNamespace p)"
  have plain: "platform_secret p ns n \<noteq> flux_ref p KHelmRelease m" "mcp_secret p n \<noteq> flux_ref p KHelmRelease m"
    "mcp_namespace_ref p \<noteq> flux_ref p KHelmRelease m" "mcp_namespace_ref p \<notin> reloader_refs p" for ns n m
    by (auto simp: platform_secret_def mcp_secret_def mcp_namespace_ref_def flux_ref_def reloader_refs_def)
  have source: "t (platform_secret p ns n) = view w (platform_secret p ns n)"
    if "ns = p_podNamespace p \<or> ns = p_caBundleSourceNamespace p" for ns n
    using agree [of "platform_secret p ns n"] install_keeps_sources [OF api sep run that] plain by simp
  have ca: "t (ca_source p) = view w (ca_source p)" by (simp add: ca_source_def source)
  have cert: "with_ca p t = with_ca p (view w)" by (rule with_ca_cong) (rule ca)
  obtain names where names: "ImagePullSecretNames (v_Values version) = Inr names"
    and image: "\<And>n. view w1 (mcp_secret p n) =
       (if n \<in> set names then
         (case view w (platform_secret p (p_podNamespace p) n) of
            None \<Rightarrow> view w (mcp_secret p n)
          | Some source \<Rightarrow> Some (stamp_image (o_Body source)
              (or_fresh (fresh_secret (p_mcpNamespace p) n) (view w (mcp_secret p n)))))
       else prune_obj image_own (view w (mcp_secret p n)))"
    using install_mcp_secrets [OF api sep run] by metis
  have tenant: "t (platform_secret p (p_tenantNamespace p) n) = tenant_cell p version (view w) n"
    and there: "n \<in> set ?charts \<Longrightarrow> view w (platform_secret p (p_podNamespace p) n) \<noteq> None" for n
    using agree [of "platform_secret p (p_tenantNamespace p) n"] install_tenant_secrets [OF api sep run] plain by auto
  have copy: "t (mcp_secret p n) = view w1 (mcp_secret p n)" for n
    using agree [of "mcp_secret p n"] plain by simp
  have "image_takes admits p t n (o_Body src)"
    if n: "n \<in> set names" and src: "t (platform_secret p (p_podNamespace p) n) = Some src" for n src
  proof -
    have "names \<noteq> []" using n by auto
    then have "t (mcp_namespace_ref p) \<noteq> None"
      using agree [of "mcp_namespace_ref p"] install_mcp_namespace [OF api sep run names] plain
      by (simp add: fill_namespace_def)
    moreover have "mcp_secret p n \<noteq> mcp_namespace_ref p" by (simp add: mcp_secret_def mcp_namespace_ref_def)
    ultimately show ?thesis
      using src image [of n] n by (simp add: image_takes_def Let_def source copy takes_again)
  qed
  moreover have "takes admits t (platform_secret p (p_tenantNamespace p) n) (o_Body src)"
    if n: "n \<in> set ?charts" and src: "t (platform_secret p (p_podNamespace p) n) = Some src" for n src
  proof -
    have "\<not> ca_own (stamp_chart (o_Body src) (or_fresh (?fresh n) (view w (platform_secret p (p_tenantNamespace p) n))))"
      if "p_caBundleSecret p = []"
      using free n that by (auto simp: no_ca_conflict_def or_fresh_def split: option.split)
    moreover have "n \<noteq> p_caBundleSecret p" using apart n by blast
    ultimately have "t (platform_secret p (p_tenantNamespace p) n) =
        Some (stamp_chart (o_Body src) (or_fresh (?fresh n) (view w (platform_secret p (p_tenantNamespace p) n))))"
      using n src source [of "p_podNamespace p" n]
      by (auto simp: tenant tenant_cell_def Let_def chart_cell_def ca_cell_def prune_obj_def)
    then show ?thesis by (rule takes_again) simp
  qed
  moreover have "takes admits (chart_step p ?charts t) (ca_target p) (o_Body src)"
    if "p_caBundleSecret p \<noteq> []" and src: "t (ca_source p) = Some src" for src
  proof (rule takes_again)
    show "chart_step p ?charts t (ca_target p) = Some (stamp_ca (o_Body src) (or_fresh (?fresh (p_caBundleSecret p))
        (prune_obj chart_own (view w (platform_secret p (p_tenantNamespace p) (p_caBundleSecret p))))))"
      unfolding ca_target_def
      by (subst chart_step_at)
         (use apart that in \<open>simp_all add: tenant tenant_cell_def Let_def chart_cell_def ca_cell_def ca prune_stamped\<close>)
  qed simp
  moreover have "takes admits t (flux_ref p KOCIRepository ociRepositoryName) (OCIRepository (Some (argocd_repository p url version)))"
    if "v_ChartURL version = Some url" for url
  proof -
    have "t (flux_ref p KOCIRepository ociRepositoryName) = view w1 (flux_ref p KOCIRepository ociRepositoryName)"
      by (rule agree) (simp_all add: flux_ref_def reloader_refs_def)
    then show ?thesis
      by - (rule install_declared [OF api sep run], use that in \<open>simp add: takes_again\<close>)
  qed
  moreover have "takes admits t (flux_ref p KHelmRelease helmReleaseName) (HelmRelease (Some (argocd_release (with_ca p t) vals)) [])"
    if "values_of lib (with_ca p t) version = Inr vals" for vals
    using release [of vals] that unfolding cert argocd_with_ca by (metis takes_again takes_without_status)
  ultimately show ?thesis unfolding install_accepted_simp [OF sep names] by blast
qed

section \<open>Properties of an installation\<close>

text \<open>C5. On a cluster that answers, an installation succeeds exactly when the version has a chart
  URL, its values name their pull secrets readably, every referenced secret exists in the provider's
  namespace (pull secrets and CA bundle), the Helm values can be built, and each object the code then
  writes is accepted: a cluster creates nothing in a namespace that is missing or terminating, does not
  change the type of a Secret that is there, and takes no content that its policy (\<open>admits\<close>) refuses.
  The tenant namespace must therefore be there whenever an object in it is missing; the namespace of
  the MCP is created on the way.\<close>

theorem install_succeeds_iff:
  assumes "kube_api_writes api view admits" and "separated p"
  shows "fst (Install lib api p version w) = Inr () \<longleftrightarrow>
    install_possible lib p version (view w) \<and> install_accepted admits lib p version (view w)"
  using kube_api_writes.Install_succeeds [OF assms(1), of lib p version w]
  by (cases "Install lib api p version w") (simp add: install_spec_defined [OF assms(2)])

text \<open>C8. An installation is idempotent: once one has succeeded, a second one leaves every object as
  it is (the addon's two objects, which the code manages without checking, apart). The exception
  \<open>no_ca_conflict\<close> rules out is a copy of a pull secret that carries the label of a CA bundle no longer
  configured: each installation copies it anew and then deletes it as the bundle.\<close>

theorem install_idempotent:
  assumes "kube_api api view" and "separated p" and "no_ca_conflict p version (view w)"
    and "Install lib api p version w = (Inr u, w1)" and "Install lib api p version w1 = (Inr u', w2)"
    and "r \<notin> reloader_refs p"
  shows "view w2 r = view w1 r"
proof -
  obtain s1 where s1: "install_spec lib p version (view w) = Some s1" "\<forall>r. r \<notin> reloader_refs p \<longrightarrow> view w1 r = s1 r"
    using kube_api.Install_refines [OF assms(1,4)] by blast
  obtain s2 where s2: "install_spec lib p version (view w1) = Some s2" "\<forall>r. r \<notin> reloader_refs p \<longrightarrow> view w2 r = s2 r"
    using kube_api.Install_refines [OF assms(1,5)] by blast
  have "s2 r = s1 r"
    using install_spec_idem [OF assms(2,3) s1(1), of "view w1"] s1(2) s2(1) assms(6) by auto
  then show ?thesis using s1(2) s2(2) assms(6) by simp
qed

section \<open>An example\<close>

definition example_config :: ProvisionerConfig where
  "example_config =
     \<lparr>cfg_PlatformClient = ''platform'', cfg_MCPClient = ''mcp'', cfg_TenantNamespace = ''tenant'',
      cfg_MCPNamespace = [], cfg_KubeConfigSecretName = ''access'', cfg_PodNamespace = ''sp'',
      cfg_PollInterval = minute, cfg_Exposure = zero_exposure, cfg_Reloader = None,
      cfg_CABundleSecret = [], cfg_CABundleSourceNamespace = ''sp'', cfg_VaultPluginEnabled = False,
      cfg_VaultPluginRegistry = [], cfg_VaultPluginTag = [], cfg_VaultPluginOpenSource = False\<rparr>"

definition example_p :: provisioner where
  "example_p = NewProvisioner example_config"

definition example_version :: ArgoCDVersion where
  "example_version =
     \<lparr>v_Version = ''v3'', v_ChartVersion = ''9.1'', v_ChartURL = Some ''oci://charts/argo-cd'',
      v_ChartPullSecret = ''chartcred'',
      v_Values = Some (RawObject [(''global'', JObj [(''imagePullSecrets'', pull_refs [''regcred''])])])\<rparr>"

definition example_world :: mem_store where
  "example_world =
     [(''platform'', new_object ''tenant'' [] NamespaceObj),
      (''platform'', new_object ''regcred'' ''sp'' (Secret ''docker'' [(''a'', ''b'')])),
      (''platform'', new_object ''chartcred'' ''sp'' (Secret ''docker'' [(''c'', ''d'')])),
      (''mcp'', new_object ''tls'' ''argocd'' (Secret ''tls'' []))]"

abbreviation healthy :: "mem_store kube_client" where
  "healthy \<equiv> mem_client (\<lambda>_. None)"

lemma example_p_fields [simp]:
  "p_platformClient example_p = ''platform''" "p_mcpClient example_p = ''mcp''"
  "p_tenantNamespace example_p = ''tenant''" "p_mcpNamespace example_p = ''argocd''"
  "p_podNamespace example_p = ''sp''" "p_caBundleSourceNamespace example_p = ''sp''"
  "p_caBundleSecret example_p = []" "p_reloader example_p = None" "p_caCert example_p = []"
  "p_exposure example_p = zero_exposure" "vault_values example_p = vault_off\<lparr>vpv_namespace := ''argocd''\<rparr>"
  by (simp_all add: example_p_def NewProvisioner_def example_config_def Let_def DefaultNamespace_def
      vault_values_def vault_off_def)

lemma example_separated: "separated example_p"
  by (simp add: separated_def)

lemma example_names:
  "ImagePullSecretNames (v_Values example_version) = Inr [''regcred'']"
  by (simp add: example_version_def ImagePullSecretNames_def raw_empty_def pull_refs_def
      decode_refs_names [of _ "[''regcred'']", simplified] decode_slice_def same_field_refl)

lemma example_charts: "chartPullSecretNames example_version None = [''chartcred'']"
  by (simp add: example_version_def chartPullSecretNames_def add_name_def Let_def)

lemma example_build_values:
  "\<exists>vals. values_of example_lib example_p example_version = Inr vals"
proof -
  have "vault_layer example_lib m (vault_off\<lparr>vpv_namespace := ''argocd''\<rparr>) v = Inr []" for m v
    by (simp add: vault_layer_def vault_off_def)
  moreover have "ca_layer example_lib [] = Inr []" by (simp add: ca_layer_def)
  ultimately show ?thesis
    unfolding values_of_def buildValues_ok
    by (simp add: example_version_def Let_def base_ok_def pull_refs_def)
qed

lemmas example_world_simps = example_world_def mem_view_Cons ref_of_def key_of_def new_object_def
  platform_secret_def

lemma example_possible: "install_possible example_lib example_p example_version (mem_view example_world)"
  using example_build_values
  by (simp add: install_possible_def example_names example_charts with_ca_def)
     (simp add: example_version_def example_world_simps)

lemma example_no_conflict: "no_ca_conflict example_p example_version (mem_view example_world)"
  by (simp add: no_ca_conflict_def example_charts example_world_simps)

text \<open>What the executable store asks for: the tenant namespace, and copies that have the type of their source.\<close>

lemma example_accepts:
  assumes source: "\<And>n. s (''platform'', KSecret, ''sp'', n) = mem_view example_world (''platform'', KSecret, ''sp'', n)"
    and live: "namespace_live s ''platform'' ''tenant''"
    and mcp: "\<And>obj. s (''mcp'', KNamespace, [], ''argocd'') = Some obj \<Longrightarrow> \<not> o_Deleting obj"
    and copies: "\<And>r obj. r \<in> {(''mcp'', KSecret, ''argocd'', ''regcred''), (''platform'', KSecret, ''tenant'', ''chartcred'')} \<Longrightarrow>
      s r = Some obj \<Longrightarrow> \<exists>d. o_Body obj = Secret ''docker'' d"
    and flux: "\<And>obj. s (''platform'', KOCIRepository, ''tenant'', ociRepositoryName) = Some obj \<Longrightarrow> \<exists>o_spec. o_Body obj = OCIRepository o_spec"
      "\<And>obj. s (''platform'', KHelmRelease, ''tenant'', helmReleaseName) = Some obj \<Longrightarrow> \<exists>h conds. o_Body obj = HelmRelease h conds"
  shows "install_accepted mem_admits example_lib example_p example_version s"
proof -
  have sources: "s (''platform'', KSecret, ''sp'', ''regcred'') = Some (new_object ''regcred'' ''sp'' (Secret ''docker'' [(''a'', ''b'')]))"
    "s (''platform'', KSecret, ''sp'', ''chartcred'') = Some (new_object ''chartcred'' ''sp'' (Secret ''docker'' [(''c'', ''d'')]))"
    unfolding source by (simp_all add: example_world_simps)
  have typed: "\<not> retyped (o_Body obj) (Secret ''docker'' d)"
    if "s r = Some obj" "r \<in> {(''mcp'', KSecret, ''argocd'', ''regcred''), (''platform'', KSecret, ''tenant'', ''chartcred'')}" for r obj d
    using copies [OF that(2,1)] by (auto simp: retyped_def)
  have "image_takes mem_admits example_p s ''regcred'' (Secret ''docker'' [(''a'', ''b'')])"
    using mcp typed by (auto simp: image_takes_def Let_def takes_def namespace_live_def fill_namespace_def or_fresh_def
        mem_admits_def mcp_namespace_ref_def mcp_secret_def new_object_def split: option.split)
  moreover have "takes mem_admits s (''platform'', KSecret, ''tenant'', ''chartcred'') (Secret ''docker'' [(''c'', ''d'')])"
    using live typed by (auto simp: takes_def mem_admits_def split: option.split)
  moreover have "takes mem_admits s (''platform'', KOCIRepository, ''tenant'', ociRepositoryName) (OCIRepository o_spec)"
    "takes mem_admits s (''platform'', KHelmRelease, ''tenant'', helmReleaseName) (HelmRelease h conds)" for o_spec h conds
    using live flux by (auto simp: takes_def mem_admits_def helmReleaseName_def ociRepositoryName_def split: option.split)
  ultimately show ?thesis
    unfolding install_accepted_simp [OF example_separated example_names]
    by (simp add: example_charts sources platform_secret_def flux_ref_def)
       (simp add: new_object_def)
qed

lemma example_accepted: "install_accepted mem_admits example_lib example_p example_version (mem_view example_world)"
  by (rule example_accepts) (auto simp: example_world_simps namespace_live_def)

lemma install_succeeds_iff_witness:
  "fst (Install example_lib healthy example_p example_version example_world) = Inr () \<and>
   fst (Install example_lib healthy example_p example_version
     (removeAll (''platform'', new_object ''tenant'' [] NamespaceObj) example_world)) \<noteq> Inr ()"
proof -
  let ?w = "removeAll (''platform'', new_object ''tenant'' [] NamespaceObj) example_world"
  note exact = install_succeeds_iff [OF mem_up.kube_api_writes_axioms example_separated, of example_lib example_version]
  have "\<not> install_accepted mem_admits example_lib example_p example_version (mem_view ?w)"
    unfolding install_accepted_simp [OF example_separated example_names]
    by (simp add: takes_def namespace_live_def example_charts example_world_simps)
  then show ?thesis using exact example_possible example_accepted by blast
qed

lemma example_apart: "p_caBundleSecret example_p \<notin> set (chartPullSecretNames example_version (p_reloader example_p))"
  by (simp add: example_charts)

lemma example_install:
  obtains w1 w2 where "Install example_lib healthy example_p example_version example_world = (Inr (), w1)"
    and "Install example_lib healthy example_p example_version w1 = (Inr (), w2)"
proof -
  note runs = mem_up.Install_succeeds [of example_lib example_p example_version, unfolded install_spec_defined [OF example_separated]]
  obtain w1 where w1: "Install example_lib healthy example_p example_version example_world = (Inr (), w1)"
    using runs [of example_world] example_possible example_accepted by blast
  have "install_accepted mem_admits example_lib example_p example_version (mem_view w1)"
    by (rule install_accepted_again [OF mem.kube_api_axioms example_separated example_no_conflict example_apart w1])
       (auto intro: install_declared [OF mem.kube_api_axioms example_separated w1])
  moreover obtain s1 where "install_spec example_lib example_p example_version (mem_view example_world) = Some s1"
      "\<forall>r. r \<notin> reloader_refs example_p \<longrightarrow> mem_view w1 r = s1 r"
    using mem.Install_refines [OF w1] by blast
  then have "install_possible example_lib example_p example_version (mem_view w1)"
    using install_spec_idem [OF example_separated example_no_conflict, of example_lib s1 "mem_view w1"]
      install_spec_defined [OF example_separated] by blast
  ultimately obtain w2 where "Install example_lib healthy example_p example_version w1 = (Inr (), w2)"
    using runs [of w1] by blast
  with w1 show thesis by (rule that)
qed

lemma install_idempotent_witness:
  "\<exists>w1 w2. Install example_lib healthy example_p example_version example_world = (Inr (), w1) \<and>
     Install example_lib healthy example_p example_version w1 = (Inr (), w2) \<and>
     mem_view w2 (flux_ref example_p KHelmRelease helmReleaseName) =
       mem_view w1 (flux_ref example_p KHelmRelease helmReleaseName)"
proof -
  obtain w1 w2 where w: "Install example_lib healthy example_p example_version example_world = (Inr (), w1)"
    "Install example_lib healthy example_p example_version w1 = (Inr (), w2)" by (rule example_install)
  have "mem_view w2 (flux_ref example_p KHelmRelease helmReleaseName) =
      mem_view w1 (flux_ref example_p KHelmRelease helmReleaseName)"
    by (rule install_idempotent [OF mem.kube_api_axioms example_separated example_no_conflict w])
       (simp add: reloader_refs_def)
  with w show ?thesis by blast
qed

section \<open>What an installation leaves\<close>

text \<open>C2. After a successful installation the OCIRepository and the HelmRelease are there, labelled as
  the provider's, with exactly the specification the code builds: chart source and tag, pull secret
  and CA references, target, remediation and the Helm values for the version (with the
  certificate of the CA bundle as the source secret holds it).\<close>

theorem install_declares_argocd:
  assumes "kube_api api view" and "separated p" and "Install lib api p version w = (Inr u, w')"
  shows "\<exists>url vals repo hr conds.
     v_ChartURL version = Some url \<and> values_of lib (with_ca p (view w)) version = Inr vals \<and>
     view w' (flux_ref p KOCIRepository ociRepositoryName) = Some repo \<and>
     o_Body repo = OCIRepository (Some (argocd_repository p url version)) \<and>
     label_of repo managedByLabel = Some managedByArgoCDValue \<and>
     view w' (flux_ref p KHelmRelease helmReleaseName) = Some hr \<and>
     o_Body hr = HelmRelease (Some (argocd_release p vals)) conds \<and>
     label_of hr managedByLabel = Some managedByArgoCDValue"
  by (rule install_declared [OF assms]) blast

lemma install_declares_argocd_witness:
  "\<exists>w'. Install example_lib healthy example_p example_version example_world = (Inr (), w') \<and>
     (\<exists>url vals repo hr conds.
     v_ChartURL example_version = Some url \<and> values_of example_lib (with_ca example_p (mem_view example_world)) example_version = Inr vals \<and>
     mem_view w' (flux_ref example_p KOCIRepository ociRepositoryName) = Some repo \<and>
     o_Body repo = OCIRepository (Some (argocd_repository example_p url example_version)) \<and>
     label_of repo managedByLabel = Some managedByArgoCDValue \<and>
     mem_view w' (flux_ref example_p KHelmRelease helmReleaseName) = Some hr \<and>
     o_Body hr = HelmRelease (Some (argocd_release example_p vals)) conds \<and>
     label_of hr managedByLabel = Some managedByArgoCDValue)"
proof -
  obtain w' where w: "Install example_lib healthy example_p example_version example_world = (Inr (), w')"
    by (rule example_install)
  from w install_declares_argocd [OF mem.kube_api_axioms example_separated w] show ?thesis by blast
qed

text \<open>C9. An installation, whether it succeeds or fails half way, leaves alone what is neither in
  \<open>install_scope\<close> nor labelled as one of its secrets: such an object is as it was, on both clusters. The
  scope is fixed by names, whoever made the object: the four Flux objects of the tenant, the namespace
  of the MCP, and the secrets of the names that the version and the configuration refer to.\<close>

theorem install_touches_only_its_own:
  assumes "kube_api api view" and "Install lib api p version w = (res, w')"
    and "r \<notin> install_scope p version" and "\<And>obj. view w r = Some obj \<Longrightarrow> \<not> owned_secret p r obj"
  shows "view w' r = view w r"
  using io_keepsD [OF kube_api.Install_hands_off [OF assms(1)] assms(2)] assms(3,4)
  unfolding hands_off_def by blast

lemma install_touches_only_its_own_witness:
  "mem_view (snd (Install example_lib (mem_client (\<lambda>c. case c of CallUpdate r \<Rightarrow> Some ''conflict'' | _ \<Rightarrow> None))
       example_p example_version example_world)) (''mcp'', KSecret, ''argocd'', ''tls'') =
   mem_view example_world (''mcp'', KSecret, ''argocd'', ''tls'')"
proof (rule install_touches_only_its_own [OF mem.kube_api_axioms prod.collapse [symmetric]])
  show "(''mcp'', KSecret, ''argocd'', ''tls'') \<notin> install_scope example_p example_version"
    by (auto simp: install_scope_def pull_secret_names_def example_names reloader_refs_def flux_ref_def
        ca_target_def platform_secret_def mcp_namespace_ref_def mcp_secret_def)
qed (auto simp: example_world_simps owned_secret_def image_own_def label_of_def mcp_secret_def split: if_splits)

text \<open>C17. After a successful installation the pull secrets of the MCP are exactly the referenced ones:
  each name of the values has a copy of the provider's secret, carrying the label by which it is
  found again, and a labelled secret that is no longer referenced is deleted (marked, while it has
  finalizers); other secrets of the namespace are left alone.\<close>

theorem install_replicates_image_pull_secrets:
  assumes "kube_api api view" and "separated p" and "Install lib api p version w = (Inr u, w')"
  shows "\<exists>names. ImagePullSecretNames (v_Values version) = Inr names \<and>
     (\<forall>n. if n \<in> set names then
            (\<exists>source copy. view w (platform_secret p (p_podNamespace p) n) = Some source \<and>
               view w' (mcp_secret p n) = Some copy \<and> o_Body copy = o_Body source \<and>
               label_of copy managedByLabel = Some managedByArgoCDValue)
          else view w' (mcp_secret p n) = prune_obj image_own (view w (mcp_secret p n)))"
proof -
  obtain names where names: "ImagePullSecretNames (v_Values version) = Inr names"
    and src: "\<forall>n \<in> set names. view w (platform_secret p (p_podNamespace p) n) \<noteq> None"
    and at: "\<And>n. view w' (mcp_secret p n) =
       (if n \<in> set names then
         (case view w (platform_secret p (p_podNamespace p) n) of
            None \<Rightarrow> view w (mcp_secret p n)
          | Some source \<Rightarrow> Some (stamp_image (o_Body source)
              (or_fresh (fresh_secret (p_mcpNamespace p) n) (view w (mcp_secret p n)))))
       else prune_obj image_own (view w (mcp_secret p n)))"
    using install_mcp_secrets [OF assms] by metis
  show ?thesis
    using names src at
    by (auto simp: stamp_image_def imagePullSecretManagedByValue_def intro!: exI [of _ names])
qed

lemma install_replicates_image_pull_secrets_witness:
  "\<exists>w'. Install example_lib healthy example_p example_version example_world = (Inr (), w') \<and>
    (\<exists>names. ImagePullSecretNames (v_Values example_version) = Inr names \<and>
     (\<forall>n. if n \<in> set names then
            (\<exists>source copy. mem_view example_world (platform_secret example_p (p_podNamespace example_p) n) = Some source \<and>
               mem_view w' (mcp_secret example_p n) = Some copy \<and> o_Body copy = o_Body source \<and>
               label_of copy managedByLabel = Some managedByArgoCDValue)
          else mem_view w' (mcp_secret example_p n) = prune_obj image_own (mem_view example_world (mcp_secret example_p n))))"
proof -
  obtain w' where w: "Install example_lib healthy example_p example_version example_world = (Inr (), w')"
    by (rule example_install)
  from w install_replicates_image_pull_secrets [OF mem.kube_api_axioms example_separated w] show ?thesis by blast
qed

end
