(* ===== verification/Provider_Runs.thy ===== *)
theory Provider_Runs
  imports Provisioner_Correct
begin

text \<open>
  Every path of every operation, at once. All writes of the provisioner go through four calls, and
  every update it makes has the same discipline (it keeps the key, adds no finalizer, and stamps the
  managed-by label). The locale \<open>provider_run\<close> asks of a relation between worlds only that it holds
  across these calls, and proves once that every operation keeps it, whether it succeeds or
  fails half way. Two relations are instances on any client: what was written is stamped, and no
  finalizer appears.
\<close>

section \<open>The discipline of the writes\<close>

definition managed :: "kobj \<Rightarrow> bool" where
  "managed obj \<longleftrightarrow>
     label_of obj managedByLabel = Some managedByArgoCDValue \<or>
     label_of obj managedByLabel = Some managedByReloaderValue"

definition provider_write :: "kobj \<Rightarrow> (kobj \<Rightarrow> kobj) \<Rightarrow> bool" where
  "provider_write init f \<longleftrightarrow>
     preserves_key init f \<and> kind_of (o_Body init) \<noteq> KNamespace \<and> o_Finalizers init = [] \<and>
     (\<forall>x. o_Finalizers (f x) = o_Finalizers x \<and> managed (f x))"

lemma managed_simps [simp]:
  "managed (obj\<lparr>o_Body := b\<rparr>) = managed obj" "managed (obj\<lparr>o_Deleting := d\<rparr>) = managed obj"
  "managed (setManagedByValue managedByArgoCDValue obj)"
  "managed (setManagedByValue managedByReloaderValue obj)"
  "managed (setManagedByValue imagePullSecretManagedByValue obj)"
  "managed (set_label chartPullSecretLabel v obj) = managed obj"
  "managed (set_label caBundleLabel v obj) = managed obj"
  "managed (set_spec spec obj) = managed obj"
  by (auto simp: managed_def setManagedByValue_def imagePullSecretManagedByValue_def set_spec_def)

lemma finalizers_simps [simp]:
  "o_Finalizers (setManagedByValue v obj) = o_Finalizers obj"
  "o_Finalizers (set_spec spec obj) = o_Finalizers obj"
  "o_Finalizers (new_object n ns b) = []"
  by (simp_all add: setManagedByValue_def set_spec_def new_object_def)

lemma provider_writes [simp]:
  "provider_write (new_object n ns (Secret [] []))
     (\<lambda>target. (setManagedByValue imagePullSecretManagedByValue target)\<lparr>o_Body := Secret t d\<rparr>)"
  "provider_write (new_object n ns (Secret [] []))
     (\<lambda>dst. (set_label chartPullSecretLabel v (setManagedByValue managedByArgoCDValue dst))\<lparr>o_Body := Secret t d\<rparr>)"
  "provider_write (new_object n ns (Secret [] []))
     (\<lambda>dst. (set_label caBundleLabel v (setManagedByValue managedByArgoCDValue dst))\<lparr>o_Body := Secret t d\<rparr>)"
  "provider_write (new_object n ns (OCIRepository None))
     (\<lambda>repo. (setManagedByValue managedByArgoCDValue repo)\<lparr>o_Body := OCIRepository b\<rparr>)"
  "provider_write (new_object n ns (OCIRepository None))
     (\<lambda>repo. (setManagedByValue managedByReloaderValue repo)\<lparr>o_Body := OCIRepository b\<rparr>)"
  "provider_write (new_object n ns (HelmRelease None []))
     (\<lambda>hr. set_spec spec (setManagedByValue managedByArgoCDValue hr))"
  "provider_write (new_object n ns (HelmRelease None []))
     (\<lambda>hr. set_spec spec (setManagedByValue managedByReloaderValue hr))"
  by (simp_all add: provider_write_def) (simp_all add: new_object_def)

text \<open>Where the calls made for a provisioner write: in the tenant namespace, and the secrets of the
  control plane's namespace with that namespace itself.\<close>

definition domain :: "provisioner \<Rightarrow> obj_ref set" where
  "domain p =
     {(p_platformClient p, k, p_tenantNamespace p, n) | k n. True} \<union>
     {(p_mcpClient p, KSecret, p_mcpNamespace p, n) | n. True} \<union> {mcp_namespace_ref p}"

lemma domain_refs:
  "flux_ref p k n \<in> domain p" "platform_secret p (p_tenantNamespace p) n \<in> domain p" "mcp_secret p n \<in> domain p"
  "mcp_namespace_ref p \<in> domain p"
  "(p_platformClient p, k, p_tenantNamespace p, n) \<in> domain p" "(p_mcpClient p, KSecret, p_mcpNamespace p, n) \<in> domain p"
  "ref_of (p_mcpClient p) (new_object (p_mcpNamespace p) [] NamespaceObj) \<in> domain p"
  by (auto simp: domain_def flux_ref_def platform_secret_def mcp_secret_def mcp_namespace_ref_def ref_of_def)

text \<open>
  What a client's calls keep, as an interface: nothing is asked of the client but that the relation
  holds across each call that the provisioner makes, with its writes confined to \<open>A\<close>, and that a list
  in a namespace holds objects of that namespace. It is not assumed that the calls find the world as
  the previous call left it. Probing and removing needs three calls only.
\<close>

locale removal_calls = run_relation R
  for R :: "'w \<Rightarrow> 'w \<Rightarrow> bool" +
  fixes api :: "'w kube_client" and A :: "obj_ref set"
  assumes get_call: "io_keeps R (api_Get api r)"
    and list_call: "io_keeps R (api_List api c k scope sel)"
    and listed_call:
      "api_List api c k (Some ns) sel w = (Inr objs, w') \<Longrightarrow> obj \<in> set objs \<Longrightarrow> \<exists>n. ref_of c obj = (c, k, ns, n)"
    and delete_call: "r \<in> A \<Longrightarrow> fst (snd r) \<noteq> KNamespace \<Longrightarrow> io_keeps R (api_Delete api r)"
begin

lemma removal_call: "r \<in> A \<Longrightarrow> fst (snd r) \<noteq> KNamespace \<Longrightarrow> io_keeps R (IgnoreNotFound (api_Delete api r))"
  unfolding IgnoreNotFound_def
  by (rule keeps_try [OF delete_call]) (auto split: sum.split intro: keeps_return keeps_error)

lemma prune_call:
  assumes "\<And>n. (c, KSecret, ns, n) \<in> A"
  shows "io_keeps R (prune_shape api c ns sel keep e1 e2)"
  unfolding prune_shape_def
proof (rule keeps_bind_value [OF keeps_map_error [OF list_call]])
  fix w items w'
  assume "io_map_error e1 (api_List api c KSecret (Some ns) sel) w = (Inr items, w')"
  then have l: "api_List api c KSecret (Some ns) sel w = (Inr items, w')" by (simp add: io_ok)
  have "ref_of c item \<in> A \<and> fst (snd (ref_of c item)) \<noteq> KNamespace" if "item \<in> set items" for item
    using listed_call [OF l that] assms by auto
  then show "io_keeps R (io_for items (\<lambda>item. if o_Name item \<in> set keep then io_return ()
      else io_map_error (e2 item) (IgnoreNotFound (api_Delete api (ref_of c item)))))"
    by (auto intro!: keeps_for keeps_return keeps_map_error removal_call)
qed

text \<open>The operations that probe and remove, for a provisioner whose domain is allowed.\<close>

lemma RemoveCABundle_call:
  assumes "domain p \<subseteq> A"
  shows "io_keeps R (RemoveCABundle api p)"
proof (cases "p_caBundleSecret p = []")
  case True
  show ?thesis unfolding RemoveCABundle_shape [OF True] by (rule prune_call) (use assms domain_refs in blast)
next
  case False
  have "platform_secret p (p_tenantNamespace p) (p_caBundleSecret p) \<in> A" using assms domain_refs by blast
  with False show ?thesis by (simp add: RemoveCABundle_def removal_call platform_secret_def)
qed

lemma remove_secrets_call:
  assumes "domain p \<subseteq> A"
  shows "io_keeps R (removeImagePullSecrets api p)" "io_keeps R (removeChartPullSecrets api p)"
proof -
  have "(p_platformClient p, KSecret, p_tenantNamespace p, n) \<in> A" "(p_mcpClient p, KSecret, p_mcpNamespace p, n) \<in> A" for n
    using assms domain_refs by blast+
  then show "io_keeps R (removeImagePullSecrets api p)" "io_keeps R (removeChartPullSecrets api p)"
    unfolding removeImagePullSecrets_def removeChartPullSecrets_def prune_shapes by (simp_all add: prune_call)
qed

lemma remove_reloader_call:
  assumes "domain p \<subseteq> A"
  shows "io_keeps R (removeReloaderResources api p)"
proof -
  have "flux_ref p k n \<in> A" for k n using assms domain_refs by blast
  then show ?thesis unfolding removeReloaderResources_def
    by (intro keeps_intros removal_call) (simp_all add: flux_ref_def)
qed

lemma Uninstall_call:
  assumes "domain p \<subseteq> A"
  shows "io_keeps R (Uninstall api p)"
proof -
  have "flux_ref p k n \<in> A" for k n using assms domain_refs by blast
  then show ?thesis
    unfolding Uninstall_def
    by (intro keeps_intros removal_call remove_secrets_call remove_reloader_call assms) (simp_all add: flux_ref_def)
qed

lemma probe_calls:
  "io_keeps R (Ready api p)" "io_keeps R (Endpoint api p)" "io_keeps R (IsUninstalled api p)"
  "io_keeps R (CountUserArgoCDResources api p)"
proof -
  show "io_keeps R (Ready api p)"
    unfolding Ready_def by (intro keeps_intros get_call) (auto split: option.split intro: keeps_return)
  show "io_keeps R (Endpoint api p)"
    unfolding Endpoint_def Let_def by (auto split: sum.split intro!: keeps_intros get_call list_call)
  have g: "io_keeps R (gone api r msg)" for r msg
    unfolding gone_def by (rule keeps_try [OF get_call]) (auto split: sum.split intro: keeps_return keeps_error)
  show "io_keeps R (IsUninstalled api p)"
    unfolding IsUninstalled_def by (auto intro!: keeps_bind keeps_return g)
  have "io_keeps R (listResourcesByGVK api p k n)" for k n
    unfolding listResourcesByGVK_def by (rule keeps_try [OF list_call]) (auto split: sum.split intro: keeps_return keeps_error)
  then show "io_keeps R (CountUserArgoCDResources api p)"
    unfolding CountUserArgoCDResources_def countResourcesByGVK_def countUserAppProjects_def by (intro keeps_intros)
qed

end

text \<open>Installing creates a namespace and writes objects too.\<close>

locale provider_calls = removal_calls R api A
  for R :: "'w \<Rightarrow> 'w \<Rightarrow> bool" and api :: "'w kube_client" and A :: "obj_ref set" +
  assumes create_call:
      "ref_of c (new_object n [] NamespaceObj) \<in> A \<Longrightarrow> io_keeps R (api_Create api c (new_object n [] NamespaceObj))"
    and write_call:
      "provider_write init f \<Longrightarrow> ref_of c init \<in> A \<Longrightarrow> io_keeps R (api_CreateOrUpdate api c init f)"
begin

lemmas calls = get_call list_call create_call removal_call write_call

lemma secrets_call:
  assumes "domain p \<subseteq> A"
  shows "io_keeps R (reconcileImagePullSecrets api p values)" "io_keeps R (reconcileChartPullSecrets api p version)"
    "io_keeps R (reconcileCABundle api p)"
proof -
  have allowed: "(p_platformClient p, KSecret, p_tenantNamespace p, n) \<in> A" "(p_mcpClient p, KSecret, p_mcpNamespace p, n) \<in> A"
    "ref_of (p_mcpClient p) (new_object (p_mcpNamespace p) [] NamespaceObj) \<in> A" for n
    using assms domain_refs by blast+
  have ns: "io_keeps R (ensureMCPNamespace api p)"
    unfolding ensureMCPNamespace_def
    by (rule keeps_try [OF create_call [OF allowed(3)]]) (auto split: sum.split intro: keeps_return keeps_error)
  have secret: "ref_of (p_mcpClient p) (new_object n (p_mcpNamespace p) (Secret t d)) \<in> A"
    "ref_of (p_platformClient p) (new_object n (p_tenantNamespace p) (Secret t d)) \<in> A" for n t d
    using allowed by (simp_all add: ref_of_def)
  show "io_keeps R (reconcileImagePullSecrets api p values)"
    unfolding reconcileImagePullSecrets_def copyImagePullSecret_def prune_shapes
    by (intro keeps_intros ns get_call write_call provider_writes prune_call secret allowed)
  show "io_keeps R (reconcileChartPullSecrets api p version)"
    unfolding reconcileChartPullSecrets_def copyChartPullSecret_def prune_shapes Let_def
    by (intro keeps_intros get_call write_call provider_writes prune_call secret allowed)
  show "io_keeps R (reconcileCABundle api p)"
    unfolding reconcileCABundle_def ensureCABundle_def
    by (auto intro!: keeps_intros get_call write_call provider_writes secret RemoveCABundle_call assms)
qed

lemma reloader_call:
  assumes "domain p \<subseteq> A"
  shows "io_keeps R (reconcileReloader api p)"
proof -
  have flux: "flux_ref p k n \<in> A" "(p_platformClient p, k, p_tenantNamespace p, n) \<in> A" for k n
    using assms domain_refs by blast+
  show "io_keeps R (reconcileReloader api p)"
    unfolding reconcileReloader_def log_error_def applyReloaderOCIRepository_def applyReloaderHelmRelease_def
    by (auto split: option.split simp: ref_of_def flux intro!: keeps_intros write_call provider_writes
        remove_reloader_call assms)
qed

text \<open>The certificate that \<^verbatim>\<open>ensureCABundle\<close> stores leaves the domain as it is.\<close>

lemma reconcileCABundle_domain:
  "reconcileCABundle api p w = (Inr p', w') \<Longrightarrow> domain p' = domain p"
  by (auto simp: reconcileCABundle_def ensureCABundle_def io_ok domain_def mcp_namespace_ref_def split: if_splits)

lemma Install_call:
  assumes "domain p \<subseteq> A"
  shows "io_keeps R (Install lib api p version)"
proof -
  have rest: "io_keeps R (io_bind (io_map_error (Wrap ''reconciling OCIRepository'') (applyOCIRepository api p' url version)) (\<lambda>_.
      io_bind (io_map_error (Wrap ''reconciling HelmRelease'') (applyHelmRelease lib api p' version)) (\<lambda>_.
      reconcileReloader api p')))" if "domain p' \<subseteq> A" for p' url
  proof -
    have "(p_platformClient p', k, p_tenantNamespace p', n) \<in> A" for k n using that domain_refs by blast
    then show ?thesis
      unfolding applyOCIRepository_def applyHelmRelease_def
      by (intro keeps_intros write_call provider_writes reloader_call that) (simp_all add: ref_of_def)
  qed
  have "io_keeps R (io_bind (io_map_error (Wrap ''reconciling CA bundle'') (reconcileCABundle api p)) (\<lambda>p'.
      io_bind (io_map_error (Wrap ''reconciling OCIRepository'') (applyOCIRepository api p' url version)) (\<lambda>_.
      io_bind (io_map_error (Wrap ''reconciling HelmRelease'') (applyHelmRelease lib api p' version)) (\<lambda>_.
      reconcileReloader api p'))))" for url
  proof (rule keeps_bind_value [OF keeps_map_error [OF secrets_call(3) [OF assms]]])
    fix w p' w'
    assume "io_map_error (Wrap ''reconciling CA bundle'') (reconcileCABundle api p) w = (Inr p', w')"
    then have "domain p' \<subseteq> A" using reconcileCABundle_domain assms by (simp add: io_ok)
    then show "io_keeps R (io_bind (io_map_error (Wrap ''reconciling OCIRepository'') (applyOCIRepository api p' url version)) (\<lambda>_.
      io_bind (io_map_error (Wrap ''reconciling HelmRelease'') (applyHelmRelease lib api p' version)) (\<lambda>_.
      reconcileReloader api p')))" by (rule rest)
  qed
  note ca = this
  show ?thesis
  proof (cases "v_ChartURL version")
    case None
    then show ?thesis by (simp add: Install_def keeps_error)
  next
    case (Some url)
    show ?thesis unfolding Install_def Some option.case
      by (rule keeps_bind [OF keeps_map_error [OF secrets_call(1) [OF assms]]],
          rule keeps_bind [OF keeps_map_error [OF secrets_call(2) [OF assms]]], rule ca)
  qed
qed

end

text \<open>With a client whose calls are atomic on the store, it is enough that the relation holds across each
  effect.\<close>

locale provider_run = kube_api api view + run_relation R
  for api :: "'w kube_client" and view :: "'w \<Rightarrow> store" and R :: "'w \<Rightarrow> 'w \<Rightarrow> bool" +
  assumes read_run: "view w' = view w \<Longrightarrow> R w w'"
    and create_run:
      "view w (ref_of c (new_object n [] NamespaceObj)) = None \<Longrightarrow>
       view w' = (view w)(ref_of c (new_object n [] NamespaceObj) \<mapsto> new_object n [] NamespaceObj) \<Longrightarrow> R w w'"
    and update_run: "provider_write init f \<Longrightarrow> view w' = updated (view w) c init f \<Longrightarrow> R w w'"
    and delete_run: "fst (snd r) \<noteq> KNamespace \<Longrightarrow> view w' = deleted (view w) r \<Longrightarrow> R w w'"
begin

lemma reads_run: "reads view m \<Longrightarrow> io_keeps R m"
  by (rule io_keepsI) (rule read_run, rule readsD)

lemma get_run: "io_keeps R (api_Get api r)"
  by (rule reads_run) (simp add: reads_def get_keeps)

lemma list_run: "io_keeps R (api_List api c k ns sel)"
  by (rule reads_run) (simp add: reads_def list_keeps)

lemma namespace_run: "io_keeps R (api_Create api c (new_object n [] NamespaceObj))"
proof (rule io_keepsI)
  fix w x w'
  assume "api_Create api c (new_object n [] NamespaceObj) w = (x, w')"
  then show "R w w'"
    using create_ok [of c "new_object n [] NamespaceObj" w _ w'] create_err [of c "new_object n [] NamespaceObj" w _ w']
    by (cases x) (auto intro: read_run create_run)
qed

lemma removal_run: "fst (snd r) \<noteq> KNamespace \<Longrightarrow> io_keeps R (api_Delete api r)"
  by (rule io_keepsI, drule delete_cases) (auto intro: read_run delete_run)

lemma write_run: "provider_write init f \<Longrightarrow> io_keeps R (api_CreateOrUpdate api c init f)"
  by (rule io_keepsI) (metis provider_write_def read_run update_cases update_run)

lemmas call_runs = get_run list_run namespace_run removal_run write_run

end

lemma listed_in_namespace:
  assumes "kube_api api view" and "api_List api c k (Some ns) sel w = (Inr objs, w')" and "obj \<in> set objs"
  shows "\<exists>n. ref_of c obj = (c, k, ns, n)"
proof -
  have "obj \<in> listed (view w) c k (Some ns) sel" using kube_api.list_ok [OF assms(1,2)] assms(3) by blast
  then obtain n where "view w (c, k, ns, n) = Some obj" by (auto simp: listed_def)
  then show ?thesis using kube_api.stored_ref [OF assms(1)] by fastforce
qed

sublocale provider_run < atomic: provider_calls R api UNIV
proof unfold_locales
  show "\<exists>n. ref_of c obj = (c, k, ns, n)"
    if "api_List api c k (Some ns) sel w = (Inr objs, w')" "obj \<in> set objs" for c k ns sel w objs w' obj
    using listed_in_namespace [OF kube_api_axioms that] .
qed (rule call_runs | assumption)+

context provider_run
begin

lemmas Install_run = atomic.Install_call [OF subset_UNIV]
lemmas Uninstall_run = atomic.Uninstall_call [OF subset_UNIV]
lemmas RemoveCABundle_run = atomic.RemoveCABundle_call [OF subset_UNIV]

end

section \<open>What was written is stamped\<close>

text \<open>A namespace is as it was, or one that was missing is there, as bare as the code makes it.\<close>

definition stamped_change :: "obj_ref \<Rightarrow> kobj option \<Rightarrow> kobj option \<Rightarrow> bool" where
  "stamped_change r x y \<longleftrightarrow>
     y = x \<or>
     (if fst (snd r) = KNamespace then x = None \<and> y = Some (new_object (snd (snd (snd r))) [] NamespaceObj)
      else (case y of None \<Rightarrow> True | Some obj \<Rightarrow> o_Deleting obj \<or> managed obj))"

definition stamped_writes :: "('w \<Rightarrow> store) \<Rightarrow> 'w \<Rightarrow> 'w \<Rightarrow> bool" where
  "stamped_writes view w w' \<longleftrightarrow> (\<forall>r. stamped_change r (view w r) (view w' r))"

lemma stamped_change_trans:
  "stamped_change r x y \<Longrightarrow> stamped_change r y z \<Longrightarrow> stamped_change r x z"
  by (auto simp: stamped_change_def split: if_splits)

lemma stamped_trans:
  "stamped_writes view w w' \<Longrightarrow> stamped_writes view w' w'' \<Longrightarrow> stamped_writes view w w''"
  unfolding stamped_writes_def using stamped_change_trans by blast

lemma stamped_updated:
  assumes "provider_write init f" and "view w' = updated (view w) c init f"
  shows "stamped_writes view w w'"
  using assms by (auto simp: stamped_writes_def stamped_change_def updated_def provider_write_def ref_of_def key_of_def)

lemma stamped_deleted:
  "fst (snd r) \<noteq> KNamespace \<Longrightarrow> view w' = deleted (view w) r \<Longrightarrow> stamped_writes view w w'"
  by (auto simp: stamped_writes_def stamped_change_def deleted_def after_delete_def bind_eq_Some_conv
      split: option.split if_splits)

lemma stamped_created:
  "view w (ref_of c (new_object n [] NamespaceObj)) = None \<Longrightarrow>
   view w' = (view w)(ref_of c (new_object n [] NamespaceObj) \<mapsto> new_object n [] NamespaceObj) \<Longrightarrow>
   stamped_writes view w w'"
  by (auto simp: stamped_writes_def stamped_change_def ref_of_def)

lemma stamped_same: "view w' = view w \<Longrightarrow> stamped_writes view w w'"
  by (simp add: stamped_writes_def stamped_change_def)

lemmas stamped_intros = stamped_same stamped_created stamped_updated stamped_deleted

sublocale kube_api < stamped: provider_run api view "stamped_writes view"
  by unfold_locales (rule stamped_same [OF refl], erule (1) stamped_trans, (erule (1) stamped_intros(2,3,4) | erule stamped_intros(1) | assumption)+)

section \<open>No finalizer appears\<close>

definition finalizers_kept :: "('w \<Rightarrow> store) \<Rightarrow> 'w \<Rightarrow> 'w \<Rightarrow> bool" where
  "finalizers_kept view w w' \<longleftrightarrow>
     (\<forall>r obj. view w' r = Some obj \<longrightarrow>
        o_Finalizers obj = [] \<or> (\<exists>old. view w r = Some old \<and> o_Finalizers obj = o_Finalizers old))"

lemma finalizers_trans:
  assumes "finalizers_kept view w w'" and "finalizers_kept view w' w''"
  shows "finalizers_kept view w w''"
  using assms unfolding finalizers_kept_def by metis

lemma finalizers_updated:
  assumes "provider_write init f" and "view w' = updated (view w) c init f"
  shows "finalizers_kept view w w'"
  using assms by (auto simp: finalizers_kept_def updated_def provider_write_def split: option.splits)

lemma finalizers_deleted: "fst (snd r) \<noteq> KNamespace \<Longrightarrow> view w' = deleted (view w) r \<Longrightarrow> finalizers_kept view w w'"
  by (auto simp: finalizers_kept_def deleted_def after_delete_def bind_eq_Some_conv split: if_splits)

lemma finalizers_created:
  "view w (ref_of c (new_object n [] NamespaceObj)) = None \<Longrightarrow>
   view w' = (view w)(ref_of c (new_object n [] NamespaceObj) \<mapsto> new_object n [] NamespaceObj) \<Longrightarrow>
   finalizers_kept view w w'"
  by (auto simp: finalizers_kept_def)

lemma finalizers_same: "view w' = view w \<Longrightarrow> finalizers_kept view w w'"
  by (simp add: finalizers_kept_def)

lemmas finalizers_intros = finalizers_same finalizers_created finalizers_updated finalizers_deleted

sublocale kube_api < finalizers: provider_run api view "finalizers_kept view"
  by unfold_locales (rule finalizers_same [OF refl], erule (1) finalizers_trans, (erule (1) finalizers_intros(2,3,4) | erule finalizers_intros(1) | assumption)+)

context kube_api
begin

lemmas stamped_runs = stamped.Install_run stamped.Uninstall_run stamped.RemoveCABundle_run

lemmas finalizer_runs = finalizers.Install_run finalizers.Uninstall_run finalizers.RemoveCABundle_run

end

end
