(* ===== verification/Provisioner_Properties.thy ===== *)
theory Provisioner_Properties
  imports Install_Properties Provider_Runs
begin

text \<open>
  The remaining properties of the provisioner: what is stamped, what an installation's references
  resolve to, what uninstalling removes and what it restores, the probes of the deletion path, the
  deletion guard, readiness and the endpoint.
\<close>

section \<open>An installation on every path\<close>

text \<open>Whatever an installation writes carries the managed-by label, on every path and whatever
  the client answers: an object that differs from before (the MCP namespace apart, which the code
  creates bare) is stamped with one of the provider's two managed-by values, or is on its way out.\<close>

theorem install_stamps_what_it_writes:
  assumes "kube_api api view" and "Install lib api p version w = (res, w')"
    and "view w' r = Some obj" and "view w' r \<noteq> view w r" and "fst (snd r) \<noteq> KNamespace"
  shows "o_Deleting obj \<or> managed obj"
proof -
  have "io_keeps (stamped_writes view) (Install lib api p version)"
    by (rule kube_api.stamped_runs(1) [OF assms(1)])
  from io_keepsD [OF this assms(2)] have "stamped_change r (view w r) (view w' r)"
    unfolding stamped_writes_def by blast
  with assms(3-5) show ?thesis by (simp add: stamped_change_def)
qed

lemma example_release:
  obtains w' hr where "Install example_lib healthy example_p example_version example_world = (Inr (), w')"
    and "mem_view w' (flux_ref example_p KHelmRelease helmReleaseName) = Some hr"
proof -
  obtain w' where w: "Install example_lib healthy example_p example_version example_world = (Inr (), w')"
    by (rule example_install)
  obtain s' where s: "install_spec example_lib example_p example_version (mem_view example_world) = Some s'"
    and v: "\<forall>r. r \<notin> reloader_refs example_p \<longrightarrow> mem_view w' r = s' r"
    using mem.Install_refines [OF w] by blast
  have "\<exists>hr. s' (flux_ref example_p KHelmRelease helmReleaseName) = Some hr"
    by (rule install_spec_SomeE [OF example_separated s]) (simp add: put_read)
  with v w that show thesis by fastforce
qed

lemma install_stamps_what_it_writes_witness:
  "\<exists>w' hr. Install example_lib healthy example_p example_version example_world = (Inr (), w') \<and>
     mem_view w' (flux_ref example_p KHelmRelease helmReleaseName) = Some hr \<and> (o_Deleting hr \<or> managed hr)"
proof -
  let ?r = "flux_ref example_p KHelmRelease helmReleaseName"
  obtain w' hr where w: "Install example_lib healthy example_p example_version example_world = (Inr (), w')"
    and hr: "mem_view w' ?r = Some hr" by (rule example_release)
  have new: "mem_view w' ?r \<noteq> mem_view example_world ?r"
    unfolding hr by (simp add: example_world_simps flux_ref_def)
  have "o_Deleting hr \<or> managed hr"
    by (rule install_stamps_what_it_writes [OF mem.kube_api_axioms w hr new]) (simp add: flux_ref_def)
  with w hr show ?thesis by blast
qed

text \<open>The reloader addon is best effort: its reconciliation never fails, whatever its calls
  answer, and on any client it reaches no object but its own two.\<close>

theorem addon_is_contained:
  assumes "kube_api api view"
  shows "fst (reconcileReloader api p w) = Inr () \<and>
    (\<forall>r. r \<notin> reloader_refs p \<longrightarrow> view (snd (reconcileReloader api p w)) r = view w r)"
  using kube_api.reconcileReloader_total [OF assms]
    same_outsideD [OF io_keepsD [OF kube_api.reconcileReloader_keeps [OF assms] prod.collapse [symmetric]]]
  by blast

lemma addon_is_contained_witness:
  "fst (reconcileReloader (mem_client (\<lambda>c. Some ''down'')) example_p example_world) = Inr () \<and>
   mem_view (snd (reconcileReloader (mem_client (\<lambda>c. Some ''down'')) example_p example_world))
     (mcp_secret example_p ''tls'') = mem_view example_world (mcp_secret example_p ''tls'')"
  using addon_is_contained [OF mem.kube_api_axioms, of "\<lambda>c. Some ''down''" example_p example_world]
  by simp

text \<open>A version that cannot be installed is rejected before anything is written: without a chart
  URL, or with values whose pull secrets cannot be read, the error is returned and the world is as
  it was, whatever the client does.\<close>

theorem install_rejects_bad_version:
  assumes "v_ChartURL version = None \<or> (\<exists>e. ImagePullSecretNames (v_Values version) = Inl e)"
  shows "\<exists>e. Install lib api p version w = (Inl e, w)"
proof (cases "v_ChartURL version")
  case None
  then show ?thesis by (simp add: Install_def io_error_def)
next
  case (Some url)
  with assms obtain e where "ImagePullSecretNames (v_Values version) = Inl e" by auto
  then show ?thesis
    by (simp add: Install_def Some reconcileImagePullSecrets_def io_bind_def io_lift_def io_map_error_def)
qed

lemma install_rejects_bad_version_witness:
  "\<exists>e. Install example_lib healthy example_p (example_version\<lparr>v_ChartURL := None\<rparr>) example_world =
     (Inl e, example_world)"
  by (rule install_rejects_bad_version) simp

section \<open>References\<close>

lemma set_chart_names:
  "set (chartPullSecretNames version reloader) =
     ({v_ChartPullSecret version} \<union> (case reloader of None \<Rightarrow> {} | Some r \<Rightarrow> {rl_ChartPullSecret r})) - {[]}"
proof -
  have add: "set (add_name n ns) = set ns \<union> ({n} - {[]})" for n ns by (auto simp: add_name_def)
  show ?thesis by (cases reloader) (auto simp: chartPullSecretNames_def add)
qed

text \<open>C18. What the installed resources refer to exists: every pull secret that the OCIRepository of
  the chart or of the addon names is in the tenant namespace, and so is the CA bundle, with the
  content of its source. This takes that no copy of a pull secret still carried the label of a CA bundle
  that is no longer configured (\<open>no_ca_conflict\<close>); what happens otherwise is shown
  next.\<close>

theorem install_references_resolve:
  assumes "kube_api api view" and "separated p" and "no_ca_conflict p version (view w)"
    and "Install lib api p version w = (Inr u, w')"
  shows "(\<forall>n. (\<exists>url. oci_SecretRef (argocd_repository p url version) = Some n) \<or>
        (\<exists>r. p_reloader p = Some r \<and> oci_SecretRef (reloader_repository p r) = Some n) \<longrightarrow>
        view w' (platform_secret p (p_tenantNamespace p) n) \<noteq> None) \<and>
     (\<forall>n url. oci_CertSecretRef (argocd_repository p url version) = Some n \<longrightarrow>
        (\<exists>source copy. view w (ca_source p) = Some source \<and>
           view w' (platform_secret p (p_tenantNamespace p) n) = Some copy \<and>
           o_Body copy = o_Body source \<and> ca_own copy))"
proof -
  note cells = install_tenant_secrets [OF assms(1,2,4)]
  have charts: "n \<in> set (chartPullSecretNames version (p_reloader p))"
    if "(\<exists>url. oci_SecretRef (argocd_repository p url version) = Some n) \<or>
        (\<exists>r. p_reloader p = Some r \<and> oci_SecretRef (reloader_repository p r) = Some n)" for n
  proof -
    from that have "n \<noteq> [] \<and> (v_ChartPullSecret version = n \<or> (\<exists>r. p_reloader p = Some r \<and> rl_ChartPullSecret r = n))"
      by (elim disjE exE conjE) (simp_all add: argocd_repository_def reloader_repository_def local_ref_def split: if_splits)
    then show ?thesis by (elim conjE disjE exE) (simp_all add: set_chart_names)
  qed
  have kept: "view w' (platform_secret p (p_tenantNamespace p) n) \<noteq> None"
    if n: "n \<in> set (chartPullSecretNames version (p_reloader p))" for n
  proof -
    from n cells obtain source where source: "view w (platform_secret p (p_podNamespace p) n) = Some source" by blast
    have at: "view w' (platform_secret p (p_tenantNamespace p) n) = tenant_cell p version (view w) n"
      using cells by blast
    show ?thesis
    proof (cases "p_caBundleSecret p = []")
      case False
      then show ?thesis by (simp add: at tenant_cell_def Let_def n source chart_cell_def ca_cell_def split: option.split)
    next
      case True
      then have "\<not> ca_own (or_fresh (fresh_secret (p_tenantNamespace p) n)
          (view w (platform_secret p (p_tenantNamespace p) n)))"
        using assms(3) n by (cases "view w (platform_secret p (p_tenantNamespace p) n)")
          (auto simp: no_ca_conflict_def or_fresh_def)
      then show ?thesis using True
        by (simp add: at tenant_cell_def Let_def n source chart_cell_def prune_obj_def)
    qed
  qed
  have ca: "\<exists>source copy. view w (ca_source p) = Some source \<and>
           view w' (platform_secret p (p_tenantNamespace p) n) = Some copy \<and>
           o_Body copy = o_Body source \<and> ca_own copy"
    if "oci_CertSecretRef (argocd_repository p url version) = Some n" for n url
  proof -
    have n: "n = p_caBundleSecret p" "p_caBundleSecret p \<noteq> []"
      using that by (auto simp: argocd_repository_def local_ref_def split: if_splits)
    then obtain source where "view w (ca_source p) = Some source" using cells by blast
    moreover have "view w' (platform_secret p (p_tenantNamespace p) n) = tenant_cell p version (view w) n"
      using cells by blast
    ultimately show ?thesis using n by (simp add: tenant_cell_def Let_def ca_cell_def)
  qed
  show ?thesis using charts kept ca by blast
qed

lemma install_references_resolve_witness:
  "\<exists>w'. Install example_lib healthy example_p example_version example_world = (Inr (), w') \<and>
     oci_SecretRef (argocd_repository example_p ''oci://charts/argo-cd'' example_version) = Some ''chartcred'' \<and>
     mem_view w' (platform_secret example_p (p_tenantNamespace example_p) ''chartcred'') \<noteq> None"
proof -
  obtain w' where w: "Install example_lib healthy example_p example_version example_world = (Inr (), w')"
    by (rule example_install)
  have r: "oci_SecretRef (argocd_repository example_p ''oci://charts/argo-cd'' example_version) = Some ''chartcred''"
    by (simp add: argocd_repository_def local_ref_def example_version_def)
  with w install_references_resolve [OF mem.kube_api_axioms example_separated example_no_conflict w]
  show ?thesis by blast
qed

text \<open>C38. The case excluded above, as the code behaves: when the CA bundle is no longer configured and
  the copy of a pull secret carries the CA label (the two shared one secret before), the
  installation copies the secret and then deletes it as a left-over CA bundle. It succeeds, and the
  OCIRepository refers to a secret that is not there.\<close>

theorem stale_ca_label_removes_pull_secret:
  assumes "kube_api api view" and "separated p" and "Install lib api p version w = (Inr u, w')"
    and "p_caBundleSecret p = []" and "v_ChartPullSecret version = n" and "n \<noteq> []"
    and "view w (platform_secret p (p_tenantNamespace p) n) = Some old" and "ca_own old"
    and "o_Finalizers old = []"
  shows "oci_SecretRef (argocd_repository p url version) = Some n \<and>
     view w' (platform_secret p (p_tenantNamespace p) n) = None"
proof -
  note cells = install_tenant_secrets [OF assms(1-3)]
  have n: "n \<in> set (chartPullSecretNames version (p_reloader p))"
    using assms(5,6) by (simp add: set_chart_names)
  with cells obtain source where source: "view w (platform_secret p (p_podNamespace p) n) = Some source" by blast
  have at: "view w' (platform_secret p (p_tenantNamespace p) n) = tenant_cell p version (view w) n"
    using cells by blast
  have "view w' (platform_secret p (p_tenantNamespace p) n) = None"
    unfolding at tenant_cell_def Let_def
    by (simp add: n source assms(4,7,8,9) chart_cell_def prune_obj_def after_delete_def)
       (simp add: stamp_defs assms(9))
  then show ?thesis using assms(5,6) by (simp add: argocd_repository_def local_ref_def)
qed

definition example_stale_world :: mem_store where
  "example_stale_world =
     (''platform'', (new_object ''chartcred'' ''tenant'' (Secret ''docker'' []))
        \<lparr>o_Labels := Some [(caBundleLabel, ''true'')]\<rparr>) # example_world"

lemma stale_ca_label_removes_pull_secret_witness:
  "\<exists>w'. Install example_lib healthy example_p example_version example_stale_world = (Inr (), w') \<and>
     oci_SecretRef (argocd_repository example_p ''oci://charts/argo-cd'' example_version) = Some ''chartcred'' \<and>
     mem_view w' (platform_secret example_p (p_tenantNamespace example_p) ''chartcred'') = None"
proof -
  let ?old = "(new_object ''chartcred'' ''tenant'' (Secret ''docker'' []))\<lparr>o_Labels := Some [(caBundleLabel, ''true'')]\<rparr>"
  have old: "mem_view example_stale_world (platform_secret example_p (p_tenantNamespace example_p) ''chartcred'') = Some ?old"
    by (simp add: example_stale_world_def mem_view_Cons ref_of_def key_of_def new_object_def platform_secret_def)
  have other: "mem_view example_stale_world (platform_secret example_p (p_podNamespace example_p) n) =
      mem_view example_world (platform_secret example_p (p_podNamespace example_p) n)" for n
    by (simp add: example_stale_world_def mem_view_Cons ref_of_def key_of_def new_object_def platform_secret_def)
  have "install_possible example_lib example_p example_version (mem_view example_stale_world)"
    using example_possible other by (simp add: install_possible_def with_ca_def)
  moreover have "install_accepted mem_admits example_lib example_p example_version (mem_view example_stale_world)"
    by (rule example_accepts)
       (auto simp: example_stale_world_def example_world_simps namespace_live_def split: if_splits)
  ultimately obtain w' where w: "Install example_lib healthy example_p example_version example_stale_world = (Inr (), w')"
    using mem_up.Install_succeeds install_spec_defined [OF example_separated] by blast
  have "oci_SecretRef (argocd_repository example_p ''oci://charts/argo-cd'' example_version) = Some ''chartcred'' \<and>
     mem_view w' (platform_secret example_p (p_tenantNamespace example_p) ''chartcred'') = None"
    by (rule stale_ca_label_removes_pull_secret
          [where view = mem_view and p = example_p and w = example_stale_world and old = ?old,
           OF mem.kube_api_axioms example_separated w _ _ _ old])
       (simp_all add: example_version_def ca_own_def label_of_def new_object_def)
  with w show ?thesis by blast
qed

end
