(* ===== verification/Teardown.thy ===== *)
theory Teardown
  imports Provisioner_Properties
begin

text \<open>
  Tearing an installation down: what \<^verbatim>\<open>Uninstall\<close> removes and what it leaves alone, the probe
  that decides when it is over, the guard that counts the user's resources, and the round trip
  install, uninstall, remove the CA bundle.
\<close>

section \<open>Uninstall\<close>

text \<open>C30. Uninstalling does to every object of both clusters exactly what \<open>uninstall_step\<close> says: the
  four Flux resources, the labelled pull secrets of the MCP and the labelled chart pull secrets of
  the tenant namespace are deleted (marked, while they have finalizers), everything else stays. On a
  cluster that answers it succeeds.\<close>

theorem uninstall_refines:
  assumes "kube_api api view"
  shows "(\<forall>w' u. Uninstall api p w = (Inr u, w') \<longrightarrow> view w' = uninstall_step p (view w)) \<and>
    (kube_api_up api view \<longrightarrow> (\<exists>w'. Uninstall api p w = (Inr (), w') \<and> view w' = uninstall_step p (view w)))"
proof (intro conjI allI impI)
  show "view w' = uninstall_step p (view w)" if "Uninstall api p w = (Inr u, w')" for w' u
    using that by (rule kube_api.Uninstall_ok [OF assms])
  show "\<exists>w'. Uninstall api p w = (Inr (), w') \<and> view w' = uninstall_step p (view w)" if "kube_api_up api view"
    using that by (rule kube_api_up.Uninstall_succeeds)
qed

lemma uninstall_refines_witness:
  "\<exists>w'. Uninstall healthy example_p example_world = (Inr (), w') \<and>
     mem_view w' = uninstall_step example_p (mem_view example_world)"
  using uninstall_refines [OF mem.kube_api_axioms, of "\<lambda>_. None" example_p example_world]
    mem_up.kube_api_up_axioms by blast

text \<open>However uninstalling ends, an object that is neither one of the four Flux resources nor a
  labelled pull secret is as it was.\<close>

theorem uninstall_touches_only_its_own:
  assumes "kube_api api view" and "Uninstall api p w = (res, w')"
    and "r \<notin> flux_refs p"
    and "\<And>obj. view w r = Some obj \<Longrightarrow> r \<in> range (mcp_secret p) \<Longrightarrow> \<not> image_own obj"
    and "\<And>obj. view w r = Some obj \<Longrightarrow> r \<in> range (platform_secret p (p_tenantNamespace p)) \<Longrightarrow> \<not> chart_own obj"
  shows "view w' r = view w r"
  using io_keepsD [OF kube_api.Uninstall_hands_off [OF assms(1)] assms(2)] assms(3-5)
  unfolding hands_off_def by blast

lemma uninstall_touches_only_its_own_witness:
  "mem_view (snd (Uninstall (mem_client (\<lambda>c. case c of CallDelete r \<Rightarrow> Some ''conflict'' | _ \<Rightarrow> None))
       example_p example_world)) (mcp_secret example_p ''tls'') =
   mem_view example_world (mcp_secret example_p ''tls'')"
proof (rule uninstall_touches_only_its_own [OF mem.kube_api_axioms prod.collapse [symmetric]])
  show "mcp_secret example_p ''tls'' \<notin> flux_refs example_p"
    by (auto simp: flux_refs_def reloader_refs_def flux_ref_def mcp_secret_def)
qed (auto simp: example_world_simps image_own_def chart_own_def label_of_def mcp_secret_def split: if_splits)

text \<open>The probe reads and nothing else, and it answers yes exactly when none of the four Flux
  resources is left.\<close>

theorem uninstalled_iff_gone:
  assumes "kube_api api view" and "IsUninstalled api p w = (Inr b, w')"
  shows "view w' = view w \<and> (b \<longleftrightarrow> (\<forall>r \<in> flux_refs p. view w r = None))"
  using kube_api.IsUninstalled_ok [OF assms] readsD [OF kube_api.IsUninstalled_reads [OF assms(1)] assms(2)]
  by blast

lemma uninstalled_iff_gone_witness:
  "\<exists>b w'. IsUninstalled healthy example_p example_world = (Inr b, w') \<and>
     mem_view w' = mem_view example_world \<and>
     (b \<longleftrightarrow> (\<forall>r \<in> flux_refs example_p. mem_view example_world r = None))"
proof -
  obtain b w' where run: "IsUninstalled healthy example_p example_world = (Inr b, w')"
    using mem_up.IsUninstalled_succeeds by blast
  from run uninstalled_iff_gone [OF mem.kube_api_axioms run] show ?thesis by blast
qed

section \<open>The deletion guard\<close>

context kube_api
begin

lemma card_listed:
  assumes "distinct items" and "set items = listed (view w) c k None []"
  shows "length (filter P items) = card {(c, k, ns, n) | ns n. \<exists>obj. view w (c, k, ns, n) = Some obj \<and> P obj} \<and>
    finite {(c, k, ns, n) | ns n. \<exists>obj. view w (c, k, ns, n) = Some obj \<and> P obj}"
proof -
  let ?R = "{(c, k, ns, n) | ns n. \<exists>obj. view w (c, k, ns, n) = Some obj \<and> P obj}"
  have mem: "obj \<in> set (filter P items) \<longleftrightarrow> P obj \<and> (\<exists>ns n. view w (c, k, ns, n) = Some obj)" for obj
    using assms(2) listed_kind by auto
  have at: "view w (c, k, ns, n) = Some obj \<Longrightarrow> ref_of c obj = (c, k, ns, n)" for ns n obj
    using stored_ref [of w "(c, k, ns, n)" obj] by simp
  have img: "ref_of c ` set (filter P items) = ?R"
  proof (intro equalityI subsetI)
    fix r
    assume "r \<in> ref_of c ` set (filter P items)"
    then obtain obj ns n where "r = ref_of c obj" "P obj" "view w (c, k, ns, n) = Some obj"
      using mem by blast
    then show "r \<in> ?R" using at by fastforce
  next
    fix r
    assume "r \<in> ?R"
    then obtain ns n obj where r: "r = (c, k, ns, n)" "view w (c, k, ns, n) = Some obj" "P obj" by blast
    then have "obj \<in> set (filter P items)" using mem by blast
    then show "r \<in> ref_of c ` set (filter P items)" using at r by (metis image_eqI)
  qed
  have inj: "inj_on (ref_of c) (set (filter P items))"
  proof (rule inj_onI)
    fix x y
    assume "x \<in> set (filter P items)" "y \<in> set (filter P items)" and eq: "ref_of c x = ref_of c y"
    then obtain ns n ns' n' where x: "view w (c, k, ns, n) = Some x" and y: "view w (c, k, ns', n') = Some y"
      using mem by blast
    have "(c, k, ns, n) = (c, k, ns', n')" using at [OF x] at [OF y] eq by simp
    then show "x = y" using x y by simp
  qed
  have "length (filter P items) = card (set (filter P items))"
    by (metis distinct_card distinct_filter assms(1))
  also have "\<dots> = card ?R" using card_image [OF inj] img by simp
  finally show ?thesis using img finite_imageI [of "set (filter P items)" "ref_of c"] by auto
qed

text \<open>The count, exactly: applications, application sets, and projects but the default one.\<close>

lemma Count_card:
  assumes "CountUserArgoCDResources api p w = (Inr n, w')"
  shows "n = card (user_resources (view w) p)"
proof -
  from assms obtain as w1 ss w2 ps where a: "listResourcesByGVK api p KApplication ''ArgoCD Applications'' w = (Inr as, w1)"
    and s: "listResourcesByGVK api p KApplicationSet ''ArgoCD ApplicationSets'' w1 = (Inr ss, w2)"
    and pr: "listResourcesByGVK api p KAppProject ''ArgoCD AppProjects'' w2 = (Inr ps, w')"
    and n: "n = length as + length ss + count_projects p ps 0"
    by (auto simp: CountUserArgoCDResources_def countResourcesByGVK_def countUserAppProjects_def io_ok)
  note A = listGVK_ok [OF a] and S = listGVK_ok [OF s] and P = listGVK_ok [OF pr]
  let ?c = "p_mcpClient p" and ?user = "\<lambda>i. \<not> (o_Name i = defaultAppProjectName \<and> o_Namespace i = p_mcpNamespace p)"
  let ?R = "\<lambda>k P. {(?c, k, ns, m) | ns m. \<exists>obj. view w (?c, k, ns, m) = Some obj \<and> P obj}"
  have vs: "view w1 = view w" "view w2 = view w" using A S by auto
  have 1: "length as = card (?R KApplication (\<lambda>_. True))" "finite (?R KApplication (\<lambda>_. True))"
    using card_listed [of as w ?c KApplication "\<lambda>_. True"] A by simp_all
  have 2: "length ss = card (?R KApplicationSet (\<lambda>_. True))" "finite (?R KApplicationSet (\<lambda>_. True))"
    using card_listed [of ss w ?c KApplicationSet "\<lambda>_. True"] S vs by simp_all
  have 3: "count_projects p ps 0 = card (?R KAppProject ?user)" "finite (?R KAppProject ?user)"
    using card_listed [of ps w ?c KAppProject ?user] P vs by (simp_all add: count_projects_filter)
  have name: "view w (?c, KAppProject, ns, m) = Some obj \<Longrightarrow> o_Name obj = m \<and> o_Namespace obj = ns" for ns m obj
    using stored_key [of w ?c "(KAppProject, ns, m)" obj] by (simp add: key_of_def)
  have proj: "?R KAppProject ?user = {(?c, KAppProject, ns, m) | ns m.
        \<not> (m = defaultAppProjectName \<and> ns = p_mcpNamespace p) \<and> view w (?c, KAppProject, ns, m) \<noteq> None}"
  proof (intro Collect_cong iff_exI conj_cong refl)
    fix r ns m
    show "(\<exists>obj. view w (?c, KAppProject, ns, m) = Some obj \<and> ?user obj) \<longleftrightarrow>
        \<not> (m = defaultAppProjectName \<and> ns = p_mcpNamespace p) \<and> view w (?c, KAppProject, ns, m) \<noteq> None"
      using name [of ns m] by (cases "view w (?c, KAppProject, ns, m)") auto
  qed
  have split: "user_resources (view w) p =
      ?R KApplication (\<lambda>_. True) \<union> (?R KApplicationSet (\<lambda>_. True) \<union> ?R KAppProject ?user)"
    unfolding user_resources_def proj by (simp add: Un_assoc)
  have d1: "?R KApplication (\<lambda>_. True) \<inter> (?R KApplicationSet (\<lambda>_. True) \<union> ?R KAppProject ?user) = {}"
    and d2: "?R KApplicationSet (\<lambda>_. True) \<inter> ?R KAppProject ?user = {}" by blast+
  show ?thesis
    unfolding split n 1(1) 2(1) 3(1)
    by (simp only: card_Un_disjoint [OF 1(2) finite_UnI [OF 2(2) 3(2)] d1] card_Un_disjoint [OF 2(2) 3(2) d2] add.assoc)
qed

end

text \<open>C29. The deletion guard counts exactly the user's resources on the MCP: all applications and
  application sets, and all projects but the default one of the installation's own namespace; a
  missing resource definition counts as none. It reads and nothing else.\<close>

theorem deletion_guard_counts:
  assumes "kube_api api view" and "CountUserArgoCDResources api p w = (Inr n, w')"
  shows "n = card (user_resources (view w) p) \<and> (n = 0 \<longleftrightarrow> user_resources (view w) p = {}) \<and> view w' = view w"
  using kube_api.Count_card [OF assms] kube_api.Count_zero [OF assms]
    readsD [OF kube_api.Count_reads [OF assms(1)] assms(2)] by simp

definition example_user_world :: mem_store where
  "example_user_world =
     [(''mcp'', new_object ''shop'' ''apps'' Application),
      (''mcp'', new_object ''default'' ''argocd'' AppProject),
      (''mcp'', new_object ''default'' ''apps'' AppProject)]"

lemma deletion_guard_counts_witness:
  "\<exists>w'. CountUserArgoCDResources healthy example_p example_user_world = (Inr 2, w') \<and>
     2 = card (user_resources (mem_view example_user_world) example_p)"
proof -
  have run: "CountUserArgoCDResources healthy example_p example_user_world = (Inr 2, example_user_world)"
    by (simp add: CountUserArgoCDResources_def countResourcesByGVK_def countUserAppProjects_def
        listResourcesByGVK_def io_bind_def io_try_def io_return_def mem_client_def guarded_def mem_list_def
        mem_refs_def selects_def matches_labels_def example_user_world_def mem_view_Cons ref_of_def key_of_def
        new_object_def defaultAppProjectName_def)
  from run deletion_guard_counts [OF mem.kube_api_axioms run] show ?thesis by blast
qed

section \<open>Installing and uninstalling\<close>

lemma tenant_cell_fresh:
  assumes "tenant_cell p version s n = Some obj" and "s (platform_secret p (p_tenantNamespace p) n) = None"
  shows "chart_own obj \<or> p_caBundleSecret p \<noteq> [] \<and> n = p_caBundleSecret p"
  using assms
  by (auto simp: tenant_cell_def Let_def chart_cell_def ca_cell_def prune_obj_def
      or_fresh_def split: option.splits if_splits)

context kube_api
begin

lemma RemoveCABundle_ok:
  assumes "RemoveCABundle api p w = (Inr u, w')"
  shows "(view w r = None \<longrightarrow> view w' r = None) \<and>
    (p_caBundleSecret p \<noteq> [] \<longrightarrow> view w' (ca_target p) = Option.bind (view w (ca_target p)) after_delete)"
proof (cases "p_caBundleSecret p = []")
  case True
  have "view w' = pruned (view w) (p_platformClient p) (p_tenantNamespace p) [(caBundleLabel, ''true'')] []"
    by (rule prune_ok [OF assms [unfolded prune_shapes(3) [OF True]]])
  then show ?thesis using True by (simp add: pruned_def)
next
  case False
  then have "IgnoreNotFound (api_Delete api (ca_target p)) w = (Inr u, w')"
    using assms by (simp add: RemoveCABundle_def ca_target_def)
  from ignore_delete_ok [OF this] show ?thesis by (simp add: deleted_def)
qed

end

lemma hands_offD:
  "hands_off view owned A w w' \<Longrightarrow> r \<notin> A \<Longrightarrow> (\<And>obj. view w r = Some obj \<Longrightarrow> \<not> owned r obj) \<Longrightarrow>
   view w' r = view w r"
  by (simp add: hands_off_def)

lemma secret_not_flux: "platform_secret p ns n \<notin> flux_refs p"
  by (simp add: flux_refs_def reloader_refs_def flux_ref_def platform_secret_def)

lemma uninstall_step_removes:
  "s r = Some obj \<Longrightarrow> after_delete obj = None \<Longrightarrow>
   r \<in> flux_refs p \<or> r \<in> range (mcp_secret p) \<and> image_own obj \<or>
   r \<in> range (platform_secret p (p_tenantNamespace p)) \<and> chart_own obj \<Longrightarrow>
   uninstall_step p s r = None"
  by (auto simp: uninstall_step_def prune_obj_def Let_def)

lemma after_delete_bare: "o_Finalizers obj = [] \<Longrightarrow> after_delete obj = None"
  by (simp add: after_delete_def)

text \<open>An object that an installation has made is found by an uninstallation.\<close>

lemma installed_object:
  assumes "kube_api api view" and "separated p" and "Install lib api p version w = (Inr u1, w1)"
    and "r \<in> install_scope p version" and "r \<noteq> mcp_namespace_ref p"
    and "view w r = None" and "view w1 r = Some obj"
  obtains "r \<in> flux_refs p" | n where "r = mcp_secret p n" "image_own obj"
    | n where "r = platform_secret p (p_tenantNamespace p) n" "r \<notin> flux_refs p"
        "chart_own obj \<or> p_caBundleSecret p \<noteq> [] \<and> n = p_caBundleSecret p"
proof -
  obtain names where names: "ImagePullSecretNames (v_Values version) = Inr names"
    and src: "\<forall>n \<in> set names. view w (platform_secret p (p_podNamespace p) n) \<noteq> None"
    and at: "\<And>n. view w1 (mcp_secret p n) =
       (if n \<in> set names then
         (case view w (platform_secret p (p_podNamespace p) n) of
            None \<Rightarrow> view w (mcp_secret p n)
          | Some source \<Rightarrow> Some (stamp_image (o_Body source)
              (or_fresh (fresh_secret (p_mcpNamespace p) n) (view w (mcp_secret p n)))))
       else prune_obj image_own (view w (mcp_secret p n)))"
    using install_mcp_secrets [OF assms(1-3)] by metis
  have tenant: "chart_own obj \<or> p_caBundleSecret p \<noteq> [] \<and> n = p_caBundleSecret p"
    if "r = platform_secret p (p_tenantNamespace p) n" for n
  proof (rule tenant_cell_fresh)
    have "view w1 r = tenant_cell p version (view w) n"
      using install_tenant_secrets [OF assms(1-3)] that by blast
    then show "tenant_cell p version (view w) n = Some obj" using assms(7) by simp
    show "view w (platform_secret p (p_tenantNamespace p) n) = None" using assms(6) that by simp
  qed
  from assms(4,5) consider "r \<in> flux_refs p" | "r = ca_target p"
    | n where "r = mcp_secret p n" "n \<in> set (pull_secret_names version)"
    | n where "r = platform_secret p (p_tenantNamespace p) n"
    by (auto simp: install_scope_def flux_refs_def)
  then show thesis
  proof cases
    case 1
    then show thesis by (rule that(1))
  next
    case 2
    then have "r = platform_secret p (p_tenantNamespace p) (p_caBundleSecret p)" by (simp add: ca_target_def)
    then show thesis using tenant secret_not_flux that(3) by blast
  next
    case (3 n)
    then have "n \<in> set names" by (simp add: pull_secret_names_def names)
    moreover from this src obtain source where "view w (platform_secret p (p_podNamespace p) n) = Some source"
      by blast
    ultimately have "image_own obj" using at [of n] assms(7) 3(1) by auto
    then show thesis using 3(1) that(2) by blast
  next
    case (4 n)
    then show thesis using tenant secret_not_flux that(3) by blast
  qed
qed

lemma round_trip_outside:
  assumes "kube_api api view"
    and "Install lib api p version w = (Inr u1, w1)"
    and "Uninstall api p w1 = (Inr u2, w2)" and "RemoveCABundle api p w2 = (Inr u3, w3)"
    and "r \<notin> install_scope p version" and "\<And>obj. view w r = Some obj \<Longrightarrow> \<not> owned_secret p r obj"
  shows "view w3 r = view w r"
proof -
  have 1: "view w1 r = view w r"
    by (rule hands_offD [OF io_keepsD [OF kube_api.Install_hands_off [OF assms(1)] assms(2)] assms(5)]) (rule assms(6))
  have nf: "r \<notin> flux_refs p" and nc: "r \<noteq> ca_target p"
    using assms(5) by (auto simp: flux_refs_def install_scope_def)
  have 2: "view w2 r = view w1 r"
    by (rule hands_offD [OF io_keepsD [OF kube_api.Uninstall_hands_off [OF assms(1)] assms(3)] nf])
       (use assms(6) 1 in \<open>auto simp: owned_secret_def\<close>)
  have ca: "io_keeps (hands_off view (owned_secret p) {ca_target p}) (RemoveCABundle api p)"
    by (rule kube_api.RemoveCABundle_hands_off [OF assms(1)]) simp
  have 3: "view w3 r = view w2 r"
    by (rule hands_offD [OF io_keepsD [OF ca assms(4)]]) (use nc assms(6) 1 2 in simp_all)
  with 1 2 show ?thesis by simp
qed

text \<open>C10. Installing, uninstalling and removing the CA bundle is a round trip: from a store that has
  nothing in the scope of the installation (the namespace of the MCP apart), and if all three succeed, every
  object is afterwards as it was, on both clusters, but for the namespace of the MCP, which may remain, and the
  labelled left-overs of an earlier installation. An object that had one of the names before would be
  overwritten and deleted.\<close>

theorem uninstall_undoes_install:
  assumes "kube_api api view" and "separated p"
    and "Install lib api p version w = (Inr u1, w1)"
    and "Uninstall api p w1 = (Inr u2, w2)" and "RemoveCABundle api p w2 = (Inr u3, w3)"
    and "\<forall>r \<in> install_scope p version - {mcp_namespace_ref p}. view w r = None"
    and "r \<noteq> mcp_namespace_ref p" and "\<And>obj. view w r = Some obj \<Longrightarrow> \<not> owned_secret p r obj"
  shows "view w3 r = view w r"
proof (cases "r \<in> install_scope p version")
  case False
  show ?thesis by (rule round_trip_outside [OF assms(1,3-5) False]) (rule assms(8))
next
  case True
  with assms(6,7) have none: "view w r = None" by blast
  have fin: "o_Finalizers obj = []" if "view w1 r = Some obj" for obj
  proof -
    have "finalizers_kept view w w1" by (rule io_keepsD [OF kube_api.finalizer_runs(1) [OF assms(1)] assms(3)])
    then show ?thesis using that none unfolding finalizers_kept_def by fastforce
  qed
  note w2 = kube_api.Uninstall_ok [OF assms(1,4)]
  note w3 = kube_api.RemoveCABundle_ok [OF assms(1,5)]
  have "view w3 r = None"
  proof (cases "view w1 r")
    case None
    then have "view w2 r = None" unfolding w2 by (simp add: uninstall_step_def Let_def prune_obj_def)
    then show ?thesis using w3 by blast
  next
    case (Some obj)
    have bare: "after_delete obj = None" by (rule after_delete_bare) (rule fin [OF Some])
    from installed_object [OF assms(1-3) True assms(7) none Some] show ?thesis
    proof cases
      case 1
      then have "view w2 r = None" unfolding w2 by (simp add: uninstall_step_def Some bare)
      then show ?thesis using w3 by blast
    next
      case (2 n)
      then have "view w2 r = None"
        unfolding w2 by (intro uninstall_step_removes [where s = "view w1" and r = r, OF Some bare]) blast
      then show ?thesis using w3 by blast
    next
      case (3 n)
      have "view w2 r = None \<or> view w2 r = Some obj"
        unfolding w2 using 3(2) by (simp add: uninstall_step_def Let_def Some bare prune_obj_def)
      moreover have "view w2 r = None" if "chart_own obj"
        unfolding w2 using 3(1) that by (intro uninstall_step_removes [where s = "view w1" and r = r, OF Some bare]) blast
      moreover have "r = ca_target p" if "n = p_caBundleSecret p" using 3(1) that by (simp add: ca_target_def)
      ultimately show ?thesis using w3 3(3) bare by (metis bind.bind_lunit)
    qed
  qed
  with none show ?thesis by simp
qed

lemma uninstall_undoes_install_witness:
  "\<exists>w1 w2 w3. Install example_lib healthy example_p example_version example_world = (Inr (), w1) \<and>
     Uninstall healthy example_p w1 = (Inr (), w2) \<and> RemoveCABundle healthy example_p w2 = (Inr (), w3) \<and>
     mem_view w3 (mcp_secret example_p ''regcred'') = mem_view example_world (mcp_secret example_p ''regcred'') \<and>
     mem_view w3 (mcp_secret example_p ''tls'') = mem_view example_world (mcp_secret example_p ''tls'')"
proof -
  obtain w1 where 1: "Install example_lib healthy example_p example_version example_world = (Inr (), w1)"
    by (rule example_install)
  obtain w2 where 2: "Uninstall healthy example_p w1 = (Inr (), w2)"
    using mem_up.Uninstall_succeeds by blast
  obtain w3 where 3: "RemoveCABundle healthy example_p w2 = (Inr (), w3)"
    using mem_up.prune_succeeds prune_shapes(3) [of example_p healthy] by fastforce
  have free: "\<forall>r \<in> install_scope example_p example_version - {mcp_namespace_ref example_p}. mem_view example_world r = None"
    by (auto simp: install_scope_def pull_secret_names_def example_names example_charts reloader_refs_def flux_ref_def
        ca_target_def platform_secret_def mcp_secret_def example_world_simps)
  have "mem_view w3 r = mem_view example_world r"
    if "r = mcp_secret example_p n" for r n
    by (rule uninstall_undoes_install [OF mem.kube_api_axioms example_separated 1 2 3 free])
       (auto simp: that example_world_simps owned_secret_def image_own_def chart_own_def ca_own_def label_of_def
         mcp_secret_def mcp_namespace_ref_def split: if_splits)
  with 1 2 3 show ?thesis by blast
qed

end
