(* ===== verification/Controller_Paths.thy ===== *)
theory Controller_Paths
  imports Exposure_Correct Teardown
begin

text \<open>
  What the reconciler guarantees. The handlers are inverted once, path by path
  (\<open>CreateOrUpdate_cases\<close>, \<open>Delete_cases\<close>); the properties read the case they are about
  off the inversion and use the facts about the provisioner for the state of the clusters.
\<close>

section \<open>The surroundings\<close>

text \<open>What a handler runs in: a client over some view of the clusters, and the status helpers.\<close>

locale reconciler = kube_api "env_api env" view + status_library "env_status env"
  for env :: "'w env" and view :: "'w \<Rightarrow> store"
begin

lemma progressing_same [simp]:
  "Spec (StatusProgressing (env_status env) r m obj) = Spec obj"
  "Name (StatusProgressing (env_status env) r m obj) = Name obj"
  "Namespace (StatusProgressing (env_status env) r m obj) = Namespace obj"
  using progressing_frame [of obj r m] by (auto simp: same_but_status_def)

lemma terminating_same [simp]:
  "Spec (StatusTerminatingWithReason (env_status env) r m obj) = Spec obj"
  "Name (StatusTerminatingWithReason (env_status env) r m obj) = Name obj"
  "Namespace (StatusTerminatingWithReason (env_status env) r m obj) = Namespace obj"
  using terminating_frame [of obj r m] by (auto simp: same_but_status_def)

lemma ready_endpoint [simp]:
  "st_Endpoint (Status (StatusReady (env_status env) (set_endpoint e obj))) = e"
  using ready_frame [of "set_endpoint e obj"] by (simp add: same_but_status_def set_endpoint_def)

lemma handle_ok:
  assumes "handleOperationAnnotation env r obj w = (x, w')"
  shows "view w' = view w \<and>
    (\<forall>skip obj'. x = Inr (skip, obj') \<longrightarrow>
       Spec obj' = Spec obj \<and> Name obj' = Name obj \<and> Namespace obj' = Namespace obj \<and> Status obj' = Status obj \<and>
       (skip \<longleftrightarrow> map_of (Annotations obj) (OperationAnnotation env) = Some (OperationAnnotationValueIgnore env)) \<and>
       (skip \<longrightarrow> obj' = obj) \<and> Generation obj' = Generation obj)"
proof -
  obtain y w1 where a: "api_RemoveAnnotation (env_api env) (OnboardingCluster r) (OperationAnnotation env)
      (OperationAnnotationValueReconcile env) obj w = (y, w1)" by fastforce
  show ?thesis
    using assms a annotation_ok [OF a]
    by (cases y)
       (auto simp: handleOperationAnnotation_def io_ok io_bind_def io_map_error_def
         split: option.splits if_splits)
qed

end

text \<open>The provisioner of a request does not depend on the status of the resource.\<close>

lemma newProvisioner_status:
  "Spec a = Spec b \<Longrightarrow> Name a = Name b \<Longrightarrow> Namespace a = Namespace b \<Longrightarrow>
   newProvisioner env r a pc ctx = newProvisioner env r b pc ctx"
proof -
  assume same: "Spec a = Spec b" "Name a = Name b" "Namespace a = Namespace b"
  have eqs: "resolveExposure a = resolveExposure b" "resolveVaultPlugin a = resolveVaultPlugin b"
    "providerNamespace (Some a) = providerNamespace (Some b)"
    using same by (simp_all add: resolveExposure_def resolveVaultPlugin_def providerNamespace_def fun_eq_iff)
  show ?thesis unfolding newProvisioner_def same eqs by (rule refl)
qed

lemma newProvisioner_fields:
  assumes "newProvisioner env r obj pc ctx = Inr p"
  shows "p_platformClient p = PlatformCluster r" "p_mcpClient p = MCPCluster ctx"
    "p_podNamespace p = PodNamespace r" "p_caBundleSourceNamespace p = PodNamespace r"
    "p_exposure p = resolveExposure obj (Some pc) (APIServerEndpoint ctx)"
    "p_reloader p = resolveReloader (Some pc)" "p_caBundleSecret p = pc_CABundleSecret (pc_Spec pc)"
    "p_vaultPluginEnabled p = resolveVaultPlugin obj (Some pc)"
    "p_vaultPluginRegistry p = fst (VaultPluginImage (Some pc))"
    "p_vaultPluginTag p = snd (VaultPluginImage (Some pc))"
    "p_vaultPluginOpenSource p = pc_OpenSource (pc_Spec pc)"
    "p_mcpNamespace p \<noteq> []"
  using assms
  by (auto simp: newProvisioner_def NewProvisioner_def Let_def CABundleSecret_def OpenSource_def
      DefaultNamespace_def split: sum.splits if_splits prod.splits)

section \<open>The paths of the handlers\<close>

text \<open>What a request has to be for the handler to start writing.\<close>

definition admissible :: "ProviderConfig \<Rightarrow> ClusterContext \<Rightarrow> ArgoCD \<Rightarrow> bool" where
  "admissible pc ctx obj \<longleftrightarrow>
     spec_Version (Spec obj) \<in> v_Version ` set (pc_Versions (pc_Spec pc)) \<and>
     validateExposure obj (APIServerEndpoint ctx) = Inr ()"

definition ignored :: "'w env \<Rightarrow> ArgoCD \<Rightarrow> bool" where
  "ignored env obj \<longleftrightarrow>
     map_of (Annotations obj) (OperationAnnotation env) = Some (OperationAnnotationValueIgnore env)"

lemma validate_status: "Spec a = Spec b \<Longrightarrow> validateExposure a url = validateExposure b url"
  by (simp add: validateExposure_def)

lemma select_offered:
  "snd (SelectVersion pc v) \<longleftrightarrow> v \<in> v_Version ` set (pc_Versions (pc_Spec pc))"
proof -
  obtain x b where "select_version (pc_Versions (pc_Spec pc)) v = (x, b)" by fastforce
  then show ?thesis
    using select_version_missing [of "pc_Versions (pc_Spec pc)" v x]
      select_version_found [of "pc_Versions (pc_Spec pc)" v x]
    by (cases b) (auto simp: SelectVersion_def)
qed

lemma CreateOrUpdate_early:
  "handleOperationAnnotation env r obj w = (Inl e, w1) \<Longrightarrow>
     CreateOrUpdate env r pc ctx obj w = ((obj, Inl e), w1)"
  "handleOperationAnnotation env r obj w = (Inr (True, o1), w1) \<Longrightarrow>
     CreateOrUpdate env r pc ctx obj w = ((o1, Inr 0), w1)"
  by (simp_all add: CreateOrUpdate_def)

lemma CreateOrUpdate_body:
  assumes "handleOperationAnnotation env r obj w = (Inr (False, o1), w1)"
    and "o2 = StatusProgressing (env_status env) reasonReconciling ''Reconcile is in progress'' o1"
    and "SelectVersion pc (spec_Version (Spec o2)) = (v, ok)"
  shows "CreateOrUpdate env r pc ctx obj w =
    (if \<not> ok then
       ((StatusFailed (env_status env) reasonInvalidVersion
          (invalid_version_message (spec_Version (Spec o2))) o2, Inr 0), w1)
     else case validateExposure o2 (APIServerEndpoint ctx) of
       Inl e \<Rightarrow> ((StatusFailed (env_status env) reasonInvalidExposure (Error e) o2, Inr 0), w1)
     | Inr _ \<Rightarrow>
         (case newProvisioner env r o2 pc ctx of
            Inl e \<Rightarrow> ((StatusFailed (env_status env) reasonProvisionerCreationFailed (Error e) o2, Inl e), w1)
          | Inr p \<Rightarrow> install_and_report env p v o2 w1))"
  using assms(3) unfolding assms(2) CreateOrUpdate_def assms(1) by (simp add: Let_def)

context reconciler
begin

lemma CreateOrUpdate_cases:
  assumes run: "CreateOrUpdate env r pc ctx obj w = ((obj', out), w')"
  obtains (annotation_error) e where "out = Inl e" "obj' = obj" "view w' = view w"
      "handleOperationAnnotation env r obj w = (Inl e, w')"
  | (skipped) "ignored env obj" "out = Inr 0" "obj' = obj" "view w' = view w" "w' = w"
  | (rejected) rs m o2 where "\<not> ignored env obj" "\<not> admissible pc ctx obj" "out = Inr 0" "view w' = view w"
      "obj' = StatusFailed (env_status env) rs m o2"
      "rs = (if spec_Version (Spec obj) \<in> v_Version ` set (pc_Versions (pc_Spec pc)) then reasonInvalidExposure
             else reasonInvalidVersion)"
      "Generation o2 = Generation obj" "st_Endpoint (Status o2) = st_Endpoint (Status obj)"
      "\<exists>o1. handleOperationAnnotation env r obj w = (Inr (False, o1), w')"
  | (no_provisioner) e m o2 where "\<not> ignored env obj" "admissible pc ctx obj" "out = Inl e" "view w' = view w"
      "obj' = StatusFailed (env_status env) reasonProvisionerCreationFailed m o2" "m = Error e"
      "Generation o2 = Generation obj" "st_Endpoint (Status o2) = st_Endpoint (Status obj)"
  | (started) p v o2 w1 where "\<not> ignored env obj" "admissible pc ctx obj"
      "newProvisioner env r obj pc ctx = Inr p" "SelectVersion pc (spec_Version (Spec obj)) = (v, True)"
      "Spec o2 = Spec obj" "view w1 = view w" "\<not> ready_condition o2"
      "install_and_report env p v o2 w1 = ((obj', out), w')"
      "Generation o2 = Generation obj" "st_Endpoint (Status o2) = st_Endpoint (Status obj)"
proof -
  obtain x w1 where h: "handleOperationAnnotation env r obj w = (x, w1)" by fastforce
  note H = handle_ok [OF h]
  show thesis
  proof (cases x)
    case (Inl e)
    then have "CreateOrUpdate env r pc ctx obj w = ((obj, Inl e), w1)" using h by (intro CreateOrUpdate_early(1)) simp
    then show thesis using run H h Inl by (intro annotation_error [of e]) auto
  next
    case (Inr so)
    obtain skip o1 where so: "so = (skip, o1)" by (cases so)
    have same: "Spec o1 = Spec obj" "Name o1 = Name obj" "Namespace o1 = Namespace obj"
      and skip: "skip \<longleftrightarrow> ignored env obj" "skip \<longrightarrow> o1 = obj"
      and status: "Generation o1 = Generation obj" "Status o1 = Status obj"
      using H Inr so by (auto simp: ignored_def)
    show thesis
    proof (cases skip)
      case True
      then have "CreateOrUpdate env r pc ctx obj w = ((o1, Inr 0), w1)"
        using h Inr so by (intro CreateOrUpdate_early(2)) simp
      moreover have "w1 = w" using h skip True by (simp add: handleOperationAnnotation_def ignored_def io_return_def)
      ultimately show thesis using run H True skip by (intro skipped) auto
    next
      case False
      obtain o2 where
        o2: "o2 = StatusProgressing (env_status env) reasonReconciling ''Reconcile is in progress'' o1"
        by blast
      have spec: "Spec o2 = Spec obj" "Name o2 = Name obj" "Namespace o2 = Namespace obj"
        by (simp_all add: o2 same)
      have "same_but_status o1 o2" unfolding o2 by (rule progressing_frame)
      then have kept: "Generation o2 = Generation obj" "st_Endpoint (Status o2) = st_Endpoint (Status obj)"
        using status by (simp_all add: same_but_status_def)
      obtain v ok where v: "SelectVersion pc (spec_Version (Spec obj)) = (v, ok)" by fastforce
      have offered: "ok \<longleftrightarrow> spec_Version (Spec obj) \<in> v_Version ` set (pc_Versions (pc_Spec pc))"
        using select_offered [of pc "spec_Version (Spec obj)"] v by simp
      have h': "handleOperationAnnotation env r obj w = (Inr (False, o1), w1)"
        using h Inr so False by simp
      note run' = run [unfolded CreateOrUpdate_body [OF h' o2, unfolded spec(1), OF v]
          validate_status [OF spec(1)] newProvisioner_status [OF spec]]
      have not_ready: "\<not> ready_condition o2" unfolding o2 by (rule progressing_not_ready)
      have ign: "\<not> ignored env obj" using False skip by simp
      show thesis
      proof (cases ok)
        case f: False
        then show thesis using run' H ign offered kept h'
          by (intro rejected [of reasonInvalidVersion "invalid_version_message (spec_Version (Spec obj))" o2])
             (auto simp: admissible_def)
      next
        case ok: True
        show thesis
        proof (cases "validateExposure obj (APIServerEndpoint ctx)")
          case (Inl e)
          then show thesis using run' ok H ign offered kept h'
            by (intro rejected [of reasonInvalidExposure "Error e" o2]) (auto simp: admissible_def)
        next
          case (Inr u)
          then have adm: "admissible pc ctx obj" using ok offered by (simp add: admissible_def)
          show thesis
          proof (cases "newProvisioner env r obj pc ctx")
            case (Inl e)
            then show thesis using run' ok Inr H ign adm kept
              by (intro no_provisioner [of e "Error e" o2]) auto
          next
            case p: (Inr p)
            then show thesis
              using run' ok Inr H ign adm v not_ready spec kept by (intro started [of p v o2 w1]) auto
          qed
        qed
      qed
    qed
  qed
qed

end

text \<open>The state of the clusters that a Ready resource stands for.\<close>

definition release_ready :: "store \<Rightarrow> provisioner \<Rightarrow> bool" where
  "release_ready s p \<longleftrightarrow>
     (\<exists>hr c. s (flux_ref p KHelmRelease helmReleaseName) = Some hr \<and>
        find_condition ''Ready'' (release_conditions hr) = Some c \<and> cond_Status c = ConditionTrue)"

definition endpoint_up :: "store \<Rightarrow> provisioner \<Rightarrow> bool" where
  "endpoint_up s p \<longleftrightarrow>
     s (mcp_secret p serverTLSSecretName) \<noteq> None \<and>
     (\<exists>n svc. s (p_mcpClient p, KService, p_mcpNamespace p, n) = Some svc \<and>
        label_of svc labelPartOf = Some labelPartOfValue \<and>
        label_of svc labelComponent = Some labelServerValue \<and> has_address svc)"

context reconciler
begin

lemma reconcileEndpoint_spec:
  assumes run: "reconcileEndpoint env p o2 w = ((obj', out), w')" and old: "\<not> ready_condition o2"
    and enabled: "ev_Enabled (p_exposure p)"
  shows "view w' = view w \<and> (ready_condition obj' \<longleftrightarrow> out = Inr 0) \<and>
    (\<forall>n. out = Inr n \<longrightarrow> n = 0 \<or> n = requeueInterval) \<and>
    (out = Inr 0 \<longrightarrow> endpoint_up (view w') p \<and>
       st_Endpoint (Status obj') = ''https://'' @ ev_Host (p_exposure p)) \<and>
    (out = Inr requeueInterval \<longrightarrow> \<not> endpoint_up (view w') p \<and> st_Endpoint (Status obj') = [])"
proof -
  obtain x w1 where e: "Endpoint (env_api env) p w = (x, w1)" by fastforce
  have pos: "requeueInterval \<noteq> 0" by (simp add: requeueInterval_def second_def)
  have v: "view w1 = view w" by (rule readsD [OF Endpoint_reads e])
  show ?thesis
  proof (cases x)
    case (Inl err)
    then have "obj' = o2" "out = Inl err" "w' = w1" using run e by (simp_all add: reconcileEndpoint_def)
    then show ?thesis using v old by simp
  next
    case (Inr er)
    obtain endpoint ready where er: "er = (endpoint, ready)" by (cases er)
    have E: "endpoint = ''https://'' @ ev_Host (p_exposure p)" "ready \<longleftrightarrow> endpoint_up (view w) p"
      using Endpoint_ok [of p w endpoint ready w1] e Inr er enabled by (simp_all add: endpoint_up_def)
    show ?thesis
    proof (cases ready)
      case True
      then have "obj' = StatusReady (env_status env) (set_endpoint endpoint o2)" "out = Inr 0" "w' = w1"
        using run e Inr er by (simp_all add: reconcileEndpoint_def)
      then show ?thesis using E True v pos ready_ready by simp
    next
      case False
      then have o: "obj' = StatusProgressing (env_status env) reasonEndpointPending
          ''waiting for LoadBalancer address and managed TLS certificate'' (set_endpoint [] o2)"
        "out = Inr requeueInterval" "w' = w1"
        using run e Inr er by (simp_all add: reconcileEndpoint_def)
      have "st_Endpoint (Status obj') = []"
        using progressing_frame [of "set_endpoint [] o2"] unfolding o(1)
        by (simp add: same_but_status_def set_endpoint_def)
      moreover have "\<not> ready_condition obj'" unfolding o(1) by (rule progressing_not_ready)
      ultimately show ?thesis using E False v pos o(2,3) by simp
    qed
  qed
qed

lemma install_and_report_spec:
  assumes run: "install_and_report env p v o2 w = ((obj', out), w')" and old: "\<not> ready_condition o2"
    and enabled: "ev_Enabled (p_exposure p) \<longleftrightarrow> spec_Exposure (Spec o2) \<noteq> None"
  shows "(ready_condition obj' \<longleftrightarrow> out = Inr 0) \<and> (\<forall>n. out = Inr n \<longrightarrow> n = 0 \<or> n = requeueInterval) \<and>
    (\<forall>n. out = Inr n \<longrightarrow> (\<exists>w1. Install (env_values env) (env_api env) p v w = (Inr (), w1) \<and> view w' = view w1)) \<and>
    (out = Inr requeueInterval \<longrightarrow>
       \<not> (release_ready (view w') p \<and> (spec_Exposure (Spec o2) = None \<or> endpoint_up (view w') p))) \<and>
    (out = Inr 0 \<longrightarrow> release_ready (view w') p \<and>
       (if spec_Exposure (Spec o2) = None then st_Endpoint (Status obj') = []
        else endpoint_up (view w') p \<and> st_Endpoint (Status obj') = ''https://'' @ ev_Host (p_exposure p)))"
proof -
  have pos: "requeueInterval \<noteq> 0" by (simp add: requeueInterval_def second_def)
  obtain x w1 where i: "Install (env_values env) (env_api env) p v w = (x, w1)" by fastforce
  show ?thesis
  proof (cases x)
    case (Inl e)
    then have "obj' = StatusFailed (env_status env) reasonInstallFailed (Error e) o2" "out = Inl e"
      using run i by (simp_all add: install_and_report_def)
    then show ?thesis using failed_not_ready by simp
  next
    case i_ok: (Inr u)
    obtain y w2 where g: "Ready (env_api env) p w1 = (y, w2)" by fastforce
    show ?thesis
    proof (cases y)
      case (Inl e)
      then have "obj' = StatusFailed (env_status env) reasonReadinessCheckFailed (Error e) o2" "out = Inl e"
        using run i i_ok g by (simp_all add: install_and_report_def)
      then show ?thesis using failed_not_ready by simp
    next
      case (Inr rm)
      obtain ready m where rm: "rm = (ready, m)" by (cases rm)
      have R: "view w2 = view w1" "ready \<longleftrightarrow> release_ready (view w1) p"
        using Ready_ok [of p w1 ready m w2] g Inr rm by (auto simp: release_ready_def)
      show ?thesis
      proof (cases ready)
        case False
        then have "obj' = StatusProgressing (env_status env) reasonReconciling m o2" "out = Inr requeueInterval" "w' = w2"
          using run i i_ok g Inr rm by (simp_all add: install_and_report_def)
        then show ?thesis using progressing_not_ready pos i i_ok R False by simp
      next
        case True
        show ?thesis
        proof (cases "spec_Exposure (Spec o2)")
          case None
          then have "obj' = StatusReady (env_status env) (set_endpoint [] o2)" "out = Inr 0" "w' = w2"
            using run i i_ok g Inr rm True by (simp_all add: install_and_report_def)
          then show ?thesis using R True None ready_ready i i_ok pos by simp
        next
          case (Some e)
          then have r: "reconcileEndpoint env p o2 w2 = ((obj', out), w')"
            using run i i_ok g Inr rm True by (simp add: install_and_report_def)
          have en: "ev_Enabled (p_exposure p)" using enabled Some by simp
          note E = reconcileEndpoint_spec [OF r old en]
          have vw: "view w' = view w2" using E by blast
          have rel: "release_ready (view w') p" using vw R True by simp
          have "\<exists>w1. Install (env_values env) (env_api env) p v w = (Inr (), w1) \<and> view w' = view w1"
            using i i_ok vw R by simp
          moreover have "ready_condition obj' \<longleftrightarrow> out = Inr 0" "\<forall>n. out = Inr n \<longrightarrow> n = 0 \<or> n = requeueInterval"
            using E by blast+
          moreover have "out = Inr 0 \<longrightarrow> endpoint_up (view w') p \<and>
              st_Endpoint (Status obj') = ''https://'' @ ev_Host (p_exposure p)"
            "out = Inr requeueInterval \<longrightarrow> \<not> endpoint_up (view w') p" using E by blast+
          ultimately show ?thesis using rel by (simp only: Some option.distinct simp_thms if_False)
        qed
      qed
    qed
  qed
qed

lemma started_enabled:
  "newProvisioner env r obj pc ctx = Inr p \<Longrightarrow>
   ev_Enabled (p_exposure p) \<longleftrightarrow> spec_Exposure (Spec obj) \<noteq> None"
  by (simp add: newProvisioner_fields resolveExposure_def zero_exposure_def Let_def split: option.split)

section \<open>The paths of Delete\<close>

lemma Delete_cases:
  assumes run: "Delete env r pc ctx obj w = ((obj', out), w')"
  obtains (no_provisioner) e where "out = Inl e" "view w' = view w" "\<not> ready_condition obj'"
      "newProvisioner env r obj pc ctx = Inl e"
  | (unlisted) p e where "newProvisioner env r obj pc ctx = Inr p" "out = Inl e" "view w' = view w"
      "\<not> ready_condition obj'"
  | (blocked) p where "newProvisioner env r obj pc ctx = Inr p" "user_resources (view w) p \<noteq> {}"
      "out = Inr requeueInterval" "view w' = view w" "\<not> ready_condition obj'"
  | (started) p o2 w1 where "newProvisioner env r obj pc ctx = Inr p" "user_resources (view w) p = {}"
      "view w1 = view w" "\<not> ready_condition o2" "uninstall_and_report env p o2 w1 = ((obj', out), w')"
proof -
  obtain o2 where o2: "o2 = StatusTerminatingWithReason (env_status env) reasonTerminating
                  ''Resource termination initiated; cleanup tasks are in progress'' obj" by blast
  have same: "newProvisioner env r o2 pc ctx = newProvisioner env r obj pc ctx"
    by (rule newProvisioner_status) (simp_all add: o2)
  have body: "Delete env r pc ctx obj w =
     (case newProvisioner env r o2 pc ctx of
           Inl e \<Rightarrow>
             ((StatusFailed (env_status env) reasonProvisionerCreationFailed (Error e) o2, Inl e), w)
         | Inr p \<Rightarrow>
             (case CountUserArgoCDResources (env_api env) p w of
                (Inl e, w1) \<Rightarrow>
                  ((StatusFailed (env_status env) reasonFailedToListApplications (Error e) o2, Inl e), w1)
              | (Inr appsCount, w1) \<Rightarrow>
                  if appsCount > 0 then
                    ((StatusTerminatingWithReason (env_status env) reasonTerminating
                        ''deletion blocked: ArgoCD CR(s) still present'' o2, Inr requeueInterval), w1)
                  else uninstall_and_report env p o2 w1))"
    unfolding o2 Delete_def Let_def by (rule refl)
  note run' = run [unfolded body same]
  have not_ready: "\<not> ready_condition o2" unfolding o2 by (rule terminating_not_ready)
  show thesis
  proof (cases "newProvisioner env r obj pc ctx")
    case (Inl e)
    then show thesis using run' failed_not_ready by (intro no_provisioner [of e]) auto
  next
    case (Inr p)
    obtain x w1 where c: "CountUserArgoCDResources (env_api env) p w = (x, w1)" by fastforce
    have v: "view w1 = view w" by (rule readsD [OF Count_reads c])
    show thesis
    proof (cases x)
      case (Inl e)
      then show thesis using run' c Inr v failed_not_ready by (intro unlisted [of p e]) auto
    next
      case n: (Inr n)
      have zero: "n = 0 \<longleftrightarrow> user_resources (view w) p = {}" using Count_zero c n by blast
      show thesis
      proof (cases "n = 0")
        case True
        then show thesis using run' c n Inr v zero not_ready by (intro started [of p w1 o2]) auto
      next
        case False
        then show thesis using run' c n Inr v zero terminating_not_ready by (intro blocked [of p]) auto
      qed
    qed
  qed
qed

lemma uninstall_and_report_cases:
  assumes run: "uninstall_and_report env p o2 w = ((obj', out), w')"
  obtains (stuck) e where "out = Inl e" "obj' = StatusFailed (env_status env) reasonUninstalling (Error e) o2"
      "Uninstall (env_api env) p w = (Inl e, w')"
  | (unknown) e w1 where "out = Inl e" "obj' = StatusFailed (env_status env) reasonUninstalling (Error e) o2"
      "Uninstall (env_api env) p w = (Inr (), w1)" "view w' = view w1"
  | (waiting) w1 ref where "out = Inr requeueInterval" "obj' = o2"
      "Uninstall (env_api env) p w = (Inr (), w1)" "view w' = view w1" "ref \<in> flux_refs p" "view w' ref \<noteq> None"
  | (last) w1 w2 x where "Uninstall (env_api env) p w = (Inr (), w1)" "view w2 = view w1" "obj' = o2"
      "\<forall>ref \<in> flux_refs p. view w1 ref = None" "RemoveCABundle (env_api env) p w2 = (x, w')"
      "out = (case x of Inl e \<Rightarrow> Inl e | Inr _ \<Rightarrow> Inr 0)"
proof -
  obtain x w1 where u: "Uninstall (env_api env) p w = (x, w1)" by fastforce
  show thesis
  proof (cases x)
    case (Inl e)
    then show thesis using run u by (intro stuck [of e]) (simp_all add: uninstall_and_report_def)
  next
    case x: (Inr un)
    obtain y w2 where g: "IsUninstalled (env_api env) p w1 = (y, w2)" by fastforce
    have v: "view w2 = view w1" by (rule readsD [OF IsUninstalled_reads g])
    show thesis
    proof (cases y)
      case (Inl e)
      then show thesis using run u x g v by (intro unknown [of e w1]) (simp_all add: uninstall_and_report_def)
    next
      case (Inr b)
      then have gone: "b \<longleftrightarrow> (\<forall>ref \<in> flux_refs p. view w1 ref = None)" using IsUninstalled_ok g by blast
      show thesis
      proof (cases b)
        case False
        then obtain ref where "ref \<in> flux_refs p" "view w1 ref \<noteq> None" using gone by blast
        then show thesis using run u x g v Inr False
          by (intro waiting [of w1 ref]) (simp_all add: uninstall_and_report_def)
      next
        case True
        obtain z w3 where c: "RemoveCABundle (env_api env) p w2 = (z, w3)" by fastforce
        show thesis using run u x g v Inr True c gone
          by (intro last [of w1 w2 z]) (simp_all add: uninstall_and_report_def split: sum.splits)
      qed
    qed
  qed
qed

end

lemmas CreateOrUpdate_paths = reconciler.CreateOrUpdate_cases
  [consumes 2, case_names annotation_error skipped rejected no_provisioner started]
lemmas Delete_paths = reconciler.Delete_cases
  [consumes 2, case_names no_provisioner unlisted blocked started]
lemmas uninstall_paths = reconciler.uninstall_and_report_cases
  [consumes 2, case_names stuck unknown waiting last]

end
