(* ===== verification/Controller_Properties.thy ===== *)
theory Controller_Properties
  imports Controller_Paths
begin

text \<open>
  The properties of the update handler: what it rejects and what that leaves, what a Ready resource
  stands for, when it comes back, and that on clusters that answer it gets there. The locale
  \<open>reconciler\<close> is interpreted on the executable store with the computing status helpers.
\<close>

section \<open>An example\<close>

definition example_env :: "(call \<Rightarrow> string option) \<Rightarrow> mem_store env" where
  "example_env F =
     \<lparr>env_api = mem_client F, env_status = example_status_lib, env_values = example_lib,
      StableMCPNamespace = (\<lambda>name ns. Inr (''mcp-'' @ name)),
      OperationAnnotation = ''openmcp.cloud/operation'',
      OperationAnnotationValueIgnore = ''ignore'', OperationAnnotationValueReconcile = ''reconcile''\<rparr>"

definition example_r :: ArgoCDReconciler where
  "example_r = \<lparr>OnboardingCluster = ''onboarding'', PlatformCluster = ''platform'', PodNamespace = ''sp''\<rparr>"

definition example_ctx :: ClusterContext where
  "example_ctx =
     \<lparr>MCPCluster = ''mcp'', APIServerEndpoint = ''https://api.dev.example.com'',
      MCPAccessSecret_Namespace = ''tenant'', MCPAccessSecret_Name = ''access''\<rparr>"

definition example_pc :: ProviderConfig where
  "example_pc =
     \<lparr>pc_Spec = \<lparr>pc_Versions = [example_version], pc_PollInterval = None, pc_Exposure = None,
        pc_Reloader = None, pc_CABundleSecret = [], pc_VaultPlugin = None, pc_OpenSource = False\<rparr>\<rparr>"

definition example_obj :: ArgoCD where
  "example_obj = example_exposed\<lparr>Spec := (Spec example_exposed)\<lparr>spec_Exposure := None\<rparr>\<rparr>"

lemma example_env_simps [simp]:
  "env_api (example_env F) = mem_client F" "env_status (example_env F) = example_status_lib"
  "env_values (example_env F) = example_lib" "OperationAnnotation (example_env F) = ''openmcp.cloud/operation''"
  by (simp_all add: example_env_def)

interpretation example: reconciler "example_env F" mem_view for F
  by (intro reconciler.intro)
     (simp_all add: mem.kube_api_axioms example_status.status_library_axioms)

lemma example_provisioner: "newProvisioner (example_env F) example_r example_obj example_pc example_ctx = Inr example_p"
  by (simp add: newProvisioner_def example_ctx_def example_r_def example_pc_def example_obj_def example_exposed_def
      example_p_def example_config_def VaultPluginImage_def PollInterval_def DefaultPollInterval_def
      resolveExposure_def resolveReloader_def effective_reloader_def CABundleSecret_def resolveVaultPlugin_def
      VaultPluginEnabled_def OpenSource_def providerNamespace_def)

lemma example_selected:
  "SelectVersion example_pc (spec_Version (Spec example_obj)) = (example_version, True)"
  by (simp add: SelectVersion_def example_pc_def example_obj_def example_exposed_def example_version_def)

lemma example_admissible: "admissible example_pc example_ctx example_obj"
  by (simp add: admissible_def example_pc_def example_obj_def example_exposed_def example_version_def validateExposure_def)

lemma example_no_annotation: "map_of (Annotations example_obj) a = None"
  by (simp add: example_obj_def example_exposed_def)

lemma example_not_ignored: "\<not> ignored (example_env F) example_obj"
  by (simp add: ignored_def example_no_annotation)

section \<open>Rejected requests\<close>


definition condition_reason :: "ArgoCD \<Rightarrow> string option" where
  "condition_reason obj =
     map_option cond_Reason (find_condition ServiceProviderConditionReady (GetConditions obj))"

text \<open>C21. A request for a version that is not offered or for an exposure that is not acceptable changes
  nothing on the platform cluster and the MCP. An ignored one is left as it is without a word. For any other
  the handler sets the phase Failed with the reason in the Ready condition and does not come back,
  unless taking the reconcile annotation off failed: then it returns that error and leaves the resource
  as it is. Taking the annotation off is its only write to the resource, and without the annotation it
  makes no call at all.\<close>

theorem invalid_request_changes_nothing:
  assumes "reconciler env view" and "CreateOrUpdate env r pc ctx obj w = ((obj', out), w')"
    and "\<not> admissible pc ctx obj"
  shows "view w' = view w \<and>
    (if ignored env obj then obj' = obj \<and> out = Inr 0 \<and> w' = w
     else case handleOperationAnnotation env r obj w of
       (Inl e, w1) \<Rightarrow> obj' = obj \<and> out = Inl e \<and> w' = w1
     | (Inr _, w1) \<Rightarrow> out = Inr 0 \<and> w' = w1 \<and> st_Phase (Status obj') = StatusPhaseFailed \<and>
         condition_reason obj' = Some (if spec_Version (Spec obj) \<in> v_Version ` set (pc_Versions (pc_Spec pc))
           then reasonInvalidExposure else reasonInvalidVersion)) \<and>
    (map_of (Annotations obj) (OperationAnnotation env) \<noteq> Some (OperationAnnotationValueReconcile env) \<longrightarrow> w' = w)"
proof -
  have quiet: "w1 = w" if "handleOperationAnnotation env r obj w = (x, w1)"
    "map_of (Annotations obj) (OperationAnnotation env) \<noteq> Some (OperationAnnotationValueReconcile env)" for x w1
    using that by (auto simp: handleOperationAnnotation_def io_return_def split: option.splits if_splits)
  have lib: "status_library (env_status env)" using assms(1) by (rule reconciler.axioms)
  from assms(1,2) show ?thesis
  proof (cases rule: CreateOrUpdate_paths)
    case (annotation_error e)
    then have "\<not> ignored env obj"
      by (auto simp: handleOperationAnnotation_def io_return_def ignored_def)
    then show ?thesis using annotation_error quiet by auto
  next
    case (rejected rs m o2)
    then show ?thesis
      using status_library.failed_phase [OF lib, of rs m o2] status_library.failed_condition [OF lib, of rs m o2] quiet
      unfolding rejected(3-5) by (auto simp: condition_reason_def)
  qed (use assms(3) in auto)
qed

definition example_stray :: ArgoCD where
  "example_stray = example_obj\<lparr>Spec := (Spec example_obj)\<lparr>spec_Version := ''v9''\<rparr>\<rparr>"

lemma invalid_request_changes_nothing_witness:
  "\<exists>obj'. CreateOrUpdate (example_env (\<lambda>_. None)) example_r example_pc example_ctx example_stray example_world =
     ((obj', Inr 0), example_world) \<and> condition_reason obj' = Some reasonInvalidVersion"
proof -
  obtain obj' out w' where run: "CreateOrUpdate (example_env (\<lambda>_. None)) example_r example_pc example_ctx example_stray
      example_world = ((obj', out), w')" by (metis prod.collapse)
  have none: "map_of (Annotations example_stray) a = None" for a
    by (simp add: example_stray_def example_obj_def example_exposed_def)
  have stray: "spec_Version (Spec example_stray) \<notin> v_Version ` set (pc_Versions (pc_Spec example_pc))"
    by (simp add: example_stray_def example_pc_def example_version_def)
  then have "\<not> admissible example_pc example_ctx example_stray" by (simp add: admissible_def)
  from invalid_request_changes_nothing [OF example.reconciler_axioms run this] run stray show ?thesis
    by (simp add: handleOperationAnnotation_def io_return_def ignored_def none)
qed

section \<open>What Ready means\<close>

lemma release_conditions_kept:
  "kind_of (o_Body obj) = KHelmRelease \<Longrightarrow>
   o_Body (set_spec spec (setManagedByValue v obj)) = HelmRelease (Some spec) (release_conditions obj)"
  by (cases "o_Body obj") (simp_all add: set_spec_def release_conditions_def setManagedByValue_def)

lemma secrets_keep_flux:
  "p_platformClient p \<noteq> p_mcpClient p \<Longrightarrow>
   ca_step p (chart_step p charts (image_step p names s)) (flux_ref p KHelmRelease n) = s (flux_ref p KHelmRelease n)"
proof -
  assume sep: "p_platformClient p \<noteq> p_mcpClient p"
  have away: "flux_ref p KHelmRelease n \<noteq> platform_secret p (p_tenantNamespace p) m" for m
    by (simp add: flux_ref_def platform_secret_def)
  have "ca_step p (chart_step p charts (image_step p names s)) (flux_ref p KHelmRelease n) =
      image_step p names s (flux_ref p KHelmRelease n)"
    by (simp only: ca_step_elsewhere [OF away] chart_step_elsewhere [OF away])
  also have "\<dots> = s (flux_ref p KHelmRelease n)"
    unfolding flux_ref_def by (rule image_step_platform [OF sep])
  finally show ?thesis .
qed

lemma installed_release:
  assumes "kube_api api view" and "separated p" and "Install lib api p version w = (Inr u, w')"
  obtains vals hr where "values_of lib (with_ca p (view w)) version = Inr vals"
    and "view w' (flux_ref p KHelmRelease helmReleaseName) = Some hr"
    and "o_Body hr = HelmRelease (Some (argocd_release p vals))
       (case view w (flux_ref p KHelmRelease helmReleaseName) of None \<Rightarrow> [] | Some old \<Rightarrow> release_conditions old)"
proof -
  obtain s' where s: "install_spec lib p version (view w) = Some s'"
    and v: "\<forall>r. r \<notin> reloader_refs p \<longrightarrow> view w' r = s' r"
    using kube_api.Install_refines [OF assms(1,3)] by blast
  from install_spec_SomeE [OF assms(2) s] obtain url names vals where
    h: "values_of lib (with_ca p (view w)) version = Inr vals"
    and s': "s' = put_release p helmReleaseName managedByArgoCDValue (argocd_release (with_ca p (view w)) vals)
            (put_repository p ociRepositoryName managedByArgoCDValue (argocd_repository p url version)
              (ca_step p (chart_step p (chartPullSecretNames version (p_reloader p)) (image_step p names (view w)))))"
    by blast
  let ?r = "flux_ref p KHelmRelease helmReleaseName"
  have sep: "p_platformClient p \<noteq> p_mcpClient p" using assms(2) by (simp add: separated_def)
  obtain hr where put: "hr = set_spec (argocd_release p vals) (setManagedByValue managedByArgoCDValue
       (or_fresh (new_object helmReleaseName (p_tenantNamespace p) (HelmRelease None [])) (view w ?r)))"
    by blast
  have at: "put_repository p ociRepositoryName v spec s ?r = s ?r" for v spec s
    by (rule put_elsewhere(2)) (simp add: flux_ref_def)
  have "view w' ?r = s' ?r" using v by simp
  also have "\<dots> = Some hr" unfolding s' argocd_with_ca put_read at secrets_keep_flux [OF sep] put by (rule refl)
  finally have hr: "view w' ?r = Some hr" .
  have "o_Body hr = HelmRelease (Some (argocd_release p vals))
       (case view w ?r of None \<Rightarrow> [] | Some old \<Rightarrow> release_conditions old)"
  proof (cases "view w ?r")
    case None
    then show ?thesis unfolding put by (subst release_conditions_kept) (simp_all add: or_fresh_def new_object_def release_conditions_def)
  next
    case (Some old)
    then have "kind_of (o_Body old) = KHelmRelease"
      using kube_api.stored_ref [OF assms(1) Some] by (simp add: ref_of_def key_of_def flux_ref_def)
    then show ?thesis unfolding put by (subst release_conditions_kept) (simp_all add: Some or_fresh_def)
  qed
  with h hr show thesis by (rule that)
qed

text \<open>\<^verbatim>\<open>Install\<close> replaces the specification of the HelmRelease and keeps its conditions.\<close>

lemma release_ready_kept:
  assumes "kube_api api view" and "separated p" and "Install lib api p version w = (Inr u, w')"
  shows "release_ready (view w') p \<longleftrightarrow> release_ready (view w) p"
proof -
  obtain vals hr where hr: "view w' (flux_ref p KHelmRelease helmReleaseName) = Some hr"
    and body: "o_Body hr = HelmRelease (Some (argocd_release p vals))
       (case view w (flux_ref p KHelmRelease helmReleaseName) of None \<Rightarrow> [] | Some old \<Rightarrow> release_conditions old)"
    by (rule installed_release [OF assms])
  then show ?thesis
    by (cases "view w (flux_ref p KHelmRelease helmReleaseName)")
       (auto simp: release_ready_def release_conditions_def find_condition_def)
qed

text \<open>An admissible request that ends without an error has been installed.\<close>

lemma update_installs:
  assumes "reconciler env view" and "CreateOrUpdate env r pc ctx obj w = ((obj', Inr n), w')"
    and "\<not> ignored env obj" and "admissible pc ctx obj"
  obtains p v w1 w2 where "newProvisioner env r obj pc ctx = Inr p"
    and "SelectVersion pc (spec_Version (Spec obj)) = (v, True)" and "view w1 = view w"
    and "Install (env_values env) (env_api env) p v w1 = (Inr (), w2)" and "view w' = view w2"
    and "n = 0 \<or> n = requeueInterval" and "ready_condition obj' \<longleftrightarrow> n = 0"
    and "ready_condition obj' \<longleftrightarrow> release_ready (view w') p \<and> (spec_Exposure (Spec obj) = None \<or> endpoint_up (view w') p)"
    and "n = 0 \<longrightarrow> st_Endpoint (Status obj') =
      (if spec_Exposure (Spec obj) = None then [] else ''https://'' @ ev_Host (p_exposure p))"
  using assms(1,2)
proof (cases rule: CreateOrUpdate_paths)
  case (started p v o2 w1)
  note spec = reconciler.install_and_report_spec [OF assms(1) started(8,7),
      unfolded started(5), OF reconciler.started_enabled [OF assms(1) started(3)]]
  then obtain w2 where i: "Install (env_values env) (env_api env) p v w1 = (Inr (), w2)" "view w' = view w2"
    by blast
  have n: "ready_condition obj' \<longleftrightarrow> n = 0" "n = 0 \<or> n = requeueInterval" using spec by auto
  have "ready_condition obj' \<longleftrightarrow> release_ready (view w') p \<and> (spec_Exposure (Spec obj) = None \<or> endpoint_up (view w') p)"
    using spec by (auto split: if_splits)
  moreover have "st_Endpoint (Status obj') =
      (if spec_Exposure (Spec obj) = None then [] else ''https://'' @ ev_Host (p_exposure p))" if "n = 0"
    using spec that by (auto split: if_splits)
  ultimately show thesis using that started(3,4,6) i n by blast
qed (use assms(3,4) in auto)

text \<open>C1. The verdict of the update handler is truthful. Take a request that it acts on: not one with the ignore
  annotation, the version offered and the exposure acceptable (the others also return without an error, see
  above), its control plane another cluster than the platform and the provider's
  namespaces not the tenant's. If the handler returns without an error, it comes back after ten seconds or not at
  all, it does not come back exactly when the resource is Ready, and then the version asked for is
  installed: the HelmRelease has the specification the code builds for it and its Ready condition is
  true. A resource with an exposure moreover has its TLS secret and a server load balancer with an
  address, and publishes the endpoint; one without has none.\<close>

theorem ready_resource_is_installed:
  assumes "reconciler env view" and "CreateOrUpdate env r pc ctx obj w = ((obj', out), w')"
    and "\<not> ignored env obj" and "admissible pc ctx obj" and "out = Inr n"
    and "\<And>p. newProvisioner env r obj pc ctx = Inr p \<Longrightarrow> separated p"
  shows "\<exists>p v vals hr conds. newProvisioner env r obj pc ctx = Inr p \<and>
     SelectVersion pc (spec_Version (Spec obj)) = (v, True) \<and>
     values_of (env_values env) (with_ca p (view w)) v = Inr vals \<and>
     view w' (flux_ref p KHelmRelease helmReleaseName) = Some hr \<and>
     o_Body hr = HelmRelease (Some (argocd_release p vals)) conds \<and>
     (ready_condition obj' \<longleftrightarrow> n = 0) \<and> (n = 0 \<or> n = requeueInterval) \<and>
     (n = 0 \<longleftrightarrow> release_ready (view w') p \<and> (spec_Exposure (Spec obj) = None \<or> endpoint_up (view w') p)) \<and>
     (n = 0 \<longrightarrow> st_Endpoint (Status obj') =
       (if spec_Exposure (Spec obj) = None then [] else ''https://'' @ ev_Host (p_exposure p)))"
proof -
  obtain p v w1 w2 where p: "newProvisioner env r obj pc ctx = Inr p"
    and v: "SelectVersion pc (spec_Version (Spec obj)) = (v, True)" and v1: "view w1 = view w"
    and i: "Install (env_values env) (env_api env) p v w1 = (Inr (), w2)" and v2: "view w' = view w2"
    and n: "n = 0 \<or> n = requeueInterval" "ready_condition obj' \<longleftrightarrow> n = 0"
      "ready_condition obj' \<longleftrightarrow> release_ready (view w') p \<and> (spec_Exposure (Spec obj) = None \<or> endpoint_up (view w') p)"
    and e: "n = 0 \<longrightarrow> st_Endpoint (Status obj') =
      (if spec_Exposure (Spec obj) = None then [] else ''https://'' @ ev_Host (p_exposure p))"
    by (rule update_installs [OF assms(1) assms(2)[unfolded assms(5)] assms(3,4)])
  obtain vals hr where "values_of (env_values env) (with_ca p (view w)) v = Inr vals"
    "view w' (flux_ref p KHelmRelease helmReleaseName) = Some hr"
    "o_Body hr = HelmRelease (Some (argocd_release p vals))
       (case view w (flux_ref p KHelmRelease helmReleaseName) of None \<Rightarrow> [] | Some old \<Rightarrow> release_conditions old)"
    by (rule installed_release [OF reconciler.axioms(1) [OF assms(1)] assms(6) [OF p] i,
          unfolded v1 v2 [symmetric]])
  moreover have "n = 0 \<longleftrightarrow> release_ready (view w') p \<and> (spec_Exposure (Spec obj) = None \<or> endpoint_up (view w') p)"
    using n by simp
  ultimately show ?thesis using p v n(1,2) e by (intro exI conjI)
qed

section \<open>Getting there\<close>

text \<open>The reconciler on clusters that answer.\<close>

locale reconciler_up = reconciler env view + kube_api_up "env_api env" view
  for env :: "'w env" and view :: "'w \<Rightarrow> store"
begin

lemma Ready_answers:
  assumes "view w (flux_ref p KHelmRelease helmReleaseName) = Some hr"
  obtains ready m w' where "Ready (env_api env) p w = (Inr (ready, m), w')"
    and "view w' = view w" and "ready \<longleftrightarrow> release_ready (view w) p"
proof -
  obtain x w1 where g: "api_Get (env_api env) (flux_ref p KHelmRelease helmReleaseName) w = (x, w1)" by fastforce
  then have "x = Inr hr" using get_up [of "flux_ref p KHelmRelease helmReleaseName" w] assms by simp
  then have "\<exists>ready m. Ready (env_api env) p w = (Inr (ready, m), w1)"
    using g by (cases "find_condition ''Ready'' (release_conditions hr)") (auto simp: Ready_def io_ok)
  then obtain ready m where run: "Ready (env_api env) p w = (Inr (ready, m), w1)" by blast
  from run Ready_ok [OF run] show thesis by (intro that [of ready m w1]) (auto simp: release_ready_def)
qed

lemma Endpoint_answers: "\<exists>e ready w'. Endpoint (env_api env) p w = (Inr (e, ready), w')"
proof (cases "ev_Enabled (p_exposure p)")
  case False
  then show ?thesis by (auto simp: Endpoint_def io_return_def)
next
  case True
  obtain x w1 where g: "api_Get (env_api env) (mcp_secret p serverTLSSecretName) w = (x, w1)" by fastforce
  show ?thesis
  proof (cases x)
    case (Inl e)
    then have "IsNotFound e" using get_up [of "mcp_secret p serverTLSSecretName" w] g
      by (cases "view w (mcp_secret p serverTLSSecretName)") auto
    then show ?thesis using True g Inl by (auto simp: Endpoint_def Let_def io_try_eq io_return_def)
  next
    case (Inr tls)
    obtain items w2 where "api_List (env_api env) (p_mcpClient p) KService (Some (p_mcpNamespace p))
        [(labelPartOf, labelPartOfValue), (labelComponent, labelServerValue)] w1 = (Inr items, w2)"
      using list_up by (metis prod.collapse)
    then show ?thesis using True g Inr
      by (simp add: Endpoint_def Let_def io_try_eq io_bind_def io_map_error_def io_return_def)
  qed
qed

lemma install_and_report_progress:
  assumes inst: "Install (env_values env) (env_api env) p v w = (Inr (), w1)"
    and hr: "view w1 (flux_ref p KHelmRelease helmReleaseName) = Some hr"
    and enabled: "ev_Enabled (p_exposure p) \<longleftrightarrow> spec_Exposure (Spec o2) \<noteq> None"
  shows "\<exists>obj' w'. install_and_report env p v o2 w =
      ((obj', Inr (if release_ready (view w1) p \<and> (spec_Exposure (Spec o2) = None \<or> endpoint_up (view w1) p)
         then 0 else requeueInterval)), w') \<and> view w' = view w1"
proof -
  obtain ready m w2 where g: "Ready (env_api env) p w1 = (Inr (ready, m), w2)"
    and v: "view w2 = view w1" and r: "ready \<longleftrightarrow> release_ready (view w1) p"
    using Ready_answers [OF hr] by blast
  show ?thesis
  proof (cases "ready \<and> spec_Exposure (Spec o2) \<noteq> None")
    case False
    then show ?thesis using inst g v r by (auto simp: install_and_report_def)
  next
    case True
    obtain e up w3 where e: "Endpoint (env_api env) p w2 = (Inr (e, up), w3)" using Endpoint_answers by blast
    have "up \<longleftrightarrow> endpoint_up (view w1) p"
      using Endpoint_ok [OF e] enabled True v by (simp add: endpoint_up_def)
    moreover have "view w3 = view w2" by (rule readsD [OF Endpoint_reads e])
    moreover have "ready" "spec_Exposure (Spec o2) \<noteq> None" using True by blast+
    ultimately show ?thesis using inst g e v r
      by (auto simp: install_and_report_def reconcileEndpoint_def)
  qed
qed

end

text \<open>And on clusters that moreover accept the writes of the installation.\<close>

locale reconciler_writes = reconciler_up env view + kube_api_writes "env_api env" view admits
  for env :: "'w env" and view :: "'w \<Rightarrow> store" and admits :: "obj_ref \<Rightarrow> body \<Rightarrow> bool"
begin

lemma CreateOrUpdate_progress:
  assumes "map_of (Annotations obj) (OperationAnnotation env) = None" and "admissible pc ctx obj"
    and p: "newProvisioner env r obj pc ctx = Inr p" and sep: "separated p"
    and v: "SelectVersion pc (spec_Version (Spec obj)) = (v, True)"
    and possible: "install_possible (env_values env) p v (view w)"
    and accepted: "install_accepted admits (env_values env) p v (view w)"
  shows "\<exists>obj' w'. CreateOrUpdate env r pc ctx obj w =
      ((obj', Inr (if release_ready (view w) p \<and> (spec_Exposure (Spec obj) = None \<or> endpoint_up (view w') p)
         then 0 else requeueInterval)), w')"
proof -
  obtain o2 where o2: "o2 = StatusProgressing (env_status env) reasonReconciling ''Reconcile is in progress'' obj"
    by blast
  have h: "handleOperationAnnotation env r obj w = (Inr (False, obj), w)"
    using assms(1) by (simp add: handleOperationAnnotation_def io_return_def)
  have spec: "Spec o2 = Spec obj" "Name o2 = Name obj" "Namespace o2 = Namespace obj" by (simp_all add: o2)
  have valid: "validateExposure o2 (APIServerEndpoint ctx) = Inr ()"
    using assms(2) validate_status [OF spec(1)] by (simp add: admissible_def)
  have run: "CreateOrUpdate env r pc ctx obj w = install_and_report env p v o2 w"
    using CreateOrUpdate_body [OF h o2, unfolded spec(1), OF v] valid
      newProvisioner_status [OF spec, of env r pc ctx, unfolded p] by simp
  obtain w1 where inst: "Install (env_values env) (env_api env) p v w = (Inr (), w1)"
    using Install_succeeds install_spec_defined [OF sep] possible accepted by metis
  obtain hr where hr: "view w1 (flux_ref p KHelmRelease helmReleaseName) = Some hr"
    using installed_release [OF kube_api_axioms sep inst] by metis
  have same: "release_ready (view w1) p \<longleftrightarrow> release_ready (view w) p"
    by (rule release_ready_kept [OF kube_api_axioms sep inst])
  have "ev_Enabled (p_exposure p) \<longleftrightarrow> spec_Exposure (Spec o2) \<noteq> None"
    unfolding spec(1) by (rule started_enabled [OF p])
  from install_and_report_progress [OF inst hr this] show ?thesis unfolding run same spec(1) by metis
qed

end

interpretation example_up: reconciler_up "example_env (\<lambda>_. None)" mem_view
  by (intro reconciler_up.intro example.reconciler_axioms) (simp add: mem_up.kube_api_up_axioms)

interpretation example_writes: reconciler_writes "example_env (\<lambda>_. None)" mem_view mem_admits
  by (intro reconciler_writes.intro example_up.reconciler_up_axioms) (simp add: mem_up.kube_api_writes_axioms)

lemma update_declares:
  assumes "reconciler env view" and "CreateOrUpdate env r pc ctx obj w = ((obj', Inr n), w')"
    and "\<not> ignored env obj" and "admissible pc ctx obj" and "newProvisioner env r obj pc ctx = Inr p" and "separated p"
  shows "view w' (flux_ref p KHelmRelease helmReleaseName) \<noteq> None"
proof -
  obtain p' v' w1 w2 where "newProvisioner env r obj pc ctx = Inr p'"
    and i: "Install (env_values env) (env_api env) p' v' w1 = (Inr (), w2)" and v: "view w' = view w2"
    by (rule update_installs [OF assms(1-4)])
  then have "p' = p" using assms(5) by simp
  then show ?thesis
    using installed_release [OF reconciler.axioms(1) [OF assms(1)] assms(6)] i v by (metis option.distinct(1))
qed

text \<open>On clusters that answer and accept the writes, an admissible request without an operation annotation whose
  provisioner and secrets are there is served without an error: the handler declares the
  installation and returns Ready exactly when the release is ready and the endpoint, if one is asked
  for, is up; otherwise it asks to come back.\<close>

theorem admissible_request_is_served:
  assumes "reconciler_writes env view admits"
    and "map_of (Annotations obj) (OperationAnnotation env) = None" and "admissible pc ctx obj"
    and "newProvisioner env r obj pc ctx = Inr p" and "separated p"
    and "SelectVersion pc (spec_Version (Spec obj)) = (v, True)"
    and "install_possible (env_values env) p v (view w)" and "install_accepted admits (env_values env) p v (view w)"
  shows "\<exists>obj' w' n. CreateOrUpdate env r pc ctx obj w = ((obj', Inr n), w') \<and>
     (n = 0 \<or> n = requeueInterval) \<and>
     (n = 0 \<longleftrightarrow> release_ready (view w) p \<and> (spec_Exposure (Spec obj) = None \<or> endpoint_up (view w') p)) \<and>
     view w' (flux_ref p KHelmRelease helmReleaseName) \<noteq> None"
proof -
  have rec: "reconciler env view" by (rule reconciler_up.axioms(1) [OF reconciler_writes.axioms(1) [OF assms(1)]])
  have ign: "\<not> ignored env obj" using assms(2) by (simp add: ignored_def)
  have pos: "requeueInterval \<noteq> 0" by (simp add: requeueInterval_def second_def)
  obtain obj' w' n where run: "CreateOrUpdate env r pc ctx obj w = ((obj', Inr n), w')"
    and n: "n = (if release_ready (view w) p \<and> (spec_Exposure (Spec obj) = None \<or> endpoint_up (view w') p)
         then 0 else requeueInterval)"
    using reconciler_writes.CreateOrUpdate_progress [OF assms] by blast
  have "view w' (flux_ref p KHelmRelease helmReleaseName) \<noteq> None"
    by (rule update_declares [OF rec run ign assms(3-5)])
  then show ?thesis using run n pos by auto
qed

lemma example_possible_world:
  assumes "\<And>n. mem_view w (''platform'', KSecret, ''sp'', n) = mem_view example_world (''platform'', KSecret, ''sp'', n)"
  shows "install_possible example_lib example_p example_version (mem_view w)"
  using example_possible by (simp add: install_possible_def assms platform_secret_def with_ca_def)

lemma admissible_request_is_served_witness:
  "\<exists>obj' w' n. CreateOrUpdate (example_env (\<lambda>_. None)) example_r example_pc example_ctx example_obj example_world =
     ((obj', Inr n), w') \<and> (n = 0 \<or> n = requeueInterval)"
proof -
  have "install_possible (env_values (example_env (\<lambda>_. None))) example_p example_version (mem_view example_world)"
    "install_accepted mem_admits (env_values (example_env (\<lambda>_. None))) example_p example_version (mem_view example_world)"
    using example_possible example_accepted by simp_all
  from admissible_request_is_served [OF example_writes.reconciler_writes_axioms example_no_annotation example_admissible
      example_provisioner example_separated example_selected this] show ?thesis by blast
qed

definition ready_condition_true :: condition where
  "ready_condition_true =
     \<lparr>cond_Type = ''Ready'', cond_Status = ConditionTrue, cond_ObservedGeneration = 1,
      cond_Reason = ''InstallSucceeded'', cond_Message = ''Helm install succeeded''\<rparr>"

text \<open>A world in which an earlier, different installation is ready.\<close>

definition example_ready_world :: mem_store where
  "example_ready_world =
     (''platform'', new_object helmReleaseName ''tenant'' (HelmRelease None [ready_condition_true])) # example_world"

lemma example_ready_view:
  "mem_view example_ready_world = (mem_view example_world)
     ((''platform'', KHelmRelease, ''tenant'', helmReleaseName) \<mapsto>
        new_object helmReleaseName ''tenant'' (HelmRelease None [ready_condition_true]))"
  by (auto simp: example_ready_world_def mem_view_Cons ref_of_def fun_eq_iff)

lemma example_release_ready: "release_ready (mem_view example_ready_world) example_p"
  by (simp add: release_ready_def example_ready_view flux_ref_def new_object_def release_conditions_def
      find_condition_def ready_condition_true_def)

lemma example_ready_run:
  obtains obj' w' where "CreateOrUpdate (example_env (\<lambda>_. None)) example_r example_pc example_ctx example_obj
       example_ready_world = ((obj', Inr 0), w')"
proof -
  have "install_possible example_lib example_p example_version (mem_view example_ready_world)"
    by (rule example_possible_world) (simp add: example_ready_view)
  moreover have "install_accepted mem_admits example_lib example_p example_version (mem_view example_ready_world)"
    by (rule example_accepts) (auto simp: example_ready_view example_world_simps namespace_live_def split: if_splits)
  ultimately obtain obj' w' where "CreateOrUpdate (example_env (\<lambda>_. None)) example_r example_pc example_ctx example_obj
       example_ready_world = ((obj', Inr 0), w')"
    using example_writes.CreateOrUpdate_progress [OF _ example_admissible example_provisioner
      example_separated example_selected, of example_ready_world] example_no_annotation example_release_ready
    by (auto simp: example_obj_def)
  then show thesis by (rule that)
qed

lemma ready_resource_is_installed_witness:
  "\<exists>obj' w' hr. CreateOrUpdate (example_env (\<lambda>_. None)) example_r example_pc example_ctx example_obj
       example_ready_world = ((obj', Inr 0), w') \<and> ready_condition obj' \<and>
     mem_view w' (flux_ref example_p KHelmRelease helmReleaseName) = Some hr"
proof -
  obtain obj' w' where run: "CreateOrUpdate (example_env (\<lambda>_. None)) example_r example_pc example_ctx example_obj
       example_ready_world = ((obj', Inr 0), w')" by (rule example_ready_run)
  have "separated p" if "newProvisioner (example_env (\<lambda>_. None)) example_r example_obj example_pc example_ctx = Inr p" for p
    using that example_provisioner example_separated by simp
  with run show ?thesis
    using ready_resource_is_installed [OF example.reconciler_axioms run example_not_ignored example_admissible refl]
      example_provisioner by fastforce
qed

text \<open>C37. The readiness the handler reports is the one from before its own write: a HelmRelease
  whose Ready condition is true makes a request without an exposure Ready in the very step that
  replaces the specification, before Flux has seen the new one.\<close>

theorem readiness_predates_install:
  assumes "reconciler env view" and "CreateOrUpdate env r pc ctx obj w = ((obj', Inr n), w')"
    and "\<not> ignored env obj" and "admissible pc ctx obj"
    and "newProvisioner env r obj pc ctx = Inr p" and "separated p" and "spec_Exposure (Spec obj) = None"
  shows "ready_condition obj' \<longleftrightarrow> release_ready (view w) p"
proof -
  obtain p' v w1 w2 where p': "newProvisioner env r obj pc ctx = Inr p'" and v1: "view w1 = view w"
    and i: "Install (env_values env) (env_api env) p' v w1 = (Inr (), w2)" and v2: "view w' = view w2"
    and ready: "ready_condition obj' \<longleftrightarrow> release_ready (view w') p' \<and> (spec_Exposure (Spec obj) = None \<or> endpoint_up (view w') p')"
    by (rule update_installs [OF assms(1-4)])
  have "p' = p" using p' assms(5) by simp
  then show ?thesis
    using ready release_ready_kept [OF reconciler.axioms(1) [OF assms(1)] assms(6)] i v1 v2 assms(7) by metis
qed

lemma readiness_predates_install_witness:
  "\<exists>obj' n w'. CreateOrUpdate (example_env (\<lambda>_. None)) example_r example_pc example_ctx example_obj
       example_ready_world = ((obj', Inr n), w') \<and> ready_condition obj'"
proof -
  obtain obj' w' where run: "CreateOrUpdate (example_env (\<lambda>_. None)) example_r example_pc example_ctx example_obj
       example_ready_world = ((obj', Inr 0), w')" by (rule example_ready_run)
  have "spec_Exposure (Spec example_obj) = None" by (simp add: example_obj_def)
  from readiness_predates_install [OF example.reconciler_axioms run example_not_ignored example_admissible
      example_provisioner example_separated this] run example_release_ready
  show ?thesis by blast
qed

end
