(* ===== verification/Request_Properties.thy ===== *)
theory Request_Properties
  imports Controller_Properties
begin

text \<open>
  How a request and the provider's configuration meet: which secrets the reconciler watches, when the
  vault plugin is installed, and what the operation annotation stops.
\<close>

section \<open>Watched secrets\<close>

lemma newProvisioner_total:
  "MCPAccessSecret_Namespace ctx \<noteq> [] \<Longrightarrow> \<exists>p. newProvisioner env r obj pc ctx = Inr p"
  by (cases "VaultPluginImage (Some pc)") (simp add: newProvisioner_def)

lemma example_access: "MCPAccessSecret_Namespace example_ctx \<noteq> []"
  by (simp add: example_ctx_def)

lemma references_iff:
  "versionReferencesSecret v n \<longleftrightarrow> n = v_ChartPullSecret v \<or> n \<in> set (pull_secret_names v)"
  by (auto simp: versionReferencesSecret_def pull_secret_names_def list_ex_iff split: sum.split)

lemma watched_iff:
  "IsReferencedSecret r (Some s) (Some pc) \<longleftrightarrow> o_Namespace s = PodNamespace r \<and>
     ((\<exists>v \<in> set (pc_Versions (pc_Spec pc)). versionReferencesSecret v (o_Name s)) \<or>
      (\<exists>c. pc_Reloader (pc_Spec pc) = Some c \<and> rl_ChartPullSecret c = o_Name s))"
  by (auto simp: IsReferencedSecret_def list_ex_iff split: option.split)

lemma reloader_configured:
  "newProvisioner env r obj pc ctx = Inr p \<Longrightarrow>
   map_option rl_ChartPullSecret (p_reloader p) = map_option rl_ChartPullSecret (pc_Reloader (pc_Spec pc))"
  by (simp add: newProvisioner_fields resolveReloader_def effective_reloader_def split: option.split)

text \<open>Every pull secret that an installation of an offered version copies, for images or for
  charts, is watched: a change of its source on the platform cluster triggers the reconciler.\<close>

theorem copied_secrets_are_watched:
  assumes "newProvisioner env r obj pc ctx = Inr p" and "SelectVersion pc requested = (v, True)"
    and "n \<in> set (pull_secret_names v) \<union> set (chartPullSecretNames v (p_reloader p))"
    and "ref_of (p_platformClient p) s = platform_secret p (p_podNamespace p) n"
  shows "IsReferencedSecret r (Some s) (Some pc)"
proof -
  have s: "o_Name s = n" "o_Namespace s = PodNamespace r"
    using assms(4) newProvisioner_fields(3) [OF assms(1)]
    by (auto simp: ref_of_def key_of_def platform_secret_def)
  have v: "v \<in> set (pc_Versions (pc_Spec pc))"
    using select_version_found [of "pc_Versions (pc_Spec pc)" requested v] assms(2) by (auto simp: SelectVersion_def)
  consider "n = v_ChartPullSecret v \<or> n \<in> set (pull_secret_names v)"
    | c where "p_reloader p = Some c" "rl_ChartPullSecret c = n"
    using assms(3) by (auto simp: set_chart_names split: option.splits)
  then show ?thesis
  proof cases
    case 1
    then show ?thesis using s v by (auto simp: watched_iff references_iff)
  next
    case (2 c)
    then have "map_option rl_ChartPullSecret (pc_Reloader (pc_Spec pc)) = Some n"
      using reloader_configured [OF assms(1)] by simp
    then show ?thesis using s by (auto simp: watched_iff)
  qed
qed

lemma copied_secrets_are_watched_witness:
  "IsReferencedSecret example_r (Some (new_object ''regcred'' ''sp'' (Secret ''docker'' []))) (Some example_pc)"
  by (rule copied_secrets_are_watched [OF example_provisioner example_selected, where n = "''regcred''"])
     (simp_all add: pull_secret_names_def example_names ref_of_def platform_secret_def)

definition example_ca_pc :: ProviderConfig where
  "example_ca_pc = example_pc\<lparr>pc_Spec := (pc_Spec example_pc)\<lparr>pc_CABundleSecret := ''corp-ca''\<rparr>\<rparr>"

definition example_ca_secret :: kobj where
  "example_ca_secret = new_object ''corp-ca'' ''sp'' (Secret ''Opaque'' [])"

text \<open>The CA bundle is not watched. The secret that \<^verbatim>\<open>caBundleSecret\<close> names is the source of the
  bundle an installation copies, yet it is not a referenced secret: rotating the certificates
  reaches no tenant until something else triggers the reconciler.\<close>

theorem ca_bundle_is_not_watched:
  "\<exists>p. newProvisioner (example_env F) example_r example_obj example_ca_pc example_ctx = Inr p \<and>
     ca_source p = ref_of (PlatformCluster example_r) example_ca_secret \<and>
     p_caBundleSecret p = ''corp-ca'' \<and>
     \<not> IsReferencedSecret example_r (Some example_ca_secret) (Some example_ca_pc)"
proof -
  obtain p where p: "newProvisioner (example_env F) example_r example_obj example_ca_pc example_ctx = Inr p"
    using newProvisioner_total [OF example_access] by blast
  have "\<not> IsReferencedSecret example_r (Some example_ca_secret) (Some example_ca_pc)"
    by (simp add: watched_iff references_iff pull_secret_names_def example_names example_ca_pc_def example_pc_def
        example_ca_secret_def new_object_def)
       (simp add: example_version_def)
  then show ?thesis
    using p newProvisioner_fields [OF p]
    by (simp add: ca_source_def platform_secret_def example_ca_pc_def example_ca_secret_def ref_of_def example_r_def)
qed

section \<open>The vault plugin\<close>

text \<open>The vault plugin is installed exactly when the provider offers it and the request asks for
  it, and a configuration that the CRD's rule admits then has an image for it, or the open-source
  installation, which needs none.\<close>

theorem vault_plugin_needs_both:
  assumes "newProvisioner env r obj pc ctx = Inr p" and "vault_rule (pc_Spec pc)"
  shows "(p_vaultPluginEnabled p \<longleftrightarrow>
      (\<exists>offer wish. pc_VaultPlugin (pc_Spec pc) = Some offer \<and> pv_Enabled offer \<and>
         spec_VaultPlugin (Spec obj) = Some wish \<and> vp_Enabled wish)) \<and>
    (\<not> p_vaultPluginEnabled p \<or> p_vaultPluginOpenSource p \<or>
     p_vaultPluginRegistry p \<noteq> [] \<and> p_vaultPluginTag p \<noteq> [])"
  using assms(2) newProvisioner_fields [OF assms(1)]
  by (auto simp: resolveVaultPlugin_def VaultPluginEnabled_def VaultPluginImage_def vault_rule_def
      split: option.splits if_splits)

definition example_vault_pc :: ProviderConfig where
  "example_vault_pc = example_pc\<lparr>pc_Spec := (pc_Spec example_pc)\<lparr>pc_VaultPlugin :=
     Some \<lparr>pv_Enabled = True, pv_Registry = ''ghcr.io/vault'', pv_Tag = ''1.18''\<rparr>\<rparr>\<rparr>"

lemma vault_plugin_needs_both_witness:
  "\<exists>p. newProvisioner (example_env (\<lambda>_. None)) example_r example_obj example_vault_pc example_ctx = Inr p \<and>
     \<not> p_vaultPluginEnabled p"
proof -
  obtain p where p: "newProvisioner (example_env (\<lambda>_. None)) example_r example_obj example_vault_pc example_ctx = Inr p"
    using newProvisioner_total [OF example_access] by blast
  have "vault_rule (pc_Spec example_vault_pc)" by (simp add: vault_rule_def example_vault_pc_def)
  from vault_plugin_needs_both [OF p this] have "\<not> p_vaultPluginEnabled p"
    by (simp add: example_obj_def example_exposed_def)
  with p show ?thesis by blast
qed

section \<open>The operation annotation\<close>

text \<open>What a handler does apart from the status it leaves: its outcome and the world.\<close>

definition effect :: "(ArgoCD \<times> outcome) \<times> 'w \<Rightarrow> outcome \<times> 'w" where
  "effect x = (snd (fst x), snd x)"

lemma uninstall_effect: "effect (uninstall_and_report env p a w) = effect (uninstall_and_report env p b w)"
  by (simp add: effect_def uninstall_and_report_def split: prod.split sum.split)

context reconciler
begin

lemma Delete_effect:
  assumes same: "Spec a = Spec b" "Name a = Name b" "Namespace a = Namespace b"
  shows "effect (Delete env r pc ctx a w) = effect (Delete env r pc ctx b w)"
proof -
  let ?t = "StatusTerminatingWithReason (env_status env) reasonTerminating
                  ''Resource termination initiated; cleanup tasks are in progress''"
  have np: "newProvisioner env r (?t a) pc ctx = newProvisioner env r (?t b) pc ctx"
    by (rule newProvisioner_status) (simp_all add: same)
  obtain x where x: "newProvisioner env r (?t b) pc ctx = x" by blast
  show ?thesis
  proof (cases x)
    case (Inl e)
    then show ?thesis by (simp add: Delete_def Let_def np x effect_def)
  next
    case (Inr p)
    obtain y w1 where c: "CountUserArgoCDResources (env_api env) p w = (y, w1)" by fastforce
    show ?thesis using uninstall_effect [of env p "?t a" w1 "?t b"] x Inr c
      by (cases y) (simp_all add: Delete_def Let_def np effect_def)
  qed
qed

end

text \<open>The operation annotation "ignore" stops updates and nothing else: the update handler returns at
  once, without a call and without touching the status, while the delete handler does for an
  annotated resource what it does for one without annotations.\<close>

theorem ignore_stops_updates_only:
  assumes "reconciler env view" and "ignored env obj"
  shows "CreateOrUpdate env r pc ctx obj w = ((obj, Inr 0), w) \<and>
    effect (Delete env r pc ctx obj w) = effect (Delete env r pc ctx (obj\<lparr>Annotations := []\<rparr>) w)"
proof -
  have "handleOperationAnnotation env r obj w = (Inr (True, obj), w)"
    using assms(2) by (simp add: ignored_def handleOperationAnnotation_def io_return_def)
  then show ?thesis
    by (simp add: CreateOrUpdate_early(2) reconciler.Delete_effect [OF assms(1), of obj "obj\<lparr>Annotations := []\<rparr>"])
qed

lemma ignore_stops_updates_only_witness:
  "CreateOrUpdate (example_env (\<lambda>_. None)) example_r example_pc example_ctx
     (example_obj\<lparr>Annotations := [(''openmcp.cloud/operation'', ''ignore'')]\<rparr>) example_world =
   ((example_obj\<lparr>Annotations := [(''openmcp.cloud/operation'', ''ignore'')]\<rparr>, Inr 0), example_world)"
proof -
  have "ignored (example_env (\<lambda>_. None)) (example_obj\<lparr>Annotations := [(''openmcp.cloud/operation'', ''ignore'')]\<rparr>)"
    by (simp add: ignored_def example_env_def)
  from ignore_stops_updates_only [OF example.reconciler_axioms this] show ?thesis by blast
qed

end
