(* ===== verification/Deletion.thy ===== *)
theory Deletion
  imports Request_Properties
begin

text \<open>
  The delete handler: what blocks it, what it means that it is done, in which order it removes
  things, and that it gets there in two rounds once Flux has finished.
\<close>

section \<open>The guard\<close>

lemma requeue_nonzero [simp]: "requeueInterval \<noteq> 0" "0 \<noteq> requeueInterval"
  by (simp_all add: requeueInterval_def second_def)

lemma not_ready_failed: "reconciler env view \<Longrightarrow> \<not> ready_condition (StatusFailed (env_status env) r m obj)"
  by (rule status_library.failed_not_ready [OF reconciler.axioms(2)])

text \<open>C20. While the tenant still has Argo CD resources of its own, deleting changes nothing on any cluster:
  the handler asks to come back (or reports an error of a client call) and the resource is not
  Ready. On no path does the handler leave it Ready.\<close>

theorem delete_blocked_while_in_use:
  assumes "reconciler env view" and "Delete env r pc ctx obj w = ((obj', out), w')"
  shows "\<not> ready_condition obj' \<and>
    (newProvisioner env r obj pc ctx = Inr p \<and> user_resources (view w) p \<noteq> {} \<longrightarrow>
       view w' = view w \<and> (out = Inr requeueInterval \<or> (\<exists>e. out = Inl e)))"
  using assms
proof (cases rule: Delete_paths)
  case (started p' o2 w1)
  have "\<not> ready_condition obj'"
    using assms(1) started(5)
    by (cases rule: uninstall_paths) (use started(4) not_ready_failed [OF assms(1)] in auto)
  then show ?thesis using started(1,2) by auto
qed auto

lemma delete_blocked_while_in_use_witness:
  "mem_view (snd (Delete (example_env (\<lambda>_. None)) example_r example_pc example_ctx example_obj example_user_world)) =
   mem_view example_user_world"
proof -
  have "(''mcp'', KApplication, ''apps'', ''shop'') \<in> user_resources (mem_view example_user_world) example_p"
    by (simp add: user_resources_def example_user_world_def mem_view_Cons ref_of_def key_of_def new_object_def)
  then have "user_resources (mem_view example_user_world) example_p \<noteq> {}" by blast
  moreover obtain obj' out w' where run:
    "Delete (example_env (\<lambda>_. None)) example_r example_pc example_ctx example_obj example_user_world = ((obj', out), w')"
    by (metis prod.collapse)
  ultimately show ?thesis
    using delete_blocked_while_in_use [OF example.reconciler_axioms run] example_provisioner by (metis snd_conv)
qed

section \<open>Done\<close>

lemma ca_keeps_elsewhere:
  assumes "kube_api api view" and "RemoveCABundle api p w = (x, w')"
    and "\<And>n. ref \<noteq> platform_secret p (p_tenantNamespace p) n"
    and "ref \<notin> range (mcp_secret p)"
  shows "view w' ref = view w ref"
proof -
  have "io_keeps (hands_off view (owned_secret p) {ca_target p}) (RemoveCABundle api p)"
    by (rule kube_api.RemoveCABundle_hands_off [OF assms(1)]) simp
  from io_keepsD [OF this assms(2)] show ?thesis
    by (rule hands_offD)
       (use assms(3,4) in \<open>auto simp: owned_secret_def ca_target_def\<close>)
qed

lemma flux_after_ca:
  "kube_api api view \<Longrightarrow> RemoveCABundle api p w = (x, w') \<Longrightarrow> ref \<in> flux_refs p \<Longrightarrow> view w' ref = view w ref"
  by (rule ca_keeps_elsewhere) (use kube_api.flux_not_secret [of _ _ ref p] in blast)+

text \<open>What a deletion leaves is marked.\<close>

lemma after_delete_marked: "Option.bind x after_delete = Some obj \<Longrightarrow> o_Deleting obj"
  by (cases x) (auto simp: after_delete_def split: if_splits)

lemma prune_obj_marked: "prune_obj own c = Some obj \<Longrightarrow> own obj \<Longrightarrow> o_Deleting obj"
  by (auto simp: prune_obj_def after_delete_def split: option.splits if_splits)

lemma uninstall_step_marked:
  assumes "uninstall_step p s ref = Some c"
    and "ref \<in> range (mcp_secret p) \<and> image_own c \<or>
      ref \<in> range (platform_secret p (p_tenantNamespace p)) \<and> chart_own c"
  shows "o_Deleting c"
  using assms
  by (auto simp: uninstall_step_def Let_def bind_eq_Some_conv prune_obj_def after_delete_def split: if_splits option.splits)

context kube_api
begin

lemma RemoveCABundle_cells:
  assumes "RemoveCABundle api p w = (Inr u, w')"
  shows "view w' r = Option.bind (view w r) after_delete \<or> view w' r = view w r"
proof (cases "p_caBundleSecret p = []")
  case True
  have "view w' = pruned (view w) (p_platformClient p) (p_tenantNamespace p) [(caBundleLabel, ''true'')] []"
    by (rule prune_ok [OF assms [unfolded prune_shapes(3) [OF True]]])
  then show ?thesis by (auto simp: pruned_def split: prod.splits option.splits)
next
  case False
  then have "IgnoreNotFound (api_Delete api (ca_target p)) w = (Inr u, w')"
    using assms by (simp add: RemoveCABundle_def ca_target_def)
  from ignore_delete_ok [OF this] show ?thesis by (simp add: deleted_def)
qed

end

text \<open>The secrets an installation manages: labelled copies, and the copy of the CA bundle.\<close>

definition manages_secret :: "provisioner \<Rightarrow> obj_ref \<Rightarrow> kobj \<Rightarrow> bool" where
  "manages_secret p ref obj \<longleftrightarrow>
     ref \<in> range (mcp_secret p) \<and> image_own obj \<or>
     ref \<in> range (platform_secret p (p_tenantNamespace p)) \<and> chart_own obj \<or>
     ref = ca_target p \<and> p_caBundleSecret p \<noteq> []"

text \<open>C3. When deleting reports that it is done, the tenant had no Argo CD resources left, and of what the
  installation had declared nothing is left: the four Flux resources are gone, and every copied
  pull secret and the copy of the CA bundle is gone or, while others hold it with a finalizer, marked
  for deletion.\<close>

theorem delete_done_means_gone:
  assumes "reconciler env view" and "Delete env r pc ctx obj w = ((obj', Inr 0), w')"
  shows "\<exists>p. newProvisioner env r obj pc ctx = Inr p \<and> user_resources (view w) p = {} \<and>
    (\<forall>ref \<in> flux_refs p. view w' ref = None) \<and>
    (\<forall>ref c. view w' ref = Some c \<and> manages_secret p ref c \<longrightarrow> o_Deleting c)"
  using assms
proof (cases rule: Delete_paths)
  case (started p o2 w1)
  have api: "kube_api (env_api env) view" using assms(1) by (rule reconciler.axioms)
  from assms(1) started(5) show ?thesis
  proof (cases rule: uninstall_paths)
    case (last w2 w3 x)
    then obtain u where ca: "RemoveCABundle (env_api env) p w3 = (Inr u, w')" by (cases x) auto
    have w2: "view w3 = uninstall_step p (view w1)"
      using kube_api.Uninstall_ok [OF api last(1)] last(2) by simp
    have "view w' ref = None" if "ref \<in> flux_refs p" for ref
      using flux_after_ca [OF api ca that] last(2,4) that by simp
    moreover have "o_Deleting c" if c: "view w' ref = Some c" and own: "manages_secret p ref c" for ref c
      using kube_api.RemoveCABundle_cells [OF api ca, of ref]
    proof
      assume "view w' ref = Option.bind (view w3 ref) after_delete"
      then show ?thesis using c after_delete_marked [of "view w3 ref" c] by simp
    next
      assume same: "view w' ref = view w3 ref"
      show ?thesis
      proof (cases "ref = ca_target p \<and> p_caBundleSecret p \<noteq> []")
        case True
        then have "view w' ref = Option.bind (view w3 ref) after_delete"
          using kube_api.RemoveCABundle_ok [OF api ca] by blast
        then show ?thesis using c after_delete_marked [of "view w3 ref" c] by simp
      next
        case False
        then show ?thesis using uninstall_step_marked [of p "view w1" ref c] same c own w2
          by (auto simp: manages_secret_def)
      qed
    qed
    ultimately show ?thesis using started(1-3) unfolding manages_secret_def by blast
  qed simp_all
qed simp_all

section \<open>Getting there\<close>

context reconciler_up
begin

lemma list_answers: "\<exists>items w'. listResourcesByGVK (env_api env) p k msg w = (Inr items, w')"
proof -
  obtain items w1 where "api_List (env_api env) (p_mcpClient p) k None [] w = (Inr items, w1)"
    using list_up by (metis prod.collapse)
  then show ?thesis by (simp add: listResourcesByGVK_def io_try_eq io_return_def)
qed

lemma Count_answers: "\<exists>n w'. CountUserArgoCDResources (env_api env) p w = (Inr n, w')"
proof -
  obtain a w1 where a: "listResourcesByGVK (env_api env) p KApplication ''ArgoCD Applications'' w = (Inr a, w1)"
    using list_answers by blast
  obtain s w2 where s: "listResourcesByGVK (env_api env) p KApplicationSet ''ArgoCD ApplicationSets'' w1 = (Inr s, w2)"
    using list_answers by blast
  obtain ps w3 where "listResourcesByGVK (env_api env) p KAppProject ''ArgoCD AppProjects'' w2 = (Inr ps, w3)"
    using list_answers by blast
  with a s show ?thesis
    by (simp add: CountUserArgoCDResources_def countResourcesByGVK_def countUserAppProjects_def io_bind_def io_return_def)
qed

lemma RemoveCABundle_answers: "\<exists>w'. RemoveCABundle (env_api env) p w = (Inr (), w')"
proof (cases "p_caBundleSecret p = []")
  case True
  then show ?thesis using prune_succeeds unfolding prune_shapes(3) [OF True] by blast
next
  case False
  then show ?thesis using delete_succeeds [of "ca_target p"]
    by (simp add: RemoveCABundle_def ca_target_def)
qed

lemma Delete_progress:
  assumes np: "newProvisioner env r obj pc ctx = Inr p" and free: "user_resources (view w) p = {}"
    and finished: "finished \<longleftrightarrow> (\<forall>ref \<in> flux_refs p. uninstall_step p (view w) ref = None)"
  shows "\<exists>obj' w'. Delete env r pc ctx obj w = ((obj', Inr (if finished then 0 else requeueInterval)), w') \<and>
    (\<forall>ref. ref \<notin> range (platform_secret p (p_tenantNamespace p)) \<union> range (mcp_secret p) \<longrightarrow>
       view w' ref = uninstall_step p (view w) ref) \<and>
    (finished \<and> p_caBundleSecret p \<noteq> [] \<longrightarrow>
       view w' (ca_target p) = Option.bind (uninstall_step p (view w) (ca_target p)) after_delete)"
proof -
  obtain o2 where o2: "o2 = StatusTerminatingWithReason (env_status env) reasonTerminating
                  ''Resource termination initiated; cleanup tasks are in progress'' obj" by blast
  have same: "newProvisioner env r o2 pc ctx = Inr p"
    using newProvisioner_status [of o2 obj env r pc ctx] np by (simp add: o2)
  obtain n w1 where c: "CountUserArgoCDResources (env_api env) p w = (Inr n, w1)" using Count_answers by blast
  have n: "n = 0" using Count_zero [OF c] free by simp
  have v1: "view w1 = view w" by (rule readsD [OF Count_reads c])
  obtain w2 where u: "Uninstall (env_api env) p w1 = (Inr (), w2)" and v2: "view w2 = uninstall_step p (view w)"
    using Uninstall_succeeds [of p w1] v1 by metis
  obtain w3 where "IsUninstalled (env_api env) p w2 = (Inr (\<forall>ref \<in> flux_refs p. view w2 ref = None), w3)"
    using IsUninstalled_succeeds by blast
  then have g: "IsUninstalled (env_api env) p w2 = (Inr finished, w3)" by (simp only: v2 finished)
  have v3: "view w3 = view w2" by (rule readsD [OF IsUninstalled_reads g])
  obtain w4 where r: "RemoveCABundle (env_api env) p w3 = (Inr (), w4)" using RemoveCABundle_answers by blast
  have body: "Delete env r pc ctx obj w =
      (if finished then ((o2, Inr 0), w4) else ((o2, Inr requeueInterval), w3))"
    using same c n u g r by (simp add: Delete_def Let_def o2 uninstall_and_report_def)
  show ?thesis
  proof (cases finished)
    case True
    have "view w4 ref = view w3 ref"
      if "ref \<notin> range (platform_secret p (p_tenantNamespace p)) \<union> range (mcp_secret p)" for ref
      by (rule ca_keeps_elsewhere [OF kube_api_axioms r]) (use that in auto)
    moreover have "p_caBundleSecret p \<noteq> [] \<longrightarrow>
        view w4 (ca_target p) = Option.bind (uninstall_step p (view w) (ca_target p)) after_delete"
      using RemoveCABundle_ok [OF r] v2 v3 by simp
    ultimately show ?thesis using body True v2 v3 by simp
  next
    case False
    then show ?thesis using body False v2 v3 by simp
  qed
qed

end

lemma user_resources_same:
  "(\<And>k ns n. k \<in> {KApplication, KApplicationSet, KAppProject} \<Longrightarrow>
      s (p_mcpClient p, k, ns, n) = t (p_mcpClient p, k, ns, n)) \<Longrightarrow>
   user_resources s p = user_resources t p"
  by (simp add: user_resources_def)

lemma uninstall_other_kinds:
  "k \<notin> {KSecret, KHelmRelease, KOCIRepository} \<Longrightarrow> uninstall_step p s (c, k, ns, n) = s (c, k, ns, n)"
  by (auto simp: uninstall_step_def flux_refs_def reloader_refs_def flux_ref_def mcp_secret_def platform_secret_def Let_def)

lemma example_no_user_resources: "user_resources (mem_view example_world) example_p = {}"
  by (simp add: user_resources_empty example_world_simps)

lemma delete_done_means_gone_witness:
  "\<exists>obj' w'. Delete (example_env (\<lambda>_. None)) example_r example_pc example_ctx example_obj example_world =
       ((obj', Inr 0), w') \<and>
     (\<forall>ref \<in> flux_refs example_p. mem_view w' ref = None)"
proof -
  have gone: "\<forall>ref \<in> flux_refs example_p. uninstall_step example_p (mem_view example_world) ref = None"
    by (auto simp: uninstall_step_def flux_refs_def reloader_refs_def flux_ref_def example_world_simps)
  obtain obj' w' where run: "Delete (example_env (\<lambda>_. None)) example_r example_pc example_ctx example_obj example_world =
       ((obj', Inr 0), w')"
    using example_up.Delete_progress [OF example_provisioner example_no_user_resources, of True] gone by auto
  from delete_done_means_gone [OF example.reconciler_axioms run] run example_provisioner show ?thesis by fastforce
qed


section \<open>Order\<close>

text \<open>C19. The copy of the CA bundle goes last: however deleting ends, if a copy that is not labelled
  as a chart pull secret has changed, then none of the Flux resources that refer to it is left. (A copy that
  also serves as a pull secret goes with those, before the Flux resources are gone.)\<close>

theorem ca_bundle_removed_last:
  assumes "reconciler env view" and "Delete env r pc ctx obj w = ((obj', out), w')"
    and "newProvisioner env r obj pc ctx = Inr p" and "p_platformClient p \<noteq> p_mcpClient p"
    and "view w (ca_target p) = Some c" and "\<not> chart_own c" and "view w' (ca_target p) \<noteq> Some c"
  shows "\<forall>ref \<in> flux_refs p. view w' ref = None"
  using assms(1,2)
proof (cases rule: Delete_paths)
  case (started p' o2 w1)
  have api: "kube_api (env_api env) view" using assms(1) by (rule reconciler.axioms)
  have p: "p' = p" using started(1) assms(3) by simp
  have kept: "view w2 (ca_target p) = Some c" if "Uninstall (env_api env) p w1 = (x, w2)" for x w2
  proof -
    have "view w2 (ca_target p) = view w1 (ca_target p)"
      by (rule hands_offD [OF io_keepsD [OF kube_api.Uninstall_hands_off [OF api] that]])
         (use assms(4-6) started(3) secret_not_flux in
           \<open>auto simp: ca_target_def platform_secret_def mcp_secret_def\<close>)
    then show ?thesis using started(3) assms(5) by simp
  qed
  from assms(1) started(5) show ?thesis
  proof (cases rule: uninstall_paths)
    case (last w2 w3 x)
    then show ?thesis using flux_after_ca [OF api last(5)] by (simp add: p)
  qed (use kept assms(7) p in auto)
qed (use assms(5,7) in auto)

definition example_ca_world :: mem_store where
  "example_ca_world = [(''platform'', new_object ''corp-ca'' ''tenant'' (Secret ''Opaque'' []))]"

lemma ca_bundle_removed_last_witness:
  "\<exists>p obj' w'. newProvisioner (example_env (\<lambda>_. None)) example_r example_obj example_ca_pc example_ctx = Inr p \<and>
     Delete (example_env (\<lambda>_. None)) example_r example_ca_pc example_ctx example_obj example_ca_world = ((obj', Inr 0), w') \<and>
     mem_view w' (ca_target p) = None \<and> (\<forall>ref \<in> flux_refs p. mem_view w' ref = None)"
proof -
  let ?env = "example_env (\<lambda>_. None)" and ?c = "new_object ''corp-ca'' ''tenant'' (Secret ''Opaque'' [])"
  obtain p where p: "newProvisioner ?env example_r example_obj example_ca_pc example_ctx = Inr p"
    using newProvisioner_total [OF example_access] by blast
  have fields: "p_platformClient p = ''platform''" "p_mcpClient p = ''mcp''" "p_caBundleSecret p = ''corp-ca''"
    using newProvisioner_fields [OF p] by (simp_all add: example_r_def example_ctx_def example_ca_pc_def)
  have tenant: "p_tenantNamespace p = ''tenant''"
    using p by (auto simp: newProvisioner_def NewProvisioner_def example_ctx_def Let_def split: prod.splits)
  have target: "ca_target p = (''platform'', KSecret, ''tenant'', ''corp-ca'')"
    by (simp add: ca_target_def platform_secret_def fields tenant)
  have stored: "mem_view example_ca_world (ca_target p) = Some ?c"
    by (simp add: target example_ca_world_def mem_view_Cons ref_of_def key_of_def new_object_def)
  have only: "mem_view example_ca_world ref = None" if "fst (snd ref) \<noteq> KSecret" for ref
    using that by (auto simp: example_ca_world_def mem_view_Cons ref_of_def key_of_def new_object_def)
  have free: "user_resources (mem_view example_ca_world) p = {}" by (simp add: user_resources_empty only)
  have gone: "True \<longleftrightarrow> (\<forall>ref \<in> flux_refs p. uninstall_step p (mem_view example_ca_world) ref = None)"
    by (auto simp: uninstall_step_def flux_refs_def reloader_refs_def flux_ref_def only)
  have step: "uninstall_step p (mem_view example_ca_world) (ca_target p) = Some ?c"
    using stored secret_not_flux [of p "p_tenantNamespace p" "p_caBundleSecret p"]
    by (auto simp: uninstall_step_def Let_def prune_obj_def chart_own_def label_of_def new_object_def
        ca_target_def mcp_secret_def platform_secret_def fields)
  obtain obj' w' where run: "Delete ?env example_r example_ca_pc example_ctx example_obj example_ca_world = ((obj', Inr 0), w')"
    and ca: "mem_view w' (ca_target p) = None"
    using example_up.Delete_progress [OF p free gone] step fields(3)
    by (auto simp: after_delete_def new_object_def)
  have "\<forall>ref \<in> flux_refs p. mem_view w' ref = None"
  proof (rule ca_bundle_removed_last [OF example.reconciler_axioms run p _ stored])
    show "p_platformClient p \<noteq> p_mcpClient p" by (simp add: fields)
    show "\<not> chart_own ?c" by (simp add: chart_own_def label_of_def new_object_def)
    show "mem_view w' (ca_target p) \<noteq> Some ?c" by (simp add: ca)
  qed
  with p run ca show ?thesis by blast
qed

section \<open>Two rounds\<close>

context reconciler
begin

lemma failed_same [simp]:
  "Spec (StatusFailed (env_status env) r m obj) = Spec obj"
  "Name (StatusFailed (env_status env) r m obj) = Name obj"
  "Namespace (StatusFailed (env_status env) r m obj) = Namespace obj"
  using failed_frame [of obj r m] by (auto simp: same_but_status_def)

text \<open>The handler writes the status of the resource and nothing else of it.\<close>

lemma Delete_frame:
  assumes "Delete env r pc ctx obj w = ((obj', out), w')"
  shows "Spec obj' = Spec obj \<and> Name obj' = Name obj \<and> Namespace obj' = Namespace obj"
  using assms
  by (auto simp: Delete_def Let_def uninstall_and_report_def split: sum.splits prod.splits if_splits)

end

text \<open>C7. Deletion gets done. On clusters that answer and without resources of the user's, the first
  round marks the Flux resources; once Flux has removed them, and whatever the status of the
  resource then is, the next round finishes.\<close>

theorem deletion_completes:
  assumes "reconciler_up env view" and "newProvisioner env r obj pc ctx = Inr p"
    and "user_resources (view w) p = {}"
  shows "\<exists>obj1 n1 w1. Delete env r pc ctx obj w = ((obj1, Inr n1), w1) \<and>
    (\<forall>w2 obj2. (\<forall>ref. view w2 ref = (if ref \<in> flux_refs p then None else view w1 ref)) \<and>
       Spec obj2 = Spec obj \<and> Name obj2 = Name obj \<and> Namespace obj2 = Namespace obj \<longrightarrow>
       (\<exists>obj3 w3. Delete env r pc ctx obj2 w2 = ((obj3, Inr 0), w3)))"
proof -
  obtain obj1 n1 w1 where run: "Delete env r pc ctx obj w = ((obj1, Inr n1), w1)"
    and v1: "\<forall>ref. ref \<notin> range (platform_secret p (p_tenantNamespace p)) \<union> range (mcp_secret p) \<longrightarrow>
       view w1 ref = uninstall_step p (view w) ref"
    using reconciler_up.Delete_progress [OF assms refl] by blast
  have "\<exists>obj3 w3. Delete env r pc ctx obj2 w2 = ((obj3, Inr 0), w3)"
    if v2: "\<And>ref. view w2 ref = (if ref \<in> flux_refs p then None else view w1 ref)"
      and same: "Spec obj2 = Spec obj" "Name obj2 = Name obj" "Namespace obj2 = Namespace obj" for w2 obj2
  proof -
    have np: "newProvisioner env r obj2 pc ctx = Inr p" using newProvisioner_status [OF same, of env r pc ctx] assms(2) by simp
    have "view w2 (p_mcpClient p, k, ns, n) = view w (p_mcpClient p, k, ns, n)"
      if k: "k \<in> {KApplication, KApplicationSet, KAppProject}" for k ns n
    proof -
      have "(p_mcpClient p, k, ns, n) \<notin> range (platform_secret p (p_tenantNamespace p)) \<union> range (mcp_secret p)"
        "(p_mcpClient p, k, ns, n) \<notin> flux_refs p"
        using k by (auto simp: platform_secret_def mcp_secret_def flux_refs_def reloader_refs_def flux_ref_def)
      then have "view w2 (p_mcpClient p, k, ns, n) = uninstall_step p (view w) (p_mcpClient p, k, ns, n)"
        using v1 v2 by simp
      also have "\<dots> = view w (p_mcpClient p, k, ns, n)"
        by (rule uninstall_other_kinds) (use k in auto)
      finally show ?thesis .
    qed
    then have free: "user_resources (view w2) p = {}"
      using user_resources_same [of "view w2" p "view w"] assms(3) by simp
    have "\<forall>ref \<in> flux_refs p. uninstall_step p (view w2) ref = None"
      using v2 by (simp add: uninstall_step_def)
    then show ?thesis using reconciler_up.Delete_progress [OF assms(1) np free, of True] by auto
  qed
  with run show ?thesis by blast
qed

lemma deletion_completes_witness:
  "\<exists>obj1 n1 w1 w2 obj3 w3.
     Delete (example_env (\<lambda>_. None)) example_r example_pc example_ctx example_obj example_ready_world = ((obj1, Inr n1), w1) \<and>
     Delete (example_env (\<lambda>_. None)) example_r example_pc example_ctx obj1 w2 = ((obj3, Inr 0), w3)"
proof -
  let ?run = "Delete (example_env (\<lambda>_. None)) example_r example_pc example_ctx"
  have "user_resources (mem_view example_ready_world) example_p = {}"
    using example_no_user_resources by (simp add: user_resources_def example_ready_view)
  from deletion_completes [OF example_up.reconciler_up_axioms example_provisioner this]
  obtain obj1 n1 w1 where run: "?run example_obj example_ready_world = ((obj1, Inr n1), w1)"
    and next_round: "\<And>w2 obj2. (\<forall>ref. mem_view w2 ref = (if ref \<in> flux_refs example_p then None else mem_view w1 ref)) \<and>
       Spec obj2 = Spec example_obj \<and> Name obj2 = Name example_obj \<and> Namespace obj2 = Namespace example_obj \<Longrightarrow>
       (\<exists>obj3 w3. ?run obj2 w2 = ((obj3, Inr 0), w3))" by blast
  let ?w2 = "mem_del (flux_ref example_p KHelmRelease helmReleaseName)
    (mem_del (flux_ref example_p KOCIRepository ociRepositoryName)
    (mem_del (flux_ref example_p KOCIRepository reloaderOCIRepositoryName)
    (mem_del (flux_ref example_p KHelmRelease reloaderHelmReleaseName) w1)))"
  have "\<forall>ref. mem_view ?w2 ref = (if ref \<in> flux_refs example_p then None else mem_view w1 ref)"
    by (auto simp: mem_view_del flux_refs_def reloader_refs_def)
  moreover have "Spec obj1 = Spec example_obj \<and> Name obj1 = Name example_obj \<and> Namespace obj1 = Namespace example_obj"
    by (rule example.Delete_frame [OF run])
  ultimately have "\<exists>obj3 w3. ?run obj1 ?w2 = ((obj3, Inr 0), w3)" by (intro next_round) blast
  with run show ?thesis by blast
qed

end
