(* ===== verification/Lifecycle.thy ===== *)
theory Lifecycle
  imports Deletion
begin

text \<open>
  The life of a provider. Kubernetes calls the handlers again and again, for many resources, in any
  order, and their client calls may fail at any point: a step of the transition relation is one
  call of a handler, for some resource, configuration and cluster context, however it ends. The
  locale \<open>handler_run\<close> asks of a relation between worlds what the provisioner's operations
  already satisfy and concludes it for every sequence of steps; it is instantiated for the frame of a
  tenant and for the discipline of the writes. The last section gives the two rounds by which a
  resource becomes Ready.
\<close>

section \<open>Steps\<close>

text \<open>One call of a handler, on behalf of requests whose provisioner satisfies \<open>P\<close>.\<close>

inductive provider_step :: "'w env \<Rightarrow> ArgoCDReconciler \<Rightarrow> (provisioner \<Rightarrow> bool) \<Rightarrow> 'w \<Rightarrow> 'w \<Rightarrow> bool"
  for env :: "'w env" and r :: ArgoCDReconciler and P :: "provisioner \<Rightarrow> bool" where
  update: "CreateOrUpdate env r pc ctx obj w = (x, w') \<Longrightarrow>
     (\<And>p. newProvisioner env r obj pc ctx = Inr p \<Longrightarrow> P p) \<Longrightarrow> provider_step env r P w w'"
| delete: "Delete env r pc ctx obj w = (x, w') \<Longrightarrow>
     (\<And>p. newProvisioner env r obj pc ctx = Inr p \<Longrightarrow> P p) \<Longrightarrow> provider_step env r P w w'"

inductive_cases provider_stepE: "provider_step env r P w w'"

abbreviation provider_runs :: "'w env \<Rightarrow> ArgoCDReconciler \<Rightarrow> (provisioner \<Rightarrow> bool) \<Rightarrow> 'w \<Rightarrow> 'w \<Rightarrow> bool" where
  "provider_runs env r P \<equiv> (provider_step env r P)\<^sup>*\<^sup>*"

section \<open>What every handler keeps\<close>

context reconciler
begin

text \<open>Everything the update handler does to the clusters is what \<^verbatim>\<open>Install\<close> does.\<close>

lemma install_and_report_view:
  assumes run: "install_and_report env p v o2 w = ((obj', out), w')"
  obtains x w1 where "Install (env_values env) (env_api env) p v w = (x, w1)" and "view w' = view w1"
proof -
  obtain x w1 where i: "Install (env_values env) (env_api env) p v w = (x, w1)" by fastforce
  obtain y w2 where g: "Ready (env_api env) p w1 = (y, w2)" by fastforce
  obtain z w3 where e: "Endpoint (env_api env) p w2 = (z, w3)" by fastforce
  have "w' \<in> {w1, w2, w3}"
    using run i g e
    by (auto simp: install_and_report_def reconcileEndpoint_def split: sum.splits prod.splits if_splits)
  moreover have "view w2 = view w1" by (rule readsD [OF Ready_reads g])
  moreover have "view w3 = view w2" by (rule readsD [OF Endpoint_reads e])
  ultimately show thesis using that [OF i] by auto
qed

end

locale handler_run = reconciler env view + run_relation R
  for env :: "'w env" and view :: "'w \<Rightarrow> store" and P :: "provisioner \<Rightarrow> bool" and R :: "'w \<Rightarrow> 'w \<Rightarrow> bool" +
  assumes same_run: "view w' = view w \<Longrightarrow> R w w'"
    and Install_runs: "P p \<Longrightarrow> io_keeps R (Install (env_values env) (env_api env) p version)"
    and Uninstall_runs: "P p \<Longrightarrow> io_keeps R (Uninstall (env_api env) p)"
    and RemoveCABundle_runs: "P p \<Longrightarrow> io_keeps R (RemoveCABundle (env_api env) p)"
begin

lemma update_runs:
  assumes run: "CreateOrUpdate env r pc ctx obj w = ((obj', out), w')"
    and served: "\<And>p. newProvisioner env r obj pc ctx = Inr p \<Longrightarrow> P p"
  shows "R w w'"
  using run
proof (cases rule: CreateOrUpdate_cases)
  case (started p v o2 w1)
  obtain x w2 where i: "Install (env_values env) (env_api env) p v w1 = (x, w2)" and v: "view w' = view w2"
    by (rule install_and_report_view [OF started(8)])
  have "R w w1" by (rule same_run) (rule started(6))
  moreover have "R w1 w2" by (rule io_keepsD [OF Install_runs [OF served [OF started(3)]] i])
  moreover have "R w2 w'" by (rule same_run) (rule v)
  ultimately show ?thesis using trans_run by blast
qed (auto intro: same_run)

lemma delete_runs:
  assumes run: "Delete env r pc ctx obj w = ((obj', out), w')"
    and served: "\<And>p. newProvisioner env r obj pc ctx = Inr p \<Longrightarrow> P p"
  shows "R w w'"
  using run
proof (cases rule: Delete_cases)
  case (started p o2 w1)
  have un: "R w w2" if "Uninstall (env_api env) p w1 = (x, w2)" for x w2
    using same_run [OF started(3)] io_keepsD [OF Uninstall_runs [OF served [OF started(1)]] that] trans_run by blast
  from started(5) show ?thesis
  proof (cases rule: uninstall_and_report_cases)
    case (stuck e)
    then show ?thesis using un by blast
  next
    case (unknown e w2)
    then show ?thesis using un same_run trans_run by blast
  next
    case (waiting w2 ref)
    then show ?thesis using un same_run trans_run by blast
  next
    case (last w2 w3 x)
    have "R w3 w'" by (rule io_keepsD [OF RemoveCABundle_runs [OF served [OF started(1)]] last(5)])
    then show ?thesis using un [OF last(1)] same_run [OF last(2)] trans_run by blast
  qed
qed (auto intro: same_run)

lemma step_run: "provider_step env r P w w' \<Longrightarrow> R w w'"
proof (erule provider_stepE)
  fix pc ctx obj x
  assume "CreateOrUpdate env r pc ctx obj w = (x, w')" "\<And>p. newProvisioner env r obj pc ctx = Inr p \<Longrightarrow> P p"
  then show "R w w'" by (cases x) (auto intro: update_runs)
next
  fix pc ctx obj x
  assume "Delete env r pc ctx obj w = (x, w')" "\<And>p. newProvisioner env r obj pc ctx = Inr p \<Longrightarrow> P p"
  then show "R w w'" by (cases x) (auto intro: delete_runs)
qed

lemma runs: "provider_runs env r P w w' \<Longrightarrow> R w w'"
  by (induction rule: rtranclp_induct) (blast intro: refl_run step_run trans_run)+

end

text \<open>Three relations are instances, for every reconciler.\<close>

lemma domain_covers:
  "install_scope p version \<subseteq> domain p" "flux_refs p \<subseteq> domain p" "ca_target p \<in> domain p"
  "owned_secret p ref obj \<Longrightarrow> ref \<in> domain p"
  by (auto simp: domain_def install_scope_def flux_refs_def reloader_refs_def flux_ref_def ca_target_def
      platform_secret_def mcp_secret_def owned_secret_def)

lemma hands_off_outside:
  assumes "hands_off view owned A w w'" and "A \<subseteq> D" and "\<And>ref obj. owned ref obj \<Longrightarrow> ref \<in> D"
  shows "same_outside view D w w'"
  unfolding same_outside_def
proof (intro allI impI)
  fix ref
  assume "ref \<notin> D"
  then have "ref \<notin> A" "\<not> owned ref obj" for obj using assms(2,3) by blast+
  then show "view w' ref = view w ref" by (rule hands_offD [OF assms(1)])
qed

lemma keeps_outside:
  assumes "io_keeps (hands_off view owned A) m" and "A \<subseteq> D" and "\<And>ref obj. owned ref obj \<Longrightarrow> ref \<in> D"
  shows "io_keeps (same_outside view D) m"
proof (rule io_keepsI)
  fix w x w'
  assume "m w = (x, w')"
  then have "hands_off view owned A w w'" by (rule io_keepsD [OF assms(1)])
  then show "same_outside view D w w'" by (rule hands_off_outside) (use assms(2,3) in blast)+
qed

sublocale reconciler < outside: handler_run env view P "same_outside view (\<Union>p \<in> Collect P. domain p)" for P
proof unfold_locales
  fix p version
  let ?D = "\<Union>p \<in> Collect P. domain p"
  assume "P p"
  then have D: "domain p \<subseteq> ?D" by blast
  have own: "ref \<in> ?D" if "owned_secret p ref obj" for ref obj using subsetD [OF D domain_covers(4) [OF that]] .
  show "io_keeps (same_outside view ?D) (Install (env_values env) (env_api env) p version)"
    by (rule keeps_outside [OF Install_hands_off subset_trans [OF domain_covers(1) D] own])
  show "io_keeps (same_outside view ?D) (Uninstall (env_api env) p)"
    by (rule keeps_outside [OF Uninstall_hands_off subset_trans [OF domain_covers(2) D] own])
       (auto simp: owned_secret_def)
  show "io_keeps (same_outside view ?D) (RemoveCABundle (env_api env) p)"
    by (rule keeps_outside [OF RemoveCABundle_hands_off [OF singletonI] _ own])
       (use subsetD [OF D domain_covers(3)] in simp)
qed (simp add: same_outside_def)

sublocale reconciler < stamped_steps: handler_run env view P "stamped_writes view" for P
proof unfold_locales
  show "stamped_writes view w w'" if "view w' = view w" for w w' using that by (rule stamped_same)
qed (rule stamped_runs)+

sublocale reconciler < finalizer_steps: handler_run env view P "finalizers_kept view" for P
proof unfold_locales
  show "finalizers_kept view w w'" if "view w' = view w" for w w' using that by (rule finalizers_same)
qed (rule finalizer_runs)+

context reconciler
begin

lemmas runs_outside = outside.runs
lemmas update_outside = outside.update_runs
lemmas runs_stamped = stamped_steps.runs
lemmas runs_finalizers = finalizer_steps.runs

end

lemma provider_step_mono:
  assumes "provider_step env r P w w'"
    and "\<And>obj pc ctx p. newProvisioner env r obj pc ctx = Inr p \<Longrightarrow> P p \<Longrightarrow> Q p"
  shows "provider_step env r Q w w'"
  using assms(1)
proof cases
  case (update pc ctx obj x)
  show ?thesis by (rule provider_step.update [OF update(1)]) (rule assms(2), assumption, rule update(2))
next
  case (delete pc ctx obj x)
  show ?thesis by (rule provider_step.delete [OF delete(1)]) (rule assms(2), assumption, rule delete(2))
qed

lemma provider_runs_mono:
  assumes "provider_runs env r P w w'"
    and "\<And>obj pc ctx p. newProvisioner env r obj pc ctx = Inr p \<Longrightarrow> P p \<Longrightarrow> Q p"
  shows "provider_runs env r Q w w'"
  using assms(1)
proof (induction rule: rtranclp_induct)
  case (step w1 w2)
  have "provider_step env r Q w1 w2" by (rule provider_step_mono [OF step(2)]) (rule assms(2))
  with step(3) show ?case by (rule rtranclp.rtrancl_into_rtrancl)
qed simp

section \<open>Isolation\<close>

text \<open>C4. Tenants are isolated: whatever sequence of updates and deletions the provider serves for other
  tenants, with whatever failures, every object in a tenant's namespace on the platform cluster
  stays as it is. With the pod namespace for the tenant's: the source secrets are never written.\<close>

theorem tenant_isolation:
  assumes "reconciler env view"
    and "provider_runs env r (\<lambda>p. p_tenantNamespace p \<noteq> T \<and> p_mcpClient p \<noteq> PlatformCluster r) w w'"
  shows "view w' (PlatformCluster r, k, T, n) = view w (PlatformCluster r, k, T, n)"
proof (rule same_outsideD [OF reconciler.runs_outside [OF assms]])
  show "(PlatformCluster r, k, T, n) \<notin>
      (\<Union>p \<in> Collect (\<lambda>p. p_tenantNamespace p \<noteq> T \<and> p_mcpClient p \<noteq> PlatformCluster r). domain p)"
    by (auto simp: domain_def mcp_namespace_ref_def)
qed

lemma tenant_isolation_witness:
  "mem_view (snd (CreateOrUpdate (example_env (\<lambda>_. None)) example_r example_pc example_ctx example_obj example_world))
     (''platform'', KSecret, ''sp'', ''regcred'') =
   mem_view example_world (''platform'', KSecret, ''sp'', ''regcred'')"
proof -
  let ?w' = "snd (CreateOrUpdate (example_env (\<lambda>_. None)) example_r example_pc example_ctx example_obj example_world)"
  have "provider_step (example_env (\<lambda>_. None)) example_r (\<lambda>p. p_tenantNamespace p \<noteq> ''sp'' \<and> p_mcpClient p \<noteq> PlatformCluster example_r)
      example_world ?w'"
    by (rule provider_step.update [OF prod.collapse [symmetric]])
       (use example_provisioner in \<open>auto simp: example_r_def\<close>)
  then have "provider_runs (example_env (\<lambda>_. None)) example_r
      (\<lambda>p. p_tenantNamespace p \<noteq> ''sp'' \<and> p_mcpClient p \<noteq> PlatformCluster example_r) example_world ?w'"
    by (rule r_into_rtranclp)
  from tenant_isolation [OF example.reconciler_axioms this, of KSecret "''regcred''"]
  show ?thesis by (simp add: example_r_def)
qed

text \<open>C28. On a control plane the provider writes secrets and namespaces only: no sequence of handler
  calls, for any requests, changes an application, a project, a service or any object of
  another kind there.\<close>

theorem control_plane_left_to_its_owner:
  assumes "reconciler env view" and "provider_runs env r (\<lambda>_. True) w w'"
    and "c \<noteq> PlatformCluster r" and "k \<notin> {KSecret, KNamespace}"
  shows "view w' (c, k, ns, n) = view w (c, k, ns, n)"
proof -
  have "provider_runs env r (\<lambda>p. p_platformClient p = PlatformCluster r) w w'"
    by (rule provider_runs_mono [OF assms(2)]) (rule newProvisioner_fields)
  then show ?thesis
    by (rule same_outsideD [OF reconciler.runs_outside [OF assms(1)]])
       (use assms(3,4) in \<open>auto simp: domain_def mcp_namespace_ref_def\<close>)
qed

lemma control_plane_left_to_its_owner_witness:
  "mem_view (snd (Delete (example_env (\<lambda>_. None)) example_r example_pc example_ctx example_obj example_user_world))
     (''mcp'', KApplication, ''apps'', ''shop'') =
   mem_view example_user_world (''mcp'', KApplication, ''apps'', ''shop'')"
proof -
  have "provider_step (example_env (\<lambda>_. None)) example_r (\<lambda>_. True) example_user_world
      (snd (Delete (example_env (\<lambda>_. None)) example_r example_pc example_ctx example_obj example_user_world))"
    by (rule provider_step.delete [OF prod.collapse [symmetric] TrueI])
  from control_plane_left_to_its_owner [OF example.reconciler_axioms r_into_rtranclp [where r = "provider_step _ _ _", OF this],
      of "''mcp''" KApplication]
  show ?thesis by (simp add: example_r_def)
qed

text \<open>The namespace a request names can be changed, and the old one is then forgotten: as long as every
  request for a control plane names other namespaces, no update and no deletion touches a secret of
  the old one. The pull secrets copied there stay, also when the installation is deleted.\<close>

theorem old_namespace_is_forgotten:
  assumes "reconciler env view"
    and "provider_runs env r (\<lambda>p. p_mcpClient p \<noteq> c \<or> p_mcpNamespace p \<noteq> ns) w w'" and "c \<noteq> PlatformCluster r"
  shows "view w' (c, KSecret, ns, n) = view w (c, KSecret, ns, n)"
proof -
  have "provider_runs env r (\<lambda>p. p_platformClient p = PlatformCluster r \<and> (p_mcpClient p \<noteq> c \<or> p_mcpNamespace p \<noteq> ns)) w w'"
    by (rule provider_runs_mono [OF assms(2)]) (blast intro: newProvisioner_fields)
  then show ?thesis
    by (rule same_outsideD [OF reconciler.runs_outside [OF assms(1)]])
       (use assms(3) in \<open>auto simp: domain_def mcp_namespace_ref_def\<close>)
qed

definition example_moved :: ArgoCD where
  "example_moved = example_obj\<lparr>Spec := (Spec example_obj)\<lparr>spec_NamespaceOverride := ''gitops''\<rparr>\<rparr>"

text \<open>The control plane after an installation in the default namespace and its removal by Flux.\<close>

definition example_left_over :: kobj where
  "example_left_over = set_label managedByLabel imagePullSecretManagedByValue
     (new_object ''regcred'' ''argocd'' (Secret ''docker'' []))"

lemma old_namespace_is_forgotten_witness:
  "\<exists>obj' w'. Delete (example_env (\<lambda>_. None)) example_r example_pc example_ctx example_moved [(''mcp'', example_left_over)] =
       ((obj', Inr 0), w') \<and>
     mem_view w' (''mcp'', KSecret, ''argocd'', ''regcred'') = Some example_left_over \<and> image_own example_left_over"
proof -
  let ?env = "example_env (\<lambda>_. None)" and ?w = "[(''mcp'', example_left_over)]"
  obtain p where p: "newProvisioner ?env example_r example_moved example_pc example_ctx = Inr p"
    using newProvisioner_total [OF example_access] by blast
  then have ns: "p_mcpNamespace p = ''gitops''"
    by (auto simp: newProvisioner_def NewProvisioner_def example_ctx_def example_moved_def providerNamespace_def
        Let_def split: prod.splits)
  have at: "mem_view ?w ref = (if ref = (''mcp'', KSecret, ''argocd'', ''regcred'') then Some example_left_over else None)" for ref
    by (auto simp: mem_view_Cons example_left_over_def ref_of_def)
  have free: "user_resources (mem_view ?w) p = {}" by (simp add: user_resources_empty at)
  have gone: "True \<longleftrightarrow> (\<forall>ref \<in> flux_refs p. uninstall_step p (mem_view ?w) ref = None)"
    by (auto simp: uninstall_step_def flux_refs_def reloader_refs_def flux_ref_def at)
  obtain obj' w' where run: "Delete ?env example_r example_pc example_ctx example_moved ?w = ((obj', Inr 0), w')"
    using example_up.Delete_progress [OF p free gone] by auto
  have "provider_step ?env example_r (\<lambda>p. p_mcpClient p \<noteq> ''mcp'' \<or> p_mcpNamespace p \<noteq> ''argocd'') ?w w'"
    by (rule provider_step.delete [OF run]) (use p ns in auto)
  then have runs: "provider_runs ?env example_r (\<lambda>p. p_mcpClient p \<noteq> ''mcp'' \<or> p_mcpNamespace p \<noteq> ''argocd'') ?w w'"
    by (rule r_into_rtranclp)
  have "''mcp'' \<noteq> PlatformCluster example_r" by (simp add: example_r_def)
  from old_namespace_is_forgotten [OF example.reconciler_axioms runs this, of "''regcred''"]
  have "mem_view w' (''mcp'', KSecret, ''argocd'', ''regcred'') = Some example_left_over" by (simp add: at)
  with run show ?thesis by (auto simp: image_own_def example_left_over_def)
qed

section \<open>The discipline of the writes\<close>

text \<open>C23. An invariant of every reachable state: an object that is not as it was at the start carries a
  label of the provider or is being deleted. A namespace (the code labels none) is as it was, or it was
  missing and is there as bare as the code makes it; none is changed or deleted. And no object has
  gained a finalizer, so the provider never keeps anything from being deleted.\<close>

theorem reachable_objects_are_stamped:
  assumes "reconciler env view" and "provider_runs env r P w w'"
  shows "(fst (snd ref) = KNamespace \<longrightarrow>
      view w' ref = view w ref \<or>
      view w ref = None \<and> view w' ref = Some (new_object (snd (snd (snd ref))) [] NamespaceObj)) \<and>
    (fst (snd ref) \<noteq> KNamespace \<longrightarrow> view w' ref = Some obj \<longrightarrow>
      view w ref = Some obj \<or> o_Deleting obj \<or> managed obj) \<and>
    (view w' ref = Some obj \<longrightarrow>
      o_Finalizers obj = [] \<or> (\<exists>old. view w ref = Some old \<and> o_Finalizers obj = o_Finalizers old))"
proof -
  have "stamped_writes view w w'" by (rule reconciler.runs_stamped [OF assms])
  then have "stamped_change ref (view w ref) (view w' ref)" unfolding stamped_writes_def by blast
  moreover have "finalizers_kept view w w'" by (rule reconciler.runs_finalizers [OF assms])
  ultimately show ?thesis unfolding finalizers_kept_def stamped_change_def by auto
qed

lemma reachable_objects_are_stamped_witness:
  "\<exists>obj' w' hr. CreateOrUpdate (example_env (\<lambda>_. None)) example_r example_pc example_ctx example_obj
       example_ready_world = ((obj', Inr 0), w') \<and>
     mem_view w' (flux_ref example_p KHelmRelease helmReleaseName) = Some hr \<and> o_Finalizers hr = [] \<and>
     mem_view w' (''platform'', KNamespace, [], ''tenant'') = Some (new_object ''tenant'' [] NamespaceObj)"
proof -
  obtain obj' w' where run: "CreateOrUpdate (example_env (\<lambda>_. None)) example_r example_pc example_ctx example_obj
       example_ready_world = ((obj', Inr 0), w')" by (rule example_ready_run)
  have "provider_step (example_env (\<lambda>_. None)) example_r (\<lambda>_. True) example_ready_world w'"
    by (rule provider_step.update [OF run TrueI])
  then have runs: "provider_runs (example_env (\<lambda>_. None)) example_r (\<lambda>_. True) example_ready_world w'"
    by (rule r_into_rtranclp)
  obtain hr where hr: "mem_view w' (flux_ref example_p KHelmRelease helmReleaseName) = Some hr"
    using update_declares [OF example.reconciler_axioms run example_not_ignored example_admissible example_provisioner example_separated]
    by blast
  note stamped = reachable_objects_are_stamped [OF example.reconciler_axioms runs]
  from stamped [of "flux_ref example_p KHelmRelease helmReleaseName" hr] hr
  have "o_Finalizers hr = []" by (auto simp: example_ready_view flux_ref_def new_object_def)
  moreover from stamped [of "(''platform'', KNamespace, [], ''tenant'')"]
  have "mem_view w' (''platform'', KNamespace, [], ''tenant'') = Some (new_object ''tenant'' [] NamespaceObj)"
    by (simp add: example_ready_view example_world_simps)
  ultimately show ?thesis using run hr by blast
qed

section \<open>Becoming Ready\<close>

lemma install_possible_cong:
  "(\<And>n. s (platform_secret p (p_podNamespace p) n) = t (platform_secret p (p_podNamespace p) n)) \<Longrightarrow>
   s (ca_source p) = t (ca_source p) \<Longrightarrow>
   install_possible lib p v s = install_possible lib p v t"
  by (simp add: install_possible_def with_ca_def)

text \<open>A round with the release ready: the status the resource had has no part in how it ends.\<close>

lemma ready_round:
  assumes "reconciler_writes env view admits" and "map_of (Annotations obj) (OperationAnnotation env) = None"
    and "admissible pc ctx obj" and "newProvisioner env r obj pc ctx = Inr p" and "separated p"
    and "SelectVersion pc (spec_Version (Spec obj)) = (v, True)"
    and "install_possible (env_values env) p v (view w)" and "install_accepted admits (env_values env) p v (view w)"
    and "release_ready (view w) p"
  shows "\<exists>obj' n w'. CreateOrUpdate env r pc ctx (obj\<lparr>Status := st\<rparr>) w = ((obj', Inr n), w') \<and>
    (n = 0 \<longleftrightarrow> spec_Exposure (Spec obj) = None \<or> endpoint_up (view w') p) \<and> (ready_condition obj' \<longleftrightarrow> n = 0)"
proof -
  let ?obj = "obj\<lparr>Status := st\<rparr>"
  have rec: "reconciler env view" by (rule reconciler_up.axioms(1) [OF reconciler_writes.axioms(1) [OF assms(1)]])
  have same: "Spec ?obj = Spec obj" "Name ?obj = Name obj" "Namespace ?obj = Namespace obj" by simp_all
  have np: "newProvisioner env r ?obj pc ctx = Inr p" using newProvisioner_status [OF same, of env r pc ctx] assms(4) by simp
  have adm: "admissible pc ctx ?obj" using assms(3) by (simp add: admissible_def validate_status [OF same(1)])
  have ann: "map_of (Annotations ?obj) (OperationAnnotation env) = None" using assms(2) by simp
  have ver: "SelectVersion pc (spec_Version (Spec ?obj)) = (v, True)" using assms(6) by simp
  from reconciler_writes.CreateOrUpdate_progress [OF assms(1) ann adm np assms(5) ver assms(7,8)] obtain obj' w' where
    run: "CreateOrUpdate env r pc ctx ?obj w =
      ((obj', Inr (if spec_Exposure (Spec obj) = None \<or> endpoint_up (view w') p then 0 else requeueInterval)), w')"
    using assms(9) by auto
  have "\<not> ignored env ?obj" using ann by (simp add: ignored_def)
  from update_installs [OF rec run this adm] have
    "ready_condition obj' \<longleftrightarrow> (if spec_Exposure (Spec obj) = None \<or> endpoint_up (view w') p then 0 else requeueInterval) = 0"
    by metis
  then show ?thesis using run by (intro exI conjI) auto
qed

text \<open>C6. Installation gets done. Take clusters that answer and accept the writes of the installation, and a
  request that can be installed. One round declares it: the OCIRepository and the HelmRelease are there
  with the specifications the code builds. When Flux has then reported that release ready, and nothing
  else of the installation has changed, the next round succeeds too, and without any further
  acceptance: all it writes is there already. It leaves the resource Ready if no exposure is asked
  for or the endpoint is up, and comes back otherwise, whatever happened to the status in between.\<close>

theorem installation_completes:
  assumes "reconciler_writes env view admits" and "map_of (Annotations obj) (OperationAnnotation env) = None"
    and "admissible pc ctx obj" and "newProvisioner env r obj pc ctx = Inr p" and "separated p"
    and "SelectVersion pc (spec_Version (Spec obj)) = (v, True)"
    and "install_possible (env_values env) p v (view w)" and "install_accepted admits (env_values env) p v (view w)"
    and "no_ca_conflict p v (view w)"
    and "p_caBundleSecret p \<notin> set (chartPullSecretNames v (p_reloader p))"
  shows "\<exists>obj1 n1 w1 url vals. CreateOrUpdate env r pc ctx obj w = ((obj1, Inr n1), w1) \<and>
    v_ChartURL v = Some url \<and> values_of (env_values env) (with_ca p (view w)) v = Inr vals \<and>
    map_option o_Body (view w1 (flux_ref p KOCIRepository ociRepositoryName)) =
      Some (OCIRepository (Some (argocd_repository p url v))) \<and>
    (\<exists>conds. map_option o_Body (view w1 (flux_ref p KHelmRelease helmReleaseName)) =
      Some (HelmRelease (Some (argocd_release p vals)) conds)) \<and>
    (\<forall>w2 st conds. release_ready (view w2) p \<and>
       map_option o_Body (view w2 (flux_ref p KHelmRelease helmReleaseName)) =
         Some (HelmRelease (Some (argocd_release p vals)) conds) \<and>
       (\<forall>ref. ref \<noteq> flux_ref p KHelmRelease helmReleaseName \<longrightarrow> view w2 ref = view w1 ref) \<longrightarrow>
       (\<exists>obj3 n3 w3. CreateOrUpdate env r pc ctx (obj\<lparr>Status := st\<rparr>) w2 = ((obj3, Inr n3), w3) \<and>
          (n3 = 0 \<longleftrightarrow> spec_Exposure (Spec obj) = None \<or> endpoint_up (view w3) p) \<and>
          (ready_condition obj3 \<longleftrightarrow> n3 = 0)))"
proof -
  have rec: "reconciler env view" by (rule reconciler_up.axioms(1) [OF reconciler_writes.axioms(1) [OF assms(1)]])
  note api = reconciler.axioms(1) [OF rec]
  obtain obj1 n1 w1 where run: "CreateOrUpdate env r pc ctx obj w = ((obj1, Inr n1), w1)"
    using reconciler_writes.CreateOrUpdate_progress [OF assms(1-8)] by blast
  have "\<not> ignored env obj" using assms(2) by (simp add: ignored_def)
  then obtain wa wb where va: "view wa = view w" and vb: "view w1 = view wb"
    and inst: "Install (env_values env) (env_api env) p v wa = (Inr (), wb)"
    using update_installs [OF rec run _ assms(3)] assms(4,6) by (metis Inr_inject prod.inject)
  obtain url vals repo hr conds where d: "v_ChartURL v = Some url"
    "values_of (env_values env) (with_ca p (view w)) v = Inr vals"
    "view w1 (flux_ref p KOCIRepository ociRepositoryName) = Some repo"
    "o_Body repo = OCIRepository (Some (argocd_repository p url v))"
    "view w1 (flux_ref p KHelmRelease helmReleaseName) = Some hr"
    "o_Body hr = HelmRelease (Some (argocd_release p vals)) conds"
    by (rule install_declared [OF api assms(5) inst, unfolded va vb [symmetric]])
  have "install_possible (env_values env) p v (view w2) \<and> install_accepted admits (env_values env) p v (view w2)"
    if body: "map_option o_Body (view w2 (flux_ref p KHelmRelease helmReleaseName)) =
         Some (HelmRelease (Some (argocd_release p vals)) conds)"
      and rest: "\<And>ref. ref \<noteq> flux_ref p KHelmRelease helmReleaseName \<Longrightarrow> view w2 ref = view w1 ref" for w2 conds
  proof
    have "view w2 (platform_secret p ns m) = view w (platform_secret p ns m)"
      if "ns = p_podNamespace p \<or> ns = p_caBundleSourceNamespace p" for ns m
      using rest [of "platform_secret p ns m"] install_keeps_sources [OF api assms(5) inst that] va vb
      by (simp add: platform_secret_def flux_ref_def)
    then show "install_possible (env_values env) p v (view w2)"
      using assms(7) install_possible_cong [of "view w2" p "view w"] by (simp add: ca_source_def)
    show "install_accepted admits (env_values env) p v (view w2)"
      by (rule install_accepted_again [OF api assms(5) _ assms(10) inst])
         (use assms(9) va vb rest body d(2) in auto)
  qed
  then have "\<exists>obj3 n3 w3. CreateOrUpdate env r pc ctx (obj\<lparr>Status := st\<rparr>) w2 = ((obj3, Inr n3), w3) \<and>
          (n3 = 0 \<longleftrightarrow> spec_Exposure (Spec obj) = None \<or> endpoint_up (view w3) p) \<and>
          (ready_condition obj3 \<longleftrightarrow> n3 = 0)"
    if "release_ready (view w2) p"
      and "map_option o_Body (view w2 (flux_ref p KHelmRelease helmReleaseName)) =
         Some (HelmRelease (Some (argocd_release p vals)) conds)"
      and "\<And>ref. ref \<noteq> flux_ref p KHelmRelease helmReleaseName \<Longrightarrow> view w2 ref = view w1 ref" for w2 st conds
    using that by (intro ready_round [OF assms(1-6)]) blast+
  with run d show ?thesis by (intro exI [of _ obj1] exI [of _ n1] exI [of _ w1] exI [of _ url] exI [of _ vals]) auto
qed

lemma installation_completes_witness:
  "\<exists>obj1 n1 w1 w2 obj3 w3.
     CreateOrUpdate (example_env (\<lambda>_. None)) example_r example_pc example_ctx example_obj example_world = ((obj1, Inr n1), w1) \<and>
     release_ready (mem_view w2) example_p \<and>
     CreateOrUpdate (example_env (\<lambda>_. None)) example_r example_pc example_ctx example_obj w2 = ((obj3, Inr 0), w3) \<and>
     ready_condition obj3"
proof -
  let ?run = "CreateOrUpdate (example_env (\<lambda>_. None)) example_r example_pc example_ctx"
  have "install_possible (env_values (example_env (\<lambda>_. None))) example_p example_version (mem_view example_world)"
    "install_accepted mem_admits (env_values (example_env (\<lambda>_. None))) example_p example_version (mem_view example_world)"
    using example_possible example_accepted by simp_all
  from installation_completes [OF example_writes.reconciler_writes_axioms example_no_annotation example_admissible
      example_provisioner example_separated example_selected this example_no_conflict example_apart]
  obtain obj1 n1 w1 vals where run: "?run example_obj example_world = ((obj1, Inr n1), w1)"
    and next_round: "\<And>w2 st conds. release_ready (mem_view w2) example_p \<and>
       map_option o_Body (mem_view w2 (flux_ref example_p KHelmRelease helmReleaseName)) =
         Some (HelmRelease (Some (argocd_release example_p vals)) conds) \<and>
       (\<forall>ref. ref \<noteq> flux_ref example_p KHelmRelease helmReleaseName \<longrightarrow> mem_view w2 ref = mem_view w1 ref) \<Longrightarrow>
       (\<exists>obj3 n3 w3. ?run (example_obj\<lparr>Status := st\<rparr>) w2 = ((obj3, Inr n3), w3) \<and>
          (n3 = 0 \<longleftrightarrow> spec_Exposure (Spec example_obj) = None \<or> endpoint_up (mem_view w3) example_p) \<and>
          (ready_condition obj3 \<longleftrightarrow> n3 = 0))" by blast
  let ?hr = "new_object helmReleaseName ''tenant'' (HelmRelease (Some (argocd_release example_p vals)) [ready_condition_true])"
  let ?w2 = "mem_put ''platform'' ?hr w1"
  have view: "mem_view ?w2 = (mem_view w1)(flux_ref example_p KHelmRelease helmReleaseName \<mapsto> ?hr)"
    by (simp add: mem_view_put ref_of_def flux_ref_def)
  have ready: "release_ready (mem_view ?w2) example_p"
    unfolding view release_ready_def
    by (simp add: new_object_def release_conditions_def find_condition_def ready_condition_true_def)
  have body: "map_option o_Body (mem_view ?w2 (flux_ref example_p KHelmRelease helmReleaseName)) =
      Some (HelmRelease (Some (argocd_release example_p vals)) [ready_condition_true])"
    unfolding view by (simp add: new_object_def)
  have rest: "\<forall>ref. ref \<noteq> flux_ref example_p KHelmRelease helmReleaseName \<longrightarrow> mem_view ?w2 ref = mem_view w1 ref"
    unfolding view by simp
  have "spec_Exposure (Spec example_obj) = None" by (simp add: example_obj_def)
  with next_round [of ?w2 "[ready_condition_true]" "Status example_obj", OF conjI [OF ready conjI [OF body rest]]]
  have "\<exists>obj3 w3. ?run example_obj ?w2 = ((obj3, Inr 0), w3) \<and> ready_condition obj3" by auto
  with run ready show ?thesis by blast
qed

end
