(* ===== verification/Interference.thy ===== *)
theory Interference
  imports Lifecycle
begin

text \<open>
  The clusters belong to others too: users, Flux, the platform and further replicas of the provider
  write between any two calls of a handler. A world shared with others carries the actions that they
  take, and a client of it (\<open>shared_client\<close>) lets one of them happen before each of its calls; what a
  list returned may be stale by the time of the delete that follows. Under a rely condition on the
  actions of the others the containment of the provider's writes carries over, on every path; what
  does not carry over is shown by two races.
\<close>

section \<open>A world shared with others\<close>

type_synonym 'w shared = "'w \<times> ('w \<Rightarrow> 'w) list"

definition disturb :: "'w shared \<Rightarrow> 'w shared" where
  "disturb s = (case snd s of [] \<Rightarrow> s | f # fs \<Rightarrow> (f (fst s), fs))"

definition shared_io :: "('e, 'w, 'a) io \<Rightarrow> ('e, 'w shared, 'a) io" where
  "shared_io m = (\<lambda>s. case m (fst (disturb s)) of (x, w') \<Rightarrow> (x, (w', snd (disturb s))))"

definition shared_client :: "'w kube_client \<Rightarrow> 'w shared kube_client" where
  "shared_client api =
     \<lparr>api_Get = (\<lambda>r. shared_io (api_Get api r)),
      api_List = (\<lambda>c k ns sel. shared_io (api_List api c k ns sel)),
      api_Create = (\<lambda>c obj. shared_io (api_Create api c obj)),
      api_Delete = (\<lambda>r. shared_io (api_Delete api r)),
      api_CreateOrUpdate = (\<lambda>c init f. shared_io (api_CreateOrUpdate api c init f)),
      api_RemoveAnnotation = (\<lambda>c a v res. shared_io (api_RemoveAnnotation api c a v res))\<rparr>"

definition shared_env :: "'w env \<Rightarrow> 'w shared env" where
  "shared_env env =
     \<lparr>env_api = shared_client (env_api env), env_status = env_status env, env_values = env_values env,
      StableMCPNamespace = StableMCPNamespace env, OperationAnnotation = OperationAnnotation env,
      OperationAnnotationValueIgnore = OperationAnnotationValueIgnore env,
      OperationAnnotationValueReconcile = OperationAnnotationValueReconcile env\<rparr>"

lemma shared_client_simps [simp]:
  "api_Get (shared_client api) r = shared_io (api_Get api r)"
  "api_List (shared_client api) c k ns sel = shared_io (api_List api c k ns sel)"
  "api_Create (shared_client api) c obj = shared_io (api_Create api c obj)"
  "api_Delete (shared_client api) r = shared_io (api_Delete api r)"
  "api_CreateOrUpdate (shared_client api) c init f = shared_io (api_CreateOrUpdate api c init f)"
  "api_RemoveAnnotation (shared_client api) c a v res = shared_io (api_RemoveAnnotation api c a v res)"
  by (simp_all add: shared_client_def)

lemma shared_env_simps [simp]:
  "env_api (shared_env env) = shared_client (env_api env)" "env_status (shared_env env) = env_status env"
  "env_values (shared_env env) = env_values env" "StableMCPNamespace (shared_env env) = StableMCPNamespace env"
  "OperationAnnotation (shared_env env) = OperationAnnotation env"
  by (simp_all add: shared_env_def)

lemma newProvisioner_shared [simp]: "newProvisioner (shared_env env) = newProvisioner env"
  by (simp add: newProvisioner_def fun_eq_iff)

text \<open>Rely and guarantee: as far as the others keep \<open>G\<close>, so does the run.\<close>

definition rely :: "('w \<Rightarrow> 'w \<Rightarrow> bool) \<Rightarrow> ('w \<Rightarrow> 'w) list \<Rightarrow> bool" where
  "rely G fs \<longleftrightarrow> (\<forall>f \<in> set fs. \<forall>w. G w (f w))"

definition shared_rel :: "('w \<Rightarrow> 'w \<Rightarrow> bool) \<Rightarrow> 'w shared \<Rightarrow> 'w shared \<Rightarrow> bool" where
  "shared_rel G s s' \<longleftrightarrow> set (snd s') \<subseteq> set (snd s) \<and> (rely G (snd s) \<longrightarrow> G (fst s) (fst s'))"

lemma rely_subset: "rely G fs \<Longrightarrow> set gs \<subseteq> set fs \<Longrightarrow> rely G gs"
  by (auto simp: rely_def)

lemma shared_relation:
  assumes "run_relation G"
  shows "run_relation (shared_rel G)"
proof (rule run_relation.intro)
  show "shared_rel G s s" for s :: "'a shared"
    using run_relation.refl_run [OF assms] by (simp add: shared_rel_def)
  show "shared_rel G s s''" if "shared_rel G s s'" "shared_rel G s' s''" for s s' s'' :: "'a shared"
    using that rely_subset [of G "snd s" "snd s'"] run_relation.trans_run [OF assms, of "fst s" "fst s'" "fst s''"]
    unfolding shared_rel_def by blast
qed

lemma shared_io_keeps:
  assumes "run_relation G" and "io_keeps G m"
  shows "io_keeps (shared_rel G) (shared_io m)"
proof (rule io_keepsI)
  fix s :: "'a shared" and x s'
  assume run: "shared_io m s = (x, s')"
  obtain w fs where s: "s = (w, fs)" by (cases s)
  show "shared_rel G s s'"
  proof (cases fs)
    case Nil
    then have "m w = (x, fst s')" "snd s' = []" using run s by (auto simp: shared_io_def disturb_def split: prod.splits)
    then show ?thesis using io_keepsD [OF assms(2)] s Nil by (simp add: shared_rel_def)
  next
    case (Cons f gs)
    then have "m (f w) = (x, fst s')" "snd s' = gs" using run s by (auto simp: shared_io_def disturb_def split: prod.splits)
    then have "G (f w) (fst s')" using io_keepsD [OF assms(2)] by simp
    then have "G w (fst s')" if "G w (f w)" using run_relation.trans_run [OF assms(1) that] by simp
    then show ?thesis using \<open>snd s' = gs\<close> s Cons by (auto simp: shared_rel_def rely_def)
  qed
qed

lemma shared_ok: "shared_io m s = (Inr x, s') \<Longrightarrow> \<exists>w w'. m w = (Inr x, w')"
  by (auto simp: shared_io_def split: prod.splits)

text \<open>What is kept by the calls of a client is kept by those of its shared form.\<close>

lemma removal_calls_shared:
  assumes "removal_calls G api A"
  shows "removal_calls (shared_rel G) (shared_client api) A"
proof -
  have G: "run_relation G" by (rule removal_calls.axioms(1) [OF assms])
  show ?thesis
  proof (intro removal_calls.intro removal_calls_axioms.intro shared_relation G)
    fix c k ns sel s objs s' obj
    assume l: "api_List (shared_client api) c k (Some ns) sel s = (Inr objs, s')" and obj: "obj \<in> set objs"
    obtain w w' where "api_List api c k (Some ns) sel w = (Inr objs, w')" using l shared_ok by fastforce
    from removal_calls.listed_call [OF assms this obj] show "\<exists>n. ref_of c obj = (c, k, ns, n)" .
  qed (simp_all add: shared_io_keeps [OF G] removal_calls.get_call [OF assms] removal_calls.list_call [OF assms]
      removal_calls.delete_call [OF assms])
qed

lemma provider_calls_shared:
  assumes "provider_calls G api A"
  shows "provider_calls (shared_rel G) (shared_client api) A"
proof -
  have removal: "removal_calls G api A" by (rule provider_calls.axioms(1) [OF assms])
  note keeps = shared_io_keeps [OF removal_calls.axioms(1) [OF removal]]
  show ?thesis
    by (intro provider_calls.intro provider_calls_axioms.intro removal_calls_shared removal)
       (simp_all add: keeps provider_calls.create_call [OF assms] provider_calls.write_call [OF assms])
qed

section \<open>The handlers\<close>

text \<open>The interface again, for what the handlers call beside the operations of the provisioner.\<close>

locale handler_calls = provider_calls R "env_api env" A + status_library "env_status env"
  for R :: "'w \<Rightarrow> 'w \<Rightarrow> bool" and env :: "'w env" and A :: "obj_ref set" +
  assumes annotate_call: "io_keeps R (api_RemoveAnnotation (env_api env) c a v res)"
    and annotated: "api_RemoveAnnotation (env_api env) c a v res w = (Inr res', w') \<Longrightarrow>
      Spec res' = Spec res \<and> Name res' = Name res \<and> Namespace res' = Namespace res"
begin

lemma handle_call: "io_keeps R (handleOperationAnnotation env r obj)"
  unfolding handleOperationAnnotation_def
  by (auto split: option.split intro!: keeps_return keeps_bind keeps_map_error annotate_call)

lemma handled:
  "handleOperationAnnotation env r obj w = (Inr (skip, obj'), w') \<Longrightarrow>
   Spec obj' = Spec obj \<and> Name obj' = Name obj \<and> Namespace obj' = Namespace obj"
  using annotated by (auto simp: handleOperationAnnotation_def io_ok split: option.splits if_splits)

lemma install_and_report_call:
  assumes "domain p \<subseteq> A"
  shows "R w (snd (install_and_report env p version obj w))"
proof -
  obtain x w1 where i: "Install (env_values env) (env_api env) p version w = (x, w1)" by fastforce
  obtain y w2 where g: "Ready (env_api env) p w1 = (y, w2)" by fastforce
  obtain z w3 where e: "Endpoint (env_api env) p w2 = (z, w3)" by fastforce
  have 1: "R w w1" by (rule io_keepsD [OF Install_call [OF assms] i])
  have 2: "R w w2" by (rule trans_run [OF 1 io_keepsD [OF probe_calls(1) g]])
  have 3: "R w w3" by (rule trans_run [OF 2 io_keepsD [OF probe_calls(2) e]])
  have "snd (install_and_report env p version obj w) \<in> {w1, w2, w3}"
    using i g e by (auto simp: install_and_report_def reconcileEndpoint_def split: sum.splits prod.splits)
  then show ?thesis using 1 2 3 by auto
qed

lemma uninstall_and_report_call:
  assumes "domain p \<subseteq> A"
  shows "R w (snd (uninstall_and_report env p obj w))"
proof -
  obtain x w1 where u: "Uninstall (env_api env) p w = (x, w1)" by fastforce
  obtain y w2 where g: "IsUninstalled (env_api env) p w1 = (y, w2)" by fastforce
  obtain z w3 where c: "RemoveCABundle (env_api env) p w2 = (z, w3)" by fastforce
  have 1: "R w w1" by (rule io_keepsD [OF Uninstall_call [OF assms] u])
  have 2: "R w w2" by (rule trans_run [OF 1 io_keepsD [OF probe_calls(3) g]])
  have 3: "R w w3" by (rule trans_run [OF 2 io_keepsD [OF RemoveCABundle_call [OF assms] c]])
  have "snd (uninstall_and_report env p obj w) \<in> {w1, w2, w3}"
    using u g c by (auto simp: uninstall_and_report_def split: sum.splits prod.splits)
  then show ?thesis using 1 2 3 by auto
qed

lemma progressing_provisioner:
  assumes "Spec o1 = Spec obj \<and> Name o1 = Name obj \<and> Namespace o1 = Namespace obj"
  shows "newProvisioner env r (StatusProgressing (env_status env) a b o1) pc ctx = newProvisioner env r obj pc ctx"
  using progressing_frame [of o1 a b] assms by (intro newProvisioner_status) (auto simp: same_but_status_def)

lemma CreateOrUpdate_call:
  assumes served: "\<And>p. newProvisioner env r obj pc ctx = Inr p \<Longrightarrow> domain p \<subseteq> A"
  shows "R w (snd (CreateOrUpdate env r pc ctx obj w))"
proof -
  obtain x w1 where h: "handleOperationAnnotation env r obj w = (x, w1)" by fastforce
  have w1: "R w w1" by (rule io_keepsD [OF handle_call h])
  show ?thesis
  proof (cases "\<exists>o1. x = Inr (False, o1)")
    case True
    then obtain o1 where x: "x = Inr (False, o1)" by blast
    define o2 where "o2 = StatusProgressing (env_status env) reasonReconciling ''Reconcile is in progress'' o1"
    obtain v ok where v: "SelectVersion pc (spec_Version (Spec o2)) = (v, ok)" by fastforce
    have body: "R w (snd (install_and_report env p v o2 w1))" if "newProvisioner env r o2 pc ctx = Inr p" for p
    proof -
      have "newProvisioner env r o2 pc ctx = newProvisioner env r obj pc ctx"
        unfolding o2_def by (rule progressing_provisioner) (use handled h x in blast)
      then have "domain p \<subseteq> A" using that served by simp
      from trans_run [OF w1 install_and_report_call [OF this]] show ?thesis .
    qed
    show ?thesis
      unfolding CreateOrUpdate_body [OF h [unfolded x] o2_def v]
      using w1 body by (auto split: sum.split)
  next
    case False
    then show ?thesis
      using h w1 CreateOrUpdate_early by (cases x) (fastforce split: prod.splits)+
  qed
qed

lemma Delete_call:
  assumes served: "\<And>p. newProvisioner env r obj pc ctx = Inr p \<Longrightarrow> domain p \<subseteq> A"
  shows "R w (snd (Delete env r pc ctx obj w))"
proof -
  define o1 where "o1 = StatusTerminatingWithReason (env_status env) reasonTerminating
      ''Resource termination initiated; cleanup tasks are in progress'' obj"
  have o1: "newProvisioner env r o1 pc ctx = newProvisioner env r obj pc ctx"
    using terminating_frame [of obj] unfolding o1_def by (intro newProvisioner_status) (auto simp: same_but_status_def)
  show ?thesis
  proof (cases "newProvisioner env r obj pc ctx")
    case (Inl e)
    then show ?thesis using o1 refl_run by (simp add: Delete_def Let_def o1_def)
  next
    case (Inr p)
    obtain y w1 where c: "CountUserArgoCDResources (env_api env) p w = (y, w1)" by fastforce
    have w1: "R w w1" by (rule io_keepsD [OF probe_calls(4) c])
    have "R w (snd (uninstall_and_report env p obj2 w1))" for obj2
      by (rule trans_run [OF w1 uninstall_and_report_call [OF served [OF Inr]]])
    then show ?thesis using o1 Inr c w1 by (auto simp: Delete_def Let_def o1_def [symmetric] split: sum.split)
  qed
qed

lemma provider_runs_call: "provider_runs env r (\<lambda>p. domain p \<subseteq> A) w w' \<Longrightarrow> R w w'"
proof (induction rule: rtranclp_induct)
  case base
  show ?case by (rule refl_run)
next
  case (step w1 w2)
  from step(2) have "R w1 w2"
  proof (cases rule: provider_step.cases)
    case (update pc ctx obj x)
    then show ?thesis using CreateOrUpdate_call [of r obj pc ctx w1] by simp
  next
    case (delete pc ctx obj x)
    then show ?thesis using Delete_call [of r obj pc ctx w1] by simp
  qed
  with step(3) show ?case by (rule trans_run)
qed

end

text \<open>Atomic calls keep everything outside the set of allowed writes.\<close>

sublocale reconciler < confined: handler_calls "same_outside view A" env A for A
proof unfold_locales
  show "\<exists>n. ref_of c obj = (c, k, ns, n)"
    if "api_List (env_api env) c k (Some ns) sel w = (Inr objs, w')" "obj \<in> set objs" for c k ns sel w objs w' obj
    using listed_in_namespace [OF kube_api_axioms that] .
  show "Spec res' = Spec res \<and> Name res' = Name res \<and> Namespace res' = Namespace res"
    if "api_RemoveAnnotation (env_api env) c a v res w = (Inr res', w')" for c a v res w res' w'
    using annotation_ok [OF that] by simp
qed (auto intro: client_keeps simp: provider_write_def)

context reconciler
begin

lemmas confined_calls = confined.handler_calls_axioms

end

lemma handler_calls_shared:
  assumes "handler_calls G env A"
  shows "handler_calls (shared_rel G) (shared_env env) A"
proof -
  have calls: "provider_calls G (env_api env) A" by (rule handler_calls.axioms(1) [OF assms])
  have G: "run_relation G" by (rule removal_calls.axioms(1) [OF provider_calls.axioms(1) [OF calls]])
  have status: "status_library (env_status env)" by (rule handler_calls.axioms(2) [OF assms])
  show ?thesis
  proof (intro handler_calls.intro handler_calls_axioms.intro)
    show "provider_calls (shared_rel G) (env_api (shared_env env)) A" using provider_calls_shared [OF calls] by simp
    show "status_library (env_status (shared_env env))" using status by simp
    show "io_keeps (shared_rel G) (api_RemoveAnnotation (env_api (shared_env env)) c a v res)" for c a v res
      using shared_io_keeps [OF G handler_calls.annotate_call [OF assms]] by simp
    show "Spec res' = Spec res \<and> Name res' = Name res \<and> Namespace res' = Namespace res"
      if run: "api_RemoveAnnotation (env_api (shared_env env)) c a v res s = (Inr res', s')" for c a v res s res' s'
    proof -
      obtain w w' where "api_RemoveAnnotation (env_api env) c a v res w = (Inr res', w')"
        using run shared_ok by fastforce
      from handler_calls.annotated [OF assms this] show ?thesis .
    qed
  qed
qed

section \<open>Containment under interference\<close>

text \<open>C11. Containment holds under interference. Let the others act between any two calls of the handlers, in
  any way that leaves one object alone, and let the calls fail at will: the handlers leave that object
  alone too, unless it is in the domain of one of the requests they serve.\<close>

theorem containment_under_interference:
  assumes "reconciler env view"
    and "provider_runs (shared_env env) r (\<lambda>p. ref \<notin> domain p) (w, others) (w', rest)"
    and "\<forall>f \<in> set others. \<forall>v. view (f v) ref = view v ref"
  shows "view w' ref = view w ref"
proof -
  let ?G = "same_outside view (- {ref})"
  have "handler_calls (shared_rel ?G) (shared_env env) (- {ref})"
    by (rule handler_calls_shared [OF reconciler.confined_calls [OF assms(1)]])
  moreover have "provider_runs (shared_env env) r (\<lambda>p. domain p \<subseteq> - {ref}) (w, others) (w', rest)"
    by (rule provider_runs_mono [OF assms(2)]) auto
  ultimately have "shared_rel ?G (w, others) (w', rest)" by (rule handler_calls.provider_runs_call)
  moreover have "rely ?G others" using assms(3) by (simp add: rely_def same_outside_def)
  ultimately show ?thesis by (simp add: shared_rel_def same_outside_def)
qed

definition example_user_secret :: kobj where
  "example_user_secret = new_object ''regcred'' ''argocd'' (Secret ''docker'' [(''mine'', ''x'')])"

text \<open>While the handler serves the example request, a user writes to the secret that it replicates.\<close>

definition example_others :: "(mem_store \<Rightarrow> mem_store) list" where
  "example_others = [id, mem_put ''mcp'' example_user_secret]"

lemma containment_under_interference_witness:
  "mem_view (fst (snd (CreateOrUpdate (shared_env (example_env (\<lambda>_. None))) example_r example_pc example_ctx example_obj
     (example_world, example_others)))) (''platform'', KSecret, ''sp'', ''regcred'') =
   mem_view example_world (''platform'', KSecret, ''sp'', ''regcred'')"
proof -
  let ?env = "shared_env (example_env (\<lambda>_. None))" and ?ref = "(''platform'', KSecret, ''sp'', ''regcred'')"
  let ?s = "snd (CreateOrUpdate ?env example_r example_pc example_ctx example_obj (example_world, example_others))"
  have "?ref \<notin> domain example_p"
    by (auto simp: domain_def example_p_def example_config_def NewProvisioner_def mcp_namespace_ref_def)
  then have "provider_step ?env example_r (\<lambda>p. ?ref \<notin> domain p) (example_world, example_others) ?s"
    by (intro provider_step.update [OF prod.collapse [symmetric]]) (use example_provisioner in auto)
  then have "provider_runs ?env example_r (\<lambda>p. ?ref \<notin> domain p) (example_world, example_others) (fst ?s, snd ?s)"
    using r_into_rtranclp [of "provider_step ?env example_r (\<lambda>p. ?ref \<notin> domain p)"] by simp
  moreover have "\<forall>f \<in> set example_others. \<forall>v. mem_view (f v) ?ref = mem_view v ?ref"
    by (auto simp: example_others_def mem_view_put example_user_secret_def ref_of_def new_object_def key_of_def)
  ultimately show ?thesis by (rule containment_under_interference [OF example.reconciler_axioms])
qed

section \<open>Races\<close>

text \<open>Once the others have acted for the last time, the shared client is the atomic one.\<close>

lemma shared_quiet: "shared_io m (w, []) = (fst (m w), (snd (m w), []))"
  by (simp add: shared_io_def disturb_def split: prod.split)

lemma shared_last: "shared_io m (w, [f]) = (fst (m (f w)), (snd (m (f w)), []))"
  by (simp add: shared_io_def disturb_def split: prod.split)

definition delete_item :: "'w kube_client \<Rightarrow> cluster \<Rightarrow> (kobj \<Rightarrow> go_error \<Rightarrow> go_error) \<Rightarrow> kobj \<Rightarrow> (go_error, 'w, unit) io" where
  "delete_item api c h item = io_map_error (h item) (IgnoreNotFound (api_Delete api (ref_of c item)))"

lemma delete_item_quiet:
  "delete_item (shared_client api) c h item (w, []) =
     (fst (delete_item api c h item w), (snd (delete_item api c h item w), []))"
  "delete_item (shared_client api) c h item (w, [f]) =
     (fst (delete_item api c h item (f w)), (snd (delete_item api c h item (f w)), []))"
  by (auto simp: delete_item_def IgnoreNotFound_def io_map_error_def io_try_eq shared_quiet shared_last
      io_return_def io_error_def split: sum.split prod.split)

lemma delete_items_quiet:
  "io_for items (delete_item (shared_client api) c h) (w, []) =
     (fst (io_for items (delete_item api c h) w), (snd (io_for items (delete_item api c h) w), []))"
  by (induction items arbitrary: w)
     (auto simp: io_bind_def io_return_def delete_item_quiet split: prod.split sum.split)

lemma delete_items_last:
  "items \<noteq> [] \<Longrightarrow> io_for items (delete_item (shared_client api) c h) (w, [f]) =
     (fst (io_for items (delete_item api c h) (f w)), (snd (io_for items (delete_item api c h) (f w)), []))"
  by (cases items)
     (auto simp: io_bind_def delete_item_quiet delete_items_quiet split: prod.split sum.split)

lemma delete_item_up:
  assumes "kube_api_up api view"
  shows "\<exists>w'. delete_item api c h item w = (Inr (), w')"
proof -
  have "fst (api_Delete api (ref_of c item) w) =
      (if view w (ref_of c item) = None then Inl (ApiError (NotFound (snd (snd (snd (ref_of c item)))))) else Inr ())"
    by (rule kube_api_up.delete_up [OF assms])
  then have "fst (delete_item api c h item w) = Inr ()"
    by (cases "api_Delete api (ref_of c item) w")
       (simp add: delete_item_def IgnoreNotFound_def io_map_error_def io_try_eq io_return_def split: if_splits)
  then show ?thesis by (metis prod.collapse)
qed

text \<open>A secret created by hand can be deleted. If the user replaces a copied pull secret by one of their
  own after the prune has listed it, the prune deletes the user's secret, which does not carry the
  label: the delete names the object and does not ask for the version that was listed.\<close>

theorem prune_deletes_replaced_secret:
  assumes "kube_api_up api view"
    and "view w (mcp_secret p n) = Some copy" and "image_own copy"
    and "\<forall>v. view (replace v) = (view v)(mcp_secret p n \<mapsto> users)" and "o_Finalizers users = []"
  shows "\<exists>w'. removeImagePullSecrets (shared_client api) p (w, [id, replace]) = (Inr (), (w', [])) \<and>
    view w' (mcp_secret p n) = None"
proof -
  note api = kube_api_up.axioms(1) [OF assms(1)]
  let ?c = "p_mcpClient p" and ?ns = "p_mcpNamespace p" and ?sel = "[(managedByLabel, imagePullSecretManagedByValue)]"
  let ?h = "\<lambda>item. Wrap (''deleting orphaned image pull secret '' @ quoted (o_Name item))"
  obtain items w1 where l: "api_List api ?c KSecret (Some ?ns) ?sel w = (Inr items, w1)"
    using kube_api_up.list_up [OF assms(1), of ?c KSecret "Some ?ns" ?sel w] by (metis prod.collapse)
  have items: "set items = listed (view w) ?c KSecret (Some ?ns) ?sel" using kube_api.list_ok [OF api l] by simp
  have copy: "copy \<in> set items"
    using assms(2,3) unfolding items by (auto simp: listed_def mcp_secret_def matches_labels_def image_own_def)
  then have nonempty: "items \<noteq> []" by auto
  have ref: "ref_of ?c copy = mcp_secret p n"
    using kube_api.stored_ref [OF api assms(2)] by (simp add: mcp_secret_def)
  obtain w2 where d: "io_for items (delete_item api ?c ?h) (replace w1) = (Inr (), w2)"
    using for_succeeds [of items "\<lambda>_. True" "delete_item api ?c ?h" "replace w1"] delete_item_up [OF assms(1)] by blast
  have "view w2 (mcp_secret p n) = Option.bind (view (replace w1) (mcp_secret p n)) after_delete"
    using kube_api.delete_items_ok [OF api, of items "[]" ?h ?c "replace w1" "()" w2 "mcp_secret p n"] d
      image_eqI [of "mcp_secret p n" "ref_of ?c" copy "set items"] copy ref
    by (simp add: delete_item_def [abs_def])
  then have gone: "view w2 (mcp_secret p n) = None" using assms(4,5) by (simp add: after_delete_def)
  have "io_for items (delete_item (shared_client api) ?c ?h) (w1, [replace]) = (Inr (), (w2, []))"
    using delete_items_last [OF nonempty, of api ?c ?h w1 replace] d by (simp only: fst_conv snd_conv)
  then have "removeImagePullSecrets (shared_client api) p (w, [id, replace]) = (Inr (), (w2, []))"
    using l by (simp add: removeImagePullSecrets_def pruneImagePullSecrets_def delete_item_def [abs_def] io_bind_def
        io_map_error_def shared_io_def disturb_def)
  with gone show ?thesis by blast
qed

lemma prune_deletes_replaced_secret_witness:
  "\<exists>w'. removeImagePullSecrets (shared_client (mem_client (\<lambda>_. None))) example_p ([(''mcp'', example_left_over)], example_others) =
       (Inr (), (w', [])) \<and>
     mem_view w' (mcp_secret example_p ''regcred'') = None \<and> \<not> image_own example_user_secret"
proof -
  have ref: "mcp_secret example_p ''regcred'' = (''mcp'', KSecret, ''argocd'', ''regcred'')"
    by (simp add: mcp_secret_def example_p_def example_config_def NewProvisioner_def DefaultNamespace_def)
  have "mem_view [(''mcp'', example_left_over)] (mcp_secret example_p ''regcred'') = Some example_left_over"
    unfolding ref by (simp add: mem_view_Cons example_left_over_def ref_of_def)
  moreover have "image_own example_left_over" by (simp add: image_own_def example_left_over_def)
  moreover have "\<forall>v. mem_view (mem_put ''mcp'' example_user_secret v) =
      (mem_view v)(mcp_secret example_p ''regcred'' \<mapsto> example_user_secret)"
    unfolding ref by (simp add: mem_view_put example_user_secret_def ref_of_def)
  moreover have "o_Finalizers example_user_secret = []" by (simp add: example_user_secret_def)
  ultimately show ?thesis
    using prune_deletes_replaced_secret [OF mem_up.kube_api_up_axioms, of "[(''mcp'', example_left_over)]" example_p "''regcred''"
        example_left_over "mem_put ''mcp'' example_user_secret" example_user_secret]
    by (auto simp: example_others_def image_own_def example_user_secret_def label_of_def new_object_def)
qed

text \<open>A user's application that is created after the deletion guard has counted.\<close>

definition example_application :: kobj where
  "example_application = new_object ''shop'' ''apps'' Application"

lemma guard_race_example:
  "let run = Delete (shared_env (example_env (\<lambda>_. None))) example_r example_pc example_ctx example_obj
       ([], [id, id, id, mem_put ''mcp'' example_application])
   in snd (fst run) = Inr 0 \<and> snd (snd run) = [] \<and>
     mem_view (fst (snd run)) (''mcp'', KApplication, ''apps'', ''shop'') = Some example_application"
  by code_simp

end
