(* ===== verification/Deletion_Interference.thy ===== *)
theory Deletion_Interference
  imports Interference
begin

text \<open>
  Deleting on clusters that others write to. That the delete handler is done means the same as without
  interference, object by object, as far as the others do not undo it: whatever they do to an object,
  once it counts as cleared they leave it cleared. The lists and the probes of the handler may all be
  out of date by the time it returns.
\<close>

section \<open>What has to be cleared\<close>

text \<open>One object, of whatever kind: a resource of the user and a Flux resource is gone, a managed secret is
  gone or marked. Anything else is cleared from the start.\<close>

definition cleared :: "provisioner \<Rightarrow> store \<Rightarrow> obj_ref \<Rightarrow> bool" where
  "cleared p s ref \<longleftrightarrow>
     ref \<notin> user_resources s p \<and> (ref \<in> flux_refs p \<longrightarrow> s ref = None) \<and>
     (\<forall>c. s ref = Some c \<and> manages_secret p ref c \<longrightarrow> o_Deleting c)"

lemma cleared_kinds:
  "ref \<in> flux_refs p \<Longrightarrow> fst (snd ref) \<in> {KHelmRelease, KOCIRepository}"
  "ref \<in> user_resources s p \<Longrightarrow> fst ref = p_mcpClient p \<and> fst (snd ref) \<in> {KApplication, KApplicationSet, KAppProject}"
  "manages_secret p ref c \<Longrightarrow> fst (snd ref) = KSecret"
  by (auto simp: flux_refs_def reloader_refs_def flux_ref_def user_resources_def manages_secret_def mcp_secret_def
      platform_secret_def ca_target_def)

lemma cleared_secret:
  "fst (snd ref) = KSecret \<Longrightarrow>
     cleared p s ref \<longleftrightarrow> (\<forall>c. s ref = Some c \<and> manages_secret p ref c \<longrightarrow> o_Deleting c)"
  using cleared_kinds(1) [of ref p] cleared_kinds(2) [of ref s p] by (auto simp: cleared_def)

lemma cleared_none: "s ref = None \<Longrightarrow> cleared p s ref"
  by (auto simp: cleared_def user_resources_def)

lemma user_resources_at: "s ref = None \<longleftrightarrow> s' ref = None \<Longrightarrow> ref \<in> user_resources s p \<longleftrightarrow> ref \<in> user_resources s' p"
  by (auto simp: user_resources_def)

lemma cleared_same: "s' ref = s ref \<Longrightarrow> cleared p s' ref \<longleftrightarrow> cleared p s ref"
  using user_resources_at [of s' ref s p] by (simp add: cleared_def)

lemma cleared_deleted: "cleared p s ref \<Longrightarrow> cleared p (deleted s r) ref"
proof (cases "deleted s r ref")
  case (Some c)
  assume c: "cleared p s ref"
  from Some have "s ref \<noteq> None" and "s ref = Some c \<or> o_Deleting c"
    by (auto simp: deleted_def bind_eq_Some_conv after_delete_def split: if_splits)
  then show ?thesis
    using c Some user_resources_at [of "deleted s r" ref s p] by (auto simp: cleared_def)
qed (rule cleared_none)

text \<open>The relation that the others, and the handler, are to keep.\<close>

definition kept_cleared :: "('w \<Rightarrow> store) \<Rightarrow> provisioner \<Rightarrow> obj_ref \<Rightarrow> 'w \<Rightarrow> 'w \<Rightarrow> bool" where
  "kept_cleared view p ref w w' \<longleftrightarrow> (cleared p (view w) ref \<longrightarrow> cleared p (view w') ref)"

lemma kept_cleared_run: "run_relation (kept_cleared view p ref)"
  by unfold_locales (auto simp: kept_cleared_def)

text \<open>A computation on shared clusters that leaves the object cleared when it succeeds.\<close>

definition settles :: "('w \<Rightarrow> store) \<Rightarrow> provisioner \<Rightarrow> obj_ref \<Rightarrow> (go_error, 'w shared, 'a) io \<Rightarrow> bool" where
  "settles view p ref m \<longleftrightarrow>
     (\<forall>s x s'. rely (kept_cleared view p ref) (snd s) \<longrightarrow> m s = (Inr x, s') \<longrightarrow> cleared p (view (fst s')) ref)"

lemma settlesI:
  "(\<And>s x s'. rely (kept_cleared view p ref) (snd s) \<Longrightarrow> m s = (Inr x, s') \<Longrightarrow> cleared p (view (fst s')) ref) \<Longrightarrow>
   settles view p ref m"
  by (simp add: settles_def)

lemma settlesD:
  "settles view p ref m \<Longrightarrow> m s = (Inr x, s') \<Longrightarrow> rely (kept_cleared view p ref) (snd s) \<Longrightarrow> cleared p (view (fst s')) ref"
  unfolding settles_def by blast

lemma settled_kept:
  "shared_rel (kept_cleared view p ref) s s' \<Longrightarrow> rely (kept_cleared view p ref) (snd s) \<Longrightarrow>
   cleared p (view (fst s)) ref \<Longrightarrow> cleared p (view (fst s')) ref"
  by (simp add: shared_rel_def kept_cleared_def)

lemma relied_on: "shared_rel G s s' \<Longrightarrow> rely G (snd s) \<Longrightarrow> rely G (snd s')"
  using rely_subset by (auto simp: shared_rel_def)

text \<open>What follows a step that settles has to keep it; what comes before may do anything that keeps the
  others from acting otherwise.\<close>

lemma settles_first:
  assumes "settles view p ref m" and "io_keeps (shared_rel (kept_cleared view p ref)) m"
    and "\<And>x. io_keeps (shared_rel (kept_cleared view p ref)) (f x)"
  shows "settles view p ref (io_bind m f)"
proof (rule settlesI)
  fix s x s'
  assume rely: "rely (kept_cleared view p ref) (snd s)" and "io_bind m f s = (Inr x, s')"
  then obtain y s1 where m: "m s = (Inr y, s1)" and f: "f y s1 = (Inr x, s')" by (auto simp: io_ok)
  show "cleared p (view (fst s')) ref"
    by (rule settled_kept [OF io_keepsD [OF assms(3) f] relied_on [OF io_keepsD [OF assms(2) m] rely]
          settlesD [OF assms(1) m rely]])
qed

lemma settles_rest:
  assumes "io_keeps (shared_rel (kept_cleared view p ref)) m" and "\<And>x. settles view p ref (f x)"
  shows "settles view p ref (io_bind m f)"
proof (rule settlesI)
  fix s x s'
  assume rely: "rely (kept_cleared view p ref) (snd s)" and "io_bind m f s = (Inr x, s')"
  then obtain y s1 where m: "m s = (Inr y, s1)" and f: "f y s1 = (Inr x, s')" by (auto simp: io_ok)
  show "cleared p (view (fst s')) ref"
    by (rule settlesD [OF assms(2) f relied_on [OF io_keepsD [OF assms(1) m] rely]])
qed

lemma settles_map_error: "settles view p ref m \<Longrightarrow> settles view p ref (io_map_error h m)"
  by (auto simp: settles_def io_ok)

lemma settles_for:
  assumes "y \<in> set xs" and "settles view p ref (f y)"
    and "\<And>x. io_keeps (shared_rel (kept_cleared view p ref)) (f x)"
  shows "settles view p ref (io_for xs f)"
  using assms(1)
proof (induction xs)
  case (Cons x xs)
  have keeps: "io_keeps (shared_rel (kept_cleared view p ref)) (io_for ys f)" for ys
    by (rule run_relation.keeps_for [OF shared_relation [OF kept_cleared_run] assms(3)])
  show ?case
  proof (cases "x = y")
    case True
    with assms(2,3) keeps show ?thesis by (auto intro: settles_first)
  next
    case False
    with Cons assms(3) show ?thesis by (auto intro: settles_rest)
  qed
qed simp

section \<open>The operations\<close>

lemma shared_run:
  "shared_io m s = (x, s') \<Longrightarrow> m (fst (disturb s)) = (x, fst s') \<and> snd s' = snd (disturb s)"
  by (auto simp: shared_io_def split: prod.splits)

lemma label_selected:
  "selected c ns [(l, v)] r obj \<longleftrightarrow> (\<exists>n. r = (c, KSecret, ns, n)) \<and> label_of obj l = Some v"
  by (simp add: selected_def matches_labels_def)

context kube_api
begin

lemma removals_kept: "removal_calls (kept_cleared view p ref) api UNIV"
proof (intro removal_calls.intro removal_calls_axioms.intro kept_cleared_run)
  show "io_keeps (kept_cleared view p ref) (api_Get api r)" for r
    by (rule io_keepsI) (metis get_ok get_err kept_cleared_def sum.exhaust)
  show "io_keeps (kept_cleared view p ref) (api_List api c k scope sel)" for c k scope sel
    by (rule io_keepsI) (metis list_ok list_err kept_cleared_def sum.exhaust)
  show "io_keeps (kept_cleared view p ref) (api_Delete api r)" for r
    by (rule io_keepsI) (metis delete_cases cleared_deleted kept_cleared_def)
  show "\<exists>n. ref_of c obj = (c, k, ns, n)"
    if "api_List api c k (Some ns) sel w = (Inr objs, w')" "obj \<in> set objs" for c k ns sel w objs w' obj
    using listed_in_namespace [OF kube_api_axioms that] .
qed

lemma shared_removal_kept:
  "io_keeps (shared_rel (kept_cleared view p ref)) (IgnoreNotFound (api_Delete (shared_client api) r))"
proof -
  have "io_keeps (kept_cleared view p ref) (api_Delete api r)"
    by (rule io_keepsI) (metis delete_cases cleared_deleted kept_cleared_def)
  then have d: "io_keeps (shared_rel (kept_cleared view p ref)) (api_Delete (shared_client api) r)"
    using shared_io_keeps [OF kept_cleared_run] by simp
  note S = shared_relation [OF kept_cleared_run]
  show ?thesis
    unfolding IgnoreNotFound_def
    by (rule run_relation.keeps_try [OF S d])
       (auto split: sum.split intro: run_relation.keeps_return [OF S] run_relation.keeps_error [OF S])
qed

lemmas shared_removals = removal_calls_shared [OF removals_kept]
lemmas shared_keeps =
  removal_calls.get_call [OF shared_removals] removal_calls.list_call [OF shared_removals]
  shared_removal_kept
  removal_calls.prune_call [OF shared_removals UNIV_I]
  removal_calls.RemoveCABundle_call [OF shared_removals subset_UNIV]
  removal_calls.remove_secrets_call [OF shared_removals subset_UNIV]
  removal_calls.remove_reloader_call [OF shared_removals subset_UNIV]
  removal_calls.Uninstall_call [OF shared_removals subset_UNIV]
  removal_calls.probe_calls [OF shared_removals]

lemma deletion_keeps:
  "io_keeps (shared_rel (kept_cleared view p ref)) (CountUserArgoCDResources (shared_client api) p)"
  "io_keeps (shared_rel (kept_cleared view p ref)) (Uninstall (shared_client api) p)"
  "io_keeps (shared_rel (kept_cleared view p ref)) (IsUninstalled (shared_client api) p)"
  "io_keeps (shared_rel (kept_cleared view p ref)) (RemoveCABundle (shared_client api) p)"
  by (rule shared_keeps)+

lemma settles_removal:
  assumes "fst (snd ref) = KSecret"
  shows "settles view p ref (IgnoreNotFound (api_Delete (shared_client api) ref))"
proof (rule settlesI)
  fix s x s'
  assume run: "IgnoreNotFound (api_Delete (shared_client api) ref) s = (Inr x, s')"
  have "\<exists>y. IgnoreNotFound (api_Delete api ref) (fst (disturb s)) = (Inr y, fst s')"
    using run shared_run [of "api_Delete api ref" s]
    by (cases "shared_io (api_Delete api ref) s")
       (auto simp: IgnoreNotFound_def io_try_eq io_ok split: if_splits sum.splits)
  then obtain y where "IgnoreNotFound (api_Delete api ref) (fst (disturb s)) = (Inr y, fst s')" by blast
  from ignore_delete_ok [OF this] have "view (fst s') ref = Option.bind (view (fst (disturb s)) ref) after_delete"
    by (simp add: deleted_def)
  then show "cleared p (view (fst s')) ref"
    using after_delete_marked [of "view (fst (disturb s)) ref"] assms by (auto simp: cleared_secret)
qed

text \<open>Pruning settles an object that counts as cleared whenever the list would not select it.\<close>

lemma settles_prune:
  assumes secret: "fst (snd ref) = KSecret"
    and unselected: "\<And>s. (\<And>obj. s ref = Some obj \<Longrightarrow> \<not> selected c ns sel ref obj) \<Longrightarrow> cleared p s ref"
  shows "settles view p ref (prune_shape (shared_client api) c ns sel [] e1 e2)"
proof (rule settlesI)
  fix s x s'
  let ?f = "\<lambda>item. io_map_error (e2 item) (IgnoreNotFound (api_Delete (shared_client api) (ref_of c item)))"
  note maps = run_relation.keeps_map_error [OF shared_relation [OF kept_cleared_run]]
  have keeps: "io_keeps (shared_rel (kept_cleared view p ref)) (?f item)" for item
    by (rule maps) (rule shared_keeps)
  assume rely: "rely (kept_cleared view p ref) (snd s)"
    and "prune_shape (shared_client api) c ns sel [] e1 e2 s = (Inr x, s')"
  then obtain items s1 where l: "shared_io (api_List api c KSecret (Some ns) sel) s = (Inr items, s1)"
    and d: "io_for items ?f s1 = (Inr x, s')" by (auto simp: prune_shape_def io_ok)
  have "io_keeps (shared_rel (kept_cleared view p ref)) (api_List (shared_client api) c KSecret (Some ns) sel)"
    by (rule shared_keeps)
  from io_keepsD [OF this, of s "Inr items" s1] l have kept: "shared_rel (kept_cleared view p ref) s s1" by simp
  note rely1 = relied_on [OF kept rely]
  have list: "api_List api c KSecret (Some ns) sel (fst (disturb s)) = (Inr items, fst s1)"
    using shared_run [OF l] by simp
  have v1: "view (fst s1) = view (fst (disturb s))" and items: "set items = listed (view (fst s1)) c KSecret (Some ns) sel"
    using list_ok [OF list] by simp_all
  show "cleared p (view (fst s')) ref"
  proof (cases "ref \<in> ref_of c ` set items")
    case True
    then obtain item where "item \<in> set items" "ref = ref_of c item" by blast
    then have "settles view p ref (io_for items ?f)"
      using settles_for [of item items view p ref ?f] settles_map_error [OF settles_removal [OF secret]] keeps by blast
    from settlesD [OF this d rely1] show ?thesis .
  next
    case False
    then have "cleared p (view (fst s1)) ref"
      using listed_refs [of ref c "fst s1" ns sel "[]"] items by (intro unselected) auto
    moreover have keeps_items: "io_keeps (shared_rel (kept_cleared view p ref)) (io_for items ?f)"
      by (rule run_relation.keeps_for [OF shared_relation [OF kept_cleared_run] keeps])
    ultimately show ?thesis using settled_kept [OF io_keepsD [OF keeps_items d] rely1] by blast
  qed
qed

text \<open>The copied pull secrets, on a control plane that is a cluster of its own.\<close>

lemma settles_Uninstall:
  assumes "p_mcpClient p \<noteq> p_platformClient p"
    and "ref \<in> range (mcp_secret p) \<or>
      ref \<in> range (platform_secret p (p_tenantNamespace p)) \<and> \<not> (ref = ca_target p \<and> p_caBundleSecret p \<noteq> [])"
  shows "settles view p ref (Uninstall (shared_client api) p)"
proof -
  note [intro] = run_relation.keeps_map_error [OF shared_relation [OF kept_cleared_run]]
    run_relation.keeps_bind [OF shared_relation [OF kept_cleared_run]]
  have secret: "fst (snd ref) = KSecret" using assms(2) by (auto simp: mcp_secret_def platform_secret_def)
  have "settles view p ref (removeImagePullSecrets (shared_client api) p) \<or>
      settles view p ref (removeChartPullSecrets (shared_client api) p)"
  proof (cases "ref \<in> range (mcp_secret p)")
    case True
    then have "cleared p s ref" if "\<And>obj. s ref = Some obj \<Longrightarrow>
        \<not> selected (p_mcpClient p) (p_mcpNamespace p) [(managedByLabel, imagePullSecretManagedByValue)] ref obj" for s
      using that assms(1) unfolding cleared_secret [OF secret]
      by (auto simp: label_selected image_own_def manages_secret_def mcp_secret_def platform_secret_def ca_target_def)
    then show ?thesis
      unfolding removeImagePullSecrets_def prune_shapes using settles_prune [OF secret] by blast
  next
    case False
    then have "cleared p s ref" if "\<And>obj. s ref = Some obj \<Longrightarrow>
        \<not> selected (p_platformClient p) (p_tenantNamespace p) [(chartPullSecretLabel, ''true'')] ref obj" for s
      using that assms(2) unfolding cleared_secret [OF secret]
      by (auto simp: label_selected chart_own_def manages_secret_def platform_secret_def)
    then show ?thesis
      unfolding removeChartPullSecrets_def prune_shapes using settles_prune [OF secret] by blast
  qed
  then show ?thesis
    unfolding Uninstall_def
    by (elim disjE) (intro settles_rest settles_first settles_map_error, (rule shared_keeps | blast intro: shared_keeps)+)+
qed

text \<open>The CA bundle, by name.\<close>

lemma settles_CA:
  assumes "ref = ca_target p" and "p_caBundleSecret p \<noteq> []"
  shows "settles view p ref (RemoveCABundle (shared_client api) p)"
proof -
  have "fst (snd ref) = KSecret" using assms(1) by (simp add: ca_target_def platform_secret_def)
  then show ?thesis
    using settles_removal [of ref p] assms by (simp add: RemoveCABundle_def ca_target_def)
qed

text \<open>The probe: each of its four answers settles one resource.\<close>

lemma gone_settles:
  assumes "gone (shared_client api) r msg s = (Inr True, s')"
  shows "cleared p (view (fst s')) r"
proof -
  obtain x where g: "shared_io (api_Get api r) s = (x, s')" and x: "\<exists>e. x = Inl e \<and> IsNotFound e"
    using assms
    by (cases "shared_io (api_Get api r) s")
       (auto simp: gone_def io_try_eq io_ok split: sum.splits if_splits)
  then have "view (fst s') r = None"
    using shared_run [OF g] get_err [of r "fst (disturb s)" _ "fst s'"] by auto
  then show ?thesis by (rule cleared_none)
qed

lemma IsUninstalled_settles:
  assumes run: "IsUninstalled (shared_client api) p s = (Inr True, s')" and "ref \<in> flux_refs p"
    and rely: "rely (kept_cleared view p ref) (snd s)"
  shows "cleared p (view (fst s')) ref"
proof -
  let ?g = "gone (shared_client api)"
  obtain s1 s2 s3 where
    1: "?g (flux_ref p KHelmRelease helmReleaseName) ''getting HelmRelease'' s = (Inr True, s1)" and
    2: "?g (flux_ref p KOCIRepository ociRepositoryName) ''getting OCIRepository'' s1 = (Inr True, s2)" and
    3: "?g (flux_ref p KHelmRelease reloaderHelmReleaseName) ''getting Reloader HelmRelease'' s2 = (Inr True, s3)" and
    4: "?g (flux_ref p KOCIRepository reloaderOCIRepositoryName) ''getting Reloader OCIRepository'' s3 = (Inr True, s')"
    using run by (auto simp: IsUninstalled_def io_ok split: if_splits)
  have keeps: "io_keeps (shared_rel (kept_cleared view p ref)) (?g r msg)" for r msg
    unfolding gone_def
    by (rule run_relation.keeps_try [OF shared_relation [OF kept_cleared_run] shared_keeps(1)])
       (auto split: sum.split intro: run_relation.keeps_return run_relation.keeps_error shared_relation kept_cleared_run)
  note r1 = relied_on [OF io_keepsD [OF keeps 1] rely]
  note r2 = relied_on [OF io_keepsD [OF keeps 2] r1]
  note r3 = relied_on [OF io_keepsD [OF keeps 3] r2]
  note k2 = settled_kept [OF io_keepsD [OF keeps 2] r1]
  note k3 = settled_kept [OF io_keepsD [OF keeps 3] r2]
  note k4 = settled_kept [OF io_keepsD [OF keeps 4] r3]
  note settled = gone_settles [OF 1, of p] gone_settles [OF 2, of p] gone_settles [OF 3, of p] gone_settles [OF 4, of p]
  from assms(2) consider
      "ref = flux_ref p KHelmRelease helmReleaseName" | "ref = flux_ref p KOCIRepository ociRepositoryName"
    | "ref = flux_ref p KHelmRelease reloaderHelmReleaseName" | "ref = flux_ref p KOCIRepository reloaderOCIRepositoryName"
    unfolding flux_refs_def reloader_refs_def by blast
  then show ?thesis
  proof cases
    case 1
    then show ?thesis using settled(1) k2 k3 k4 by simp
  next
    case 2
    then show ?thesis using settled(2) k3 k4 by simp
  next
    case 3
    then show ?thesis using settled(3) k4 by simp
  next
    case 4
    then show ?thesis using settled(4) by simp
  qed
qed

text \<open>The guard: three lists, each of which settles the resources of its kind.\<close>

lemma list_settles:
  assumes "listResourcesByGVK (shared_client api) p k msg s = (Inr items, s')"
    and "\<not> (\<exists>obj \<in> set items. ref = ref_of (p_mcpClient p) obj)" and "fst ref = p_mcpClient p" and "fst (snd ref) = k"
  shows "view (fst s') ref = None"
proof -
  obtain x where l: "shared_io (api_List api (p_mcpClient p) k None []) s = (x, s')"
    and x: "x = Inr items \<or> items = [] \<and> (\<exists>e. x = Inl e \<and> IsNoMatchError e)"
    using assms(1)
    by (cases "shared_io (api_List api (p_mcpClient p) k None []) s")
       (auto simp: listResourcesByGVK_def io_try_eq io_ok split: sum.splits if_splits)
  have "listResourcesByGVK api p k msg (fst (disturb s)) = (Inr items, fst s')"
    using shared_run [OF l] x by (auto simp: listResourcesByGVK_def io_try_eq io_ok)
  note listed = listGVK_ok [OF this]
  show ?thesis
  proof (rule ccontr)
    assume "view (fst s') ref \<noteq> None"
    then obtain obj where obj: "view (fst s') ref = Some obj" by blast
    obtain ns n where ref: "ref = (p_mcpClient p, k, ns, n)" using assms(3,4) by (cases ref) auto
    have "obj \<in> set items" using listed obj ref by (auto simp: listed_def matches_labels_def)
    moreover have "ref_of (p_mcpClient p) obj = ref" using stored_ref [OF obj] ref by simp
    ultimately show False using assms(2) by blast
  qed
qed

lemma Count_settles:
  assumes run: "CountUserArgoCDResources (shared_client api) p s = (Inr 0, s')"
    and rely: "rely (kept_cleared view p ref) (snd s)"
    and kind: "fst ref = p_mcpClient p" "fst (snd ref) \<in> {KApplication, KApplicationSet, KAppProject}"
  shows "cleared p (view (fst s')) ref"
proof -
  obtain s1 s2 ps where
    1: "listResourcesByGVK (shared_client api) p KApplication ''ArgoCD Applications'' s = (Inr [], s1)" and
    2: "listResourcesByGVK (shared_client api) p KApplicationSet ''ArgoCD ApplicationSets'' s1 = (Inr [], s2)" and
    3: "listResourcesByGVK (shared_client api) p KAppProject ''ArgoCD AppProjects'' s2 = (Inr ps, s')" and
    ps: "count_projects p ps 0 = 0"
    using run by (auto simp: CountUserArgoCDResources_def countResourcesByGVK_def countUserAppProjects_def io_ok)
  have keeps: "io_keeps (shared_rel (kept_cleared view p ref)) (listResourcesByGVK (shared_client api) p k msg)" for k msg
    unfolding listResourcesByGVK_def
    by (rule run_relation.keeps_try [OF shared_relation [OF kept_cleared_run] shared_keeps(2)])
       (auto split: sum.split intro: run_relation.keeps_return run_relation.keeps_error shared_relation kept_cleared_run)
  note r1 = relied_on [OF io_keepsD [OF keeps 1] rely]
  note r2 = relied_on [OF io_keepsD [OF keeps 2] r1]
  note k2 = settled_kept [OF io_keepsD [OF keeps 2] r1]
  note k3 = settled_kept [OF io_keepsD [OF keeps 3] r2]
  from kind(2) consider "fst (snd ref) = KApplication" | "fst (snd ref) = KApplicationSet"
    | "fst (snd ref) = KAppProject" by blast
  then show ?thesis
  proof cases
    case 1
    with list_settles [OF \<open>listResourcesByGVK _ p KApplication _ s = _\<close> _ kind(1)] show ?thesis
      using k2 k3 cleared_none by simp
  next
    case 2
    with list_settles [OF \<open>listResourcesByGVK _ p KApplicationSet _ s1 = _\<close> _ kind(1)] show ?thesis
      using k3 cleared_none by simp
  next
    case 3
    show ?thesis
    proof (cases "ref \<in> user_resources (view (fst s')) p")
      case True
      then have "\<not> (snd (snd ref) = (p_mcpNamespace p, defaultAppProjectName))" and "view (fst s') ref \<noteq> None"
        using 3 by (auto simp: user_resources_def)
      moreover have "snd (snd (ref_of (p_mcpClient p) obj)) = (p_mcpNamespace p, defaultAppProjectName)" if "obj \<in> set ps" for obj
        using ps that by (auto simp: count_projects_filter filter_empty_conv ref_of_def key_of_def)
      ultimately have False
        using list_settles [OF \<open>listResourcesByGVK _ p KAppProject _ s2 = _\<close> _ kind(1) 3] by metis
      then show ?thesis ..
    next
      case False
      then show ?thesis using 3 cleared_kinds(1) [of ref p] cleared_kinds(3) [of p ref] by (auto simp: cleared_def)
    qed
  qed
qed

end

section \<open>Done, under interference\<close>

lemma Delete_done:
  assumes "status_library (env_status env)" and "newProvisioner env r obj pc ctx = Inr p"
    and run: "Delete env r pc ctx obj s = ((obj', Inr 0), s')"
  obtains s1 s2 s3 u v where "CountUserArgoCDResources (env_api env) p s = (Inr 0, s1)"
    and "Uninstall (env_api env) p s1 = (Inr u, s2)" and "IsUninstalled (env_api env) p s2 = (Inr True, s3)"
    and "RemoveCABundle (env_api env) p s3 = (Inr v, s')"
proof -
  define o1 where "o1 = StatusTerminatingWithReason (env_status env) reasonTerminating
      ''Resource termination initiated; cleanup tasks are in progress'' obj"
  have "newProvisioner env r o1 pc ctx = Inr p"
    using status_library.terminating_frame [OF assms(1), of obj] assms(2) unfolding o1_def
    by (subst newProvisioner_status [of _ obj]) (auto simp: same_but_status_def)
  then obtain s1 where c: "CountUserArgoCDResources (env_api env) p s = (Inr 0, s1)"
    and u: "uninstall_and_report env p o1 s1 = ((obj', Inr 0), s')"
    using run by (auto simp: Delete_def o1_def [symmetric] Let_def split: sum.splits prod.splits if_splits)
  show thesis
    using u by (auto simp: uninstall_and_report_def split: sum.splits prod.splits if_splits intro: that [OF c])
qed

text \<open>C12. Deleting is done also when others write to the clusters between any two calls. Take an object that
  the others, once it is cleared, leave cleared: when the delete handler reports that it is done, the
  object is cleared, be it a resource of the user or a Flux resource, which then is gone, or a managed
  secret, which then is gone or marked for deletion. What the handler has listed or probed may have
  been out of date by the time it acted on it.\<close>

theorem deletion_done_under_interference:
  assumes "reconciler env view"
    and "Delete (shared_env env) r pc ctx obj (w, others) = ((obj', Inr 0), (w', rest))"
    and "newProvisioner env r obj pc ctx = Inr p" and "p_mcpClient p \<noteq> p_platformClient p"
    and "\<forall>f \<in> set others. \<forall>v. cleared p (view v) ref \<longrightarrow> cleared p (view (f v)) ref"
  shows "cleared p (view w') ref"
proof -
  have api: "kube_api (env_api env) view" and status: "status_library (env_status (shared_env env))"
    using assms(1) by (auto dest: reconciler.axioms)
  obtain s1 s2 s3 u v where c: "CountUserArgoCDResources (shared_client (env_api env)) p (w, others) = (Inr 0, s1)"
    and un: "Uninstall (shared_client (env_api env)) p s1 = (Inr u, s2)"
    and g: "IsUninstalled (shared_client (env_api env)) p s2 = (Inr True, s3)"
    and ca: "RemoveCABundle (shared_client (env_api env)) p s3 = (Inr v, (w', rest))"
    by (rule Delete_done [OF status _ assms(2), unfolded shared_env_simps newProvisioner_shared, OF assms(3)])
  let ?R = "kept_cleared view p ref"
  note keeps = kube_api.deletion_keeps [OF api, of p ref]
  have r0: "rely ?R (snd (w, others))" using assms(5) by (simp add: rely_def kept_cleared_def)
  note r1 = relied_on [OF io_keepsD [OF keeps(1) c] r0]
  note r2 = relied_on [OF io_keepsD [OF keeps(2) un] r1]
  note r3 = relied_on [OF io_keepsD [OF keeps(3) g] r2]
  note k1 = settled_kept [OF io_keepsD [OF keeps(2) un] r1]
  note k2 = settled_kept [OF io_keepsD [OF keeps(3) g] r2]
  note k3 = settled_kept [OF io_keepsD [OF keeps(4) ca] r3, unfolded fst_conv]
  consider (user) "fst ref = p_mcpClient p" "fst (snd ref) \<in> {KApplication, KApplicationSet, KAppProject}"
    | (flux) "ref \<in> flux_refs p"
    | (ca_copy) "ref = ca_target p" "p_caBundleSecret p \<noteq> []"
    | (secret) "ref \<in> range (mcp_secret p) \<or>
        ref \<in> range (platform_secret p (p_tenantNamespace p)) \<and> \<not> (ref = ca_target p \<and> p_caBundleSecret p \<noteq> [])"
    | (other) "\<forall>s. cleared p s ref"
    unfolding cleared_def manages_secret_def using cleared_kinds(2) [of ref _ p] by blast
  then show ?thesis
  proof cases
    case user
    show ?thesis by (intro k3 k2 k1 kube_api.Count_settles [OF api c r0 user])
  next
    case flux
    show ?thesis by (intro k3 kube_api.IsUninstalled_settles [OF api g flux r2])
  next
    case ca_copy
    show ?thesis using settlesD [OF kube_api.settles_CA [OF api ca_copy] ca r3] by simp
  next
    case secret
    show ?thesis by (intro k3 k2 settlesD [OF kube_api.settles_Uninstall [OF api assms(4) secret] un r1])
  qed blast
qed

text \<open>While the example resource is deleted, after the guard has counted and before the copies are listed, a
  user adds a secret of their own beside a copied one.\<close>

definition example_writes :: "(mem_store \<Rightarrow> mem_store) list" where
  "example_writes = [id, id, id, id, mem_put ''mcp'' (new_object ''mine'' ''argocd'' (Secret ''Opaque'' []))]"

lemma example_deletion:
  "snd (fst (Delete (shared_env (example_env (\<lambda>_. None))) example_r example_pc example_ctx example_obj
     ([(''mcp'', example_left_over)], example_writes))) = Inr 0"
  by code_simp

lemma deletion_done_under_interference_witness:
  "\<not> cleared example_p (mem_view [(''mcp'', example_left_over)]) (mcp_secret example_p ''regcred'') \<and>
   cleared example_p (mem_view (fst (snd (Delete (shared_env (example_env (\<lambda>_. None))) example_r example_pc example_ctx
     example_obj ([(''mcp'', example_left_over)], example_writes))))) (mcp_secret example_p ''regcred'')"
proof
  let ?ref = "mcp_secret example_p ''regcred''"
  have ref: "?ref = (''mcp'', KSecret, ''argocd'', ''regcred'')"
    by (simp add: mcp_secret_def example_p_def example_config_def NewProvisioner_def DefaultNamespace_def)
  have "mem_view [(''mcp'', example_left_over)] ?ref = Some example_left_over"
    unfolding ref by (simp add: mem_view_Cons example_left_over_def ref_of_def)
  moreover have "manages_secret example_p ?ref example_left_over" "\<not> o_Deleting example_left_over"
    by (auto simp: manages_secret_def image_own_def example_left_over_def new_object_def)
  ultimately show "\<not> cleared example_p (mem_view [(''mcp'', example_left_over)]) ?ref"
    by (auto simp: cleared_def)
  have kept: "mem_view (f v) ?ref = mem_view v ?ref" if "f \<in> set example_writes" for f v
    using that unfolding ref by (auto simp: example_writes_def mem_view_put ref_of_def key_of_def new_object_def)
  have "\<forall>f \<in> set example_writes. \<forall>v. cleared example_p (mem_view v) ?ref \<longrightarrow> cleared example_p (mem_view (f v)) ?ref"
  proof (intro ballI allI impI)
    show "cleared example_p (mem_view (f v)) ?ref" if "f \<in> set example_writes" "cleared example_p (mem_view v) ?ref" for f v
      using that cleared_same [of "mem_view (f v)" ?ref "mem_view v"] kept [OF that(1), of v] by simp
  qed
  moreover have "p_mcpClient example_p \<noteq> p_platformClient example_p"
    by (simp add: example_p_def example_config_def NewProvisioner_def)
  moreover obtain obj' w' rest where run:
    "Delete (shared_env (example_env (\<lambda>_. None))) example_r example_pc example_ctx example_obj
       ([(''mcp'', example_left_over)], example_writes) = ((obj', Inr 0), (w', rest))"
    using example_deletion by (metis prod.collapse)
  ultimately show "cleared example_p (mem_view (fst (snd (Delete (shared_env (example_env (\<lambda>_. None))) example_r
      example_pc example_ctx example_obj ([(''mcp'', example_left_over)], example_writes))))) ?ref"
    using deletion_done_under_interference [OF example.reconciler_axioms run example_provisioner]
    unfolding run by simp
qed

end
