(* ===== verification/Secret_Types.thy ===== *)
theory Secret_Types
  imports Provisioner_Properties
begin

text \<open>
  The API server does not let an update change the type of a Secret. The interface \<open>kube_api\<close> says
  nothing about which updates are refused; here the law is added, any client is turned into one that
  obeys it, and what it means for the copies of the pull secrets is drawn from it.
\<close>

section \<open>Immutable types\<close>

text \<open>Whether an update would change the type of a stored secret.\<close>

definition retypes :: "store \<Rightarrow> cluster \<Rightarrow> kobj \<Rightarrow> (kobj \<Rightarrow> kobj) \<Rightarrow> bool" where
  "retypes s c init f =
     (case s (ref_of c init) of
        None \<Rightarrow> False
      | Some obj \<Rightarrow>
          (case (o_Body obj, o_Body (f obj)) of
             (Secret t _, Secret t' _) \<Rightarrow> t \<noteq> t'
           | _ \<Rightarrow> False))"

locale immutable_types = kube_api +
  assumes retyping_refused:
    "preserves_key init f \<Longrightarrow> retypes (view w) c init f \<Longrightarrow>
     \<exists>e w'. api_CreateOrUpdate api c init f w = (Inl e, w') \<and> view w' = view w"

definition typed_client :: "('w \<Rightarrow> store) \<Rightarrow> 'w kube_client \<Rightarrow> 'w kube_client" where
  "typed_client view api = api\<lparr>api_CreateOrUpdate := (\<lambda>c init f w.
     if retypes (view w) c init f
     then (Inl (ApiError (OtherApi ''type: Invalid value: field is immutable'')), w)
     else api_CreateOrUpdate api c init f w)\<rparr>"

lemma typed_client_immutable:
  assumes "kube_api api view"
  shows "immutable_types (typed_client view api) view"
proof -
  note laws = kube_api.stored_key [OF assms] kube_api.get_ok [OF assms] kube_api.get_err [OF assms]
    kube_api.list_ok [OF assms] kube_api.list_err [OF assms] kube_api.create_ok [OF assms] kube_api.create_err [OF assms]
    kube_api.delete_ok [OF assms] kube_api.delete_err [OF assms] kube_api.annotation_ok [OF assms]
  have update: "api_CreateOrUpdate (typed_client view api) c init f w = (x, w') \<longleftrightarrow>
      (if retypes (view w) c init f
       then x = Inl (ApiError (OtherApi ''type: Invalid value: field is immutable'')) \<and> w' = w
       else api_CreateOrUpdate api c init f w = (x, w'))" for c init f w x w'
    by (auto simp: typed_client_def)
  have same: "api_Get (typed_client view api) = api_Get api" "api_List (typed_client view api) = api_List api"
    "api_Create (typed_client view api) = api_Create api" "api_Delete (typed_client view api) = api_Delete api"
    "api_RemoveAnnotation (typed_client view api) = api_RemoveAnnotation api"
    by (simp_all add: typed_client_def)
  show ?thesis
  proof (unfold_locales, unfold update)
    fix init f w c u w'
    assume "preserves_key init f"
    note updates = kube_api.update_ok [OF assms this] kube_api.update_err [OF assms this]
    show "view w' = updated (view w) c init f"
      if "if retypes (view w) c init f then Inr u = Inl (ApiError (OtherApi ''type: Invalid value: field is immutable'')) \<and> w' = w
          else api_CreateOrUpdate api c init f w = (Inr u, w')"
      using that updates by (simp split: if_splits)
    show "view w' = view w \<or> view w' = updated (view w) c init f"
      if "if retypes (view w) c init f then Inl e = Inl (ApiError (OtherApi ''type: Invalid value: field is immutable'')) \<and> w' = w
          else api_CreateOrUpdate api c init f w = (Inl e, w')" for e
      using that updates by (simp split: if_splits)
    show "\<exists>e w'. (if retypes (view w) c init f
        then Inl e = Inl (ApiError (OtherApi ''type: Invalid value: field is immutable'')) \<and> w' = w
        else api_CreateOrUpdate api c init f w = (Inl e, w')) \<and> view w' = view w"
      if "retypes (view w) c init f"
      using that by simp
  qed (unfold same, (erule laws)+)
qed

interpretation typed: immutable_types "typed_client mem_view (mem_client F)" mem_view for F
  by (rule typed_client_immutable [OF mem.kube_api_axioms])

section \<open>A copy that cannot be updated\<close>

text \<open>The secret at the place of a copy has another type than its source.\<close>

definition type_differs :: "store \<Rightarrow> provisioner \<Rightarrow> string \<Rightarrow> bool" where
  "type_differs s p n \<longleftrightarrow>
     (\<exists>source copy. s (platform_secret p (p_podNamespace p) n) = Some source \<and> s (mcp_secret p n) = Some copy \<and>
        secret_Type source \<noteq> secret_Type copy)"

lemma type_differs_cong:
  "s' (platform_secret p (p_podNamespace p) n) = s (platform_secret p (p_podNamespace p) n) \<Longrightarrow>
   s' (mcp_secret p n) = s (mcp_secret p n) \<Longrightarrow> type_differs s' p n \<longleftrightarrow> type_differs s p n"
  by (simp add: type_differs_def)

context immutable_types
begin

lemma copy_refused:
  assumes "type_differs (view w) p n" and apart: "p_mcpClient p \<noteq> p_platformClient p"
    and run: "copyImagePullSecret api p n w = (x, w')"
  shows "(\<exists>e. x = Inl e) \<and> view w' (mcp_secret p n) = view w (mcp_secret p n)"
proof -
  let ?m = "mcp_secret p n" and ?src = "platform_secret p (p_podNamespace p) n"
  obtain source copy where s: "view w ?src = Some source" "view w ?m = Some copy"
    and t: "secret_Type source \<noteq> secret_Type copy"
    using assms(1) by (auto simp: type_differs_def)
  obtain g w1 where get: "api_Get api ?src w = (g, w1)" by fastforce
  have w1: "view w1 = view w" using get get_ok get_err by (cases g) blast+
  show ?thesis
  proof (cases g)
    case (Inl e)
    then have "x = Inl (Wrap (''getting image pull secret '' @ quoted n @ '' from namespace '' @ quoted (p_podNamespace p)) e)"
      and "w' = w1"
      using run get by (simp_all add: copyImagePullSecret_def io_bind_def io_map_error_def)
    then show ?thesis using w1 by simp
  next
    case (Inr source')
    then have src: "source' = source" using get_ok get s(1) by fastforce
    obtain y w2 where ns: "ensureMCPNamespace api p w1 = (y, w2)" by fastforce
    have "mcp_namespace_ref p \<noteq> ?m" by (simp add: mcp_namespace_ref_def mcp_secret_def)
    then have w2: "view w2 ?m = view w ?m"
      using same_outsideD [OF io_keepsD [OF ensureMCPNamespace_keeps ns, of "{mcp_namespace_ref p}"]] w1 by simp
    let ?init = "new_object n (p_mcpNamespace p) (Secret [] [])"
      and ?f = "\<lambda>target. (setManagedByValue imagePullSecretManagedByValue target)
        \<lparr>o_Body := Secret (secret_Type source) (secret_Data source)\<rparr>"
    have body: "o_Body copy = Secret (secret_Type copy) (secret_Data copy)"
      using stored_secret s(2) by (simp add: mcp_secret_def)
    have "retypes (view w2) (p_mcpClient p) ?init ?f"
      using t w2 s(2) by (simp add: retypes_def ref_of_def mcp_secret_def body)
    then obtain e w3 where upd: "api_CreateOrUpdate api (p_mcpClient p) ?init ?f w2 = (Inl e, w3)" and w3: "view w3 = view w2"
      using retyping_refused by (metis provider_write_def provider_writes(1))
    show ?thesis
      using run get ns upd Inr src w2 w3
      by (cases y) (auto simp: copyImagePullSecret_def io_bind_def io_map_error_def)
  qed
qed

lemma copies_refused:
  assumes "type_differs (view w) p n" and apart: "p_mcpClient p \<noteq> p_platformClient p" and "n \<in> set names"
    and "io_for names (copyImagePullSecret api p) w = (x, w')"
  shows "(\<exists>e. x = Inl e) \<and> view w' (mcp_secret p n) = view w (mcp_secret p n)"
  using assms
proof (induction names arbitrary: w)
  case (Cons m names)
  obtain y w1 where m: "copyImagePullSecret api p m w = (y, w1)" by fastforce
  have run: "(case y of Inl e \<Rightarrow> (Inl e, w1) | Inr _ \<Rightarrow> io_for names (copyImagePullSecret api p) w1) = (x, w')"
    using Cons.prems(4) m by (simp add: io_bind_def split: sum.splits)
  show ?case
  proof (cases "m = n")
    case True
    with copy_refused [OF Cons.prems(1) apart] m run show ?thesis by auto
  next
    case False
    have kept: "view w1 r = view w r" if "r \<noteq> mcp_secret p m" "r \<noteq> mcp_namespace_ref p" for r
      using same_outsideD [OF io_keepsD [OF copyImage_keeps m]] that by simp
    have w1: "view w1 (mcp_secret p n) = view w (mcp_secret p n)"
      "view w1 (platform_secret p (p_podNamespace p) n) = view w (platform_secret p (p_podNamespace p) n)"
      using False apart by (auto intro!: kept simp: mcp_secret_def mcp_namespace_ref_def platform_secret_def)
    then have "type_differs (view w1) p n" using Cons.prems(1) type_differs_cong by blast
    from Cons.IH [OF this apart] show ?thesis
      using run w1 Cons.prems(3) False by (cases y) auto
  qed
qed simp

end

text \<open>C22. A pull secret whose type differs from that of its source blocks the installation for good. The API
  server refuses to change the type of the copy, so Install fails whenever it runs, before it has
  touched the platform cluster: neither the secret nor the version, the values and the credentials of
  the installation are brought up to date.\<close>

theorem changed_secret_type_blocks_install:
  assumes "immutable_types api view" and "p_mcpClient p \<noteq> p_platformClient p"
    and "ImagePullSecretNames (v_Values version) = Inr names" and "n \<in> set names" and "type_differs (view w) p n"
  shows "\<exists>e w'. Install lib api p version w = (Inl e, w') \<and>
    view w' (mcp_secret p n) = view w (mcp_secret p n) \<and>
    (\<forall>key. view w' (p_platformClient p, key) = view w (p_platformClient p, key))"
proof (cases "v_ChartURL version")
  case None
  then show ?thesis by (simp add: Install_def io_error_def)
next
  case (Some url)
  have api: "kube_api api view" using assms(1) by (rule immutable_types.axioms)
  obtain x w' where copies: "io_for names (copyImagePullSecret api p) w = (x, w')" by fastforce
  then obtain e where e: "x = Inl e" and kept: "view w' (mcp_secret p n) = view w (mcp_secret p n)"
    using immutable_types.copies_refused [OF assms(1,5,2,4)] by blast
  have "Install lib api p version w = (Inl (Wrap ''reconciling image pull secrets'' e), w')"
    using copies e assms(3) Some
    by (simp add: Install_def reconcileImagePullSecrets_def io_bind_def io_map_error_def io_lift_def)
  moreover have frame: "io_keeps (same_outside view ({mcp_namespace_ref p} \<union> range (mcp_secret p)))
      (io_for names (copyImagePullSecret api p))"
    by (rule frame.keeps_for) (rule keeps_outside_mono [OF kube_api.copyImage_keeps [OF api]], auto)
  moreover have "(p_platformClient p, key) \<notin> {mcp_namespace_ref p} \<union> range (mcp_secret p)" for key
    using assms(2) by (auto simp: mcp_namespace_ref_def mcp_secret_def)
  then have "view w' (p_platformClient p, key) = view w (p_platformClient p, key)" for key
    by (rule same_outsideD [OF io_keepsD [OF frame copies]])
  ultimately show ?thesis using kept by blast
qed

text \<open>A user has created a secret of another type at the place of the copy.\<close>

definition example_retyped :: mem_store where
  "example_retyped = (''mcp'', new_object ''regcred'' ''argocd'' (Secret ''Opaque'' [])) # example_world"

lemma changed_secret_type_blocks_install_witness:
  "\<exists>e w'. Install example_lib (typed_client mem_view healthy) example_p example_version example_retyped = (Inl e, w') \<and>
     mem_view w' (mcp_secret example_p ''regcred'') = mem_view example_retyped (mcp_secret example_p ''regcred'') \<and>
     (\<forall>key. mem_view w' (p_platformClient example_p, key) = mem_view example_retyped (p_platformClient example_p, key))"
proof (rule changed_secret_type_blocks_install [OF typed.immutable_types_axioms _ example_names])
  show "type_differs (mem_view example_retyped) example_p ''regcred''"
    by (simp add: type_differs_def example_retyped_def example_world_simps mcp_secret_def secret_Type_def)
qed simp_all

end
