(* ===== verification/Status_Reports.thy ===== *)
theory Status_Reports
  imports Controller_Properties
begin

text \<open>
  What the status of a resource tells about the outcome of the update handler, path by path: which
  errors are reported in the Ready condition, and when the published endpoint changes.
\<close>

section \<open>Reports\<close>

text \<open>The resource reports a failure: phase Failed, a false Ready condition with reason and message, both
  for the generation of the request.\<close>

definition reports_failure :: "ArgoCD \<Rightarrow> string \<Rightarrow> string \<Rightarrow> int \<Rightarrow> bool" where
  "reports_failure obj reason message generation \<longleftrightarrow>
     st_Phase (Status obj) = StatusPhaseFailed \<and> st_ObservedGeneration (Status obj) = generation \<and>
     find_condition ServiceProviderConditionReady (GetConditions obj) =
       Some \<lparr>cond_Type = ServiceProviderConditionReady, cond_Status = ConditionFalse,
             cond_ObservedGeneration = generation, cond_Reason = reason, cond_Message = message\<rparr>"

context reconciler
begin

lemma failed_reports:
  "reports_failure (StatusFailed (env_status env) reason message obj) reason message (Generation obj)"
  using failed_phase [of reason message obj] failed_condition [of reason message obj]
  by (simp add: reports_failure_def)

lemma failed_endpoint: "st_Endpoint (Status (StatusFailed (env_status env) reason message obj)) = st_Endpoint (Status obj)"
  using failed_frame [of obj reason message] by (simp add: same_but_status_def)

lemma progressing_endpoint:
  "st_Endpoint (Status (StatusProgressing (env_status env) reason message obj)) = st_Endpoint (Status obj)"
  using progressing_frame [of obj reason message] by (simp add: same_but_status_def)

text \<open>How \<^verbatim>\<open>Install\<close>, \<^verbatim>\<open>Ready\<close> and \<^verbatim>\<open>Endpoint\<close> end the handler.\<close>

lemma install_and_report_ends:
  assumes run: "install_and_report env p v o2 w = ((obj', out), w')"
  obtains (failed) e reason where "out = Inl e" "obj' = StatusFailed (env_status env) reason (Error e) o2"
      "reason \<in> {reasonInstallFailed, reasonReadinessCheckFailed}"
  | (unready) m where "out = Inr requeueInterval" "\<not> release_ready (view w') p"
      "obj' = StatusProgressing (env_status env) reasonReconciling m o2"
  | (unknown) e where "out = Inl e" "obj' = o2" "release_ready (view w') p" "spec_Exposure (Spec o2) \<noteq> None"
  | (ended) n where "out = Inr n" "release_ready (view w') p"
proof -
  obtain x w1 where i: "Install (env_values env) (env_api env) p v w = (x, w1)" by fastforce
  show thesis
  proof (cases x)
    case (Inl e)
    then show thesis using run i by (intro failed [of e reasonInstallFailed]) (simp_all add: install_and_report_def)
  next
    case x: (Inr u)
    obtain y w2 where g: "Ready (env_api env) p w1 = (y, w2)" by fastforce
    show thesis
    proof (cases y)
      case (Inl e)
      then show thesis using run i x g by (intro failed [of e reasonReadinessCheckFailed]) (simp_all add: install_and_report_def)
    next
      case y: (Inr rm)
      obtain ready m where rm: "rm = (ready, m)" by (cases rm)
      have R: "view w2 = view w1" "ready \<longleftrightarrow> release_ready (view w1) p"
        using Ready_ok [of p w1 ready m w2] g y rm by (auto simp: release_ready_def)
      show thesis
      proof (cases ready)
        case False
        then show thesis using run i x g y rm R by (intro unready [of m]) (simp_all add: install_and_report_def)
      next
        case True
        obtain z w3 where e: "Endpoint (env_api env) p w2 = (z, w3)" by fastforce
        have v: "view w3 = view w2" by (rule readsD [OF Endpoint_reads e])
        show thesis
        proof (cases "spec_Exposure (Spec o2) = None \<or> (\<exists>r. z = Inr r)")
          case True
          then have "\<exists>n. out = Inr n" "w' = w2 \<or> w' = w3"
            using run i x g y rm \<open>ready\<close> e
            by (auto simp: install_and_report_def reconcileEndpoint_def split: if_splits prod.splits)
          then show thesis using R v \<open>ready\<close> ended by auto
        next
          case False
          then obtain err where "z = Inl err" by (cases z) auto
          then show thesis using run i x g y rm \<open>ready\<close> e R v False
            by (intro unknown [of err]) (auto simp: install_and_report_def reconcileEndpoint_def)
        qed
      qed
    qed
  qed
qed

end

lemmas install_ends = reconciler.install_and_report_ends [consumes 2, case_names failed unready unknown ended]

text \<open>C14. An error of the update handler is not lost: the resource reports it, with the phase Failed, the
  message of the error and one of three reasons, for the generation of the request. There are two
  exceptions: taking the reconcile annotation off failed with this error, and then nothing has happened; or the probe of the
  endpoint failed with the release ready, and then the resource is left Progressing.\<close>

theorem update_errors_are_reported:
  assumes "reconciler env view" and "CreateOrUpdate env r pc ctx obj w = ((obj', Inl e), w')"
  shows "(\<exists>reason \<in> {reasonProvisionerCreationFailed, reasonInstallFailed, reasonReadinessCheckFailed}.
       reports_failure obj' reason (Error e) (Generation obj)) \<or>
    (handleOperationAnnotation env r obj w = (Inl e, w') \<and> obj' = obj \<and> view w' = view w) \<or>
    (\<not> ready_condition obj' \<and> spec_Exposure (Spec obj) \<noteq> None \<and>
       (\<exists>p. newProvisioner env r obj pc ctx = Inr p \<and> release_ready (view w') p))"
  using assms(1,2)
proof (cases rule: CreateOrUpdate_paths)
  case (no_provisioner e' m o2)
  then show ?thesis
    using reconciler.failed_reports [OF assms(1), of reasonProvisionerCreationFailed m o2] by simp
next
  case (started p v o2 w1)
  from assms(1) started(8) show ?thesis
  proof (cases rule: install_ends)
    case (failed e' reason)
    then show ?thesis
      using reconciler.failed_reports [OF assms(1), of reason "Error e'" o2] started(9) by auto
  next
    case (unknown e')
    then show ?thesis using started(3,5,7) by auto
  qed simp_all
qed simp_all

text \<open>The published endpoint changes only where the release was found ready: with a release that is not
  ready, after an error, or after a rejection the resource still shows the endpoint it showed before,
  also when its exposure has been changed or taken back since.\<close>

theorem endpoint_stays_published:
  assumes "reconciler env view" and "CreateOrUpdate env r pc ctx obj w = ((obj', out), w')"
    and "(\<exists>e. out = Inl e) \<or> \<not> admissible pc ctx obj \<or>
      (\<forall>p. newProvisioner env r obj pc ctx = Inr p \<longrightarrow> \<not> release_ready (view w') p)"
  shows "st_Endpoint (Status obj') = st_Endpoint (Status obj)"
  using assms(1,2)
proof (cases rule: CreateOrUpdate_paths)
  case (rejected rs m o2)
  then show ?thesis using reconciler.failed_endpoint [OF assms(1), of rs m o2] by simp
next
  case (no_provisioner e m o2)
  then show ?thesis using reconciler.failed_endpoint [OF assms(1), of reasonProvisionerCreationFailed m o2] by simp
next
  case (started p v o2 w1)
  from assms(1) started(8) show ?thesis
  proof (cases rule: install_ends)
    case (failed e reason)
    then show ?thesis using reconciler.failed_endpoint [OF assms(1), of reason "Error e" o2] started(10) by simp
  next
    case (unready m)
    then show ?thesis using reconciler.progressing_endpoint [OF assms(1), of reasonReconciling m o2] started(10) by simp
  next
    case (unknown e)
    then show ?thesis using started(10) by simp
  next
    case (ended n)
    then show ?thesis using assms(3) started(2,3) by auto
  qed
qed simp_all

section \<open>At work\<close>

text \<open>A version without a chart URL cannot be installed. The second resource was exposed before, and its
  exposure has been taken off the specification.\<close>

definition example_pc_no_chart :: ProviderConfig where
  "example_pc_no_chart = example_pc\<lparr>pc_Spec := (pc_Spec example_pc)\<lparr>pc_Versions := [example_version\<lparr>v_ChartURL := None\<rparr>]\<rparr>\<rparr>"

definition example_published :: ArgoCD where
  "example_published = example_obj\<lparr>Status := (Status example_obj)\<lparr>st_Endpoint := ''https://argo.example.com''\<rparr>\<rparr>"

lemma example_failing_run:
  "isl (snd (fst (CreateOrUpdate (example_env (\<lambda>_. None)) example_r example_pc_no_chart example_ctx example_obj [])))"
  by code_simp

lemma example_published_run:
  "isl (snd (fst (CreateOrUpdate (example_env (\<lambda>_. None)) example_r example_pc_no_chart example_ctx example_published [])))"
  by code_simp

lemma update_errors_are_reported_witness:
  "\<exists>obj' e w'. CreateOrUpdate (example_env (\<lambda>_. None)) example_r example_pc_no_chart example_ctx example_obj [] = ((obj', Inl e), w') \<and>
     (\<exists>reason. reports_failure obj' reason (Error e) (Generation example_obj))"
proof -
  obtain obj' e w' where run: "CreateOrUpdate (example_env (\<lambda>_. None)) example_r example_pc_no_chart example_ctx example_obj [] =
      ((obj', Inl e), w')"
    using example_failing_run by (metis isl_def prod.collapse)
  have "spec_Exposure (Spec example_obj) = None" by (simp add: example_obj_def)
  with update_errors_are_reported [OF example.reconciler_axioms run] have "\<exists>reason. reports_failure obj' reason (Error e) (Generation example_obj)"
    by (auto simp: handleOperationAnnotation_def example_no_annotation io_return_def)
  with run show ?thesis by blast
qed

lemma endpoint_stays_published_witness:
  "\<exists>obj' out w'. CreateOrUpdate (example_env (\<lambda>_. None)) example_r example_pc_no_chart example_ctx example_published [] = ((obj', out), w') \<and>
     spec_Exposure (Spec example_published) = None \<and> st_Endpoint (Status obj') = ''https://argo.example.com''"
proof -
  obtain obj' e w' where run: "CreateOrUpdate (example_env (\<lambda>_. None)) example_r example_pc_no_chart example_ctx example_published [] =
      ((obj', Inl e), w')"
    using example_published_run by (metis isl_def prod.collapse)
  have "st_Endpoint (Status obj') = st_Endpoint (Status example_published)"
    by (rule endpoint_stays_published [OF example.reconciler_axioms run]) simp
  with run show ?thesis by (auto simp: example_published_def example_obj_def)
qed

section \<open>The warning about a missing reloader\<close>

text \<open>What the update handler logs before it builds the provisioner: the host the warning names.\<close>

definition warnIfExposureWithoutReloader :: "ArgoCD \<Rightarrow> ProviderConfig \<Rightarrow> string option" where
  "warnIfExposureWithoutReloader obj pc =
     (case spec_Exposure (Spec obj) of
        None \<Rightarrow> None
      | Some e \<Rightarrow> (case effective_reloader (Some pc) of (cfg, ok) \<Rightarrow> if ok then None else Some (se_Host e)))"

text \<open>The warning is given for the installations it is about: those that expose the server and neither install the
  addon nor annotate the server for it.\<close>

lemma warned_iff:
  assumes "newProvisioner env r obj pc ctx = Inr p"
  shows "warnIfExposureWithoutReloader obj pc \<noteq> None \<longleftrightarrow>
    ev_Enabled (p_exposure p) \<and> p_reloader p = None \<and> \<not> ev_ReloaderEnabled (p_exposure p)"
  using assms
  by (auto simp: warnIfExposureWithoutReloader_def newProvisioner_def NewProvisioner_def resolveExposure_def
      resolveReloader_def zero_exposure_def Let_def split: option.splits sum.splits prod.splits if_splits)

end
