(* ===== verification/Values_Typed.thy ===== *)
theory Values_Typed
  imports Values_Correct
begin

text \<open>
  The type of what \<^verbatim>\<open>buildValues\<close> hands to the HelmRelease: a non-empty JSON object in canonical form,
  with distinct keys at every level, and with annotations that are strings, as the API server
  requires of a Service.
\<close>

text \<open>The canonical form is a normal form, and keeps keys distinct.\<close>

lemma canon_canon: "canon (canon v) = canon v"
proof (induction v rule: canon.induct)
  case (2 m)
  have "map (\<lambda>kv. (fst kv, canon (snd kv))) (map (\<lambda>kv. (fst kv, canon (snd kv))) m) = map (\<lambda>kv. (fst kv, canon (snd kv))) m"
    using 2 by auto
  then show ?case
    by (simp only: canon.simps sort_map_values [symmetric])
       (simp add: sort_map_values [symmetric] sort_key_id_if_sorted sorted_sort_key del: map_map)
qed auto

lemma wf_canon: "wf_json v \<Longrightarrow> wf_json (canon v)"
proof (induction v rule: canon.induct)
  case (2 m)
  have "distinct (map fst (map (\<lambda>kv. (fst kv, canon (snd kv))) m))" using 2(2) by (simp add: comp_def)
  then have "distinct (map fst (sort_key fst (map (\<lambda>kv. (fst kv, canon (snd kv))) m)))"
    by (simp only: distinct_map distinct_sort set_sort)
  with 2 show ?case by auto
qed auto

text \<open>C16. The built values are well typed. They are absent or a non-empty JSON object in canonical form
  whose keys are distinct at every level, as a Go map's are. With exposure on and the vault plugin off
  (its bundle is converted by the YAML library), the annotations of the server's Service are strings as soon
  as those that the operator supplies are, which is what the API server accepts.\<close>

theorem built_values_typed:
  assumes "buildValues lib base exposure caCert vaultPlugin version = Inr out"
    and "raw_wf base" and "yaml_wf lib"
  shows "(case out of None \<Rightarrow> True | Some r \<Rightarrow> \<exists>m. r = RawObject m \<and> m \<noteq> []) \<and>
    wf_json (out_json out) \<and> canon (out_json out) = out_json out \<and>
    (ev_Enabled exposure \<and> \<not> vpv_enabled vaultPlugin \<and>
     (\<forall>k u. jget (JObj (base_map lib base)) [''server'', ''service'', ''annotations'', k] = Some u \<longrightarrow> (\<exists>s. u = JStr s)) \<longrightarrow>
     (\<forall>k v. jget (out_json out) [''server'', ''service'', ''annotations'', k] = Some v \<longrightarrow> (\<exists>s. v = JStr s)))"
proof -
  obtain v c where v: "vault_layer lib (base_map lib base) vaultPlugin version = Inr v"
    and c: "ca_layer lib caCert = Inr c" "wf_json (JObj c)"
    and wf: "wf_json (JObj (deepMerge (deepMerge (deepMerge (base_map lib base) v) (exposure_layer exposure)) c))"
    and out: "out_json out =
      canon (JObj (deepMerge (deepMerge (deepMerge (base_map lib base) v) (exposure_layer exposure)) c))"
    using buildValues_layers [OF assms] by metis
  have shape: "case out of None \<Rightarrow> True | Some r \<Rightarrow> \<exists>m. r = RawObject m \<and> m \<noteq> []"
  proof (cases out)
    case (Some r)
    with assms(1) obtain m where "m \<noteq> []" "r = marshal m" unfolding buildValues_ok Let_def by (metis option.distinct(1) option.sel)
    moreover have "sort_key fst (map (\<lambda>kv. (fst kv, canon (snd kv))) m) = [] \<longleftrightarrow> m = []"
      by (metis length_0_conv length_map length_sort)
    ultimately show ?thesis using Some by (simp add: marshal_def)
  qed simp
  have "\<exists>s. u = JStr s"
    if on: "ev_Enabled exposure" and off: "\<not> vpv_enabled vaultPlugin"
      and strings: "\<And>k u. jget (JObj (base_map lib base)) [''server'', ''service'', ''annotations'', k] = Some u \<Longrightarrow> \<exists>s. u = JStr s"
      and u: "jget (out_json out) [''server'', ''service'', ''annotations'', k] = Some u" for k u
  proof -
    let ?p = "[''server'', ''service'', ''annotations'', k]"
    have "v = []" using v off by (simp add: vault_layer_def)
    moreover have "exposure_layer exposure = exposureFragment exposure" using on by (simp add: exposure_layer_def)
    moreover have "c = [] \<or> misses c ?p" using c(1) by (auto simp: ca_layer_ok)
    ultimately obtain u' where u': "jget (JObj (deepMerge (base_map lib base) (exposureFragment exposure))) ?p = Some u'" "u = canon u'"
      using u out wf jget_deepMerge_misses [OF c(2)] by (auto simp: jget_canon simp del: canon.simps jget.simps)
    have "misses (exposureFragment exposure) ?p \<or> (\<exists>s. jget (JObj (exposureFragment exposure)) ?p = Some (JStr s))"
      by (auto simp: exposureFragment_def Let_def maps_simps)
    then have "\<exists>s. u' = JStr s"
    proof (elim disjE exE)
      assume "misses (exposureFragment exposure) ?p"
      from jget_deepMerge_misses [OF wf_exposureFragment this] show ?thesis using u'(1) strings by simp
    next
      fix s
      assume "jget (JObj (exposureFragment exposure)) ?p = Some (JStr s)"
      then have "jget (JObj (deepMerge (base_map lib base) (exposureFragment exposure))) ?p = Some (JStr s)"
        by (intro jget_deepMerge_leaf [OF wf_exposureFragment]) simp_all
      with u'(1) show ?thesis by (auto simp del: jget.simps)
    qed
    with u'(2) show ?thesis by auto
  qed
  moreover have "wf_json (out_json out)" "canon (out_json out) = out_json out"
    using wf_canon [OF wf] out canon_canon by metis+
  ultimately show ?thesis using shape by blast
qed

lemma built_values_typed_witness:
  "wf_json (out_json (Some (marshal example_layered))) \<and>
   (\<exists>s. jget (out_json (Some (marshal example_layered)))
      [''server'', ''service'', ''annotations'', ''dns.gardener.cloud/ttl''] = Some (JStr s))"
proof -
  have "jget (JObj (base_map example_lib (Some (RawObject example_base)))) [''server'', ''service'', ''annotations'', k] = None" for k
    by (simp add: base_map_def raw_map_def float_map_def example_base_def)
  moreover have "ev_Enabled example_exposure" "\<not> vpv_enabled vault_off"
    by (simp_all add: example_exposure_def vault_off_def)
  moreover have "jget (out_json (Some (marshal example_layered)))
      [''server'', ''service'', ''annotations'', ''dns.gardener.cloud/ttl''] \<noteq> None"
    by code_simp
  then have "\<exists>v. jget (out_json (Some (marshal example_layered)))
      [''server'', ''service'', ''annotations'', ''dns.gardener.cloud/ttl''] = Some v"
    by blast
  ultimately show ?thesis
    using built_values_typed [OF example_build example_raw_wf example_yaml_wf] by (fastforce simp del: jget.simps)
qed

end
