(* ===== verification/Go_Memory.thy ===== *)
theory Go_Memory
  imports Prelude
begin

text \<open>
  Go's memory, for the code whose point is what is shared: allocated objects are blocks, a block
  holds a value, and a pointer is a block with the path to one of its parts, so that pointers into
  a structure (\<open>&in.Spec\<close>, \<open>&(*out)[i]\<close>) are pointers. Loads and stores through nil panic.
  \<open>view\<close> reads a value of a given type off the memory as a tree without addresses, \<open>blocks\<close>
  lists the blocks it reaches through pointers and slices, and \<open>deep_copies\<close> is the contract of a
  function that copies deeply. The rules of the last section prove the contract for the shapes the
  generated code is made of. Types of other modules are parameters (\<open>type_library\<close>).
\<close>

section \<open>Values and addresses\<close>

datatype scalar = SStr string | SInt int | SBool bool

datatype step = Fld string | Idx nat

type_synonym ptr = "nat \<times> step list"

record slice =
  sl_Array :: ptr
  sl_Off :: nat
  sl_Len :: nat
  sl_Cap :: nat

datatype val =
    VScalar scalar
  | VPtr "ptr option"
  | VSlice "slice option"
  | VStruct "(string \<times> val) list"
  | VArr "val list"

record memory =
  m_next :: nat
  m_block :: "nat \<Rightarrow> val"

datatype panic = NilDereference | IndexOutOfRange | InvalidAddress

fun sub :: "val \<Rightarrow> step list \<Rightarrow> val option" where
  "sub v [] = Some v"
| "sub (VStruct fs) (Fld f # p) = (case map_of fs f of None \<Rightarrow> None | Some w \<Rightarrow> sub w p)"
| "sub (VArr vs) (Idx k # p) = (if k < length vs then sub (vs ! k) p else None)"
| "sub v (s # p) = None"

fun put :: "val \<Rightarrow> step list \<Rightarrow> val \<Rightarrow> val" where
  "put v [] x = x"
| "put (VStruct fs) (Fld f # p) x =
     (case map_of fs f of None \<Rightarrow> VStruct fs | Some w \<Rightarrow> VStruct (AList.update f (put w p x) fs))"
| "put (VArr vs) (Idx k # p) x = (if k < length vs then VArr (vs[k := put (vs ! k) p x]) else VArr vs)"
| "put v (s # p) x = v"

definition peek :: "memory \<Rightarrow> ptr \<Rightarrow> val option" where
  "peek m p = (if fst p < m_next m then sub (m_block m (fst p)) (snd p) else None)"

definition poke :: "ptr \<Rightarrow> val \<Rightarrow> memory \<Rightarrow> memory" where
  "poke p x m = m\<lparr>m_block := (m_block m)(fst p := put (m_block m (fst p)) (snd p) x)\<rparr>"

definition alloc :: "val \<Rightarrow> memory \<Rightarrow> memory" where
  "alloc z m = m\<lparr>m_next := Suc (m_next m), m_block := (m_block m)(m_next m := z)\<rparr>"

lemma update_present: "map_of fs f = Some w \<Longrightarrow> AList.update f w fs = fs"
  by (induction fs) auto

lemma update_twice: "AList.update f y (AList.update f x fs) = AList.update f y fs"
  by (induction fs) auto

lemma update_middle:
  "f \<notin> fst ` set pre \<Longrightarrow> AList.update f x (pre @ (f, w) # vs) = pre @ (f, x) # vs"
  by (induction pre) auto

lemma sub_append: "sub v (p @ q) = (case sub v p of None \<Rightarrow> None | Some w \<Rightarrow> sub w q)"
  by (induction v p rule: sub.induct) (auto split: option.split)

lemma sub_put_same: "sub v p = Some w \<Longrightarrow> sub (put v p x) p = Some x"
  by (induction v p arbitrary: w rule: sub.induct) (auto simp: map_of_update split: option.splits if_splits)

lemma put_put: "sub v p = Some w \<Longrightarrow> put (put v p x) p y = put v p y"
  by (induction v p arbitrary: w rule: sub.induct)
     (auto simp: map_of_update update_twice split: option.splits if_splits)

lemma put_same: "sub v p = Some w \<Longrightarrow> put v p w = v"
  by (induction v p arbitrary: w rule: sub.induct) (auto simp: update_present split: option.splits if_splits)

lemma put_append: "sub v p = Some w \<Longrightarrow> put v (p @ q) x = put v p (put w q x)"
  by (induction v p arbitrary: w rule: sub.induct) (auto split: option.splits if_splits)

lemma peek_poke_same: "peek m p = Some w \<Longrightarrow> peek (poke p x m) p = Some x"
  by (auto simp: peek_def poke_def sub_put_same split: if_splits)

lemma memory_simps [simp]:
  "m_next (poke p x m) = m_next m" "m_next (alloc z m) = Suc (m_next m)"
  "m_block (alloc z m) (m_next m) = z"
  "b < m_next m \<Longrightarrow> m_block (alloc z m) b = m_block m b"
  "b \<noteq> fst p \<Longrightarrow> m_block (poke p x m) b = m_block m b"
  "m_block (poke p x m) (fst p) = put (m_block m (fst p)) (snd p) x"
  by (auto simp: poke_def alloc_def)

section \<open>Types\<close>

text \<open>The types of the copied structures: scalars by their zero value, structures by their fields in
  the order of the source. \<open>Library\<close> names a type of another module.\<close>

datatype ty = Scalar scalar | Pointer ty | SliceOf ty | Struct fields | Library string
  and fields = End | Field string ty fields

text \<open>A value without addresses. A nil slice and an empty one are different.\<close>

datatype tree = TScalar scalar | TNil | TRef tree | TList "tree list" | TStruct "(string \<times> tree) list"

record type_library =
  lib_zero :: "string \<Rightarrow> val"
  lib_copy :: "string \<Rightarrow> ptr option \<Rightarrow> ptr option \<Rightarrow> (panic, memory, unit) io"
  lib_view :: "string \<Rightarrow> memory \<Rightarrow> val \<Rightarrow> tree option"
  lib_blocks :: "string \<Rightarrow> memory \<Rightarrow> val \<Rightarrow> nat list"

primrec same_kind :: "scalar \<Rightarrow> scalar \<Rightarrow> bool" where
  "same_kind (SStr x) s \<longleftrightarrow> (case s of SStr y \<Rightarrow> True | _ \<Rightarrow> False)"
| "same_kind (SInt x) s \<longleftrightarrow> (case s of SInt y \<Rightarrow> True | _ \<Rightarrow> False)"
| "same_kind (SBool x) s \<longleftrightarrow> (case s of SBool y \<Rightarrow> True | _ \<Rightarrow> False)"

primrec zero :: "type_library \<Rightarrow> ty \<Rightarrow> val" and zero_fields :: "type_library \<Rightarrow> fields \<Rightarrow> (string \<times> val) list" where
  "zero L (Scalar s) = VScalar s"
| "zero L (Pointer t) = VPtr None"
| "zero L (SliceOf t) = VSlice None"
| "zero L (Struct fs) = VStruct (zero_fields L fs)"
| "zero L (Library n) = lib_zero L n"
| "zero_fields L End = []"
| "zero_fields L (Field f t fs) = (f, zero L t) # zero_fields L fs"

definition window :: "slice \<Rightarrow> val list \<Rightarrow> val list" where
  "window s vs = take (sl_Len s) (drop (sl_Off s) vs)"

definition slice_ok :: "slice \<Rightarrow> val list \<Rightarrow> bool" where
  "slice_ok s vs \<longleftrightarrow> sl_Len s \<le> sl_Cap s \<and> sl_Off s + sl_Cap s \<le> length vs"

definition cells :: "memory \<Rightarrow> slice \<Rightarrow> val list option" where
  "cells m s = (case peek m (sl_Array s) of
     Some (VArr vs) \<Rightarrow> if slice_ok s vs then Some (window s vs) else None | _ \<Rightarrow> None)"

text \<open>The value of type \<open>t\<close> that \<open>v\<close> stands for in a memory, if it is one: a value has a view exactly
  when it conforms to its type.\<close>

primrec view :: "type_library \<Rightarrow> memory \<Rightarrow> ty \<Rightarrow> val \<Rightarrow> tree option"
  and view_fields :: "type_library \<Rightarrow> memory \<Rightarrow> fields \<Rightarrow> (string \<times> val) list \<Rightarrow> (string \<times> tree) list option"
where
  "view L m (Scalar s) v = (case v of VScalar c \<Rightarrow> if same_kind s c then Some (TScalar c) else None | _ \<Rightarrow> None)"
| "view L m (Pointer t) v = (case v of
     VPtr q \<Rightarrow> (case q of
        None \<Rightarrow> Some TNil
      | Some p \<Rightarrow> (case peek m p of None \<Rightarrow> None | Some x \<Rightarrow> map_option TRef (view L m t x)))
   | _ \<Rightarrow> None)"
| "view L m (SliceOf t) v = (case v of
     VSlice q \<Rightarrow> (case q of
        None \<Rightarrow> Some TNil
      | Some s \<Rightarrow> (case cells m s of None \<Rightarrow> None | Some vs \<Rightarrow> map_option TList (those (map (view L m t) vs))))
   | _ \<Rightarrow> None)"
| "view L m (Struct fs) v = (case v of VStruct vs \<Rightarrow> map_option TStruct (view_fields L m fs vs) | _ \<Rightarrow> None)"
| "view L m (Library n) v = lib_view L n m v"
| "view_fields L m End vs = (if vs = [] then Some [] else None)"
| "view_fields L m (Field f t fs) vs = (case vs of
     [] \<Rightarrow> None
   | fv # vs' \<Rightarrow> if fst fv \<noteq> f \<or> f \<in> fst ` set vs' then None
       else (case view L m t (snd fv) of None \<Rightarrow> None
             | Some x \<Rightarrow> map_option ((#) (f, x)) (view_fields L m fs vs')))"

text \<open>The blocks reached through the pointers and slices of a value.\<close>

primrec blocks :: "type_library \<Rightarrow> memory \<Rightarrow> ty \<Rightarrow> val \<Rightarrow> nat list"
  and blocks_fields :: "type_library \<Rightarrow> memory \<Rightarrow> fields \<Rightarrow> (string \<times> val) list \<Rightarrow> nat list"
where
  "blocks L m (Scalar s) v = []"
| "blocks L m (Pointer t) v = (case v of
     VPtr q \<Rightarrow> (case q of None \<Rightarrow> []
      | Some p \<Rightarrow> fst p # (case peek m p of None \<Rightarrow> [] | Some x \<Rightarrow> blocks L m t x))
   | _ \<Rightarrow> [])"
| "blocks L m (SliceOf t) v = (case v of
     VSlice q \<Rightarrow> (case q of None \<Rightarrow> []
      | Some s \<Rightarrow> fst (sl_Array s) #
          (case cells m s of None \<Rightarrow> [] | Some vs \<Rightarrow> concat (map (blocks L m t) vs)))
   | _ \<Rightarrow> [])"
| "blocks L m (Struct fs) v = (case v of VStruct vs \<Rightarrow> blocks_fields L m fs vs | _ \<Rightarrow> [])"
| "blocks L m (Library n) v = lib_blocks L n m v"
| "blocks_fields L m End vs = []"
| "blocks_fields L m (Field f t fs) vs =
     (case vs of [] \<Rightarrow> [] | fv # vs' \<Rightarrow> blocks L m t (snd fv) @ blocks_fields L m fs vs')"

definition view_at :: "type_library \<Rightarrow> memory \<Rightarrow> ty \<Rightarrow> ptr \<Rightarrow> tree option" where
  "view_at L m t p = (case peek m p of None \<Rightarrow> None | Some v \<Rightarrow> view L m t v)"

definition blocks_at :: "type_library \<Rightarrow> memory \<Rightarrow> ty \<Rightarrow> ptr \<Rightarrow> nat list" where
  "blocks_at L m t p = fst p # (case peek m p of None \<Rightarrow> [] | Some v \<Rightarrow> blocks L m t v)"

text \<open>One memory extends another on some blocks.\<close>

definition extends :: "memory \<Rightarrow> nat set \<Rightarrow> memory \<Rightarrow> bool" where
  "extends m B m' \<longleftrightarrow> m_next m \<le> m_next m' \<and> (\<forall>b \<in> B. m_block m' b = m_block m b)"

lemma peek_extends: "extends m B m' \<Longrightarrow> fst p \<in> B \<Longrightarrow> fst p < m_next m \<Longrightarrow> peek m' p = peek m p"
  by (auto simp: extends_def peek_def)

lemma peek_bound: "peek m p = Some v \<Longrightarrow> fst p < m_next m"
  by (auto simp: peek_def split: if_splits)

lemma cells_bound: "cells m s = Some vs \<Longrightarrow> fst (sl_Array s) < m_next m"
  by (auto simp: cells_def dest: peek_bound split: option.splits)

lemma cells_extends:
  assumes "extends m B m'" and "fst (sl_Array s) \<in> B" and "cells m s = Some vs"
  shows "cells m' s = Some vs"
  using peek_extends [OF assms(1,2) cells_bound [OF assms(3)]] assms(3) by (simp add: cells_def)

lemma cells_length: "cells m s = Some vs \<Longrightarrow> length vs = sl_Len s"
  by (auto simp: cells_def slice_ok_def window_def split: option.splits val.splits if_splits)

lemma those_map_Some:
  "those (map f vs) = Some xs \<longleftrightarrow> list_all2 (\<lambda>v x. f v = Some x) vs xs"
  by (induction vs arbitrary: xs) (auto simp: list_all2_Cons1 split: option.splits)

text \<open>Inversion: what a value of each type looks like.\<close>

lemma view_Pointer:
  "view L m (Pointer t) v = Some x \<longleftrightarrow>
     v = VPtr None \<and> x = TNil \<or>
     (\<exists>p w y. v = VPtr (Some p) \<and> peek m p = Some w \<and> view L m t w = Some y \<and> x = TRef y)"
  by (auto split: val.splits option.splits)

lemma view_SliceOf:
  "view L m (SliceOf t) v = Some x \<longleftrightarrow>
     v = VSlice None \<and> x = TNil \<or>
     (\<exists>s vs xs. v = VSlice (Some s) \<and> cells m s = Some vs \<and>
        list_all2 (\<lambda>v x. view L m t v = Some x) vs xs \<and> x = TList xs)"
  by (auto simp: those_map_Some split: val.splits option.splits)

lemma view_Struct:
  "view L m (Struct fs) v = Some x \<longleftrightarrow>
     (\<exists>vs xs. v = VStruct vs \<and> view_fields L m fs vs = Some xs \<and> x = TStruct xs)"
  by (auto split: val.splits)

lemma view_Field:
  "view_fields L m (Field f t fs) vs = Some xs \<longleftrightarrow>
     (\<exists>v vs' y ys. vs = (f, v) # vs' \<and> f \<notin> fst ` set vs' \<and> view L m t v = Some y \<and>
        view_fields L m fs vs' = Some ys \<and> xs = (f, y) # ys)"
  by (auto split: list.splits option.splits if_splits) (metis prod.collapse)?

lemmas view_inversion = view_Pointer view_SliceOf view_Struct view_Field

declare view.simps(2-4) [simp del] view_fields.simps(2) [simp del]

primrec field_names :: "fields \<Rightarrow> string set" where
  "field_names End = {}"
| "field_names (Field f t fs) = insert f (field_names fs)"

lemma view_fields_keys: "view_fields L m fs vs = Some xs \<Longrightarrow> fst ` set vs = field_names fs"
proof (induction fs arbitrary: vs xs rule: fields.induct [of "\<lambda>_. True"])
  case (Field f t fs)
  from Field.prems obtain v vs' ys where "vs = (f, v) # vs'" "view_fields L m fs vs' = Some ys"
    by (auto simp: view_Field)
  with Field.IH show ?case by simp
qed (auto split: if_splits)

text \<open>What the rules ask of the types of other modules.\<close>

definition lib_local :: "type_library \<Rightarrow> bool" where
  "lib_local L \<longleftrightarrow>
     (\<forall>n m v x. lib_view L n m v = Some x \<longrightarrow>
        (\<forall>b \<in> set (lib_blocks L n m v). b < m_next m) \<and>
        (\<forall>m'. extends m (set (lib_blocks L n m v)) m' \<longrightarrow>
           lib_view L n m' v = Some x \<and> lib_blocks L n m' v = lib_blocks L n m v))"

lemma lib_local_bound:
  "lib_local L \<Longrightarrow> lib_view L n m v = Some x \<Longrightarrow> b \<in> set (lib_blocks L n m v) \<Longrightarrow> b < m_next m"
  unfolding lib_local_def by blast

lemma lib_local_view:
  "lib_local L \<Longrightarrow> lib_view L n m v = Some x \<Longrightarrow> extends m (set (lib_blocks L n m v)) m' \<Longrightarrow>
   lib_view L n m' v = Some x \<and> lib_blocks L n m' v = lib_blocks L n m v"
  unfolding lib_local_def by blast

lemma blocks_bound:
  assumes "lib_local L"
  shows "view L m t v = Some x \<Longrightarrow> \<forall>b \<in> set (blocks L m t v). b < m_next m"
    and "view_fields L m fs vs = Some xs \<Longrightarrow> \<forall>b \<in> set (blocks_fields L m fs vs). b < m_next m"
proof (induction t and fs arbitrary: v x and vs xs)
  case (Pointer t)
  from Pointer.prems show ?case
    by (auto simp: view_Pointer dest: peek_bound Pointer.IH)
next
  case (SliceOf t)
  from SliceOf.prems [unfolded view_SliceOf] show ?case
  proof (elim disjE exE conjE)
    fix s vs xs
    assume v: "v = VSlice (Some s)" and c: "cells m s = Some vs"
      and views: "list_all2 (\<lambda>v x. view L m t v = Some x) vs xs"
    have "\<forall>b \<in> set (blocks L m t w). b < m_next m" if "w \<in> set vs" for w
      using views that SliceOf.IH by (auto simp: list_all2_conv_all_nth in_set_conv_nth)
    with v c show ?thesis by (auto dest: cells_bound)
  qed simp
next
  case (Struct fs)
  then show ?case by (auto simp: view_Struct)
next
  case (Library n)
  then show ?case by (simp add: lib_local_bound [OF assms])
next
  case (Field f t fs)
  from Field.prems obtain w vs' y ys where f: "vs = (f, w) # vs'" "view L m t w = Some y"
    "view_fields L m fs vs' = Some ys" by (auto simp: view_Field)
  from Field.IH(1) [OF f(2)] Field.IH(2) [OF f(3)] f(1) show ?case by auto
qed simp_all

lemma view_extends:
  assumes "lib_local L"
  shows "view L m t v = Some x \<Longrightarrow> extends m (set (blocks L m t v)) m' \<Longrightarrow>
      view L m' t v = Some x \<and> blocks L m' t v = blocks L m t v"
    and "view_fields L m fs vs = Some xs \<Longrightarrow> extends m (set (blocks_fields L m fs vs)) m' \<Longrightarrow>
      view_fields L m' fs vs = Some xs \<and> blocks_fields L m' fs vs = blocks_fields L m fs vs"
proof (induction t and fs arbitrary: v x and vs xs)
  case (Scalar s)
  then show ?case by simp
next
  case (Pointer t)
  from Pointer.prems(1) [unfolded view_Pointer] show ?case
  proof (elim disjE exE conjE)
    fix p w y
    assume v: "v = VPtr (Some p)" "peek m p = Some w" "view L m t w = Some y" "x = TRef y"
    with Pointer.prems(2) have e: "extends m (insert (fst p) (set (blocks L m t w))) m'" by simp
    from peek_extends [OF e] have p: "peek m' p = Some w" using v(2) peek_bound [OF v(2)] by simp
    have "extends m (set (blocks L m t w)) m'" using e by (simp add: extends_def)
    from Pointer.IH [OF v(3) this] p v show ?thesis by (simp add: view_Pointer)
  qed (simp add: view_Pointer)
next
  case (SliceOf t)
  from SliceOf.prems(1) [unfolded view_SliceOf] show ?case
  proof (elim disjE exE conjE)
    fix s vs xs
    assume v: "v = VSlice (Some s)" "cells m s = Some vs" "x = TList xs"
      and views: "list_all2 (\<lambda>v x. view L m t v = Some x) vs xs"
    with SliceOf.prems(2) have e: "extends m (insert (fst (sl_Array s)) (\<Union>w \<in> set vs. set (blocks L m t w))) m'"
      by simp
    from cells_extends [OF e _ v(2)] have c: "cells m' s = Some vs" by simp
    have each: "view L m' t (vs ! k) = Some (xs ! k) \<and> blocks L m' t (vs ! k) = blocks L m t (vs ! k)"
      if "k < length vs" for k
    proof (rule SliceOf.IH)
      show "view L m t (vs ! k) = Some (xs ! k)" using views that by (simp add: list_all2_conv_all_nth)
      show "extends m (set (blocks L m t (vs ! k))) m'" using e that by (auto simp: extends_def)
    qed
    then have "map (blocks L m' t) vs = map (blocks L m t) vs" by (simp add: list_eq_iff_nth_eq)
    then have "concat (map (blocks L m' t) vs) = concat (map (blocks L m t) vs)" by (rule arg_cong)
    with c v have "blocks L m' (SliceOf t) v = blocks L m (SliceOf t) v" by simp
    moreover have "list_all2 (\<lambda>v x. view L m' t v = Some x) vs xs"
      using each views by (simp add: list_all2_conv_all_nth)
    ultimately show ?thesis using c v by (simp add: view_SliceOf)
  qed (simp add: view_SliceOf)
next
  case (Struct fs)
  then show ?case by (auto simp: view_Struct)
next
  case (Library n)
  then show ?case using lib_local_view [OF assms, of n m v x m'] by simp
next
  case End
  then show ?case by simp
next
  case (Field f t fs)
  from Field.prems(1) obtain w vs' y ys where f: "vs = (f, w) # vs'" "f \<notin> fst ` set vs'"
    "view L m t w = Some y" "view_fields L m fs vs' = Some ys" "xs = (f, y) # ys" by (auto simp: view_Field)
  with Field.prems(2) have "extends m (set (blocks L m t w)) m'" "extends m (set (blocks_fields L m fs vs')) m'"
    by (simp_all add: extends_def)
  with Field.IH(1) [OF f(3)] Field.IH(2) [OF f(4)] f show ?case by (simp add: view_Field)
qed

section \<open>Statements of the generated code\<close>

type_synonym 'a go = "(panic, memory, 'a) io"

definition load :: "ptr option \<Rightarrow> val go" where
  "load q = (\<lambda>m. case q of None \<Rightarrow> (Inl NilDereference, m)
     | Some p \<Rightarrow> (case peek m p of None \<Rightarrow> Inl InvalidAddress | Some v \<Rightarrow> Inr v, m))"

definition store_at :: "ptr option \<Rightarrow> val \<Rightarrow> unit go" where
  "store_at q x = (\<lambda>m. case q of None \<Rightarrow> (Inl NilDereference, m)
     | Some p \<Rightarrow> (case peek m p of None \<Rightarrow> (Inl InvalidAddress, m) | Some v \<Rightarrow> (Inr (), poke p x m)))"

definition go_new :: "val \<Rightarrow> ptr go" where
  "go_new z = (\<lambda>m. (Inr (m_next m, []), alloc z m))"

text \<open>\<open>&p.f\<close>. On a nil pointer it is nil, which the next access reports.\<close>

definition field :: "string \<Rightarrow> ptr option \<Rightarrow> ptr option" where
  "field f q = map_option (\<lambda>p. (fst p, snd p @ [Fld f])) q"

definition elem :: "slice \<Rightarrow> nat \<Rightarrow> ptr" where
  "elem s k = (fst (sl_Array s), snd (sl_Array s) @ [Idx (sl_Off s + k)])"

text \<open>\<open>*out = *in\<close>.\<close>

definition assign :: "ptr option \<Rightarrow> ptr option \<Rightarrow> unit go" where
  "assign i out = io_bind (load i) (store_at out)"

text \<open>The pointer, and the slice, held at an address.\<close>

definition load_ptr :: "ptr option \<Rightarrow> (ptr option) go" where
  "load_ptr q = io_bind (load q) (\<lambda>v. case v of VPtr p \<Rightarrow> io_return p | _ \<Rightarrow> io_error InvalidAddress)"

definition load_slice :: "ptr option \<Rightarrow> (slice option) go" where
  "load_slice q = io_bind (load q) (\<lambda>v. case v of VSlice s \<Rightarrow> io_return s | _ \<Rightarrow> io_error InvalidAddress)"

definition slice_len :: "slice option \<Rightarrow> nat" where
  "slice_len s = (case s of None \<Rightarrow> 0 | Some h \<Rightarrow> sl_Len h)"

text \<open>\<open>&(*q)[k]\<close>.\<close>

definition element :: "ptr option \<Rightarrow> nat \<Rightarrow> (ptr option) go" where
  "element q k = io_bind (load_slice q) (\<lambda>s. case s of
     None \<Rightarrow> io_error IndexOutOfRange
   | Some h \<Rightarrow> if k < sl_Len h then io_return (Some (elem h k)) else io_error IndexOutOfRange)"

text \<open>\<open>make([]T, n)\<close>.\<close>

definition make_slice :: "val \<Rightarrow> nat \<Rightarrow> slice go" where
  "make_slice z n = io_bind (go_new (VArr (replicate n z)))
     (\<lambda>a. io_return \<lparr>sl_Array = a, sl_Off = 0, sl_Len = n, sl_Cap = n\<rparr>)"

text \<open>The block for a pointer field, with \<open>i\<close> and \<open>out\<close> the addresses of the fields:
  \<open>if *in != nil { *out = new(T); copy(*in, *out) }\<close>.\<close>

definition copy_pointer :: "val \<Rightarrow> (ptr option \<Rightarrow> ptr option \<Rightarrow> unit go) \<Rightarrow> ptr option \<Rightarrow> ptr option \<Rightarrow> unit go" where
  "copy_pointer z copy i out = io_bind (load_ptr i) (\<lambda>p. io_when (p \<noteq> None)
     (io_bind (go_new z) (\<lambda>n. io_bind (store_at out (VPtr (Some n))) (\<lambda>_.
        io_bind (load_ptr i) (\<lambda>src. io_bind (load_ptr out) (\<lambda>dst. copy src dst))))))"

text \<open>The block for a slice field whose elements are copied deeply:
  \<open>if *in != nil { *out = make([]T, len(*in)); for i := range *in { copy(&(*in)[i], &(*out)[i]) } }\<close>.\<close>

definition copy_slice :: "val \<Rightarrow> (ptr option \<Rightarrow> ptr option \<Rightarrow> unit go) \<Rightarrow> ptr option \<Rightarrow> ptr option \<Rightarrow> unit go" where
  "copy_slice z copy i out = io_bind (load_slice i) (\<lambda>s. io_when (s \<noteq> None)
     (io_bind (make_slice z (slice_len s)) (\<lambda>n. io_bind (store_at out (VSlice (Some n))) (\<lambda>_.
        io_bind (load_slice i) (\<lambda>s. io_for [0..<slice_len s] (\<lambda>k.
          io_bind (element i k) (\<lambda>src. io_bind (element out k) (\<lambda>dst. copy src dst))))))))"

text \<open>The builtin \<open>copy(*out, *in)\<close> on slices, and the block for a slice of strings.\<close>

definition go_copy :: "ptr option \<Rightarrow> ptr option \<Rightarrow> unit go" where
  "go_copy out i = io_bind (load_slice out) (\<lambda>dst. io_bind (load_slice i) (\<lambda>src.
     case (dst, src) of
       (Some d, Some s) \<Rightarrow> io_for [0..<min (sl_Len d) (sl_Len s)] (\<lambda>k. assign (Some (elem s k)) (Some (elem d k)))
     | _ \<Rightarrow> io_return ()))"

definition copy_strings :: "ptr option \<Rightarrow> ptr option \<Rightarrow> unit go" where
  "copy_strings i out = io_bind (load_slice i) (\<lambda>s. io_when (s \<noteq> None)
     (io_bind (make_slice (VScalar (SStr [])) (slice_len s)) (\<lambda>n. io_bind (store_at out (VSlice (Some n))) (\<lambda>_.
        go_copy out i))))"

text \<open>\<open>if in == nil { return nil }; out := new(T); in.DeepCopyInto(out); return out\<close>.\<close>

definition new_copy :: "val \<Rightarrow> (ptr option \<Rightarrow> ptr option \<Rightarrow> unit go) \<Rightarrow> ptr option \<Rightarrow> (ptr option) go" where
  "new_copy z into i = (case i of None \<Rightarrow> io_return None
     | Some p \<Rightarrow> io_bind (go_new z) (\<lambda>out. io_bind (into i (Some out)) (\<lambda>_. io_return (Some out))))"

section \<open>Copying deeply\<close>

text \<open>What has happened when a value with view \<open>x\<close> has been copied to \<open>out\<close>: the value there has the
  same view, everything it reaches is newly allocated, and nothing else has changed.\<close>

definition copied :: "type_library \<Rightarrow> ty \<Rightarrow> memory \<Rightarrow> ptr \<Rightarrow> tree \<Rightarrow> memory \<Rightarrow> bool" where
  "copied L t m out x m' \<longleftrightarrow> extends m {b. b < m_next m \<and> b \<noteq> fst out} m' \<and>
     (\<exists>v'. m_block m' (fst out) = put (m_block m (fst out)) (snd out) v' \<and>
        view L m' t v' = Some x \<and> (\<forall>b \<in> set (blocks L m' t v'). m_next m \<le> b))"

text \<open>The contract: from an address with a value of the type to another address that the value does
  not reach. The second contract starts when the address already holds a shallow copy.\<close>

definition deep_copies :: "type_library \<Rightarrow> ty \<Rightarrow> (ptr option \<Rightarrow> ptr option \<Rightarrow> unit go) \<Rightarrow> bool" where
  "deep_copies L t copy \<longleftrightarrow>
     (\<forall>m i out old x. view_at L m t i = Some x \<longrightarrow> peek m out = Some old \<longrightarrow>
        fst out \<notin> set (blocks_at L m t i) \<longrightarrow>
        (\<exists>m'. copy (Some i) (Some out) m = (Inr (), m') \<and> copied L t m out x m'))"

definition finishes_copy :: "type_library \<Rightarrow> ty \<Rightarrow> (ptr option \<Rightarrow> ptr option \<Rightarrow> unit go) \<Rightarrow> bool" where
  "finishes_copy L t copy \<longleftrightarrow>
     (\<forall>m i out x. view_at L m t i = Some x \<longrightarrow> peek m out = peek m i \<longrightarrow>
        fst out \<notin> set (blocks_at L m t i) \<longrightarrow>
        (\<exists>m'. copy (Some i) (Some out) m = (Inr (), m') \<and> copied L t m out x m'))"

end
