(* ===== verification/Deep_Copy_Rules.thy ===== *)
theory Deep_Copy_Rules
  imports Go_Memory
begin

text \<open>
  The rules that prove the contract \<open>deep_copies\<close> of a generated function from the shape of its
  body: the assignment first, then one block per field that holds a pointer, a slice or a structure.
  A function's contract follows by applying them along its body (collection \<open>copy_rules\<close>).
\<close>

named_theorems copy_rules "contracts of the statements of generated deep copies"

lemma view_atE:
  assumes "view_at L m t p = Some x"
  obtains v where "peek m p = Some v" and "view L m t v = Some x" and "blocks_at L m t p = fst p # blocks L m t v"
  using assms by (auto simp: view_at_def blocks_at_def split: option.splits)

lemma extends_trans:
  "extends m B m1 \<Longrightarrow> extends m1 C m2 \<Longrightarrow> B \<subseteq> C \<Longrightarrow> extends m B m2"
  by (auto simp: extends_def)

lemma extends_mono: "extends m B m' \<Longrightarrow> C \<subseteq> B \<Longrightarrow> extends m C m'"
  by (auto simp: extends_def)

lemma extends_next: "extends m B m' \<Longrightarrow> m_next m \<le> m_next m'"
  by (simp add: extends_def)

abbreviation others :: "memory \<Rightarrow> ptr \<Rightarrow> nat set" where
  "others m out \<equiv> {b. b < m_next m \<and> b \<noteq> fst out}"

text \<open>What a value reaches, and what the original was, survives a copy elsewhere.\<close>

lemma value_kept:
  assumes "lib_local L" and "extends m (others m out) m'" and "view L m t v = Some x"
    and "fst out \<notin> set (blocks L m t v)"
  shows "view L m' t v = Some x \<and> blocks L m' t v = blocks L m t v"
proof (rule view_extends(1) [OF assms(1,3)])
  show "extends m (set (blocks L m t v)) m'"
    by (rule extends_mono [OF assms(2)]) (use blocks_bound(1) [OF assms(1,3)] assms(4) in auto)
qed

lemma fields_kept:
  assumes "lib_local L" and "extends m (others m out) m'" and "view_fields L m fs vs = Some xs"
    and "fst out \<notin> set (blocks_fields L m fs vs)"
  shows "view_fields L m' fs vs = Some xs \<and> blocks_fields L m' fs vs = blocks_fields L m fs vs"
proof (rule view_extends(2) [OF assms(1,3)])
  show "extends m (set (blocks_fields L m fs vs)) m'"
    by (rule extends_mono [OF assms(2)]) (use blocks_bound(2) [OF assms(1,3)] assms(4) in auto)
qed

lemma peek_kept:
  "extends m (others m out) m' \<Longrightarrow> fst p \<noteq> fst out \<Longrightarrow> peek m p = Some v \<Longrightarrow> peek m' p = Some v"
  using peek_extends [of m "others m out" m' p] peek_bound [of m p v] by simp

lemma peek_out:
  assumes "peek m out = Some w" and "m_next m \<le> m_next m'"
    and "m_block m' (fst out) = put (m_block m (fst out)) (snd out) v"
  shows "peek m' out = Some v"
  using assms sub_put_same [of "m_block m (fst out)" "snd out" w v]
  by (auto simp: peek_def split: if_splits)

lemma put_out:
  "peek m out = Some w \<Longrightarrow> put (put (m_block m (fst out)) (snd out) x) (snd out) y = put (m_block m (fst out)) (snd out) y"
  by (auto simp: peek_def put_put split: if_splits)

section \<open>Loads and stores\<close>

lemma load_Some [simp]: "peek m p = Some v \<Longrightarrow> load (Some p) m = (Inr v, m)"
  by (simp add: load_def)

lemma store_at_Some [simp]: "peek m p = Some v \<Longrightarrow> store_at (Some p) x m = (Inr (), poke p x m)"
  by (simp add: store_at_def)

lemma bind_run [simp]: "m w = (Inr x, w') \<Longrightarrow> io_bind m f w = f x w'"
  by (simp add: io_bind_def)

lemma assign_run: "peek m i = Some v \<Longrightarrow> peek m out = Some w \<Longrightarrow> assign (Some i) (Some out) m = (Inr (), poke out v m)"
  by (simp add: assign_def)

lemma load_ptr_run: "peek m p = Some (VPtr q) \<Longrightarrow> load_ptr (Some p) m = (Inr q, m)"
  by (simp add: load_ptr_def io_return_def)

lemma load_slice_run: "peek m p = Some (VSlice q) \<Longrightarrow> load_slice (Some p) m = (Inr q, m)"
  by (simp add: load_slice_def io_return_def)

lemma extends_poke: "extends m (others m out) (poke out v m)"
  by (auto simp: extends_def)

lemma extends_alloc: "extends m {b. b < m_next m} (alloc z m)"
  by (auto simp: extends_def)

section \<open>Structures\<close>

lemma copied_after_assign:
  assumes "copied L t (poke out v m) out x m'" and "peek m out = Some w"
  shows "copied L t m out x m'"
  using assms unfolding copied_def by (auto simp: extends_def put_out [OF assms(2)])

lemma deep_assign [copy_rules]:
  assumes lib: "lib_local L" and rest: "finishes_copy L t c"
  shows "deep_copies L t (\<lambda>i out. io_bind (assign i out) (\<lambda>_. c i out))"
  unfolding deep_copies_def
proof (intro allI impI)
  fix m i out old x
  assume x: "view_at L m t i = Some x" and out: "peek m out = Some old" and free: "fst out \<notin> set (blocks_at L m t i)"
  obtain v where v: "peek m i = Some v" "view L m t v = Some x" "blocks_at L m t i = fst i # blocks L m t v"
    using x by (rule view_atE)
  let ?m = "poke out v m"
  have free: "fst out \<notin> set (fst i # blocks L m t v)" using free unfolding v(3) .
  have i: "peek ?m i = Some v" by (rule peek_kept [OF extends_poke _ v(1)]) (use free in auto)
  have kept: "view L ?m t v = Some x \<and> blocks L ?m t v = blocks L m t v"
    by (rule value_kept [OF lib extends_poke v(2)]) (use free in auto)
  have "peek ?m out = peek ?m i" using i peek_poke_same [OF out] by simp
  moreover have "view_at L ?m t i = Some x" using i kept by (simp add: view_at_def)
  moreover have "fst out \<notin> set (blocks_at L ?m t i)" using i kept free by (simp add: blocks_at_def)
  ultimately obtain m' where m': "c (Some i) (Some out) ?m = (Inr (), m')" "copied L t ?m out x m'"
    using rest unfolding finishes_copy_def by blast
  with assign_run [OF v(1) out] copied_after_assign [OF m'(2) out]
  show "\<exists>m'. io_bind (assign (Some i) (Some out)) (\<lambda>_. c (Some i) (Some out)) m = (Inr (), m') \<and> copied L t m out x m'"
    by auto
qed

lemma deep_finishes: "deep_copies L t c \<Longrightarrow> finishes_copy L t c"
  unfolding deep_copies_def finishes_copy_def
proof (intro allI impI)
  fix m i out x
  assume deep: "\<forall>m i out old x. view_at L m t i = Some x \<longrightarrow> peek m out = Some old \<longrightarrow>
      fst out \<notin> set (blocks_at L m t i) \<longrightarrow> (\<exists>m'. c (Some i) (Some out) m = (Inr (), m') \<and> copied L t m out x m')"
    and x: "view_at L m t i = Some x" and "peek m out = peek m i" and "fst out \<notin> set (blocks_at L m t i)"
  moreover obtain v where "peek m i = Some v" using x by (rule view_atE)
  ultimately show "\<exists>m'. c (Some i) (Some out) m = (Inr (), m') \<and> copied L t m out x m'" by simp
qed

text \<open>The same for the fields that are still to be copied: those before are \<open>pre\<close> in the original and
  \<open>pre'\<close> in the copy, those to come are equal.\<close>

definition finishes_fields :: "type_library \<Rightarrow> fields \<Rightarrow> (ptr option \<Rightarrow> ptr option \<Rightarrow> unit go) \<Rightarrow> bool" where
  "finishes_fields L fs c \<longleftrightarrow>
     (\<forall>m i out pre pre' vs xs.
        peek m i = Some (VStruct (pre @ vs)) \<longrightarrow> peek m out = Some (VStruct (pre' @ vs)) \<longrightarrow>
        fst ` set pre' = fst ` set pre \<longrightarrow> fst ` set pre \<inter> fst ` set vs = {} \<longrightarrow>
        view_fields L m fs vs = Some xs \<longrightarrow> fst out \<notin> set (fst i # blocks_fields L m fs vs) \<longrightarrow>
        (\<exists>m' vs'. c (Some i) (Some out) m = (Inr (), m') \<and> extends m (others m out) m' \<and>
           m_block m' (fst out) = put (m_block m (fst out)) (snd out) (VStruct (pre' @ vs')) \<and>
           view_fields L m' fs vs' = Some xs \<and> (\<forall>b \<in> set (blocks_fields L m' fs vs'). m_next m \<le> b)))"

lemma finishes_struct [copy_rules]:
  assumes "finishes_fields L fs c"
  shows "finishes_copy L (Struct fs) c"
  unfolding finishes_copy_def
proof (intro allI impI)
  fix m i out x
  assume x: "view_at L m (Struct fs) i = Some x" and out: "peek m out = peek m i"
    and free: "fst out \<notin> set (blocks_at L m (Struct fs) i)"
  from x obtain v where v: "peek m i = Some v" "view L m (Struct fs) v = Some x"
      "blocks_at L m (Struct fs) i = fst i # blocks L m (Struct fs) v" by (rule view_atE)
  then obtain vs xs where vs: "v = VStruct vs" "view_fields L m fs vs = Some xs" "x = TStruct xs"
    by (auto simp: view_Struct)
  obtain m' vs' where "c (Some i) (Some out) m = (Inr (), m')" "extends m (others m out) m'"
      "m_block m' (fst out) = put (m_block m (fst out)) (snd out) (VStruct vs')"
      "view_fields L m' fs vs' = Some xs" "\<forall>b \<in> set (blocks_fields L m' fs vs'). m_next m \<le> b"
    using assms [unfolded finishes_fields_def, rule_format, of m i "[]" vs out "[]" xs] v vs out free by auto
  then have "copied L (Struct fs) m out x m'" unfolding copied_def
    by (intro conjI exI [of _ "VStruct vs'"]) (use vs(3) in \<open>simp_all add: view_Struct\<close>)
  with \<open>c (Some i) (Some out) m = (Inr (), m')\<close>
  show "\<exists>m'. c (Some i) (Some out) m = (Inr (), m') \<and> copied L (Struct fs) m out x m'" by blast
qed

lemma peek_field:
  assumes "peek m p = Some (VStruct (pre @ (f, v) # vs))" and "f \<notin> fst ` set pre"
  shows "peek m (fst p, snd p @ [Fld f]) = Some v"
proof -
  have "map_of pre f = None" using assms(2) by (simp add: map_of_eq_None_iff)
  with assms(1) show ?thesis by (simp add: peek_def sub_append map_add_def split: if_splits)
qed

lemma put_field:
  assumes "peek m p = Some (VStruct (pre @ (f, v) # vs))" and "f \<notin> fst ` set pre"
  shows "put (m_block m (fst p)) (snd p @ [Fld f]) w = put (m_block m (fst p)) (snd p) (VStruct (pre @ (f, w) # vs))"
proof -
  have "map_of pre f = None" using assms(2) by (simp add: map_of_eq_None_iff)
  moreover have "sub (m_block m (fst p)) (snd p) = Some (VStruct (pre @ (f, v) # vs))"
    using assms(1) by (simp add: peek_def split: if_splits)
  ultimately show ?thesis using assms(2) by (simp add: put_append update_middle map_add_def)
qed

lemma finishes_End [copy_rules]: "finishes_fields L End (\<lambda>i out. io_return ())"
  unfolding finishes_fields_def
proof (intro allI impI)
  fix m i out pre pre' vs xs
  assume out: "peek m out = Some (VStruct (pre' @ vs))" and v: "view_fields L m End vs = Some xs"
  then have "put (m_block m (fst out)) (snd out) (VStruct pre') = m_block m (fst out)"
    by (auto simp: peek_def put_same split: if_splits)
  with v show "\<exists>m' vs'. io_return () m = (Inr (), m') \<and> extends m (others m out) m' \<and>
         m_block m' (fst out) = put (m_block m (fst out)) (snd out) (VStruct (pre' @ vs')) \<and>
         view_fields L m' End vs' = Some xs \<and> (\<forall>b \<in> set (blocks_fields L m' End vs'). m_next m \<le> b)"
    by (intro exI [of _ m] exI [of _ "[]"]) (simp add: io_return_def extends_def split: if_splits)
qed

lemma finishes_Field:
  assumes lib: "lib_local L" and c: "finishes_copy L t c" and d: "finishes_fields L fs d"
  shows "finishes_fields L (Field f t fs) (\<lambda>i out. io_bind (c (field f i) (field f out)) (\<lambda>_. d i out))"
  unfolding finishes_fields_def
proof (intro allI impI)
  fix m i out pre pre' vs xs
  assume i: "peek m i = Some (VStruct (pre @ vs))" and out: "peek m out = Some (VStruct (pre' @ vs))"
    and pre: "fst ` set pre' = fst ` set pre" "fst ` set pre \<inter> fst ` set vs = {}"
    and x: "view_fields L m (Field f t fs) vs = Some xs"
    and free: "fst out \<notin> set (fst i # blocks_fields L m (Field f t fs) vs)"
  obtain v us y ys where vs: "vs = (f, v) # us" "f \<notin> fst ` set us" "view L m t v = Some y"
      "view_fields L m fs us = Some ys" "xs = (f, y) # ys"
    using x by (auto simp: view_Field)
  have new: "f \<notin> fst ` set pre" "f \<notin> fst ` set pre'" using pre vs(1) by auto
  let ?i = "(fst i, snd i @ [Fld f])" and ?out = "(fst out, snd out @ [Fld f])"
  have "peek m ?i = Some v" "peek m ?out = Some v"
    by (rule peek_field [OF i [unfolded vs(1)] new(1)], rule peek_field [OF out [unfolded vs(1)] new(2)])
  then have "view_at L m t ?i = Some y \<and> peek m ?out = peek m ?i \<and> fst ?out \<notin> set (blocks_at L m t ?i)"
    using vs free by (auto simp: view_at_def blocks_at_def)
  then obtain m1 where c1: "c (Some ?i) (Some ?out) m = (Inr (), m1)" "copied L t m ?out y m1"
    using c unfolding finishes_copy_def by blast
  then obtain v1 where m1: "extends m (others m out) m1"
      "m_block m1 (fst out) = put (m_block m (fst out)) (snd out) (VStruct (pre' @ (f, v1) # us))"
      "view L m1 t v1 = Some y" "\<forall>b \<in> set (blocks L m1 t v1). m_next m \<le> b"
    by (auto simp: copied_def put_field [OF out [unfolded vs(1)] new(2)])
  have i1: "peek m1 i = Some (VStruct ((pre @ [(f, v)]) @ us))"
    using peek_kept [OF m1(1) _ i] free vs(1) by simp
  have out1: "peek m1 out = Some (VStruct ((pre' @ [(f, v1)]) @ us))"
    using peek_out [OF out extends_next [OF m1(1)] m1(2)] by simp
  have us: "view_fields L m1 fs us = Some ys \<and> blocks_fields L m1 fs us = blocks_fields L m fs us"
    by (rule fields_kept [OF lib m1(1) vs(4)]) (use free vs(1) in auto)
  obtain m2 us' where m2: "d (Some i) (Some out) m1 = (Inr (), m2)" "extends m1 (others m1 out) m2"
      "m_block m2 (fst out) = put (m_block m1 (fst out)) (snd out) (VStruct ((pre' @ [(f, v1)]) @ us'))"
      "view_fields L m2 fs us' = Some ys" "\<forall>b \<in> set (blocks_fields L m2 fs us'). m_next m1 \<le> b"
    using d [unfolded finishes_fields_def, rule_format, OF i1 out1 _ _ conjunct1 [OF us]] pre vs(1,2) us free by auto
  have "view L m2 t v1 = Some y \<and> blocks L m2 t v1 = blocks L m1 t v1"
    by (rule value_kept [OF lib m2(2) m1(3)]) (use m1(4) peek_bound [OF out] in auto)
  moreover have "f \<notin> fst ` set us'" using vs(2) view_fields_keys [OF vs(4)] view_fields_keys [OF m2(4)] by simp
  ultimately have "view_fields L m2 (Field f t fs) ((f, v1) # us') = Some xs"
      "\<forall>b \<in> set (blocks_fields L m2 (Field f t fs) ((f, v1) # us')). m_next m \<le> b"
    using m1(4) m2(4,5) vs(5) extends_next [OF m1(1)] by (auto simp: view_Field)
  moreover have "m_block m2 (fst out) = put (m_block m (fst out)) (snd out) (VStruct (pre' @ (f, v1) # us'))"
    using m2(3) m1(2) put_out [OF out] by simp
  moreover have "extends m (others m out) m2"
    by (rule extends_trans [OF m1(1) m2(2)]) (use extends_next [OF m1(1)] in auto)
  moreover have "io_bind (c (field f (Some i)) (field f (Some out))) (\<lambda>_. d (Some i) (Some out)) m = (Inr (), m2)"
    using c1(1) m2(1) by (simp add: field_def)
  ultimately show "\<exists>m' vs'. io_bind (c (field f (Some i)) (field f (Some out))) (\<lambda>_. d (Some i) (Some out)) m = (Inr (), m') \<and>
         extends m (others m out) m' \<and>
         m_block m' (fst out) = put (m_block m (fst out)) (snd out) (VStruct (pre' @ vs')) \<and>
         view_fields L m' (Field f t fs) vs' = Some xs \<and>
         (\<forall>b \<in> set (blocks_fields L m' (Field f t fs) vs'). m_next m \<le> b)"
    by blast
qed


lemma bind_return_left [simp]: "io_bind (io_return x) f = f x"
  by (simp add: io_bind_def io_return_def fun_eq_iff)

lemma bind_return_right [simp]: "io_bind m io_return = m"
  by (simp add: io_bind_def io_return_def fun_eq_iff split: prod.splits sum.splits)

lemma finishes_Scalar: "finishes_copy L (Scalar s) (\<lambda>i out. io_return ())"
  unfolding finishes_copy_def
proof (intro allI impI)
  fix m i out x
  assume x: "view_at L m (Scalar s) i = Some x" and out: "peek m out = peek m i"
  obtain v where v: "peek m i = Some v" "view L m (Scalar s) v = Some x" using x by (rule view_atE)
  then have "put (m_block m (fst out)) (snd out) v = m_block m (fst out)"
    using out by (simp add: peek_def put_same split: if_splits)
  with v(2) have "copied L (Scalar s) m out x m"
    unfolding copied_def by (intro conjI exI [of _ v]) (simp_all add: extends_def)
  then show "\<exists>m'. io_return () m = (Inr (), m') \<and> copied L (Scalar s) m out x m'"
    by (simp add: io_return_def)
qed

text \<open>A scalar field needs no block; the block of the last field that needs one ends the function.\<close>

lemma finishes_skip:
  assumes "lib_local L" and "finishes_fields L fs d"
  shows "finishes_fields L (Field f (Scalar s) fs) d"
  using finishes_Field [OF assms(1) finishes_Scalar [of L s] assms(2), of f] by simp

lemma finishes_last:
  assumes "lib_local L" and "finishes_copy L t c" and "finishes_fields L fs (\<lambda>i out. io_return ())"
  shows "finishes_fields L (Field f t fs) (\<lambda>i out. c (field f i) (field f out))"
  using finishes_Field [OF assms, of f] by simp

text \<open>A structure without pointers is copied by the assignment alone.\<close>

lemma deep_flat:
  assumes "lib_local L" and "finishes_fields L fs (\<lambda>i out. io_return ())"
  shows "deep_copies L (Struct fs) (\<lambda>i out. assign i out)"
  using deep_assign [OF assms(1) finishes_struct [OF assms(2)]] by simp

section \<open>Pointers\<close>

lemma nothing_to_copy:
  assumes "peek m i = Some v" and "peek m out = peek m i" and "view L m t v = Some x" and "blocks L m t v = []"
  shows "copied L t m out x m"
proof -
  have "put (m_block m (fst out)) (snd out) v = m_block m (fst out)"
    using assms(1,2) by (simp add: peek_def put_same split: if_splits)
  with assms(3,4) show ?thesis
    unfolding copied_def by (intro conjI exI [of _ v]) (simp_all add: extends_def)
qed

text \<open>After \<open>*out = <new object>\<close>: the memory \<open>poke out h (alloc z m)\<close>.\<close>

lemma fresh_object:
  assumes "peek m out = Some w"
  shows "peek (poke out h (alloc z m)) out = Some h"
    and "peek (poke out h (alloc z m)) (m_next m, []) = Some z"
    and "extends m (others m out) (poke out h (alloc z m))"
    and "peek (alloc z m) out = Some w"
proof -
  have b: "fst out < m_next m" by (rule peek_bound [OF assms])
  show a: "peek (alloc z m) out = Some w" using assms b by (simp add: peek_def)
  show "peek (poke out h (alloc z m)) out = Some h" by (rule peek_poke_same [OF a])
  show "peek (poke out h (alloc z m)) (m_next m, []) = Some z" using b by (simp add: peek_def)
  show "extends m (others m out) (poke out h (alloc z m))" by (auto simp: extends_def)
qed

lemma copy_pointer_finishes [copy_rules]:
  assumes lib: "lib_local L" and copy: "deep_copies L t copy"
  shows "finishes_copy L (Pointer t) (copy_pointer z copy)"
  unfolding finishes_copy_def
proof (intro allI impI)
  fix m i out x
  assume x: "view_at L m (Pointer t) i = Some x" and out: "peek m out = peek m i"
    and free: "fst out \<notin> set (blocks_at L m (Pointer t) i)"
  obtain v where v: "peek m i = Some v" "view L m (Pointer t) v = Some x"
      "blocks_at L m (Pointer t) i = fst i # blocks L m (Pointer t) v" using x by (rule view_atE)
  from v(2) [unfolded view_Pointer]
  show "\<exists>m'. copy_pointer z copy (Some i) (Some out) m = (Inr (), m') \<and> copied L (Pointer t) m out x m'"
  proof (elim disjE exE conjE)
    assume nil: "v = VPtr None" "x = TNil"
    have "copied L (Pointer t) m out x m"
      by (rule nothing_to_copy [OF v(1) out v(2)]) (simp add: nil)
    moreover have "copy_pointer z copy (Some i) (Some out) m = (Inr (), m)"
      using load_ptr_run [of m i None] v(1) nil by (simp add: copy_pointer_def io_when_def io_return_def)
    ultimately show ?thesis by blast
  next
    fix p w y
    assume p: "v = VPtr (Some p)" "peek m p = Some w" "view L m t w = Some y" "x = TRef y"
    let ?n = "(m_next m, []) :: ptr" and ?m = "poke out (VPtr (Some (m_next m, []))) (alloc z m)"
    have o: "peek m out = Some (VPtr (Some p))" using out v(1) p(1) by simp
    note new = fresh_object [OF o]
    have sep: "fst i \<noteq> fst out" "fst p \<noteq> fst out" "fst out \<notin> set (blocks L m t w)"
      using free p v(3) by auto
    have i: "peek ?m i = Some (VPtr (Some p))" using peek_kept [OF new(3) sep(1) v(1)] p(1) by simp
    have kept: "view L ?m t w = Some y \<and> blocks L ?m t w = blocks L m t w"
      by (rule value_kept [OF lib new(3) p(3) sep(3)])
    have "view_at L ?m t p = Some y" using peek_kept [OF new(3) sep(2) p(2)] kept by (simp add: view_at_def)
    moreover have "fst ?n \<notin> set (blocks_at L ?m t p)"
      using peek_kept [OF new(3) sep(2) p(2)] kept blocks_bound(1) [OF lib p(3)] peek_bound [OF p(2)]
      by (auto simp: blocks_at_def)
    ultimately obtain m' where m': "copy (Some p) (Some ?n) ?m = (Inr (), m')" "copied L t ?m ?n y m'"
      using copy new(2) unfolding deep_copies_def by blast
    have "copy_pointer z copy (Some i) (Some out) m = (Inr (), m')"
      using load_ptr_run [of m i "Some p"] load_ptr_run [OF i] load_ptr_run [OF new(1)] new(4) v(1) p(1) m'(1)
      by (simp add: copy_pointer_def io_when_def go_new_def)
    moreover have "copied L (Pointer t) m out x m'"
    proof -
      obtain v' where v': "extends ?m (others ?m ?n) m'" "m_block m' (m_next m) = v'"
          "view L m' t v' = Some y" "\<forall>b \<in> set (blocks L m' t v'). Suc (m_next m) \<le> b"
        using m'(2) by (auto simp: copied_def)
      have grown: "Suc (m_next m) \<le> m_next m'" using extends_next [OF v'(1)] by simp
      have at: "peek m' ?n = Some v'" using v'(2) grown by (simp add: peek_def)
      have ext: "extends m (others m out) m'"
        by (rule extends_trans [OF new(3) v'(1)]) auto
      have "m_block m' (fst out) = m_block ?m (fst out)"
        using v'(1) peek_bound [OF o] by (simp add: extends_def)
      then have "m_block m' (fst out) = put (m_block m (fst out)) (snd out) (VPtr (Some ?n))"
        using peek_bound [OF o] by simp
      moreover have "view L m' (Pointer t) (VPtr (Some ?n)) = Some x" using at v'(3) p(4) by (simp add: view_Pointer)
      moreover have "\<forall>b \<in> set (blocks L m' (Pointer t) (VPtr (Some ?n))). m_next m \<le> b" using at v'(4) by auto
      ultimately show ?thesis unfolding copied_def using ext by blast
    qed
    ultimately show ?thesis by blast
  qed
qed


section \<open>Slices\<close>

lemma peek_elem:
  assumes "cells m s = Some vs" and "k < length vs"
  shows "peek m (elem s k) = Some (vs ! k)"
  using assms
  by (auto simp: cells_def elem_def peek_def sub_append window_def slice_ok_def add.commute
      split: option.splits val.splits if_splits)

text \<open>The loop, with the elements going to a new array in block \<open>nb\<close>.\<close>

lemma elements_copied:
  assumes lib: "lib_local L" and copy: "deep_copies L t copy"
    and cells: "cells m s = Some vs" and arr: "peek m (nb, []) = Some (VArr (replicate (length vs) z))"
    and views: "list_all2 (\<lambda>v x. view L m t v = Some x) vs xs"
    and free: "nb \<notin> insert (fst (sl_Array s)) (\<Union>v \<in> set vs. set (blocks L m t v))"
    and body: "\<And>k m'. k < length vs \<Longrightarrow> extends m (others m (nb, [])) m' \<Longrightarrow> peek m' (nb, []) \<noteq> None \<Longrightarrow>
        body k m' = copy (Some (elem s k)) (Some (nb, [Idx k])) m'"
  shows "k \<le> length vs \<Longrightarrow> \<exists>m' ws. io_for [0..<k] body m = (Inr (), m') \<and>
    extends m (others m (nb, [])) m' \<and> m_block m' nb = VArr (ws @ replicate (length vs - k) z) \<and> length ws = k \<and>
    (\<forall>j < k. view L m' t (ws ! j) = Some (xs ! j) \<and> (\<forall>b \<in> set (blocks L m' t (ws ! j)). m_next m \<le> b))"
proof (induction k)
  case 0
  have "m_block m nb = VArr (replicate (length vs) z)" using arr by (simp add: peek_def split: if_splits)
  then show ?case by (intro exI [of _ m] exI [of _ "[]"]) (simp add: io_return_def extends_def)
next
  case (Suc k)
  then obtain m1 ws where m1: "io_for [0..<k] body m = (Inr (), m1)" "extends m (others m (nb, [])) m1"
      "m_block m1 nb = VArr (ws @ replicate (length vs - k) z)" "length ws = k"
    and old: "\<And>j. j < k \<Longrightarrow> view L m1 t (ws ! j) = Some (xs ! j) \<and> (\<forall>b \<in> set (blocks L m1 t (ws ! j)). m_next m \<le> b)"
    by auto
  let ?dst = "(nb, [Idx k]) :: ptr"
  have k: "k < length vs" using Suc.prems by simp
  have nb: "nb < m_next m" using peek_bound [OF arr] by simp
  have v: "view L m t (vs ! k) = Some (xs ! k)" using views k by (simp add: list_all2_conv_all_nth)
  have kept: "view L m1 t (vs ! k) = Some (xs ! k) \<and> blocks L m1 t (vs ! k) = blocks L m t (vs ! k)"
    by (rule value_kept [OF lib m1(2) v]) (use free k in auto)
  have src: "peek m1 (elem s k) = Some (vs ! k)"
    by (rule peek_kept [OF m1(2) _ peek_elem [OF cells k]]) (use free in \<open>simp add: elem_def\<close>)
  then have "view_at L m1 t (elem s k) = Some (xs ! k)" using kept by (simp add: view_at_def)
  moreover have dst: "peek m1 ?dst = Some z"
    using m1(3,4) nb extends_next [OF m1(2)] k by (auto simp: peek_def nth_append)
  moreover have "fst ?dst \<notin> set (blocks_at L m1 t (elem s k))"
    using src kept free k by (auto simp: blocks_at_def elem_def)
  ultimately obtain m2 where m2: "copy (Some (elem s k)) (Some ?dst) m1 = (Inr (), m2)" "copied L t m1 ?dst (xs ! k) m2"
    using copy unfolding deep_copies_def by blast
  then obtain w where w: "extends m1 (others m1 (nb, [])) m2" "m_block m2 nb = put (m_block m1 nb) [Idx k] w"
      "view L m2 t w = Some (xs ! k)" "\<forall>b \<in> set (blocks L m2 t w). m_next m1 \<le> b"
    by (auto simp: copied_def)
  have ext: "extends m (others m (nb, [])) m2"
    by (rule extends_trans [OF m1(2) w(1)]) (use extends_next [OF m1(2)] in auto)
  have "replicate (length vs - k) z = z # replicate (length vs - Suc k) z"
    using k by (metis Suc_diff_Suc replicate_Suc)
  then have block: "m_block m2 nb = VArr ((ws @ [w]) @ replicate (length vs - Suc k) z)"
    using w(2) m1(3,4) by (simp add: list_update_append nth_append)
  have "peek m1 (nb, []) \<noteq> None" using nb extends_next [OF m1(2)] by (simp add: peek_def)
  from body [OF k m1(2) this] have "io_for [0..<Suc k] body m = (Inr (), m2)"
    using m1(1) m2(1) by (simp add: io_for_append)
  moreover have "view L m2 t ((ws @ [w]) ! j) = Some (xs ! j) \<and>
      (\<forall>b \<in> set (blocks L m2 t ((ws @ [w]) ! j)). m_next m \<le> b)" if "j < Suc k" for j
  proof (cases "j = k")
    case True
    then show ?thesis using w(3,4) m1(4) extends_next [OF m1(2)] by (auto simp: nth_append)
  next
    case False
    with that have j: "j < k" by simp
    have "view L m2 t (ws ! j) = Some (xs ! j) \<and> blocks L m2 t (ws ! j) = blocks L m1 t (ws ! j)"
      by (rule value_kept [OF lib w(1)]) (use old [OF j] nb in auto)
    then show ?thesis using old [OF j] j m1(4) by (simp add: nth_append)
  qed
  ultimately show ?case using ext block m1(4) by (intro exI [of _ m2] exI [of _ "ws @ [w]"]) auto
qed

text \<open>Both blocks for a slice, once the new array has been made.\<close>

lemma new_slice_filled:
  fixes m :: memory and len :: nat and z :: val and out :: ptr
  defines "h \<equiv> \<lparr>sl_Array = (m_next m, []), sl_Off = 0, sl_Len = len, sl_Cap = len\<rparr>"
  defines "m1 \<equiv> poke out (VSlice (Some h)) (alloc (VArr (replicate len z)) m)"
  assumes lib: "lib_local L" and copy: "deep_copies L t copy"
    and out: "peek m out = Some w" and cells: "cells m s = Some vs" and len: "len = length vs"
    and views: "list_all2 (\<lambda>v x. view L m t v = Some x) vs xs"
    and free: "fst out \<notin> insert (fst (sl_Array s)) (\<Union>v \<in> set vs. set (blocks L m t v))"
    and body: "\<And>k m'. k < length vs \<Longrightarrow> extends m1 (others m1 (m_next m, [])) m' \<Longrightarrow> peek m' (m_next m, []) \<noteq> None \<Longrightarrow>
        body k m' = copy (Some (elem s k)) (Some (m_next m, [Idx k])) m'"
  shows "\<exists>m'. io_for [0..<length vs] body m1 = (Inr (), m') \<and> copied L (SliceOf t) m out (TList xs) m'"
proof -
  note new = fresh_object(1-3) [OF out, of "VSlice (Some h)" "VArr (replicate len z)", folded m1_def]
  have cells1: "cells m1 s = Some vs"
    by (rule cells_extends [OF new(3) _ cells]) (use free cells_bound [OF cells] in auto)
  have each: "view L m1 t (vs ! k) = Some (xs ! k) \<and> blocks L m1 t (vs ! k) = blocks L m t (vs ! k)"
    "\<forall>b \<in> set (blocks L m t (vs ! k)). b < m_next m" if "k < length vs" for k
  proof -
    have v: "view L m t (vs ! k) = Some (xs ! k)" using views that by (simp add: list_all2_conv_all_nth)
    show "view L m1 t (vs ! k) = Some (xs ! k) \<and> blocks L m1 t (vs ! k) = blocks L m t (vs ! k)"
      by (rule value_kept [OF lib new(3) v]) (use free that in auto)
    show "\<forall>b \<in> set (blocks L m t (vs ! k)). b < m_next m" by (rule blocks_bound(1) [OF lib v])
  qed
  have views1: "list_all2 (\<lambda>v x. view L m1 t v = Some x) vs xs"
    using views each by (simp add: list_all2_conv_all_nth)
  have "m_next m \<notin> insert (fst (sl_Array s)) (\<Union>v \<in> set vs. set (blocks L m1 t v))"
    using each cells_bound [OF cells] in_set_conv_nth [of _ vs] by fastforce
  from elements_copied [OF lib copy cells1 new(2) [unfolded len] views1 this body order_refl]
  obtain m' ws where m': "io_for [0..<length vs] body m1 = (Inr (), m')" "extends m1 (others m1 (m_next m, [])) m'"
      "m_block m' (m_next m) = VArr ws" "length ws = length vs"
    and ws: "\<forall>j < length vs. view L m' t (ws ! j) = Some (xs ! j) \<and> (\<forall>b \<in> set (blocks L m' t (ws ! j)). m_next m1 \<le> b)"
    by auto
  have b: "fst out < m_next m" by (rule peek_bound [OF out])
  have next1: "m_next m1 = Suc (m_next m)" by (simp add: m1_def)
  have grown: "Suc (m_next m) \<le> m_next m'" using extends_next [OF m'(2)] next1 by simp
  have cells': "cells m' h = Some ws"
    using m'(3,4) grown by (simp add: cells_def h_def peek_def slice_ok_def window_def len)
  have "extends m (others m out) m'"
    by (rule extends_trans [OF new(3) m'(2)]) (use next1 in auto)
  moreover have "m_block m' (fst out) = put (m_block m (fst out)) (snd out) (VSlice (Some h))"
  proof -
    have "m_block m' (fst out) = m_block m1 (fst out)" using m'(2) b next1 by (simp add: extends_def)
    then show ?thesis using b by (simp add: m1_def)
  qed
  moreover have "view L m' (SliceOf t) (VSlice (Some h)) = Some (TList xs)"
    using cells' ws m'(4) views by (simp add: view_SliceOf list_all2_conv_all_nth)
  moreover have "\<forall>b \<in> set (blocks L m' (SliceOf t) (VSlice (Some h))). m_next m \<le> b"
  proof -
    have "m_next m \<le> b" if v: "v \<in> set ws" and b: "b \<in> set (blocks L m' t v)" for v b
    proof -
      obtain j where j: "j < length vs" "v = ws ! j"
        using v unfolding in_set_conv_nth m'(4) by blast
      then have "\<forall>b \<in> set (blocks L m' t (ws ! j)). m_next m1 \<le> b" using ws by blast
      then have "m_next m1 \<le> b" using b j(2) by blast
      then show ?thesis using next1 by simp
    qed
    then show ?thesis using cells' by (auto simp: h_def)
  qed
  ultimately show ?thesis using m'(1) unfolding copied_def by blast
qed


lemma slice_finishes:
  assumes filled: "\<And>m i out s vs xs.
      peek m i = Some (VSlice (Some s)) \<Longrightarrow> peek m out = Some (VSlice (Some s)) \<Longrightarrow> fst i \<noteq> fst out \<Longrightarrow>
      cells m s = Some vs \<Longrightarrow> list_all2 (\<lambda>v x. view L m t v = Some x) vs xs \<Longrightarrow>
      fst out \<notin> insert (fst (sl_Array s)) (\<Union>v \<in> set vs. set (blocks L m t v)) \<Longrightarrow>
      \<exists>m'. c (Some i) (Some out) m = (Inr (), m') \<and> copied L (SliceOf t) m out (TList xs) m'"
    and nil: "\<And>m i out. peek m i = Some (VSlice None) \<Longrightarrow> c (Some i) (Some out) m = (Inr (), m)"
  shows "finishes_copy L (SliceOf t) c"
  unfolding finishes_copy_def
proof (intro allI impI)
  fix m i out x
  assume x: "view_at L m (SliceOf t) i = Some x" and out: "peek m out = peek m i"
    and free: "fst out \<notin> set (blocks_at L m (SliceOf t) i)"
  obtain v where v: "peek m i = Some v" "view L m (SliceOf t) v = Some x"
      "blocks_at L m (SliceOf t) i = fst i # blocks L m (SliceOf t) v" using x by (rule view_atE)
  from v(2) [unfolded view_SliceOf]
  show "\<exists>m'. c (Some i) (Some out) m = (Inr (), m') \<and> copied L (SliceOf t) m out x m'"
  proof (elim disjE exE conjE)
    assume "v = VSlice None" "x = TNil"
    then show ?thesis using nil [of m i out] nothing_to_copy [OF v(1) out v(2)] v(1) by auto
  next
    fix s vs xs
    assume s: "v = VSlice (Some s)" "cells m s = Some vs" "list_all2 (\<lambda>v x. view L m t v = Some x) vs xs" "x = TList xs"
    show ?thesis unfolding s(4)
      by (rule filled [of m i s out vs xs]) (use v s out free in auto)
  qed
qed

lemma copy_slice_finishes [copy_rules]:
  assumes lib: "lib_local L" and copy: "deep_copies L t copy"
  shows "finishes_copy L (SliceOf t) (copy_slice z copy)"
proof (rule slice_finishes)
  fix m i out s vs xs
  assume i: "peek m i = Some (VSlice (Some s))" and out: "peek m out = Some (VSlice (Some s))" and io: "fst i \<noteq> fst out"
    and cells: "cells m s = Some vs" and views: "list_all2 (\<lambda>v x. view L m t v = Some x) vs xs"
    and free: "fst out \<notin> insert (fst (sl_Array s)) (\<Union>v \<in> set vs. set (blocks L m t v))"
  let ?h = "\<lparr>sl_Array = (m_next m, []), sl_Off = 0, sl_Len = sl_Len s, sl_Cap = sl_Len s\<rparr>"
  let ?m1 = "poke out (VSlice (Some ?h)) (alloc (VArr (replicate (sl_Len s) z)) m)"
  let ?body = "\<lambda>k. io_bind (element (Some i) k) (\<lambda>src. io_bind (element (Some out) k) (\<lambda>dst. copy src dst))"
  have len: "sl_Len s = length vs" using cells_length [OF cells] by simp
  note new = fresh_object(1-3) [OF out, of "VSlice (Some ?h)" "VArr (replicate (sl_Len s) z)"]
  have i1: "peek ?m1 i = Some (VSlice (Some s))" by (rule peek_kept [OF new(3) io i])
  have "\<exists>m'. io_for [0..<length vs] ?body ?m1 = (Inr (), m') \<and> copied L (SliceOf t) m out (TList xs) m'"
  proof (rule new_slice_filled [OF lib copy out cells len views free])
    fix k m'
    assume k: "k < length vs" and ext: "extends ?m1 (others ?m1 (m_next m, [])) m'"
    have at: "peek m' i = Some (VSlice (Some s))" "peek m' out = Some (VSlice (Some ?h))"
      by (rule peek_kept [OF ext _ i1], use peek_bound [OF i] in simp)
         (rule peek_kept [OF ext _ new(1)], use peek_bound [OF out] in simp)
    show "?body k m' = copy (Some (elem s k)) (Some (m_next m, [Idx k])) m'"
      using load_slice_run [OF at(1)] load_slice_run [OF at(2)] k len
      by (simp add: element_def elem_def io_return_def)
  qed
  moreover have "copy_slice z copy (Some i) (Some out) m = io_for [0..<length vs] ?body ?m1"
    using load_slice_run [OF i] load_slice_run [OF i1] fresh_object(4) [OF out]
    by (simp add: copy_slice_def io_when_def make_slice_def go_new_def io_return_def slice_len_def len)
  ultimately show "\<exists>m'. copy_slice z copy (Some i) (Some out) m = (Inr (), m') \<and> copied L (SliceOf t) m out (TList xs) m'"
    by simp
next
  fix m i out
  assume "peek m i = Some (VSlice None)"
  from load_slice_run [OF this] show "copy_slice z copy (Some i) (Some out) m = (Inr (), m)"
    by (simp add: copy_slice_def io_when_def io_return_def)
qed

lemma copy_strings_finishes [copy_rules]:
  assumes lib: "lib_local L"
  shows "finishes_copy L (SliceOf (Scalar s0)) copy_strings"
proof (rule slice_finishes)
  fix m i out s vs xs
  assume i: "peek m i = Some (VSlice (Some s))" and out: "peek m out = Some (VSlice (Some s))" and io: "fst i \<noteq> fst out"
    and cells: "cells m s = Some vs" and views: "list_all2 (\<lambda>v x. view L m (Scalar s0) v = Some x) vs xs"
    and free: "fst out \<notin> insert (fst (sl_Array s)) (\<Union>v \<in> set vs. set (blocks L m (Scalar s0) v))"
  let ?z = "VScalar (SStr [])"
  let ?h = "\<lparr>sl_Array = (m_next m, []), sl_Off = 0, sl_Len = sl_Len s, sl_Cap = sl_Len s\<rparr>"
  let ?m1 = "poke out (VSlice (Some ?h)) (alloc (VArr (replicate (sl_Len s) ?z)) m)"
  let ?body = "\<lambda>k. assign (Some (elem s k)) (Some (elem ?h k))"
  have len: "sl_Len s = length vs" using cells_length [OF cells] by simp
  note new = fresh_object(1-3) [OF out, of "VSlice (Some ?h)" "VArr (replicate (sl_Len s) ?z)"]
  have i1: "peek ?m1 i = Some (VSlice (Some s))" by (rule peek_kept [OF new(3) io i])
  have flat: "deep_copies L (Scalar s0) assign" using deep_assign [OF lib finishes_Scalar] by simp
  have "\<exists>m'. io_for [0..<length vs] ?body ?m1 = (Inr (), m') \<and> copied L (SliceOf (Scalar s0)) m out (TList xs) m'"
    by (rule new_slice_filled [OF lib flat out cells len views free]) (simp add: elem_def)
  moreover have "copy_strings (Some i) (Some out) m = io_for [0..<length vs] ?body ?m1"
    using load_slice_run [OF i] load_slice_run [OF i1] load_slice_run [OF new(1)] fresh_object(4) [OF out]
    by (simp add: copy_strings_def go_copy_def io_when_def make_slice_def go_new_def io_return_def slice_len_def len)
  ultimately show "\<exists>m'. copy_strings (Some i) (Some out) m = (Inr (), m') \<and> copied L (SliceOf (Scalar s0)) m out (TList xs) m'"
    by simp
next
  fix m i out
  assume "peek m i = Some (VSlice None)"
  from load_slice_run [OF this] show "copy_strings (Some i) (Some out) m = (Inr (), m)"
    by (simp add: copy_strings_def io_when_def io_return_def)
qed

section \<open>New copies\<close>

text \<open>What \<open>DeepCopy\<close> returns: a new address whose value has the view of the original and reaches new
  blocks only, in a memory that has otherwise only grown.\<close>

definition copy_of :: "type_library \<Rightarrow> ty \<Rightarrow> memory \<Rightarrow> tree \<Rightarrow> ptr option \<Rightarrow> memory \<Rightarrow> bool" where
  "copy_of L t m x r m' \<longleftrightarrow> (case r of None \<Rightarrow> False
     | Some q \<Rightarrow> view_at L m' t q = Some x \<and> extends m {b. b < m_next m} m' \<and>
         (\<forall>b \<in> set (blocks_at L m' t q). m_next m \<le> b))"

lemma new_copy_ok:
  assumes lib: "lib_local L" and copy: "deep_copies L t into" and x: "view_at L m t p = Some x"
  shows "\<exists>r m'. new_copy z into (Some p) m = (Inr r, m') \<and> copy_of L t m x r m'"
proof -
  let ?n = "(m_next m, []) :: ptr" and ?m = "alloc z m"
  obtain v where v: "peek m p = Some v" "view L m t v = Some x" using x by (rule view_atE)
  have b: "fst p < m_next m" by (rule peek_bound [OF v(1)])
  have p: "peek ?m p = Some v" using v(1) b by (simp add: peek_def)
  have "view L ?m t v = Some x \<and> blocks L ?m t v = blocks L m t v"
    by (rule view_extends(1) [OF lib v(2)], rule extends_mono [OF extends_alloc])
       (use blocks_bound(1) [OF lib v(2)] in auto)
  then have "view_at L ?m t p = Some x" and "fst ?n \<notin> set (blocks_at L ?m t p)"
    using p b blocks_bound(1) [OF lib v(2)] by (auto simp: view_at_def blocks_at_def)
  moreover have "peek ?m ?n = Some z" by (simp add: peek_def)
  ultimately obtain m' where m': "into (Some p) (Some ?n) ?m = (Inr (), m')" "copied L t ?m ?n x m'"
    using copy unfolding deep_copies_def by blast
  then obtain v' where v': "extends ?m (others ?m ?n) m'" "m_block m' (m_next m) = v'"
      "view L m' t v' = Some x" "\<forall>b \<in> set (blocks L m' t v'). Suc (m_next m) \<le> b"
    by (auto simp: copied_def)
  have "peek m' ?n = Some v'" using extends_next [OF v'(1)] v'(2) by (simp add: peek_def)
  moreover have "extends m {b. b < m_next m} m'"
    by (rule extends_trans [OF extends_alloc v'(1)]) auto
  ultimately have "copy_of L t m x (Some ?n) m'"
    using v'(3,4) by (auto simp: copy_of_def view_at_def blocks_at_def)
  moreover have "new_copy z into (Some p) m = (Inr (Some ?n), m')"
    using m'(1) by (simp add: new_copy_def go_new_def io_return_def)
  ultimately show ?thesis by blast
qed

lemma view_at_kept:
  assumes lib: "lib_local L" and x: "view_at L m t p = Some x" and ext: "extends m (set (blocks_at L m t p)) m'"
  shows "view_at L m' t p = Some x \<and> blocks_at L m' t p = blocks_at L m t p"
proof -
  obtain v where v: "peek m p = Some v" "view L m t v = Some x" "blocks_at L m t p = fst p # blocks L m t v"
    using x by (rule view_atE)
  have "peek m' p = Some v" using peek_extends [OF ext] v(3) v(1) peek_bound [OF v(1)] by simp
  moreover have "view L m' t v = Some x \<and> blocks L m' t v = blocks L m t v"
    by (rule view_extends(1) [OF lib v(2)]) (rule extends_mono [OF ext], use v(3) in auto)
  ultimately show ?thesis using v by (simp add: view_at_def blocks_at_def)
qed

text \<open>Later writes: the original does not see those to blocks the copy brought, the copy does not see
  those to older blocks.\<close>

lemma copy_independent:
  assumes lib: "lib_local L" and x: "view_at L m t p = Some x" and copy: "copy_of L t m x (Some q) m'"
  shows "extends m' {b. b < m_next m} m2 \<Longrightarrow> view_at L m2 t p = Some x"
    and "extends m' {b. m_next m \<le> b} m2 \<Longrightarrow> view_at L m2 t q = Some x"
proof -
  have b: "set (blocks_at L m t p) \<subseteq> {b. b < m_next m}"
    using x blocks_bound(1) [OF lib] by (auto elim!: view_atE dest: peek_bound)
  assume "extends m' {b. b < m_next m} m2"
  moreover have "extends m {b. b < m_next m} m'" using copy by (simp add: copy_of_def)
  ultimately have "extends m {b. b < m_next m} m2" by (auto simp: extends_def)
  from view_at_kept [OF lib x extends_mono [OF this b]] show "view_at L m2 t p = Some x" by simp
next
  assume "extends m' {b. m_next m \<le> b} m2"
  then have "extends m' (set (blocks_at L m' t q)) m2"
    by (rule extends_mono) (use copy in \<open>auto simp: copy_of_def\<close>)
  moreover have "view_at L m' t q = Some x" using copy by (simp add: copy_of_def)
  ultimately show "view_at L m2 t q = Some x" using view_at_kept [OF lib] by blast
qed

end
