(* ===== verification/Deep_Copy.thy ===== *)
theory Deep_Copy
  imports Deep_Copy_Rules Api_Types
begin

text \<open>
  \<^verbatim>\<open>api/v1alpha1/zz_generated.deepcopy.go\<close>: the deep copies of the resources, function by function,
  on Go's memory. Controllers rely on them: the objects a cached client hands out are copies, and a
  reconciler that edits one must not edit the cache. A descriptor \<open>T_t\<close> gives the fields of each
  structure of \<^verbatim>\<open>api_types.go\<close> and \<^verbatim>\<open>providerconfig_types.go\<close>. The structures of other modules
  (object metadata, conditions, raw JSON, the common status) are library types: the locale
  \<open>copy_library\<close> asks of their \<open>DeepCopyInto\<close> the contract that is proved here for the repository's
  own.
\<close>

section \<open>The structures\<close>

abbreviation gostring :: ty where "gostring \<equiv> Scalar (SStr [])"
abbreviation goint :: ty where "goint \<equiv> Scalar (SInt 0)"
abbreviation gobool :: ty where "gobool \<equiv> Scalar (SBool False)"

definition library_types :: "string list" where
  "library_types = [''metav1.ObjectMeta'', ''metav1.ListMeta'', ''metav1.Condition'', ''commonapi.Status'',
     ''apiextensionsv1.JSON'']"

definition TypeMeta_t :: ty where
  "TypeMeta_t = Struct (Field ''Kind'' gostring (Field ''APIVersion'' gostring End))"

definition Duration_t :: ty where
  "Duration_t = Struct (Field ''Duration'' goint End)"

definition ServerExposure_t :: ty where
  "ServerExposure_t = Struct (Field ''Host'' gostring (Field ''AllowedIPs'' (SliceOf gostring) End))"

definition VaultPluginConfig_t :: ty where
  "VaultPluginConfig_t = Struct (Field ''Enabled'' gobool End)"

definition ArgoCDSpec_t :: ty where
  "ArgoCDSpec_t = Struct (Field ''Version'' gostring (Field ''NamespaceOverride'' gostring
     (Field ''Exposure'' (Pointer ServerExposure_t) (Field ''VaultPlugin'' (Pointer VaultPluginConfig_t) End))))"

definition ArgoCDStatus_t :: ty where
  "ArgoCDStatus_t = Struct (Field ''Status'' (Library ''commonapi.Status'') (Field ''Endpoint'' gostring End))"

definition ArgoCD_t :: ty where
  "ArgoCD_t = Struct (Field ''TypeMeta'' TypeMeta_t (Field ''ObjectMeta'' (Library ''metav1.ObjectMeta'')
     (Field ''Spec'' ArgoCDSpec_t (Field ''Status'' ArgoCDStatus_t End))))"

definition ArgoCDList_t :: ty where
  "ArgoCDList_t = Struct (Field ''TypeMeta'' TypeMeta_t (Field ''ListMeta'' (Library ''metav1.ListMeta'')
     (Field ''Items'' (SliceOf ArgoCD_t) End)))"

definition ArgoCDVersion_t :: ty where
  "ArgoCDVersion_t = Struct (Field ''Version'' gostring (Field ''ChartVersion'' gostring
     (Field ''ChartURL'' (Pointer gostring) (Field ''ChartPullSecret'' gostring
     (Field ''Values'' (Pointer (Library ''apiextensionsv1.JSON'')) End)))))"

definition ExposurePolicy_t :: ty where
  "ExposurePolicy_t = Struct (Field ''DNSClass'' gostring (Field ''DNSTTL'' goint (Field ''CertPurpose'' gostring End)))"

definition ReloaderConfig_t :: ty where
  "ReloaderConfig_t = Struct (Field ''Version'' gostring (Field ''ChartURL'' gostring (Field ''ChartVersion'' gostring
     (Field ''ChartPullSecret'' gostring (Field ''Values'' (Pointer (Library ''apiextensionsv1.JSON'')) End)))))"

definition ProviderVaultPluginConfig_t :: ty where
  "ProviderVaultPluginConfig_t = Struct (Field ''Enabled'' gobool (Field ''Registry'' gostring (Field ''Tag'' gostring End)))"

definition ProviderConfigSpec_t :: ty where
  "ProviderConfigSpec_t = Struct (Field ''Versions'' (SliceOf ArgoCDVersion_t)
     (Field ''PollInterval'' (Pointer Duration_t) (Field ''Exposure'' (Pointer ExposurePolicy_t)
     (Field ''Reloader'' (Pointer ReloaderConfig_t) (Field ''CABundleSecret'' gostring
     (Field ''VaultPlugin'' (Pointer ProviderVaultPluginConfig_t) (Field ''OpenSource'' gobool End)))))))"

definition ProviderConfigStatus_t :: ty where
  "ProviderConfigStatus_t = Struct (Field ''Conditions'' (SliceOf (Library ''metav1.Condition'')) End)"

definition ProviderConfig_t :: ty where
  "ProviderConfig_t = Struct (Field ''TypeMeta'' TypeMeta_t (Field ''ObjectMeta'' (Library ''metav1.ObjectMeta'')
     (Field ''Spec'' ProviderConfigSpec_t (Field ''Status'' ProviderConfigStatus_t End))))"

definition ProviderConfigList_t :: ty where
  "ProviderConfigList_t = Struct (Field ''TypeMeta'' TypeMeta_t (Field ''ListMeta'' (Library ''metav1.ListMeta'')
     (Field ''Items'' (SliceOf ProviderConfig_t) End)))"

section \<open>The generated functions\<close>

type_synonym copier = "type_library \<Rightarrow> ptr option \<Rightarrow> ptr option \<Rightarrow> unit go"

text \<open>A value of the interface \<^verbatim>\<open>runtime.Object\<close> that is not nil: its dynamic type and pointer.\<close>

type_synonym runtime_object = "string \<times> ptr option"

definition VaultPluginConfig_DeepCopyInto :: copier where
  "VaultPluginConfig_DeepCopyInto L i out = assign i out"

definition VaultPluginConfig_DeepCopy :: "type_library \<Rightarrow> ptr option \<Rightarrow> (ptr option) go" where
  "VaultPluginConfig_DeepCopy L i = new_copy (zero L VaultPluginConfig_t) (VaultPluginConfig_DeepCopyInto L) i"

definition ServerExposure_DeepCopyInto :: copier where
  "ServerExposure_DeepCopyInto L i out =
     io_bind (assign i out) (\<lambda>_.
     copy_strings (field ''AllowedIPs'' i) (field ''AllowedIPs'' out))"

definition ServerExposure_DeepCopy :: "type_library \<Rightarrow> ptr option \<Rightarrow> (ptr option) go" where
  "ServerExposure_DeepCopy L i = new_copy (zero L ServerExposure_t) (ServerExposure_DeepCopyInto L) i"

definition ArgoCDSpec_DeepCopyInto :: copier where
  "ArgoCDSpec_DeepCopyInto L i out =
     io_bind (assign i out) (\<lambda>_.
     io_bind (copy_pointer (zero L ServerExposure_t) (ServerExposure_DeepCopyInto L) (field ''Exposure'' i) (field ''Exposure'' out)) (\<lambda>_.
     copy_pointer (zero L VaultPluginConfig_t) assign (field ''VaultPlugin'' i) (field ''VaultPlugin'' out)))"

definition ArgoCDSpec_DeepCopy :: "type_library \<Rightarrow> ptr option \<Rightarrow> (ptr option) go" where
  "ArgoCDSpec_DeepCopy L i = new_copy (zero L ArgoCDSpec_t) (ArgoCDSpec_DeepCopyInto L) i"

definition ArgoCDStatus_DeepCopyInto :: copier where
  "ArgoCDStatus_DeepCopyInto L i out =
     io_bind (assign i out) (\<lambda>_.
     lib_copy L ''commonapi.Status'' (field ''Status'' i) (field ''Status'' out))"

definition ArgoCDStatus_DeepCopy :: "type_library \<Rightarrow> ptr option \<Rightarrow> (ptr option) go" where
  "ArgoCDStatus_DeepCopy L i = new_copy (zero L ArgoCDStatus_t) (ArgoCDStatus_DeepCopyInto L) i"

definition ArgoCD_DeepCopyInto :: copier where
  "ArgoCD_DeepCopyInto L i out =
     io_bind (assign i out) (\<lambda>_.
     io_bind (assign (field ''TypeMeta'' i) (field ''TypeMeta'' out)) (\<lambda>_.
     io_bind (lib_copy L ''metav1.ObjectMeta'' (field ''ObjectMeta'' i) (field ''ObjectMeta'' out)) (\<lambda>_.
     io_bind (ArgoCDSpec_DeepCopyInto L (field ''Spec'' i) (field ''Spec'' out)) (\<lambda>_.
     ArgoCDStatus_DeepCopyInto L (field ''Status'' i) (field ''Status'' out)))))"

definition ArgoCD_DeepCopy :: "type_library \<Rightarrow> ptr option \<Rightarrow> (ptr option) go" where
  "ArgoCD_DeepCopy L i = new_copy (zero L ArgoCD_t) (ArgoCD_DeepCopyInto L) i"

definition ArgoCD_DeepCopyObject :: "type_library \<Rightarrow> ptr option \<Rightarrow> (runtime_object option) go" where
  "ArgoCD_DeepCopyObject L i = io_bind (ArgoCD_DeepCopy L i) (\<lambda>c.
     if c \<noteq> None then io_return (Some (''*ArgoCD'', c)) else io_return None)"

definition ArgoCDList_DeepCopyInto :: copier where
  "ArgoCDList_DeepCopyInto L i out =
     io_bind (assign i out) (\<lambda>_.
     io_bind (assign (field ''TypeMeta'' i) (field ''TypeMeta'' out)) (\<lambda>_.
     io_bind (lib_copy L ''metav1.ListMeta'' (field ''ListMeta'' i) (field ''ListMeta'' out)) (\<lambda>_.
     copy_slice (zero L ArgoCD_t) (ArgoCD_DeepCopyInto L) (field ''Items'' i) (field ''Items'' out))))"

definition ArgoCDList_DeepCopy :: "type_library \<Rightarrow> ptr option \<Rightarrow> (ptr option) go" where
  "ArgoCDList_DeepCopy L i = new_copy (zero L ArgoCDList_t) (ArgoCDList_DeepCopyInto L) i"

definition ArgoCDList_DeepCopyObject :: "type_library \<Rightarrow> ptr option \<Rightarrow> (runtime_object option) go" where
  "ArgoCDList_DeepCopyObject L i = io_bind (ArgoCDList_DeepCopy L i) (\<lambda>c.
     if c \<noteq> None then io_return (Some (''*ArgoCDList'', c)) else io_return None)"

definition ArgoCDVersion_DeepCopyInto :: copier where
  "ArgoCDVersion_DeepCopyInto L i out =
     io_bind (assign i out) (\<lambda>_.
     io_bind (copy_pointer (zero L gostring) assign (field ''ChartURL'' i) (field ''ChartURL'' out)) (\<lambda>_.
     copy_pointer (lib_zero L ''apiextensionsv1.JSON'') (lib_copy L ''apiextensionsv1.JSON'') (field ''Values'' i) (field ''Values'' out)))"

definition ArgoCDVersion_DeepCopy :: "type_library \<Rightarrow> ptr option \<Rightarrow> (ptr option) go" where
  "ArgoCDVersion_DeepCopy L i = new_copy (zero L ArgoCDVersion_t) (ArgoCDVersion_DeepCopyInto L) i"

definition ExposurePolicy_DeepCopyInto :: copier where
  "ExposurePolicy_DeepCopyInto L i out = assign i out"

definition ExposurePolicy_DeepCopy :: "type_library \<Rightarrow> ptr option \<Rightarrow> (ptr option) go" where
  "ExposurePolicy_DeepCopy L i = new_copy (zero L ExposurePolicy_t) (ExposurePolicy_DeepCopyInto L) i"

definition ReloaderConfig_DeepCopyInto :: copier where
  "ReloaderConfig_DeepCopyInto L i out =
     io_bind (assign i out) (\<lambda>_.
     copy_pointer (lib_zero L ''apiextensionsv1.JSON'') (lib_copy L ''apiextensionsv1.JSON'') (field ''Values'' i) (field ''Values'' out))"

definition ReloaderConfig_DeepCopy :: "type_library \<Rightarrow> ptr option \<Rightarrow> (ptr option) go" where
  "ReloaderConfig_DeepCopy L i = new_copy (zero L ReloaderConfig_t) (ReloaderConfig_DeepCopyInto L) i"

definition ProviderVaultPluginConfig_DeepCopyInto :: copier where
  "ProviderVaultPluginConfig_DeepCopyInto L i out = assign i out"

definition ProviderVaultPluginConfig_DeepCopy :: "type_library \<Rightarrow> ptr option \<Rightarrow> (ptr option) go" where
  "ProviderVaultPluginConfig_DeepCopy L i = new_copy (zero L ProviderVaultPluginConfig_t) (ProviderVaultPluginConfig_DeepCopyInto L) i"

definition ProviderConfigSpec_DeepCopyInto :: copier where
  "ProviderConfigSpec_DeepCopyInto L i out =
     io_bind (assign i out) (\<lambda>_.
     io_bind (copy_slice (zero L ArgoCDVersion_t) (ArgoCDVersion_DeepCopyInto L) (field ''Versions'' i) (field ''Versions'' out)) (\<lambda>_.
     io_bind (copy_pointer (zero L Duration_t) assign (field ''PollInterval'' i) (field ''PollInterval'' out)) (\<lambda>_.
     io_bind (copy_pointer (zero L ExposurePolicy_t) assign (field ''Exposure'' i) (field ''Exposure'' out)) (\<lambda>_.
     io_bind (copy_pointer (zero L ReloaderConfig_t) (ReloaderConfig_DeepCopyInto L) (field ''Reloader'' i) (field ''Reloader'' out)) (\<lambda>_.
     copy_pointer (zero L ProviderVaultPluginConfig_t) assign (field ''VaultPlugin'' i) (field ''VaultPlugin'' out))))))"

definition ProviderConfigSpec_DeepCopy :: "type_library \<Rightarrow> ptr option \<Rightarrow> (ptr option) go" where
  "ProviderConfigSpec_DeepCopy L i = new_copy (zero L ProviderConfigSpec_t) (ProviderConfigSpec_DeepCopyInto L) i"

definition ProviderConfigStatus_DeepCopyInto :: copier where
  "ProviderConfigStatus_DeepCopyInto L i out =
     io_bind (assign i out) (\<lambda>_.
     copy_slice (lib_zero L ''metav1.Condition'') (lib_copy L ''metav1.Condition'') (field ''Conditions'' i) (field ''Conditions'' out))"

definition ProviderConfigStatus_DeepCopy :: "type_library \<Rightarrow> ptr option \<Rightarrow> (ptr option) go" where
  "ProviderConfigStatus_DeepCopy L i = new_copy (zero L ProviderConfigStatus_t) (ProviderConfigStatus_DeepCopyInto L) i"

definition ProviderConfig_DeepCopyInto :: copier where
  "ProviderConfig_DeepCopyInto L i out =
     io_bind (assign i out) (\<lambda>_.
     io_bind (assign (field ''TypeMeta'' i) (field ''TypeMeta'' out)) (\<lambda>_.
     io_bind (lib_copy L ''metav1.ObjectMeta'' (field ''ObjectMeta'' i) (field ''ObjectMeta'' out)) (\<lambda>_.
     io_bind (ProviderConfigSpec_DeepCopyInto L (field ''Spec'' i) (field ''Spec'' out)) (\<lambda>_.
     ProviderConfigStatus_DeepCopyInto L (field ''Status'' i) (field ''Status'' out)))))"

definition ProviderConfig_DeepCopy :: "type_library \<Rightarrow> ptr option \<Rightarrow> (ptr option) go" where
  "ProviderConfig_DeepCopy L i = new_copy (zero L ProviderConfig_t) (ProviderConfig_DeepCopyInto L) i"

definition ProviderConfig_DeepCopyObject :: "type_library \<Rightarrow> ptr option \<Rightarrow> (runtime_object option) go" where
  "ProviderConfig_DeepCopyObject L i = io_bind (ProviderConfig_DeepCopy L i) (\<lambda>c.
     if c \<noteq> None then io_return (Some (''*ProviderConfig'', c)) else io_return None)"

definition ProviderConfigList_DeepCopyInto :: copier where
  "ProviderConfigList_DeepCopyInto L i out =
     io_bind (assign i out) (\<lambda>_.
     io_bind (assign (field ''TypeMeta'' i) (field ''TypeMeta'' out)) (\<lambda>_.
     io_bind (lib_copy L ''metav1.ListMeta'' (field ''ListMeta'' i) (field ''ListMeta'' out)) (\<lambda>_.
     copy_slice (zero L ProviderConfig_t) (ProviderConfig_DeepCopyInto L) (field ''Items'' i) (field ''Items'' out))))"

definition ProviderConfigList_DeepCopy :: "type_library \<Rightarrow> ptr option \<Rightarrow> (ptr option) go" where
  "ProviderConfigList_DeepCopy L i = new_copy (zero L ProviderConfigList_t) (ProviderConfigList_DeepCopyInto L) i"

definition ProviderConfigList_DeepCopyObject :: "type_library \<Rightarrow> ptr option \<Rightarrow> (runtime_object option) go" where
  "ProviderConfigList_DeepCopyObject L i = io_bind (ProviderConfigList_DeepCopy L i) (\<lambda>c.
     if c \<noteq> None then io_return (Some (''*ProviderConfigList'', c)) else io_return None)"

section \<open>Every generated function copies deeply\<close>

locale copy_library =
  fixes L :: type_library
  assumes local: "lib_local L"
    and library: "n \<in> set library_types \<Longrightarrow> deep_copies L (Library n) (lib_copy L n)"
begin

lemmas field_rules = finishes_struct finishes_skip [OF local] finishes_last [OF local] finishes_Field [OF local] finishes_End
lemmas block_rules = copy_pointer_finishes [OF local] copy_slice_finishes [OF local] copy_strings_finishes [OF local]

lemma library_copies:
  "deep_copies L (Library ''metav1.ObjectMeta'') (lib_copy L ''metav1.ObjectMeta'')"
  "deep_copies L (Library ''metav1.ListMeta'') (lib_copy L ''metav1.ListMeta'')"
  "deep_copies L (Library ''metav1.Condition'') (lib_copy L ''metav1.Condition'')"
  "deep_copies L (Library ''commonapi.Status'') (lib_copy L ''commonapi.Status'')"
  "deep_copies L (Library ''apiextensionsv1.JSON'') (lib_copy L ''apiextensionsv1.JSON'')"
  by (rule library, simp add: library_types_def)+

text \<open>Scalars and structures of scalars are copied by assignment.\<close>

lemma scalar_copies: "deep_copies L (Scalar s) assign"
  using deep_assign [OF local finishes_Scalar] by simp

lemma flat_copies:
  "deep_copies L TypeMeta_t assign" "deep_copies L Duration_t assign" "deep_copies L VaultPluginConfig_t assign"
  "deep_copies L ExposurePolicy_t assign" "deep_copies L ProviderVaultPluginConfig_t assign"
  unfolding TypeMeta_t_def Duration_t_def VaultPluginConfig_t_def ExposurePolicy_t_def ProviderVaultPluginConfig_t_def
  by (rule deep_flat [OF local], intro finishes_skip [OF local] finishes_End)+

lemmas leaf_rules = deep_assign [OF local] scalar_copies flat_copies library_copies
  flat_copies [THEN deep_finishes] library_copies [THEN deep_finishes]

lemma VaultPluginConfig_copies: "deep_copies L VaultPluginConfig_t (VaultPluginConfig_DeepCopyInto L)"
  unfolding VaultPluginConfig_DeepCopyInto_def [abs_def] by (rule flat_copies)

lemma ExposurePolicy_copies: "deep_copies L ExposurePolicy_t (ExposurePolicy_DeepCopyInto L)"
  unfolding ExposurePolicy_DeepCopyInto_def [abs_def] by (rule flat_copies)

lemma ProviderVaultPluginConfig_copies: "deep_copies L ProviderVaultPluginConfig_t (ProviderVaultPluginConfig_DeepCopyInto L)"
  unfolding ProviderVaultPluginConfig_DeepCopyInto_def [abs_def] by (rule flat_copies)

lemma ServerExposure_copies: "deep_copies L ServerExposure_t (ServerExposure_DeepCopyInto L)"
  unfolding ServerExposure_DeepCopyInto_def [abs_def] ServerExposure_t_def
  by (intro leaf_rules field_rules block_rules)

lemma ArgoCDSpec_copies: "deep_copies L ArgoCDSpec_t (ArgoCDSpec_DeepCopyInto L)"
  unfolding ArgoCDSpec_DeepCopyInto_def [abs_def] ArgoCDSpec_t_def
  by (intro leaf_rules field_rules block_rules ServerExposure_copies)

lemma ArgoCDStatus_copies: "deep_copies L ArgoCDStatus_t (ArgoCDStatus_DeepCopyInto L)"
  unfolding ArgoCDStatus_DeepCopyInto_def [abs_def] ArgoCDStatus_t_def
  by (intro leaf_rules field_rules block_rules)

lemma ArgoCD_copies: "deep_copies L ArgoCD_t (ArgoCD_DeepCopyInto L)"
  unfolding ArgoCD_DeepCopyInto_def [abs_def] ArgoCD_t_def
  by (intro leaf_rules field_rules block_rules ArgoCDSpec_copies [THEN deep_finishes] ArgoCDStatus_copies [THEN deep_finishes])

lemma ArgoCDList_copies: "deep_copies L ArgoCDList_t (ArgoCDList_DeepCopyInto L)"
  unfolding ArgoCDList_DeepCopyInto_def [abs_def] ArgoCDList_t_def
  by (intro leaf_rules field_rules block_rules ArgoCD_copies)

lemma ArgoCDVersion_copies: "deep_copies L ArgoCDVersion_t (ArgoCDVersion_DeepCopyInto L)"
  unfolding ArgoCDVersion_DeepCopyInto_def [abs_def] ArgoCDVersion_t_def
  by (intro leaf_rules field_rules block_rules)

lemma ReloaderConfig_copies: "deep_copies L ReloaderConfig_t (ReloaderConfig_DeepCopyInto L)"
  unfolding ReloaderConfig_DeepCopyInto_def [abs_def] ReloaderConfig_t_def
  by (intro leaf_rules field_rules block_rules)

lemma ProviderConfigSpec_copies: "deep_copies L ProviderConfigSpec_t (ProviderConfigSpec_DeepCopyInto L)"
  unfolding ProviderConfigSpec_DeepCopyInto_def [abs_def] ProviderConfigSpec_t_def
  by (intro leaf_rules field_rules block_rules ArgoCDVersion_copies ReloaderConfig_copies)

lemma ProviderConfigStatus_copies: "deep_copies L ProviderConfigStatus_t (ProviderConfigStatus_DeepCopyInto L)"
  unfolding ProviderConfigStatus_DeepCopyInto_def [abs_def] ProviderConfigStatus_t_def
  by (intro leaf_rules field_rules block_rules)

lemma ProviderConfig_copies: "deep_copies L ProviderConfig_t (ProviderConfig_DeepCopyInto L)"
  unfolding ProviderConfig_DeepCopyInto_def [abs_def] ProviderConfig_t_def
  by (intro leaf_rules field_rules block_rules ProviderConfigSpec_copies [THEN deep_finishes]
      ProviderConfigStatus_copies [THEN deep_finishes])

lemma ProviderConfigList_copies: "deep_copies L ProviderConfigList_t (ProviderConfigList_DeepCopyInto L)"
  unfolding ProviderConfigList_DeepCopyInto_def [abs_def] ProviderConfigList_t_def
  by (intro leaf_rules field_rules block_rules ProviderConfig_copies)

end

end
