(* ===== verification/Deep_Copy_Properties.thy ===== *)
theory Deep_Copy_Properties
  imports Deep_Copy
begin

text \<open>
  What the generated copies are good for: a copy is equal to its original and shares nothing with it,
  so that a reconciler that edits what it was handed edits nobody else's object. A library whose
  types hold a string and a list of strings instantiates the contract of the types of other modules.
\<close>

section \<open>A library that computes\<close>

definition base_library :: type_library where
  "base_library = \<lparr>lib_zero = (\<lambda>n. VStruct []), lib_copy = (\<lambda>n i out. assign i out),
     lib_view = (\<lambda>n m v. None), lib_blocks = (\<lambda>n m v. [])\<rparr>"

definition example_lib_t :: ty where
  "example_lib_t = Struct (Field ''Name'' gostring (Field ''Entries'' (SliceOf gostring) End))"

definition example_library :: type_library where
  "example_library =
     \<lparr>lib_zero = (\<lambda>n. zero base_library example_lib_t),
      lib_copy = (\<lambda>n i out. io_bind (assign i out) (\<lambda>_. copy_strings (field ''Entries'' i) (field ''Entries'' out))),
      lib_view = (\<lambda>n m v. view base_library m example_lib_t v),
      lib_blocks = (\<lambda>n m v. blocks base_library m example_lib_t v)\<rparr>"

lemma base_local: "lib_local base_library"
  by (simp add: lib_local_def base_library_def)

lemma example_lib_copies:
  "deep_copies base_library example_lib_t
     (\<lambda>i out. io_bind (assign i out) (\<lambda>_. copy_strings (field ''Entries'' i) (field ''Entries'' out)))"
  unfolding example_lib_t_def
  by (intro deep_assign [OF base_local] finishes_struct finishes_skip [OF base_local] finishes_last [OF base_local]
      finishes_End copy_strings_finishes [OF base_local])

lemma library_view [simp]:
  "view example_library m (Library n) v = view base_library m example_lib_t v"
  "blocks example_library m (Library n) v = blocks base_library m example_lib_t v"
  by (simp_all add: example_library_def)

lemma example_local: "lib_local example_library"
  unfolding lib_local_def
proof (intro allI impI conjI ballI)
  fix n v x b and m m' :: memory
  assume x: "lib_view example_library n m v = Some x"
  then have x: "view base_library m example_lib_t v = Some x" by (simp add: example_library_def)
  show "b < m_next m" if "b \<in> set (lib_blocks example_library n m v)"
    using blocks_bound(1) [OF base_local x] that by (simp add: example_library_def)
  show "lib_view example_library n m' v = Some x" "lib_blocks example_library n m' v = lib_blocks example_library n m v"
    if "extends m (set (lib_blocks example_library n m v)) m'"
    using view_extends(1) [OF base_local x, of m'] that by (simp_all add: example_library_def)
qed

interpretation example_types: copy_library example_library
proof unfold_locales
  show "lib_local example_library" by (rule example_local)
  fix n
  have "view_at example_library m (Library n) p = view_at base_library m example_lib_t p"
    "blocks_at example_library m (Library n) p = blocks_at base_library m example_lib_t p"
    "copied example_library (Library n) m p x m' = copied base_library example_lib_t m p x m'" for m m' p x
    by (simp_all add: view_at_def blocks_at_def copied_def del: view.simps blocks.simps cong: option.case_cong)
  then have "deep_copies example_library (Library n) c \<longleftrightarrow> deep_copies base_library example_lib_t c" for c
    by (simp add: deep_copies_def)
  then show "deep_copies example_library (Library n) (lib_copy example_library n)"
    using example_lib_copies by (simp add: example_library_def)
qed

section \<open>Copies\<close>

text \<open>C13. Every generated \<^verbatim>\<open>DeepCopyInto\<close> copies deeply: from an address that holds a value of the type to
  another one it ends without a panic, the copy stands for the same value, everything the copy reaches
  is newly allocated, and no other object is written.\<close>

theorem generated_copies_are_deep:
  assumes "copy_library L"
  shows "deep_copies L ArgoCD_t (ArgoCD_DeepCopyInto L) \<and> deep_copies L ArgoCDList_t (ArgoCDList_DeepCopyInto L) \<and>
    deep_copies L ArgoCDSpec_t (ArgoCDSpec_DeepCopyInto L) \<and> deep_copies L ArgoCDStatus_t (ArgoCDStatus_DeepCopyInto L) \<and>
    deep_copies L ArgoCDVersion_t (ArgoCDVersion_DeepCopyInto L) \<and>
    deep_copies L ExposurePolicy_t (ExposurePolicy_DeepCopyInto L) \<and>
    deep_copies L ProviderConfig_t (ProviderConfig_DeepCopyInto L) \<and>
    deep_copies L ProviderConfigList_t (ProviderConfigList_DeepCopyInto L) \<and>
    deep_copies L ProviderConfigSpec_t (ProviderConfigSpec_DeepCopyInto L) \<and>
    deep_copies L ProviderConfigStatus_t (ProviderConfigStatus_DeepCopyInto L) \<and>
    deep_copies L ProviderVaultPluginConfig_t (ProviderVaultPluginConfig_DeepCopyInto L) \<and>
    deep_copies L ReloaderConfig_t (ReloaderConfig_DeepCopyInto L) \<and>
    deep_copies L ServerExposure_t (ServerExposure_DeepCopyInto L) \<and>
    deep_copies L VaultPluginConfig_t (VaultPluginConfig_DeepCopyInto L)"
  using assms
  by (intro conjI copy_library.ArgoCD_copies copy_library.ArgoCDList_copies copy_library.ArgoCDSpec_copies
      copy_library.ArgoCDStatus_copies copy_library.ArgoCDVersion_copies
      copy_library.ExposurePolicy_copies copy_library.ProviderConfig_copies
      copy_library.ProviderConfigList_copies copy_library.ProviderConfigSpec_copies
      copy_library.ProviderConfigStatus_copies copy_library.ProviderVaultPluginConfig_copies
      copy_library.ReloaderConfig_copies copy_library.ServerExposure_copies
      copy_library.VaultPluginConfig_copies)

lemma generated_copies_are_deep_witness:
  "deep_copies example_library ArgoCDSpec_t (ArgoCDSpec_DeepCopyInto example_library) \<and>
   deep_copies example_library ProviderConfigSpec_t (ProviderConfigSpec_DeepCopyInto example_library)"
  using generated_copies_are_deep [OF example_types.copy_library_axioms] by simp

text \<open>A copy is independent of its original: it is new and has the value of the original; what is written
  afterwards to objects the copy brought does not change the original, what is written to older
  objects does not change the copy.\<close>

definition independent_copy :: "type_library \<Rightarrow> ty \<Rightarrow> memory \<Rightarrow> ptr \<Rightarrow> tree \<Rightarrow> ptr \<Rightarrow> memory \<Rightarrow> bool" where
  "independent_copy L t m p x q m' \<longleftrightarrow>
     m_next m \<le> fst q \<and> view_at L m' t q = Some x \<and> view_at L m' t p = Some x \<and>
     (\<forall>m2. extends m' {b. b < m_next m} m2 \<longrightarrow> view_at L m2 t p = Some x) \<and>
     (\<forall>m2. extends m' {b. m_next m \<le> b} m2 \<longrightarrow> view_at L m2 t q = Some x)"

lemma new_copy_independent:
  assumes lib: "lib_local L" and copy: "deep_copies L t into" and x: "view_at L m t p = Some x"
  shows "\<exists>q m'. new_copy z into (Some p) m = (Inr (Some q), m') \<and> independent_copy L t m p x q m'"
proof -
  obtain r m' where run: "new_copy z into (Some p) m = (Inr r, m')" and c: "copy_of L t m x r m'"
    using new_copy_ok [OF lib copy x] by blast
  then obtain q where q: "r = Some q" by (auto simp: copy_of_def split: option.splits)
  note ind = copy_independent [OF lib x c [unfolded q]]
  have "extends m' {b. b < m_next m} m'" by (simp add: extends_def)
  then have "independent_copy L t m p x q m'"
    using c q ind unfolding independent_copy_def by (auto simp: copy_of_def blocks_at_def)
  with run q show ?thesis by blast
qed

text \<open>C24. The object that \<^verbatim>\<open>DeepCopyObject\<close> hands out for a stored resource or list has the dynamic type of
  the original and is an independent copy of it, whatever the two are used for afterwards.\<close>

theorem DeepCopyObject_independent:
  assumes "copy_library L"
  shows "(\<forall>x. view_at L m ArgoCD_t p = Some x \<longrightarrow>
      (\<exists>q m'. ArgoCD_DeepCopyObject L (Some p) m = (Inr (Some (''*ArgoCD'', Some q)), m') \<and>
         independent_copy L ArgoCD_t m p x q m')) \<and>
    (\<forall>x. view_at L m ArgoCDList_t p = Some x \<longrightarrow>
      (\<exists>q m'. ArgoCDList_DeepCopyObject L (Some p) m = (Inr (Some (''*ArgoCDList'', Some q)), m') \<and>
         independent_copy L ArgoCDList_t m p x q m')) \<and>
    (\<forall>x. view_at L m ProviderConfig_t p = Some x \<longrightarrow>
      (\<exists>q m'. ProviderConfig_DeepCopyObject L (Some p) m = (Inr (Some (''*ProviderConfig'', Some q)), m') \<and>
         independent_copy L ProviderConfig_t m p x q m')) \<and>
    (\<forall>x. view_at L m ProviderConfigList_t p = Some x \<longrightarrow>
      (\<exists>q m'. ProviderConfigList_DeepCopyObject L (Some p) m = (Inr (Some (''*ProviderConfigList'', Some q)), m') \<and>
         independent_copy L ProviderConfigList_t m p x q m'))"
proof -
  have obj: "\<exists>q m'. io_bind (new_copy z into (Some p)) (\<lambda>c. if c \<noteq> None then io_return (Some (n, c)) else io_return None) m =
         (Inr (Some (n, Some q)), m') \<and> independent_copy L t m p x q m'"
    if copy: "deep_copies L t into" and x: "view_at L m t p = Some x" for t into z x and n :: string
  proof -
    obtain q m' where "new_copy z into (Some p) m = (Inr (Some q), m')" "independent_copy L t m p x q m'"
      using new_copy_independent [OF copy_library.local [OF assms] copy x] by blast
    then show ?thesis by (intro exI [of _ q] exI [of _ m']) (simp add: io_return_def)
  qed
  show ?thesis
    unfolding ArgoCD_DeepCopyObject_def ArgoCDList_DeepCopyObject_def ProviderConfig_DeepCopyObject_def
      ProviderConfigList_DeepCopyObject_def ArgoCD_DeepCopy_def ArgoCDList_DeepCopy_def ProviderConfig_DeepCopy_def
      ProviderConfigList_DeepCopy_def
    by (intro conjI allI impI obj copy_library.ArgoCD_copies [OF assms] copy_library.ArgoCDList_copies [OF assms]
        copy_library.ProviderConfig_copies [OF assms] copy_library.ProviderConfigList_copies [OF assms])
qed

text \<open>A stored resource with an exposure and the vault plugin: the resource in block 0, what its
  pointers and slices lead to in blocks 1 to 3.\<close>

definition gostr :: "string \<Rightarrow> val" where "gostr s = VScalar (SStr s)"

definition example_library_value :: "string \<Rightarrow> val" where
  "example_library_value n = VStruct [(''Name'', gostr n), (''Entries'', VSlice None)]"

definition example_resource :: "string \<Rightarrow> val" where
  "example_resource endpoint = VStruct
     [(''TypeMeta'', VStruct [(''Kind'', gostr ''ArgoCD''), (''APIVersion'', gostr ''v1alpha1'')]),
      (''ObjectMeta'', example_library_value ''shop''),
      (''Spec'', VStruct [(''Version'', gostr ''2.9''), (''NamespaceOverride'', gostr []),
         (''Exposure'', VPtr (Some (1, []))), (''VaultPlugin'', VPtr (Some (3, [])))]),
      (''Status'', VStruct [(''Status'', example_library_value ''Ready''), (''Endpoint'', gostr endpoint)])]"

definition example_memory :: memory where
  "example_memory = \<lparr>m_next = 4, m_block = (\<lambda>b.
     if b = 0 then example_resource ''https://argocd''
     else if b = 1 then VStruct [(''Host'', gostr ''argocd''),
       (''AllowedIPs'', VSlice (Some \<lparr>sl_Array = (2, []), sl_Off = 0, sl_Len = 1, sl_Cap = 2\<rparr>))]
     else if b = 2 then VArr [gostr ''10.0.0.0/8'', gostr []]
     else VStruct [(''Enabled'', VScalar (SBool True))])\<rparr>"

lemmas type_defs = ArgoCD_t_def TypeMeta_t_def ArgoCDSpec_t_def ArgoCDStatus_t_def ServerExposure_t_def
  VaultPluginConfig_t_def example_lib_t_def

lemmas example_memory_defs = example_memory_def example_resource_def example_library_value_def gostr_def

lemma example_memory_view: "\<exists>x. view_at example_library example_memory ArgoCD_t (0, []) = Some x"
  by (simp add: view_at_def peek_def type_defs example_memory_defs view.simps view_fields.simps cells_def slice_ok_def
      window_def example_library_def)

lemma DeepCopyObject_independent_witness:
  "\<exists>x q m'. ArgoCD_DeepCopyObject example_library (Some (0, [])) example_memory = (Inr (Some (''*ArgoCD'', Some q)), m') \<and>
     view_at example_library (poke (1, [Fld ''Host'']) (gostr ''other'') m') ArgoCD_t q = Some x \<and>
     view_at example_library example_memory ArgoCD_t (0, []) = Some x"
proof -
  obtain x where x: "view_at example_library example_memory ArgoCD_t (0, []) = Some x" using example_memory_view by blast
  with DeepCopyObject_independent [OF example_types.copy_library_axioms, of example_memory "(0, [])"]
  obtain q m' where run: "ArgoCD_DeepCopyObject example_library (Some (0, [])) example_memory = (Inr (Some (''*ArgoCD'', Some q)), m')"
    and ind: "independent_copy example_library ArgoCD_t example_memory (0, []) x q m'" by blast
  have "extends m' {b. m_next example_memory \<le> b} (poke (1, [Fld ''Host'']) (gostr ''other'') m')"
    by (auto simp: extends_def example_memory_def)
  then have "view_at example_library (poke (1, [Fld ''Host'']) (gostr ''other'') m') ArgoCD_t q = Some x"
    using ind unfolding independent_copy_def by blast
  with run x show ?thesis by blast
qed

text \<open>Nil: the copy of a nil pointer is nil, as an object too (the interface value is nil, not a nil
  pointer of a type), and \<^verbatim>\<open>DeepCopyInto\<close> on a nil receiver panics before it writes anything.\<close>

theorem deep_copy_of_nil:
  "ArgoCD_DeepCopy L None m = (Inr None, m) \<and> ArgoCD_DeepCopyObject L None m = (Inr None, m) \<and>
   ArgoCDList_DeepCopyObject L None m = (Inr None, m) \<and> ProviderConfig_DeepCopy L None m = (Inr None, m) \<and>
   ProviderConfig_DeepCopyObject L None m = (Inr None, m) \<and> ProviderConfigList_DeepCopyObject L None m = (Inr None, m) \<and>
   ArgoCD_DeepCopyInto L None out m = (Inl NilDereference, m) \<and>
   ProviderConfig_DeepCopyInto L None out m = (Inl NilDereference, m) \<and>
   ArgoCDSpec_DeepCopyInto L None out m = (Inl NilDereference, m) \<and>
   ProviderConfigSpec_DeepCopyInto L None out m = (Inl NilDereference, m)"
  by (simp add: ArgoCD_DeepCopyObject_def ArgoCDList_DeepCopyObject_def ProviderConfig_DeepCopyObject_def
      ProviderConfigList_DeepCopyObject_def ArgoCD_DeepCopy_def ArgoCDList_DeepCopy_def ProviderConfig_DeepCopy_def
      ProviderConfigList_DeepCopy_def new_copy_def ArgoCD_DeepCopyInto_def ProviderConfig_DeepCopyInto_def
      ArgoCDSpec_DeepCopyInto_def ProviderConfigSpec_DeepCopyInto_def assign_def load_def io_bind_def io_return_def)

text \<open>The contract needs the two addresses to be apart: a specification copied onto itself loses what its
  exposure held, since the new object is stored before the old one is read.\<close>

lemma copy_onto_itself:
  "\<exists>m'. ArgoCDSpec_DeepCopyInto L (Some (0, [Fld ''Spec''])) (Some (0, [Fld ''Spec''])) example_memory = (Inr (), m') \<and>
     peek example_memory (1, [Fld ''Host'']) = Some (gostr ''argocd'') \<and>
     (\<exists>n. peek m' (0, [Fld ''Spec'', Fld ''Exposure'']) = Some (VPtr (Some (n, []))) \<and>
        peek m' (n, [Fld ''Host'']) = Some (gostr []))"
  by (simp add: ArgoCDSpec_DeepCopyInto_def ServerExposure_DeepCopyInto_def assign_def load_def store_at_def field_def
      copy_pointer_def copy_strings_def load_ptr_def load_slice_def io_bind_def io_return_def io_when_def go_new_def
      peek_def poke_def alloc_def ServerExposure_t_def VaultPluginConfig_t_def example_memory_defs)

end
