(* ===== verification/Admission.thy ===== *)
theory Admission
  imports Api_Types
begin

text \<open>
  What the CRD of the ProviderConfig does before the program sees a resource: the API server fills in the
  defaults of the \<^verbatim>\<open>kubebuilder\<close> markers. The program has defaults of its own for the same fields, so the
  two have to agree. A field that \<^verbatim>\<open>omitempty\<close> leaves out is its zero value here.
\<close>

definition crd_default_version :: "ArgoCDVersion \<Rightarrow> ArgoCDVersion" where
  "crd_default_version v =
     (case v_ChartURL v of
        None \<Rightarrow> v\<lparr>v_ChartURL := Some ''oci://ghcr.io/argoproj/argo-helm/argo-cd''\<rparr>
      | Some url \<Rightarrow> v)"

definition crd_default_exposure :: "ExposurePolicy \<Rightarrow> ExposurePolicy" where
  "crd_default_exposure e =
     \<lparr>ep_DNSClass = (if ep_DNSClass e = [] then ''garden'' else ep_DNSClass e),
      ep_DNSTTL = (if ep_DNSTTL e = 0 then 3600 else ep_DNSTTL e),
      ep_CertPurpose = (if ep_CertPurpose e = [] then ''managed'' else ep_CertPurpose e)\<rparr>"

definition crd_default_reloader :: "ReloaderConfig \<Rightarrow> ReloaderConfig" where
  "crd_default_reloader r =
     (if rl_ChartURL r = [] then r\<lparr>rl_ChartURL := ''oci://ghcr.io/stakater/charts/reloader''\<rparr> else r)"

definition crd_default_spec :: "ProviderConfigSpec \<Rightarrow> ProviderConfigSpec" where
  "crd_default_spec s =
     s\<lparr>pc_Versions := map crd_default_version (pc_Versions s),
       pc_PollInterval := (case pc_PollInterval s of None \<Rightarrow> Some minute | Some d \<Rightarrow> Some d),
       pc_Exposure := map_option crd_default_exposure (pc_Exposure s),
       pc_Reloader := map_option crd_default_reloader (pc_Reloader s)\<rparr>"

definition crd_default :: "ProviderConfig \<Rightarrow> ProviderConfig" where
  "crd_default pc = pc\<lparr>pc_Spec := crd_default_spec (pc_Spec pc)\<rparr>"

lemma default_version_simps [simp]: "v_Version (crd_default_version v) = v_Version v"
  by (simp add: crd_default_version_def split: option.split)

lemma default_version_url: "\<exists>url. v_ChartURL (crd_default_version v) = Some url"
  by (simp add: crd_default_version_def split: option.split)

lemma select_default_version:
  "select_version (map crd_default_version vs) r =
     (if snd (select_version vs r) then (crd_default_version (fst (select_version vs r)), True)
      else (zero_version, False))"
  by (induction vs) auto

text \<open>The defaults of the CRD are the defaults of the code: filling them in changes neither the poll
  interval, nor the effective exposure policy, nor the effective addon, nor what the vault plugin's
  rule says, and it changes which version a request selects only in its chart URL, which then is never
  missing. So the program behaves the same on a configuration that was stored before a default
  was added to the CRD.\<close>

theorem crd_defaults_agree:
  "PollInterval (crd_default pc) = PollInterval pc \<and>
   effective_policy (Some (crd_default pc)) = effective_policy (Some pc) \<and>
   effective_reloader (Some (crd_default pc)) = effective_reloader (Some pc) \<and>
   vault_rule (pc_Spec (crd_default pc)) = vault_rule (pc_Spec pc) \<and>
   SelectVersion (crd_default pc) requested =
     (case SelectVersion pc requested of (v, ok) \<Rightarrow> (if ok then crd_default_version v else v, ok)) \<and>
   list_all (\<lambda>v. v_ChartURL v \<noteq> None) (pc_Versions (pc_Spec (crd_default pc)))"
proof (intro conjI)
  let ?s = "pc_Spec pc"
  show "PollInterval (crd_default pc) = PollInterval pc"
    by (simp add: PollInterval_def crd_default_def crd_default_spec_def DefaultPollInterval_def split: option.split)
  show "effective_policy (Some (crd_default pc)) = effective_policy (Some pc)"
    by (simp add: effective_policy_def crd_default_def crd_default_spec_def crd_default_exposure_def default_policy_def
        DefaultDNSClass_def DefaultDNSTTL_def DefaultCertPurpose_def Let_def split: option.split)
  show "effective_reloader (Some (crd_default pc)) = effective_reloader (Some pc)"
    by (simp add: effective_reloader_def crd_default_def crd_default_spec_def crd_default_reloader_def
        DefaultReloaderChartURL_def split: option.split)
  show "vault_rule (pc_Spec (crd_default pc)) = vault_rule (pc_Spec pc)"
    by (simp add: vault_rule_def crd_default_def crd_default_spec_def)
  show "SelectVersion (crd_default pc) requested =
     (case SelectVersion pc requested of (v, ok) \<Rightarrow> (if ok then crd_default_version v else v, ok))"
  proof (cases "select_version (pc_Versions ?s) requested")
    case (Pair v ok)
    then show ?thesis using select_version_missing [of "pc_Versions ?s" requested v]
      by (cases ok) (simp_all add: SelectVersion_def crd_default_def crd_default_spec_def select_default_version)
  qed
  show "list_all (\<lambda>v. v_ChartURL v \<noteq> None) (pc_Versions (pc_Spec (crd_default pc)))"
    by (simp add: crd_default_def crd_default_spec_def list_all_iff default_version_url)
qed

end
