(* ===== verification/Api_Schema.thy ===== *)
theory Api_Schema
  imports Admission
begin

text \<open>
  The resources as documents: the schemas that the markers of \<^verbatim>\<open>api_types.go\<close> and
  \<^verbatim>\<open>providerconfig_types.go\<close> (and, generated from them, the manifests of \<^verbatim>\<open>api/crds\<close>) give
  the API server, what decoding a document by the structures' JSON tags yields, and the validation rule
  of the ProviderConfig as CEL evaluates it. \<open>decodes d t\<close> says that a document the schema \<open>t\<close> admits
  is decoded by \<open>d\<close>: the rules below derive it from the shape of both. How the API server checks a
  string format and an integer, and how Go parses a duration and an integer, are parameters.
\<close>

section \<open>Schemas\<close>

datatype schema =
    TString nat "nat option"
  | TFormat string
  | TBool
  | TInteger
  | TAny
  | TArray schema
  | TObject "(string \<times> schema) list" "string list"

record document_lib =
  valid_format :: "string \<Rightarrow> string \<Rightarrow> bool"
  valid_integer :: "string \<Rightarrow> bool"
  ParseDuration :: "string \<Rightarrow> int option"
  ParseInt :: "string \<Rightarrow> int option"

text \<open>Lengths are counted in characters.\<close>

definition characters :: "string \<Rightarrow> nat" where
  "characters s = length (runes s)"

text \<open>A property that is present must be of its type; \<open>null\<close> is of no type but any. The API server
  checks a document from which it has dropped the unknown members and those that are \<open>null\<close>.\<close>

fun admits :: "document_lib \<Rightarrow> schema \<Rightarrow> json \<Rightarrow> bool" where
  "admits D (TString lo hi) v =
     (case v of
        JStr s \<Rightarrow> lo \<le> characters s \<and> (case hi of None \<Rightarrow> True | Some n \<Rightarrow> characters s \<le> n)
      | _ \<Rightarrow> False)"
| "admits D (TFormat f) v = (case v of JStr s \<Rightarrow> valid_format D f s | _ \<Rightarrow> False)"
| "admits D TBool v = (case v of JBool b \<Rightarrow> True | _ \<Rightarrow> False)"
| "admits D TInteger v = (case v of JNum n \<Rightarrow> valid_integer D n | _ \<Rightarrow> False)"
| "admits D TAny v = True"
| "admits D (TArray t) v = (case v of JArr xs \<Rightarrow> list_all (admits D t) xs | _ \<Rightarrow> False)"
| "admits D (TObject ps required) v =
     (case v of
        JObj m \<Rightarrow>
          list_all (\<lambda>k. map_of m k \<noteq> None) required \<and>
          list_all (\<lambda>p. case map_of m (fst p) of None \<Rightarrow> True | Some w \<Rightarrow> admits D (snd p) w) ps
      | _ \<Rightarrow> False)"

abbreviation text_schema :: schema where "text_schema \<equiv> TString 0 None"

definition ServerExposure_schema :: schema where
  "ServerExposure_schema =
     TObject [(''host'', TString 1 (Some 253)), (''allowedIPs'', TArray text_schema)] [''host'']"

definition VaultPluginConfig_schema :: schema where
  "VaultPluginConfig_schema = TObject [(''enabled'', TBool)] [''enabled'']"

definition ArgoCDSpec_schema :: schema where
  "ArgoCDSpec_schema =
     TObject [(''version'', TString 1 None), (''namespaceOverride'', text_schema),
              (''exposure'', ServerExposure_schema), (''vaultPlugin'', VaultPluginConfig_schema)] [''version'']"

definition ArgoCDVersion_schema :: schema where
  "ArgoCDVersion_schema =
     TObject [(''version'', text_schema), (''chartVersion'', text_schema), (''chartUrl'', text_schema),
              (''chartPullSecret'', text_schema), (''values'', TAny)] [''chartVersion'', ''version'']"

definition ExposurePolicy_schema :: schema where
  "ExposurePolicy_schema =
     TObject [(''dnsClass'', text_schema), (''dnsTTL'', TInteger), (''certPurpose'', text_schema)] []"

definition ReloaderConfig_schema :: schema where
  "ReloaderConfig_schema =
     TObject [(''version'', text_schema), (''chartUrl'', text_schema), (''chartVersion'', text_schema),
              (''chartPullSecret'', text_schema), (''values'', TAny)] [''chartVersion'']"

definition ProviderVaultPluginConfig_schema :: schema where
  "ProviderVaultPluginConfig_schema =
     TObject [(''enabled'', TBool), (''registry'', text_schema), (''tag'', text_schema)] [''enabled'']"

definition ProviderConfigSpec_schema :: schema where
  "ProviderConfigSpec_schema =
     TObject [(''versions'', TArray ArgoCDVersion_schema), (''pollInterval'', TFormat ''duration''),
              (''exposure'', ExposurePolicy_schema), (''reloader'', ReloaderConfig_schema),
              (''caBundleSecret'', text_schema), (''vaultPlugin'', ProviderVaultPluginConfig_schema),
              (''openSource'', TBool)] [''versions'']"

section \<open>Decoding\<close>

text \<open>
  Decoding into a Go value: a member that is missing or \<open>null\<close> leaves the zero value, any
  other value of the wrong kind is an error. Keys match exactly and members without a field are ignored,
  as in the decoder of the API machinery. Which of several errors is reported is not modelled.
\<close>

fun res_bind :: "'e + 'a \<Rightarrow> ('a \<Rightarrow> 'e + 'b) \<Rightarrow> 'e + 'b" where
  "res_bind (Inl e) f = Inl e"
| "res_bind (Inr x) f = f x"

definition mistyped :: "string \<Rightarrow> go_error + 'a" where
  "mistyped t = Inl (Errorf (''json: cannot unmarshal value into Go value of type '' @ t))"

definition json_string :: "json \<Rightarrow> go_error + string" where
  "json_string v = (case v of JStr s \<Rightarrow> Inr s | JNull \<Rightarrow> Inr [] | _ \<Rightarrow> mistyped ''string'')"

definition json_bool :: "json \<Rightarrow> go_error + bool" where
  "json_bool v = (case v of JBool b \<Rightarrow> Inr b | JNull \<Rightarrow> Inr False | _ \<Rightarrow> mistyped ''bool'')"

definition json_int :: "document_lib \<Rightarrow> json \<Rightarrow> go_error + int" where
  "json_int D v =
     (case v of
        JNum n \<Rightarrow> (case ParseInt D n of None \<Rightarrow> mistyped ''int'' | Some i \<Rightarrow> Inr i)
      | JNull \<Rightarrow> Inr 0
      | _ \<Rightarrow> mistyped ''int'')"

definition json_duration :: "document_lib \<Rightarrow> json \<Rightarrow> go_error + int" where
  "json_duration D v =
     (case v of
        JStr s \<Rightarrow> (case ParseDuration D s of None \<Rightarrow> Inl (Errorf ''time: invalid duration'') | Some d \<Rightarrow> Inr d)
      | _ \<Rightarrow> mistyped ''string'')"

definition json_pointer :: "(json \<Rightarrow> go_error + 'a) \<Rightarrow> json \<Rightarrow> go_error + 'a option" where
  "json_pointer d v = (if v = JNull then Inr None else res_bind (d v) (\<lambda>x. Inr (Some x)))"

primrec json_each :: "(json \<Rightarrow> go_error + 'a) \<Rightarrow> json list \<Rightarrow> go_error + 'a list" where
  "json_each d [] = Inr []"
| "json_each d (v # vs) = res_bind (d v) (\<lambda>x. res_bind (json_each d vs) (\<lambda>xs. Inr (x # xs)))"

definition json_slice :: "(json \<Rightarrow> go_error + 'a) \<Rightarrow> json \<Rightarrow> go_error + 'a list" where
  "json_slice d v = (case v of JArr vs \<Rightarrow> json_each d vs | JNull \<Rightarrow> Inr [] | _ \<Rightarrow> mistyped ''slice'')"

definition json_members :: "json \<Rightarrow> go_error + jmap" where
  "json_members v = (case v of JObj m \<Rightarrow> Inr m | JNull \<Rightarrow> Inr [] | _ \<Rightarrow> mistyped ''struct'')"

definition json_field :: "string \<Rightarrow> 'a \<Rightarrow> (json \<Rightarrow> go_error + 'a) \<Rightarrow> jmap \<Rightarrow> go_error + 'a" where
  "json_field k z d m = (case map_of m k of None \<Rightarrow> Inr z | Some v \<Rightarrow> d v)"

text \<open>\<^verbatim>\<open>apiextensionsv1.JSON\<close> keeps the bytes; see \<open>raw_json\<close>.\<close>

definition json_values :: "json \<Rightarrow> go_error + raw_json" where
  "json_values v =
     Inr (case v of
            JObj m \<Rightarrow> RawObject m | JNull \<Rightarrow> RawEmpty | JBool b \<Rightarrow> RawNonObject ''bool''
          | JNum n \<Rightarrow> RawNonObject ''number'' | JStr s \<Rightarrow> RawNonObject ''string''
          | JArr vs \<Rightarrow> RawNonObject ''array'')"

definition decode_ServerExposure :: "json \<Rightarrow> go_error + ServerExposure" where
  "decode_ServerExposure v =
     res_bind (json_members v) (\<lambda>m.
     res_bind (json_field ''host'' [] json_string m) (\<lambda>host.
     res_bind (json_field ''allowedIPs'' [] (json_slice json_string) m) (\<lambda>ips.
     Inr \<lparr>se_Host = host, se_AllowedIPs = ips\<rparr>)))"

definition decode_VaultPluginConfig :: "json \<Rightarrow> go_error + VaultPluginConfig" where
  "decode_VaultPluginConfig v =
     res_bind (json_members v) (\<lambda>m.
     res_bind (json_field ''enabled'' False json_bool m) (\<lambda>enabled.
     Inr \<lparr>vp_Enabled = enabled\<rparr>))"

definition decode_ArgoCDSpec :: "json \<Rightarrow> go_error + ArgoCDSpec" where
  "decode_ArgoCDSpec v =
     res_bind (json_members v) (\<lambda>m.
     res_bind (json_field ''version'' [] json_string m) (\<lambda>version.
     res_bind (json_field ''namespaceOverride'' [] json_string m) (\<lambda>namespace.
     res_bind (json_field ''exposure'' None (json_pointer decode_ServerExposure) m) (\<lambda>exposure.
     res_bind (json_field ''vaultPlugin'' None (json_pointer decode_VaultPluginConfig) m) (\<lambda>vault.
     Inr \<lparr>spec_Version = version, spec_NamespaceOverride = namespace, spec_Exposure = exposure,
          spec_VaultPlugin = vault\<rparr>)))))"

definition decode_ArgoCDVersion :: "json \<Rightarrow> go_error + ArgoCDVersion" where
  "decode_ArgoCDVersion v =
     res_bind (json_members v) (\<lambda>m.
     res_bind (json_field ''version'' [] json_string m) (\<lambda>version.
     res_bind (json_field ''chartVersion'' [] json_string m) (\<lambda>chart.
     res_bind (json_field ''chartUrl'' None (json_pointer json_string) m) (\<lambda>url.
     res_bind (json_field ''chartPullSecret'' [] json_string m) (\<lambda>secret.
     res_bind (json_field ''values'' None (json_pointer json_values) m) (\<lambda>values.
     Inr \<lparr>v_Version = version, v_ChartVersion = chart, v_ChartURL = url, v_ChartPullSecret = secret,
          v_Values = values\<rparr>))))))"

definition decode_ExposurePolicy :: "document_lib \<Rightarrow> json \<Rightarrow> go_error + ExposurePolicy" where
  "decode_ExposurePolicy D v =
     res_bind (json_members v) (\<lambda>m.
     res_bind (json_field ''dnsClass'' [] json_string m) (\<lambda>class.
     res_bind (json_field ''dnsTTL'' 0 (json_int D) m) (\<lambda>ttl.
     res_bind (json_field ''certPurpose'' [] json_string m) (\<lambda>purpose.
     Inr \<lparr>ep_DNSClass = class, ep_DNSTTL = ttl, ep_CertPurpose = purpose\<rparr>))))"

definition decode_ReloaderConfig :: "json \<Rightarrow> go_error + ReloaderConfig" where
  "decode_ReloaderConfig v =
     res_bind (json_members v) (\<lambda>m.
     res_bind (json_field ''version'' [] json_string m) (\<lambda>version.
     res_bind (json_field ''chartUrl'' [] json_string m) (\<lambda>url.
     res_bind (json_field ''chartVersion'' [] json_string m) (\<lambda>chart.
     res_bind (json_field ''chartPullSecret'' [] json_string m) (\<lambda>secret.
     res_bind (json_field ''values'' None (json_pointer json_values) m) (\<lambda>values.
     Inr \<lparr>rl_Version = version, rl_ChartURL = url, rl_ChartVersion = chart, rl_ChartPullSecret = secret,
          rl_Values = values\<rparr>))))))"

definition decode_ProviderVaultPluginConfig :: "json \<Rightarrow> go_error + ProviderVaultPluginConfig" where
  "decode_ProviderVaultPluginConfig v =
     res_bind (json_members v) (\<lambda>m.
     res_bind (json_field ''enabled'' False json_bool m) (\<lambda>enabled.
     res_bind (json_field ''registry'' [] json_string m) (\<lambda>registry.
     res_bind (json_field ''tag'' [] json_string m) (\<lambda>tag.
     Inr \<lparr>pv_Enabled = enabled, pv_Registry = registry, pv_Tag = tag\<rparr>))))"

definition decode_ProviderConfigSpec :: "document_lib \<Rightarrow> json \<Rightarrow> go_error + ProviderConfigSpec" where
  "decode_ProviderConfigSpec D v =
     res_bind (json_members v) (\<lambda>m.
     res_bind (json_field ''versions'' [] (json_slice decode_ArgoCDVersion) m) (\<lambda>versions.
     res_bind (json_field ''pollInterval'' None (json_pointer (json_duration D)) m) (\<lambda>interval.
     res_bind (json_field ''exposure'' None (json_pointer (decode_ExposurePolicy D)) m) (\<lambda>exposure.
     res_bind (json_field ''reloader'' None (json_pointer decode_ReloaderConfig) m) (\<lambda>reloader.
     res_bind (json_field ''caBundleSecret'' [] json_string m) (\<lambda>bundle.
     res_bind (json_field ''vaultPlugin'' None (json_pointer decode_ProviderVaultPluginConfig) m) (\<lambda>vault.
     res_bind (json_field ''openSource'' False json_bool m) (\<lambda>open_source.
     Inr \<lparr>pc_Versions = versions, pc_PollInterval = interval, pc_Exposure = exposure, pc_Reloader = reloader,
          pc_CABundleSecret = bundle, pc_VaultPlugin = vault, pc_OpenSource = open_source\<rparr>))))))))"

section \<open>Encoding\<close>

text \<open>Members tagged \<^verbatim>\<open>omitempty\<close> are left out when they are zero.\<close>

definition omit_text :: "string \<Rightarrow> string \<Rightarrow> jmap" where
  "omit_text k s = (if s = [] then [] else [(k, JStr s)])"

definition omit_nil :: "string \<Rightarrow> ('a \<Rightarrow> json) \<Rightarrow> 'a option \<Rightarrow> jmap" where
  "omit_nil k enc p = (case p of None \<Rightarrow> [] | Some x \<Rightarrow> [(k, enc x)])"

definition encode_ServerExposure :: "ServerExposure \<Rightarrow> json" where
  "encode_ServerExposure e =
     JObj ([(''host'', JStr (se_Host e))] @
           (if se_AllowedIPs e = [] then [] else [(''allowedIPs'', JArr (map JStr (se_AllowedIPs e)))]))"

definition encode_VaultPluginConfig :: "VaultPluginConfig \<Rightarrow> json" where
  "encode_VaultPluginConfig v = JObj [(''enabled'', JBool (vp_Enabled v))]"

definition encode_ArgoCDSpec :: "ArgoCDSpec \<Rightarrow> json" where
  "encode_ArgoCDSpec s =
     JObj ([(''version'', JStr (spec_Version s))] @
           omit_text ''namespaceOverride'' (spec_NamespaceOverride s) @
           omit_nil ''exposure'' encode_ServerExposure (spec_Exposure s) @
           omit_nil ''vaultPlugin'' encode_VaultPluginConfig (spec_VaultPlugin s))"

section \<open>The validation rule\<close>

text \<open>
  CEL: an operand of \<open>||\<close> and \<open>&&\<close> may fail (\<open>None\<close>), and the other one decides where it can;
  selecting a member that is missing fails.
\<close>

definition cel_or :: "bool option \<Rightarrow> bool option \<Rightarrow> bool option" where
  "cel_or a b =
     (if a = Some True \<or> b = Some True then Some True
      else if a = None \<or> b = None then None else Some False)"

definition cel_and :: "bool option \<Rightarrow> bool option \<Rightarrow> bool option" where
  "cel_and a b =
     (if a = Some False \<or> b = Some False then Some False
      else if a = None \<or> b = None then None else Some True)"

definition cel_not :: "bool option \<Rightarrow> bool option" where
  "cel_not = map_option Not"

definition cel_has :: "json option \<Rightarrow> string \<Rightarrow> bool option" where
  "cel_has v k = (case v of Some (JObj m) \<Rightarrow> Some (map_of m k \<noteq> None) | _ \<Rightarrow> None)"

definition cel_select :: "json option \<Rightarrow> string \<Rightarrow> json option" where
  "cel_select v k = (case v of Some (JObj m) \<Rightarrow> map_of m k | _ \<Rightarrow> None)"

definition cel_bool :: "json option \<Rightarrow> bool option" where
  "cel_bool v = (case v of Some (JBool b) \<Rightarrow> Some b | _ \<Rightarrow> None)"

definition cel_nonempty :: "json option \<Rightarrow> bool option" where
  "cel_nonempty v = (case v of Some (JStr s) \<Rightarrow> Some (0 < characters s) | _ \<Rightarrow> None)"

definition vault_rule_cel :: "json \<Rightarrow> bool option" where
  "vault_rule_cel self =
     (let v = cel_select (Some self) ''vaultPlugin'' in
      cel_or (cel_or (cel_or (cel_bool (cel_select (Some self) ''openSource''))
        (cel_not (cel_has (Some self) ''vaultPlugin'')))
        (cel_not (cel_bool (cel_select v ''enabled''))))
        (cel_and (cel_and (cel_and (cel_has v ''registry'') (cel_nonempty (cel_select v ''registry'')))
           (cel_has v ''tag'')) (cel_nonempty (cel_select v ''tag''))))"

end
