(* ===== verification/Api_Schema_Correct.thy ===== *)
theory Api_Schema_Correct
  imports Api_Schema
begin

text \<open>
  The schemas and the structures agree: a document that the API server admits is decoded, into a value
  with the bounds of the markers; a written ArgoCD spec reads back; and the validation rule of the
  ProviderConfig, as CEL evaluates it on the document, says what \<open>vault_rule\<close> says of the decoded
  spec. The exception is the poll interval: its string format admits durations that Go cannot parse.
\<close>

section \<open>Typing rules for decoders\<close>

lemma characters_0 [simp]: "characters s = 0 \<longleftrightarrow> s = []"
  by (cases s) (simp_all add: characters_def runes_def)

lemma characters_pos [simp]: "0 < characters s \<longleftrightarrow> s \<noteq> []" "Suc 0 \<le> characters s \<longleftrightarrow> s \<noteq> []"
  using characters_0 [of s] by linarith+

definition decodes :: "document_lib \<Rightarrow> (json \<Rightarrow> go_error + 'a) \<Rightarrow> schema \<Rightarrow> bool" where
  "decodes D d t \<longleftrightarrow> (\<forall>v. admits D t v \<longrightarrow> (\<exists>x. d v = Inr x))"

named_theorems typed "typing rules for decoders"

lemma decodes_string [typed]: "decodes D json_string (TString lo hi)"
  by (simp add: decodes_def json_string_def split: json.splits)

lemma decodes_bool [typed]: "decodes D json_bool TBool"
  by (simp add: decodes_def json_bool_def split: json.splits)

lemma decodes_int: "\<forall>t. valid_integer D t \<longrightarrow> ParseInt D t \<noteq> None \<Longrightarrow> decodes D (json_int D) TInteger"
  by (auto simp: decodes_def json_int_def split: json.splits option.splits)

lemma decodes_duration:
  "\<forall>t. valid_format D f t \<longrightarrow> ParseDuration D t \<noteq> None \<Longrightarrow> decodes D (json_duration D) (TFormat f)"
  by (auto simp: decodes_def json_duration_def split: json.splits option.splits)

lemma decodes_values [typed]: "decodes D json_values TAny"
  by (simp add: decodes_def json_values_def)

lemma decodes_pointer [typed]: "decodes D d t \<Longrightarrow> decodes D (json_pointer d) t"
  unfolding decodes_def json_pointer_def by (metis res_bind.simps(2))

lemma decodes_each: "decodes D d t \<Longrightarrow> list_all (admits D t) vs \<Longrightarrow> \<exists>xs. json_each d vs = Inr xs"
proof (induction vs)
  case (Cons v vs)
  then obtain x xs where "d v = Inr x" "json_each d vs = Inr xs" by (auto simp: decodes_def)
  then show ?case by simp
qed simp

lemma decodes_slice [typed]: "decodes D d t \<Longrightarrow> decodes D (json_slice d) (TArray t)"
  unfolding decodes_def [of D "json_slice d"] by (auto simp: json_slice_def dest: decodes_each split: json.splits)

lemma admitted_member:
  assumes "admits D (TObject ps req) (JObj m)" and "map_of ps k = Some t" and "map_of m k = Some w"
  shows "admits D t w"
  using assms map_of_SomeD [OF assms(2)] by (fastforce simp: list_all_iff)

lemma decodes_field:
  assumes "admits D (TObject ps req) (JObj m)" and "map_of ps k = Some t" and "decodes D d t"
  shows "\<exists>x. json_field k z d m = Inr x"
proof (cases "map_of m k")
  case (Some v)
  with admitted_member [OF assms(1,2)] assms(3) show ?thesis by (simp add: decodes_def json_field_def)
qed (simp add: json_field_def)

text \<open>A decoder of a structure: after its members, its fields.\<close>

lemma decodes_struct:
  assumes "\<And>m. admits D (TObject ps req) (JObj m) \<Longrightarrow> \<exists>x. f m = Inr x"
  shows "decodes D (\<lambda>v. res_bind (json_members v) f) (TObject ps req)"
  using assms by (auto simp: decodes_def json_members_def simp del: admits.simps split: json.splits)
     (auto)

lemma decodes_member:
  assumes "admits D (TObject ps req) (JObj m)" and "map_of ps k = Some t" and "decodes D d t"
    and "\<And>x. json_field k z d m = Inr x \<Longrightarrow> \<exists>y. f x = Inr y"
  shows "\<exists>y. res_bind (json_field k z d m) f = Inr y"
  using decodes_field [OF assms(1-3)] assms(4) by (metis res_bind.simps(2))

lemma decodes_ServerExposure [typed]: "decodes D decode_ServerExposure ServerExposure_schema"
  unfolding decode_ServerExposure_def [abs_def] ServerExposure_schema_def
  by (rule decodes_struct) ((rule decodes_member, assumption, simp, intro typed)+, simp)

lemma decodes_VaultPluginConfig [typed]: "decodes D decode_VaultPluginConfig VaultPluginConfig_schema"
  unfolding decode_VaultPluginConfig_def [abs_def] VaultPluginConfig_schema_def
  by (rule decodes_struct) ((rule decodes_member, assumption, simp, intro typed)+, simp)

lemma decodes_ArgoCDSpec [typed]: "decodes D decode_ArgoCDSpec ArgoCDSpec_schema"
  unfolding decode_ArgoCDSpec_def [abs_def] ArgoCDSpec_schema_def
  by (rule decodes_struct) ((rule decodes_member, assumption, simp, intro typed)+, simp)

lemma decodes_ArgoCDVersion [typed]: "decodes D decode_ArgoCDVersion ArgoCDVersion_schema"
  unfolding decode_ArgoCDVersion_def [abs_def] ArgoCDVersion_schema_def
  by (rule decodes_struct) ((rule decodes_member, assumption, simp, intro typed)+, simp)

lemma decodes_ReloaderConfig [typed]: "decodes D decode_ReloaderConfig ReloaderConfig_schema"
  unfolding decode_ReloaderConfig_def [abs_def] ReloaderConfig_schema_def
  by (rule decodes_struct) ((rule decodes_member, assumption, simp, intro typed)+, simp)

lemma decodes_ProviderVaultPluginConfig [typed]:
  "decodes D decode_ProviderVaultPluginConfig ProviderVaultPluginConfig_schema"
  unfolding decode_ProviderVaultPluginConfig_def [abs_def] ProviderVaultPluginConfig_schema_def
  by (rule decodes_struct) ((rule decodes_member, assumption, simp, intro typed)+, simp)

lemma decodes_ExposurePolicy:
  assumes "\<forall>t. valid_integer D t \<longrightarrow> ParseInt D t \<noteq> None"
  shows "decodes D (decode_ExposurePolicy D) ExposurePolicy_schema"
  unfolding decode_ExposurePolicy_def [abs_def] ExposurePolicy_schema_def
  by (rule decodes_struct) ((rule decodes_member, assumption, simp, intro typed decodes_int [OF assms])+, simp)

lemma decodes_ProviderConfigSpec:
  assumes "\<forall>t. valid_format D ''duration'' t \<longrightarrow> ParseDuration D t \<noteq> None"
    and "\<forall>t. valid_integer D t \<longrightarrow> ParseInt D t \<noteq> None"
  shows "decodes D (decode_ProviderConfigSpec D) ProviderConfigSpec_schema"
  unfolding decode_ProviderConfigSpec_def [abs_def] ProviderConfigSpec_schema_def
  by (rule decodes_struct)
     ((rule decodes_member, assumption, simp,
       intro typed decodes_duration [OF assms(1)] decodes_ExposurePolicy [OF assms(2)])+, simp)

text \<open>What a successful decoding has read.\<close>

lemma res_bind_Inr [simp]: "res_bind r f = Inr y \<longleftrightarrow> (\<exists>x. r = Inr x \<and> f x = Inr y)"
  by (cases r) auto

section \<open>Requests\<close>

definition spec_bounds :: "ArgoCDSpec \<Rightarrow> bool" where
  "spec_bounds s \<longleftrightarrow>
     spec_Version s \<noteq> [] \<and>
     (case spec_Exposure s of None \<Rightarrow> True | Some e \<Rightarrow> se_Host e \<noteq> [] \<and> characters (se_Host e) \<le> 253)"

text \<open>C15. A request that the API server admits is one the program can read: it decodes into a
  spec whose version is not empty and whose exposure, if there is one, has a host of 1 to 253
  characters.\<close>

theorem admitted_request_is_typed:
  assumes "admits D ArgoCDSpec_schema v"
  shows "\<exists>s. decode_ArgoCDSpec v = Inr s \<and> spec_bounds s"
proof -
  obtain s where s: "decode_ArgoCDSpec v = Inr s" using decodes_ArgoCDSpec assms unfolding decodes_def by blast
  obtain m where m: "v = JObj m" using assms by (auto simp: ArgoCDSpec_schema_def split: json.splits)
  obtain t where "map_of m ''version'' = Some (JStr t)" "1 \<le> characters t"
    using assms unfolding m ArgoCDSpec_schema_def by (auto split: json.splits)
  moreover have "se_Host e \<noteq> [] \<and> characters (se_Host e) \<le> 253" if "spec_Exposure s = Some e" for e
  proof -
    from s m that obtain w where w: "map_of m ''exposure'' = Some w" "w \<noteq> JNull" "decode_ServerExposure w = Inr e"
      by (auto simp: decode_ArgoCDSpec_def json_members_def json_field_def json_pointer_def split: option.splits if_splits)
    then have "admits D ServerExposure_schema w" using assms unfolding m ArgoCDSpec_schema_def by simp
    then obtain h x where "w = JObj x" "map_of x ''host'' = Some (JStr h)" "1 \<le> characters h" "characters h \<le> 253"
      by (auto simp: ServerExposure_schema_def split: json.splits)
    with w(3) show ?thesis
      by (auto simp: decode_ServerExposure_def json_members_def json_field_def json_string_def)
  qed
  moreover have "spec_Version s = t" if "map_of m ''version'' = Some (JStr t)" for t
    using s that by (auto simp: m decode_ArgoCDSpec_def json_members_def json_field_def json_string_def)
  ultimately have "spec_bounds s" by (fastforce simp: spec_bounds_def split: option.split)
  with s show ?thesis by blast
qed

text \<open>C25. Writing a spec and reading it back gives the spec, the members that \<^verbatim>\<open>omitempty\<close>
  leaves out included; and the written document is admitted exactly when the spec is within the
  bounds of the markers.\<close>

theorem request_document_roundtrip:
  "decode_ArgoCDSpec (encode_ArgoCDSpec s) = Inr s \<and>
   (admits D ArgoCDSpec_schema (encode_ArgoCDSpec s) \<longleftrightarrow> spec_bounds s)"
proof
  have ips: "json_each json_string (map JStr ips) = Inr ips" for ips
    by (induction ips) (simp_all add: json_string_def)
  have exposure: "decode_ServerExposure (encode_ServerExposure e) = Inr e" for e
    by (simp add: decode_ServerExposure_def encode_ServerExposure_def json_members_def json_field_def json_string_def
        json_slice_def ips)
  have vault: "decode_VaultPluginConfig (encode_VaultPluginConfig p) = Inr p" for p
    by (simp add: decode_VaultPluginConfig_def encode_VaultPluginConfig_def json_members_def json_field_def json_bool_def)
  have object: "encode_ServerExposure e \<noteq> JNull" "encode_VaultPluginConfig p \<noteq> JNull" for e p
    by (simp_all add: encode_ServerExposure_def encode_VaultPluginConfig_def)
  show "decode_ArgoCDSpec (encode_ArgoCDSpec s) = Inr s"
    by (cases s, cases "spec_Exposure s"; cases "spec_VaultPlugin s")
       (simp_all add: decode_ArgoCDSpec_def encode_ArgoCDSpec_def omit_text_def omit_nil_def json_members_def
        json_field_def json_string_def json_pointer_def exposure vault object)
  have admits_ips: "list_all (admits D text_schema) (map JStr ips)" for ips
    by (induction ips) simp_all
  have "admits D VaultPluginConfig_schema (encode_VaultPluginConfig p)" for p
    by (simp add: VaultPluginConfig_schema_def encode_VaultPluginConfig_def)
  moreover have "admits D ServerExposure_schema (encode_ServerExposure e) \<longleftrightarrow>
      se_Host e \<noteq> [] \<and> characters (se_Host e) \<le> 253" for e
    using admits_ips by (auto simp: ServerExposure_schema_def encode_ServerExposure_def )
  ultimately show "admits D ArgoCDSpec_schema (encode_ArgoCDSpec s) \<longleftrightarrow> spec_bounds s"
    by (auto simp: ArgoCDSpec_schema_def encode_ArgoCDSpec_def omit_text_def omit_nil_def spec_bounds_def 
        split: option.splits)
qed

definition example_documents :: document_lib where
  "example_documents =
     \<lparr>valid_format = (\<lambda>f t. f = ''duration'' \<and> (t = ''1m'' \<or> t = ''22 ns'')),
      valid_integer = (\<lambda>t. t = ''3600''),
      ParseDuration = (\<lambda>t. if t = ''1m'' then Some minute else None),
      ParseInt = (\<lambda>t. if t = ''3600'' then Some 3600 else None)\<rparr>"

definition example_request :: json where
  "example_request =
     JObj [(''version'', JStr ''v3.0.0''), (''exposure'', JObj [(''host'', JStr ''argocd'')])]"

lemma admitted_request_is_typed_witness:
  "\<exists>s. decode_ArgoCDSpec example_request = Inr s \<and> spec_bounds s"
  by (rule admitted_request_is_typed [of example_documents])
     (simp add: example_request_def ArgoCDSpec_schema_def ServerExposure_schema_def characters_def runes_ascii
      ascii_def byte_def)

section \<open>Platform configurations\<close>

text \<open>C27. Which configurations the controller can read: every document that the API server admits
  decodes if, and only if, Go parses every text that the format \<^verbatim>\<open>duration\<close> and every number that the
  type \<^verbatim>\<open>integer\<close> allows. The format is documented to allow texts like \<^verbatim>\<open>22 ns\<close>, which
  \<^verbatim>\<open>time.ParseDuration\<close> rejects: such a configuration is stored, and then cannot be read.\<close>

theorem provider_config_readable_iff:
  "(\<forall>v. admits D ProviderConfigSpec_schema v \<longrightarrow> (\<exists>s. decode_ProviderConfigSpec D v = Inr s)) \<longleftrightarrow>
   (\<forall>t. valid_format D ''duration'' t \<longrightarrow> ParseDuration D t \<noteq> None) \<and>
   (\<forall>t. valid_integer D t \<longrightarrow> ParseInt D t \<noteq> None)"
  (is "?readable \<longleftrightarrow> ?durations \<and> ?integers")
proof
  assume readable: ?readable
  have "ParseDuration D t \<noteq> None" if "valid_format D ''duration'' t" for t
  proof -
    have "admits D ProviderConfigSpec_schema (JObj [(''versions'', JArr []), (''pollInterval'', JStr t)])"
      using that by (simp add: ProviderConfigSpec_schema_def)
    with readable obtain s where
      "decode_ProviderConfigSpec D (JObj [(''versions'', JArr []), (''pollInterval'', JStr t)]) = Inr s" by blast
    then show ?thesis
      by (auto simp: decode_ProviderConfigSpec_def json_members_def json_field_def json_pointer_def json_duration_def
          split: option.splits)
  qed
  moreover have "ParseInt D t \<noteq> None" if "valid_integer D t" for t
  proof -
    have "admits D ProviderConfigSpec_schema (JObj [(''versions'', JArr []), (''exposure'', JObj [(''dnsTTL'', JNum t)])])"
      using that by (simp add: ProviderConfigSpec_schema_def ExposurePolicy_schema_def)
    with readable obtain s where
      "decode_ProviderConfigSpec D (JObj [(''versions'', JArr []), (''exposure'', JObj [(''dnsTTL'', JNum t)])]) = Inr s"
      by blast
    then show ?thesis
      by (auto simp: decode_ProviderConfigSpec_def decode_ExposurePolicy_def json_members_def json_field_def
          json_pointer_def json_int_def mistyped_def split: option.splits)
  qed
  ultimately show "?durations \<and> ?integers" by blast
next
  assume "?durations \<and> ?integers"
  then show ?readable using decodes_ProviderConfigSpec [of D] unfolding decodes_def by blast
qed

lemma provider_config_readable_iff_witness:
  "\<exists>v. admits example_documents ProviderConfigSpec_schema v \<and>
     (\<nexists>s. decode_ProviderConfigSpec example_documents v = Inr s)"
proof -
  have "valid_format example_documents ''duration'' ''22 ns''" "ParseDuration example_documents ''22 ns'' = None"
    by (simp_all add: example_documents_def)
  then show ?thesis using provider_config_readable_iff [of example_documents] by blast
qed

lemma decoded_fields:
  assumes "decode_ProviderConfigSpec D (JObj m) = Inr s"
  shows "json_field ''openSource'' False json_bool m = Inr (pc_OpenSource s)"
    and "json_field ''vaultPlugin'' None (json_pointer decode_ProviderVaultPluginConfig) m = Inr (pc_VaultPlugin s)"
  using assms by (auto simp: decode_ProviderConfigSpec_def json_members_def)

lemma decoded_plugin_fields:
  assumes "decode_ProviderVaultPluginConfig (JObj m) = Inr p"
  shows "json_field ''enabled'' False json_bool m = Inr (pv_Enabled p)"
    and "json_field ''registry'' [] json_string m = Inr (pv_Registry p)"
    and "json_field ''tag'' [] json_string m = Inr (pv_Tag p)"
  using assms by (auto simp: decode_ProviderVaultPluginConfig_def json_members_def)

lemma read_text:
  "json_field k [] json_string m = Inr t \<Longrightarrow> (\<And>w. map_of m k = Some w \<Longrightarrow> admits D text_schema w) \<Longrightarrow>
   map_of m k = None \<and> t = [] \<or> map_of m k = Some (JStr t)"
  by (cases "map_of m k") (auto simp: json_field_def json_string_def split: json.splits)

lemma read_bool:
  "json_field k False json_bool m = Inr b \<Longrightarrow> (\<And>w. map_of m k = Some w \<Longrightarrow> admits D TBool w) \<Longrightarrow>
   map_of m k = None \<and> \<not> b \<or> map_of m k = Some (JBool b)"
  by (cases "map_of m k") (auto simp: json_field_def json_bool_def split: json.splits)

lemma cel_and_assoc: "cel_and (cel_and a b) c = cel_and a (cel_and b c)"
  by (auto simp: cel_and_def)

text \<open>Asking whether a member is there and whether it is empty, on a document with that text.\<close>

lemma cel_filled:
  "map_of m k = None \<and> t = [] \<or> map_of m k = Some (JStr t) \<Longrightarrow>
   cel_and (cel_has (Some (JObj m)) k) (cel_nonempty (cel_select (Some (JObj m)) k)) = Some (t \<noteq> [])"
  by (auto simp: cel_and_def cel_has_def cel_nonempty_def cel_select_def)

text \<open>C26. The validation rule does what it is there for. On a document that the schema admits and that
  decodes, CEL evaluates the rule to true exactly when the decoded spec satisfies \<open>vault_rule\<close>:
  that \<^verbatim>\<open>openSource\<close> is selected without \<^verbatim>\<open>has\<close>, and fails when it is left out, never
  rejects a valid configuration, and only turns a rejection into a failed evaluation.\<close>

theorem validation_rule_agrees:
  assumes "admits D ProviderConfigSpec_schema v" and "decode_ProviderConfigSpec D v = Inr s"
  shows "vault_rule_cel v =
    (if vault_rule s then Some True
     else if cel_select (Some v) ''openSource'' = None then None else Some False)"
proof -
  obtain m where m: "v = JObj m" using assms(1) by (auto simp: ProviderConfigSpec_schema_def split: json.splits)
  note member = admitted_member [OF assms(1) [unfolded m ProviderConfigSpec_schema_def]]
    and fields = decoded_fields [OF assms(2) [unfolded m]]
  have os: "map_of m ''openSource'' = None \<and> \<not> pc_OpenSource s \<or> map_of m ''openSource'' = Some (JBool (pc_OpenSource s))"
    by (rule read_bool [OF fields(1)], rule member, simp_all)
  show ?thesis
  proof (cases "map_of m ''vaultPlugin''")
    case None
    with fields(2) have "pc_VaultPlugin s = None" by (simp add: json_field_def)
    with None os show ?thesis
      by (auto simp: m vault_rule_cel_def vault_rule_def cel_or_def cel_not_def cel_has_def cel_select_def cel_bool_def)
  next
    case (Some w)
    then have a: "admits D ProviderVaultPluginConfig_schema w" using member [of "''vaultPlugin''"] by simp
    then obtain x e where x: "w = JObj x" "map_of x ''enabled'' = Some (JBool e)"
      by (auto simp: ProviderVaultPluginConfig_schema_def split: json.splits)
    obtain p where p: "pc_VaultPlugin s = Some p" "decode_ProviderVaultPluginConfig (JObj x) = Inr p"
      using fields(2) Some x(1) by (auto simp: json_field_def json_pointer_def eq_commute [of _ "pc_VaultPlugin s"])
    note inner = admitted_member [OF a [unfolded x ProviderVaultPluginConfig_schema_def]]
    let ?v = "Some (JObj x)"
    have registry: "cel_and (cel_has ?v ''registry'') (cel_nonempty (cel_select ?v ''registry'')) = Some (pv_Registry p \<noteq> [])"
      by (rule cel_filled, rule read_text [OF decoded_plugin_fields(2) [OF p(2)]], rule inner, simp_all)
    have tag: "cel_and (cel_has ?v ''tag'') (cel_nonempty (cel_select ?v ''tag'')) = Some (pv_Tag p \<noteq> [])"
      by (rule cel_filled, rule read_text [OF decoded_plugin_fields(3) [OF p(2)]], rule inner, simp_all)
    have enabled: "cel_bool (cel_select ?v ''enabled'') = Some (pv_Enabled p)"
      using decoded_plugin_fields(1) [OF p(2)] x(2) by (simp add: json_field_def json_bool_def cel_bool_def cel_select_def)
    have "cel_select (Some v) ''vaultPlugin'' = ?v" "cel_has (Some v) ''vaultPlugin'' = Some True"
      using Some x(1) by (simp_all add: m cel_select_def cel_has_def)
    then have "vault_rule_cel v = cel_or (cel_bool (cel_select (Some v) ''openSource''))
        (Some (\<not> pv_Enabled p \<or> pv_Registry p \<noteq> [] \<and> pv_Tag p \<noteq> []))"
      unfolding vault_rule_cel_def Let_def cel_and_assoc
      by (simp add: enabled registry tag cel_and_assoc [symmetric])
         (simp add: cel_and_def cel_or_def cel_not_def)
    moreover have "vault_rule s \<longleftrightarrow> pc_OpenSource s \<or> \<not> pv_Enabled p \<or> pv_Registry p \<noteq> [] \<and> pv_Tag p \<noteq> []"
      by (simp add: vault_rule_def p(1))
    ultimately show ?thesis
      using os by (auto simp: m cel_select_def cel_bool_def cel_or_def)
  qed
qed

definition example_config_document :: json where
  "example_config_document =
     JObj [(''versions'', JArr []), (''vaultPlugin'', JObj [(''enabled'', JBool True), (''tag'', JStr ''v1'')])]"

lemma validation_rule_agrees_witness: "vault_rule_cel example_config_document = None"
proof -
  have "admits example_documents ProviderConfigSpec_schema example_config_document"
    by (simp add: example_config_document_def ProviderConfigSpec_schema_def ProviderVaultPluginConfig_schema_def)
  moreover have "decode_ProviderConfigSpec example_documents example_config_document =
      Inr \<lparr>pc_Versions = [], pc_PollInterval = None, pc_Exposure = None, pc_Reloader = None, pc_CABundleSecret = [],
           pc_VaultPlugin = Some \<lparr>pv_Enabled = True, pv_Registry = [], pv_Tag = ''v1''\<rparr>, pc_OpenSource = False\<rparr>"
    by (simp add: example_config_document_def decode_ProviderConfigSpec_def decode_ProviderVaultPluginConfig_def
        json_members_def json_field_def json_slice_def json_pointer_def json_bool_def json_string_def)
  ultimately show ?thesis
    using validation_rule_agrees by (simp add: vault_rule_def example_config_document_def cel_select_def)
qed

end
