(* ===== verification/Startup.thy ===== *)
theory Startup
  imports Controller_Properties
begin

text \<open>
  \<^verbatim>\<open>cmd/service-provider-argocd/main.go\<close>: the process. The command and the flags become the options
  of the servers, the two commands ("init", the job that installs the CRDs, and the
  controller) become one function from the world to the way the process ends. What it calls outside
  the repository (pflag, the logger, the cluster access manager, the CRD manager, the controller
  manager) is the record \<open>process\<close>, whose calls may return an error or panic; setting up an object that cannot
  fail is left out. What is shown is which of these calls must have succeeded, failed or panicked for each status.
\<close>

section \<open>Schemes\<close>

datatype api_group =
    ClientGo | ApiExtensions | ArgoCDs | Clusters | OpenMCPProvider | FluxSource | FluxHelm

definition initPlatformScheme :: "api_group list" where
  "initPlatformScheme = [ClientGo, ApiExtensions, ArgoCDs, Clusters, OpenMCPProvider, FluxSource, FluxHelm]"

definition initOnboardingScheme :: "api_group list" where
  "initOnboardingScheme = [ClientGo, ApiExtensions, ArgoCDs]"

definition initMcpScheme :: "api_group list" where
  "initMcpScheme = [ClientGo, ApiExtensions]"

section \<open>Flags\<close>

record options =
  opt_environment :: string
  opt_providerName :: string
  opt_metricsAddr :: string
  opt_probeAddr :: string
  opt_enableLeaderElection :: bool
  opt_secureMetrics :: bool
  opt_webhookCertPath :: string
  opt_webhookCertName :: string
  opt_webhookCertKey :: string
  opt_metricsCertPath :: string
  opt_metricsCertName :: string
  opt_metricsCertKey :: string
  opt_enableHTTP2 :: bool

definition flag_defaults :: options where
  "flag_defaults =
     \<lparr>opt_environment = [], opt_providerName = [], opt_metricsAddr = ''0'', opt_probeAddr = '':8081'',
      opt_enableLeaderElection = False, opt_secureMetrics = True,
      opt_webhookCertPath = [], opt_webhookCertName = ''tls.crt'', opt_webhookCertKey = ''tls.key'',
      opt_metricsCertPath = [], opt_metricsCertName = ''tls.crt'', opt_metricsCertKey = ''tls.key'',
      opt_enableHTTP2 = False\<rparr>"

text \<open>The command is the first argument, and is taken out before the flags are parsed.\<close>

definition extract_command :: "string list \<Rightarrow> string \<times> string list" where
  "extract_command args =
     (case args of
        prog # cmd # rest \<Rightarrow> (cmd, prog # rest)
      | _ \<Rightarrow> ([], args))"

section \<open>Servers\<close>

datatype tls_option = OnlyHTTP1

definition tls_options :: "options \<Rightarrow> tls_option list" where
  "tls_options opts = (if \<not> opt_enableHTTP2 opts then [OnlyHTTP1] else [])"

record webhook_options =
  wh_TLSOpts :: "tls_option list"
  wh_CertDir :: string
  wh_CertName :: string
  wh_KeyName :: string

definition webhookServerOptions :: "options \<Rightarrow> webhook_options" where
  "webhookServerOptions opts =
     (let w = \<lparr>wh_TLSOpts = tls_options opts, wh_CertDir = [], wh_CertName = [], wh_KeyName = []\<rparr>
      in if opt_webhookCertPath opts \<noteq> [] then
           w\<lparr>wh_CertDir := opt_webhookCertPath opts, wh_CertName := opt_webhookCertName opts,
             wh_KeyName := opt_webhookCertKey opts\<rparr>
         else w)"

record metrics_options =
  ms_BindAddress :: string
  ms_SecureServing :: bool
  ms_TLSOpts :: "tls_option list"
  ms_Authentication :: bool
  ms_CertDir :: string
  ms_CertName :: string
  ms_KeyName :: string

definition metricsServerOptions :: "options \<Rightarrow> metrics_options" where
  "metricsServerOptions opts =
     (let m = \<lparr>ms_BindAddress = opt_metricsAddr opts, ms_SecureServing = opt_secureMetrics opts,
               ms_TLSOpts = tls_options opts, ms_Authentication = False,
               ms_CertDir = [], ms_CertName = [], ms_KeyName = []\<rparr>;
          m1 = (if opt_secureMetrics opts then m\<lparr>ms_Authentication := True\<rparr> else m)
      in if opt_metricsCertPath opts \<noteq> [] then
           m1\<lparr>ms_CertDir := opt_metricsCertPath opts, ms_CertName := opt_metricsCertName opts,
              ms_KeyName := opt_metricsCertKey opts\<rparr>
         else m1)"

record manager_options =
  mo_Scheme :: "api_group list"
  mo_Metrics :: metrics_options
  mo_Webhook :: webhook_options
  mo_HealthProbeBindAddress :: string
  mo_LeaderElection :: bool
  mo_LeaderElectionID :: string

definition manager_options :: "options \<Rightarrow> manager_options" where
  "manager_options opts =
     \<lparr>mo_Scheme = initOnboardingScheme, mo_Metrics = metricsServerOptions opts,
      mo_Webhook = webhookServerOptions opts, mo_HealthProbeBindAddress = opt_probeAddr opts,
      mo_LeaderElection = opt_enableLeaderElection opts,
      mo_LeaderElectionID = ''github.com/openmcp-project/service-provider-argocd''\<rparr>"

section \<open>Permissions\<close>

record PolicyRule =
  APIGroups :: "string list"
  Resources :: "string list"
  Verbs :: "string list"

definition initPermissions :: "PolicyRule list" where
  "initPermissions =
     [\<lparr>APIGroups = [''apiextensions.k8s.io''], Resources = [''customresourcedefinitions''], Verbs = [''*'']\<rparr>]"

definition runPermissions :: "PolicyRule list" where
  "runPermissions = [\<lparr>APIGroups = [GroupVersion_Group], Resources = [''*''], Verbs = [''*'']\<rparr>]"

record TokenConfig =
  tc_Permissions :: "PolicyRule list"
  tc_RoleRefs :: "(string \<times> string) list"

definition mcpTokenAccessConfig :: TokenConfig where
  "mcpTokenAccessConfig =
     \<lparr>tc_Permissions = [\<lparr>APIGroups = [''*''], Resources = [''*''], Verbs = [''*'']\<rparr>],
      tc_RoleRefs = [(''cluster-admin'', ''ClusterRole'')]\<rparr>"

text \<open>How the onboarding access is asked for: for whom, in which namespace, and how long it is
  polled.\<close>

record access_manager =
  am_Controller :: string
  am_Namespace :: string
  am_Interval :: int
  am_Timeout :: int

definition clusterAccessManager :: "string \<Rightarrow> access_manager" where
  "clusterAccessManager podNamespace =
     \<lparr>am_Controller = GroupVersion_Group, am_Namespace = podNamespace,
      am_Interval = 10 * second, am_Timeout = 30 * minute\<rparr>"

text \<open>The labels of a tenant's access: the function given to \<^verbatim>\<open>WithManagedLabels\<close>, over the
  default generator's purpose and the names of the two labels.\<close>

definition managedLabels ::
  "(string \<Rightarrow> string \<Rightarrow> string \<Rightarrow> string) \<Rightarrow> string \<Rightarrow> string \<Rightarrow> string \<Rightarrow> string \<Rightarrow> string \<Rightarrow>
   string \<times> string \<times> (string \<times> string) list" where
  "managedLabels defaultPurpose nameLabel namespaceLabel controllerName name namespace =
     (controllerName, defaultPurpose controllerName name namespace,
      [(nameLabel, name), (namespaceLabel, namespace)])"

text \<open>The reference to the MCP's cluster of a request: the function given to
  \<^verbatim>\<open>ExistingClusterRequest\<close>. It returns a name and a namespace.\<close>

definition mcpClusterReference ::
  "'w env \<Rightarrow> string \<Rightarrow> string \<Rightarrow> go_error + (string \<times> string)" where
  "mcpClusterReference env name namespace =
     (case StableMCPNamespace env name namespace of Inl e \<Rightarrow> Inl e | Inr ns \<Rightarrow> Inr (name, ns))"

section \<open>The process\<close>

text \<open>
  A call from \<^verbatim>\<open>main\<close> returns or panics, and a panic that nobody recovers ends the process, as here
  where nothing does. Flags are parsed, ask for the help text, or are refused (pflag, with
  \<^verbatim>\<open>ExitOnError\<close>, ends the process itself in the two latter cases). A nil pointer to a cluster or a
  configuration is \<open>None\<close>.
\<close>

datatype 'a ended = Panics | Returns 'a

type_synonym ('w, 'a) step = "'w \<Rightarrow> 'a ended \<times> 'w"

datatype parse_result = Parsed options | HelpRequested | BadFlags

type_synonym rest_config = string

record controller_setup =
  cs_OnboardingCluster :: "cluster option"
  cs_PodNamespace :: string
  cs_SecretNamespace :: string
  cs_ClusterRequest :: "string \<times> string"
  cs_TokenAccess :: TokenConfig
  cs_Scheme :: "api_group list"
  cs_LocalAccess :: bool
  cs_RetryInterval :: int

record 'w process =
  ParseFlags :: "options \<Rightarrow> string list \<Rightarrow> parse_result"
  Getenv :: "string \<Rightarrow> string"
  PodNamespaceVariable :: string
  GetLogger :: "('w, go_error + unit) step"
  GetConfig :: "('w, go_error + unit) step"
  InitializeClient :: "api_group list \<Rightarrow> ('w, go_error + unit) step"
  CreateAndWaitForCluster ::
    "access_manager \<Rightarrow> string \<Rightarrow> api_group list \<Rightarrow> PolicyRule list \<Rightarrow> ('w, cluster option \<times> go_error option) step"
  StableRequestName :: "string \<Rightarrow> string \<Rightarrow> string"
  GetAccessRequest :: "string \<Rightarrow> string \<Rightarrow> ('w, go_error + unit) step"
  MustPatchClusterClient :: "string \<Rightarrow> cluster option \<Rightarrow> ('w, cluster option) step"
  CreateOrUpdateCRDs :: "cluster option \<Rightarrow> ('w, go_error + unit) step"
  RegisterGVKs :: "string \<Rightarrow> string \<times> string \<times> string \<Rightarrow> ('w, go_error + unit) step"
  RESTConfig :: "cluster option \<Rightarrow> ('w, rest_config option) step"
  NewManager :: "rest_config option \<Rightarrow> manager_options \<Rightarrow> ('w, go_error + unit) step"
  AddPlatformCluster :: "('w, go_error + unit) step"
  MustBuild :: "controller_setup \<Rightarrow> ('w, unit) step"
  SetupWithManager :: "string \<Rightarrow> controller_setup \<Rightarrow> ('w, go_error + unit) step"
  AddHealthzCheck :: "('w, go_error + unit) step"
  AddReadyzCheck :: "('w, go_error + unit) step"
  StartManager :: "('w, go_error + unit) step"

text \<open>How the process ends, and the status its parent sees: the Go runtime ends a panic with 2.\<close>

datatype exit_status = Returned | Exit nat | Panicked

primrec exit_code :: "exit_status \<Rightarrow> nat" where
  "exit_code Returned = 0"
| "exit_code (Exit n) = n"
| "exit_code Panicked = 2"

definition debugEnvVar :: string where "debugEnvVar = ''DEV_DEBUG''"

text \<open>\<^verbatim>\<open>strings.ToLower\<close> on the letters that can become one of "true"; no other character does.\<close>

definition lower :: "char \<Rightarrow> char" where
  "lower c = (if 65 \<le> byte c \<and> byte c \<le> 90 then char_of (byte c + 32) else c)"

definition debugEnabled :: "'w process \<Rightarrow> bool" where
  "debugEnabled env =
     (let v = map lower (Getenv env debugEnvVar) in v = ''1'' \<or> v = ''true'')"

text \<open>Going on with what a call returned; going on where it returned no error; and what \<^verbatim>\<open>main\<close> does about an
  error: the process ends with status 1, or the error is logged.\<close>

definition then_do :: "('w, 'a) step \<Rightarrow> ('a \<Rightarrow> ('w, 'b) step) \<Rightarrow> ('w, 'b) step" where
  "then_do m k w = (case m w of (Panics, w') \<Rightarrow> (Panics, w') | (Returns x, w') \<Rightarrow> k x w')"

definition if_ok :: "('w, go_error + 'a) step \<Rightarrow> ('a \<Rightarrow> ('w, go_error + 'b) step) \<Rightarrow> ('w, go_error + 'b) step" where
  "if_ok m k = then_do m (\<lambda>r w. case r of Inl e \<Rightarrow> (Returns (Inl e), w) | Inr x \<Rightarrow> k x w)"

definition or_panic :: "('w, 'a) step \<Rightarrow> ('a \<Rightarrow> 'w \<Rightarrow> exit_status \<times> 'w) \<Rightarrow> 'w \<Rightarrow> exit_status \<times> 'w" where
  "or_panic m k w = (case m w of (Panics, w') \<Rightarrow> (Panicked, w') | (Returns x, w') \<Rightarrow> k x w')"

definition or_exit :: "('w, go_error + 'a) step \<Rightarrow> ('a \<Rightarrow> 'w \<Rightarrow> exit_status \<times> 'w) \<Rightarrow> 'w \<Rightarrow> exit_status \<times> 'w" where
  "or_exit m k = or_panic m (\<lambda>r w. case r of Inl e \<Rightarrow> (Exit 1, w) | Inr x \<Rightarrow> k x w)"

definition or_log :: "('w, go_error + unit) step \<Rightarrow> ('w \<Rightarrow> exit_status \<times> 'w) \<Rightarrow> 'w \<Rightarrow> exit_status \<times> 'w" where
  "or_log m k = or_panic m (\<lambda>_. k)"

definition initializePlatformCluster :: "'w process \<Rightarrow> ('w, go_error + unit) step" where
  "initializePlatformCluster env = if_ok (GetConfig env) (\<lambda>_. InitializeClient env initPlatformScheme)"

definition patchOnboardingClient ::
  "'w process \<Rightarrow> cluster option \<Rightarrow> string \<Rightarrow> ('w, cluster option \<times> go_error option) step" where
  "patchOnboardingClient env onboardingCluster cmdSuffix =
     (let name = StableRequestName env GroupVersion_Group cmdSuffix
      in then_do (GetAccessRequest env name (Getenv env (PodNamespaceVariable env))) (\<lambda>r w.
           case r of
             Inl e \<Rightarrow> (Returns (onboardingCluster, Some e), w)
           | Inr _ \<Rightarrow> then_do (MustPatchClusterClient env name onboardingCluster) (\<lambda>c w'. (Returns (c, None), w')) w))"

definition requestOnboardingClusterAccess ::
  "'w process \<Rightarrow> access_manager \<Rightarrow> PolicyRule list \<Rightarrow> string \<Rightarrow> ('w, cluster option \<times> go_error option) step" where
  "requestOnboardingClusterAccess env mgr permissions cmdSuffix =
     then_do (CreateAndWaitForCluster env mgr (''onboarding-'' @ cmdSuffix) initOnboardingScheme permissions) (\<lambda>(c, err) w.
       case err of
         Some e \<Rightarrow> (Returns (c, Some e), w)
       | None \<Rightarrow>
           if debugEnabled env then patchOnboardingClient env c (''onboarding-'' @ cmdSuffix) w
           else (Returns (c, None), w))"

definition init_command :: "'w process \<Rightarrow> options \<Rightarrow> string \<Rightarrow> 'w \<Rightarrow> exit_status \<times> 'w" where
  "init_command env opts podNamespace =
     or_panic (requestOnboardingClusterAccess env (clusterAccessManager podNamespace) initPermissions ''init'') (\<lambda>(onboardingCluster, err).
     or_log (CreateOrUpdateCRDs env onboardingCluster) (
     or_log (RegisterGVKs env (opt_providerName opts) (GroupVersion_Group, ''v1alpha1'', ''ArgoCD'')) (\<lambda>w.
     (Returned, w))))"

definition setup_of :: "'w process \<Rightarrow> cluster option \<Rightarrow> string \<Rightarrow> controller_setup" where
  "setup_of env onboardingCluster podNamespace =
     \<lparr>cs_OnboardingCluster = onboardingCluster, cs_PodNamespace = podNamespace,
      cs_SecretNamespace = podNamespace, cs_ClusterRequest = (''mcp'', ''mcp''),
      cs_TokenAccess = mcpTokenAccessConfig, cs_Scheme = initMcpScheme,
      cs_LocalAccess = debugEnabled env, cs_RetryInterval = 10 * second\<rparr>"

definition run_command :: "'w process \<Rightarrow> options \<Rightarrow> string \<Rightarrow> 'w \<Rightarrow> exit_status \<times> 'w" where
  "run_command env opts podNamespace =
     or_panic (requestOnboardingClusterAccess env (clusterAccessManager podNamespace) runPermissions ''run'') (\<lambda>(onboardingCluster, err).
     or_panic (RESTConfig env onboardingCluster) (\<lambda>config.
     or_exit (NewManager env config (manager_options opts)) (\<lambda>_.
     or_exit (AddPlatformCluster env) (\<lambda>_.
     or_panic (MustBuild env (setup_of env onboardingCluster podNamespace)) (\<lambda>_.
     or_exit (SetupWithManager env (opt_providerName opts)
                (setup_of env onboardingCluster podNamespace)) (\<lambda>_.
     or_exit (AddHealthzCheck env) (\<lambda>_.
     or_exit (AddReadyzCheck env) (\<lambda>_.
     or_exit (StartManager env) (\<lambda>_ w. (Returned, w))))))))))"

definition main :: "'w process \<Rightarrow> string list \<Rightarrow> 'w \<Rightarrow> exit_status \<times> 'w" where
  "main env args w =
     (let (command, flags) = extract_command args
      in case ParseFlags env flag_defaults flags of
           HelpRequested \<Rightarrow> (Exit 0, w)
         | BadFlags \<Rightarrow> (Exit 2, w)
         | Parsed opts \<Rightarrow>
             or_exit (GetLogger env) (\<lambda>_.
             or_exit (initializePlatformCluster env) (\<lambda>_ w1.
               let podNamespace = Getenv env (PodNamespaceVariable env)
               in if podNamespace = [] then (Exit 1, w1)
                  else if command = ''init'' then init_command env opts podNamespace w1
                  else run_command env opts podNamespace w1)) w)"

section \<open>How the process ends\<close>

text \<open>A list of calls that must succeed, one after the other: all do, or one of them returns an error or
  panics after those before it have succeeded.\<close>

primrec complete :: "('w, go_error + unit) step list \<Rightarrow> 'w \<Rightarrow> 'w \<Rightarrow> bool" where
  "complete [] w w' \<longleftrightarrow> w' = w"
| "complete (m # ms) w w' \<longleftrightarrow> (\<exists>w1. m w = (Returns (Inr ()), w1) \<and> complete ms w1 w')"

primrec one_fails :: "('w, go_error + unit) step list \<Rightarrow> 'w \<Rightarrow> 'w \<Rightarrow> bool" where
  "one_fails [] w w' \<longleftrightarrow> False"
| "one_fails (m # ms) w w' \<longleftrightarrow>
     (\<exists>e. m w = (Returns (Inl e), w')) \<or> (\<exists>w1. m w = (Returns (Inr ()), w1) \<and> one_fails ms w1 w')"

primrec one_panics :: "('w, go_error + unit) step list \<Rightarrow> 'w \<Rightarrow> 'w \<Rightarrow> bool" where
  "one_panics [] w w' \<longleftrightarrow> False"
| "one_panics (m # ms) w w' \<longleftrightarrow>
     m w = (Panics, w') \<or> (\<exists>w1. m w = (Returns (Inr ()), w1) \<and> one_panics ms w1 w')"

text \<open>What the controller needs: before the access to the onboarding cluster, and after, with the cluster that
  came of it, whether or not the access was granted.\<close>

definition platform_calls :: "'w process \<Rightarrow> ('w, go_error + unit) step list" where
  "platform_calls env = [GetLogger env, GetConfig env, InitializeClient env initPlatformScheme]"

definition returning :: "('w, unit) step \<Rightarrow> ('w, go_error + unit) step" where
  "returning m = then_do m (\<lambda>_ w. (Returns (Inr ()), w))"

definition controller_calls :: "'w process \<Rightarrow> options \<Rightarrow> string \<Rightarrow> cluster option \<Rightarrow> ('w, go_error + unit) step list" where
  "controller_calls env opts ns c =
     [then_do (RESTConfig env c) (\<lambda>config. NewManager env config (manager_options opts)), AddPlatformCluster env,
      returning (MustBuild env (setup_of env c ns)), SetupWithManager env (opt_providerName opts) (setup_of env c ns),
      AddHealthzCheck env, AddReadyzCheck env, StartManager env]"

lemma or_panic_eq:
  "or_panic m k w = (x, w') \<longleftrightarrow>
     m w = (Panics, w') \<and> x = Panicked \<or> (\<exists>a w1. m w = (Returns a, w1) \<and> k a w1 = (x, w'))"
  by (cases "m w"; cases "fst (m w)") (auto simp: or_panic_def)

lemma or_exit_eq:
  "or_exit m k w = (x, w') \<longleftrightarrow>
     m w = (Panics, w') \<and> x = Panicked \<or> (\<exists>e. m w = (Returns (Inl e), w') \<and> x = Exit 1) \<or>
     (\<exists>a w1. m w = (Returns (Inr a), w1) \<and> k a w1 = (x, w'))"
proof -
  obtain r v where "m w = (r, v)" by fastforce
  then show ?thesis by (cases r) (auto simp: or_exit_def or_panic_def split: sum.split)
qed

text \<open>A sequence of calls, each of which ends the process when it fails.\<close>

primrec each_or_exit :: "('w, go_error + unit) step list \<Rightarrow> ('w \<Rightarrow> exit_status \<times> 'w) \<Rightarrow> 'w \<Rightarrow> exit_status \<times> 'w" where
  "each_or_exit [] k = k"
| "each_or_exit (m # ms) k = or_exit m (\<lambda>_. each_or_exit ms k)"

lemma each_or_exit_eq:
  "each_or_exit ms k w = (x, w') \<longleftrightarrow>
     one_panics ms w w' \<and> x = Panicked \<or> one_fails ms w w' \<and> x = Exit 1 \<or>
     (\<exists>w1. complete ms w w1 \<and> k w1 = (x, w'))"
proof (induction ms arbitrary: w)
  case (Cons m ms)
  show ?case by (simp add: or_exit_eq Cons.IH) blast
qed simp

lemma complete_or_exit: "complete ms w w1 \<Longrightarrow> each_or_exit ms k w = k w1"
  by (induction ms arbitrary: w) (auto simp: or_exit_def or_panic_def)

lemma run_command_eq:
  "run_command env opts ns =
     or_panic (requestOnboardingClusterAccess env (clusterAccessManager ns) runPermissions ''run'') (\<lambda>(c, err).
       each_or_exit (controller_calls env opts ns c) (\<lambda>w. (Returned, w)))"
proof -
  have connect: "or_panic m (\<lambda>a. or_exit (n a) k) = or_exit (then_do m n) k" for m n k
    by (auto simp: fun_eq_iff or_panic_def or_exit_def then_do_def split: prod.split ended.split)
  have build: "or_panic m (\<lambda>_. k) = or_exit (returning m) (\<lambda>_. k)" for m k
    by (auto simp: fun_eq_iff or_panic_def or_exit_def then_do_def returning_def split: prod.split ended.split)
  show ?thesis
    unfolding run_command_def controller_calls_def each_or_exit.simps connect [symmetric] build [symmetric] by (rule refl)
qed

lemma main_eq:
  assumes "ParseFlags env flag_defaults (snd (extract_command args)) = Parsed opts"
  shows "main env args = each_or_exit (platform_calls env) (\<lambda>w.
     if Getenv env (PodNamespaceVariable env) = [] then (Exit 1, w)
     else if fst (extract_command args) = ''init'' then init_command env opts (Getenv env (PodNamespaceVariable env)) w
     else run_command env opts (Getenv env (PodNamespaceVariable env)) w)"
proof -
  have client: "or_exit (initializePlatformCluster env) k =
      or_exit (GetConfig env) (\<lambda>_. or_exit (InitializeClient env initPlatformScheme) k)" for k
    by (auto simp: fun_eq_iff initializePlatformCluster_def or_panic_def or_exit_def then_do_def if_ok_def
        split: prod.split ended.split sum.split)
  show ?thesis
    using assms by (cases "extract_command args") (simp add: fun_eq_iff main_def Let_def client platform_calls_def cong: if_cong)
qed

lemma main_ends:
  assumes "fst (extract_command args) \<noteq> ''init''"
    and "ParseFlags env flag_defaults (snd (extract_command args)) = Parsed opts"
    and "ns = Getenv env (PodNamespaceVariable env)"
    and "access = requestOnboardingClusterAccess env (clusterAccessManager ns) runPermissions ''run''"
  shows "main env args w = (x, w') \<longleftrightarrow>
      one_panics (platform_calls env) w w' \<and> x = Panicked \<or> one_fails (platform_calls env) w w' \<and> x = Exit 1 \<or>
      complete (platform_calls env) w w' \<and> ns = [] \<and> x = Exit 1 \<or>
      (\<exists>w1. complete (platform_calls env) w w1 \<and> ns \<noteq> [] \<and> access w1 = (Panics, w')) \<and> x = Panicked \<or>
      (\<exists>w1 c err w2. complete (platform_calls env) w w1 \<and> ns \<noteq> [] \<and> access w1 = (Returns (c, err), w2) \<and>
            one_panics (controller_calls env opts ns c) w2 w') \<and> x = Panicked \<or>
      (\<exists>w1 c err w2. complete (platform_calls env) w w1 \<and> ns \<noteq> [] \<and> access w1 = (Returns (c, err), w2) \<and>
            one_fails (controller_calls env opts ns c) w2 w') \<and> x = Exit 1 \<or>
      (\<exists>w1 c err w2. complete (platform_calls env) w w1 \<and> ns \<noteq> [] \<and> access w1 = (Returns (c, err), w2) \<and>
            complete (controller_calls env opts ns c) w2 w') \<and> x = Returned"
proof -
  have run: "run_command env opts ns w1 = (x, w') \<longleftrightarrow>
      access w1 = (Panics, w') \<and> x = Panicked \<or>
      (\<exists>c err w2. access w1 = (Returns (c, err), w2) \<and>
        (one_panics (controller_calls env opts ns c) w2 w' \<and> x = Panicked \<or>
         one_fails (controller_calls env opts ns c) w2 w' \<and> x = Exit 1 \<or>
         complete (controller_calls env opts ns c) w2 w' \<and> x = Returned))" for w1
    unfolding run_command_eq or_panic_eq assms(4) [symmetric]
    by (simp only: split_paired_Ex prod.case each_or_exit_eq prod.inject) blast
  show ?thesis
    unfolding main_eq [OF assms(2)] each_or_exit_eq assms(3) [symmetric]
    using assms(1) by (cases "ns = []") (simp_all add: run, blast+)
qed

text \<open>C40. The exit status of the controller is honest, to the last call. The process ends with status 0
  exactly if the help text was asked for, or all it needs has succeeded: logger, configuration and client of the
  platform cluster, the pod namespace, and (with the cluster that the request for access came back
  with) the manager, its platform cluster, the controller, both probes, and a manager that ran and stopped
  without an error. It ends with 1 exactly if the pod namespace is missing or one of these calls returns an
  error, those before it having succeeded; and with 2 exactly if the flags do not parse or a call panics. A
  refused access to the onboarding cluster is none of these: its error is logged.\<close>

theorem controller_exit_status:
  assumes "fst (extract_command args) \<noteq> ''init''" and "main env args w = (x, w')"
    and "parsed = ParseFlags env flag_defaults (snd (extract_command args))"
    and "ns = Getenv env (PodNamespaceVariable env)"
    and "access = requestOnboardingClusterAccess env (clusterAccessManager ns) runPermissions ''run''"
  shows "(exit_code x = 0 \<longleftrightarrow> parsed = HelpRequested \<or>
      (\<exists>opts w1 c err w2. parsed = Parsed opts \<and> complete (platform_calls env) w w1 \<and> ns \<noteq> [] \<and>
         access w1 = (Returns (c, err), w2) \<and> complete (controller_calls env opts ns c) w2 w')) \<and>
    (exit_code x = 1 \<longleftrightarrow> (\<exists>opts. parsed = Parsed opts \<and>
      (one_fails (platform_calls env) w w' \<or> (complete (platform_calls env) w w' \<and> ns = []) \<or>
       (\<exists>w1 c err w2. complete (platform_calls env) w w1 \<and> ns \<noteq> [] \<and>
         access w1 = (Returns (c, err), w2) \<and> one_fails (controller_calls env opts ns c) w2 w')))) \<and>
    (exit_code x = 2 \<longleftrightarrow> parsed = BadFlags \<or> (\<exists>opts. parsed = Parsed opts \<and>
      (one_panics (platform_calls env) w w' \<or>
       (\<exists>w1. complete (platform_calls env) w w1 \<and> ns \<noteq> [] \<and>
         (access w1 = (Panics, w') \<or>
          (\<exists>c err w2. access w1 = (Returns (c, err), w2) \<and> one_panics (controller_calls env opts ns c) w2 w'))))))"
proof (cases parsed)
  case (Parsed opts)
  note ends = main_ends [OF assms(1) Parsed [unfolded assms(3)] assms(4,5)]
  have unique: "main env args w = (y, w') \<longleftrightarrow> x = y" for y using assms(2) by auto
  have "x \<in> {Returned, Exit 1, Panicked}" using ends [of w x w'] assms(2) by blast
  then have code: "exit_code x = 0 \<longleftrightarrow> x = Returned" "exit_code x = 1 \<longleftrightarrow> x = Exit 1" "exit_code x = 2 \<longleftrightarrow> x = Panicked"
    by auto
  have eqs: "(Returned = Panicked) = False" "(Returned = Exit 1) = False" "(Exit 1 = Returned) = False"
    "(Exit 1 = Panicked) = False" "(Panicked = Returned) = False" "(Panicked = Exit 1) = False" by simp_all
  show ?thesis
    unfolding code Parsed
    using ends [of w Returned w'] ends [of w "Exit 1" w'] ends [of w Panicked w']
    unfolding unique eqs simp_thms
    by (intro conjI) (simp_all, blast+)
qed (use assms in \<open>auto simp: main_def split: prod.splits\<close>)

text \<open>A process that computes: a world is the log of the calls made, and the calls in \<open>F\<close> fail, those that
  cannot with a panic.\<close>

definition logged :: "string set \<Rightarrow> string \<Rightarrow> (string list, go_error + unit) step" where
  "logged F call w =
     (Returns (if call \<in> F then Inl (Errorf (call @ '' failed'')) else Inr ()), w @ [call])"

definition example_process :: "string set \<Rightarrow> string list process" where
  "example_process F =
     \<lparr>ParseFlags = (\<lambda>opts args. if args = [''sp'', ''--help''] then HelpRequested else Parsed opts),
      Getenv = (\<lambda>v. if v = ''POD_NAMESPACE'' then ''sp'' else []),
      PodNamespaceVariable = ''POD_NAMESPACE'',
      GetLogger = logged F ''logger'', GetConfig = logged F ''config'',
      InitializeClient = (\<lambda>_. logged F ''client''),
      CreateAndWaitForCluster = (\<lambda>m n s p w.
        (Returns (if n \<in> F then None else Some ''onboarding'', if n \<in> F then Some (Errorf ''no access'') else None), w @ [n])),
      StableRequestName = (\<lambda>g n. n), GetAccessRequest = (\<lambda>n ns. logged F ''access request''),
      MustPatchClusterClient = (\<lambda>n c w. (if ''patch'' \<in> F then Panics else Returns c, w @ [''patch''])),
      CreateOrUpdateCRDs = (\<lambda>c. logged F ''crds''), RegisterGVKs = (\<lambda>n g. logged F ''register''),
      RESTConfig = (\<lambda>c w. (case c of None \<Rightarrow> Panics | Some n \<Rightarrow> Returns (Some n), w)),
      NewManager = (\<lambda>c opts. logged F ''manager''), AddPlatformCluster = logged F ''add platform'',
      MustBuild = (\<lambda>c w. (if ''build'' \<in> F then Panics else Returns (), w @ [''build''])),
      SetupWithManager = (\<lambda>n c. logged F ''setup''), AddHealthzCheck = logged F ''healthz'',
      AddReadyzCheck = logged F ''readyz'', StartManager = logged F ''start''\<rparr>"

lemmas process_simps = main_def extract_command_def example_process_def or_exit_def or_panic_def or_log_def
  then_do_def if_ok_def logged_def Let_def initializePlatformCluster_def init_command_def run_command_def
  requestOnboardingClusterAccess_def debugEnabled_def debugEnvVar_def

lemma controller_exit_status_witness:
  "main (example_process {''healthz''}) [''sp'', ''run''] [] =
     (Exit 1, [''logger'', ''config'', ''client'', ''onboarding-run'', ''manager'', ''add platform'', ''build'', ''setup'', ''healthz'']) \<and>
   exit_code (fst (main (example_process {}) [''sp'', ''run''] [])) = 0"
proof -
  let ?calls = "[''logger'', ''config'', ''client'', ''onboarding-run'', ''manager'', ''add platform'', ''build'', ''setup'', ''healthz'']"
  have run: "main (example_process {''healthz''}) [''sp'', ''run''] [] = (Exit 1, ?calls)"
    by (simp add: process_simps)
  have no_init: "fst (extract_command [''sp'', ''run'']) \<noteq> ''init''" by (simp add: extract_command_def)
  obtain x w' where good: "main (example_process {}) [''sp'', ''run''] [] = (x, w')"
    and w': "w' = ?calls @ [''readyz'', ''start'']"
    by (simp add: process_simps)
  have "exit_code x = 0"
    using controller_exit_status [OF no_init good refl refl refl] w'
    by (simp add: platform_calls_def controller_calls_def returning_def process_simps)
  with run good show ?thesis by simp
qed

text \<open>The init job hides its failures: once logger, platform client and pod namespace are there, and unless a
  call panics, it ends with status 0 whatever the onboarding access, the installation of the CRDs and the
  registration answer, so a job that installed nothing counts as completed.\<close>

theorem init_job_hides_failures:
  assumes "fst (extract_command args) = ''init''"
    and "ParseFlags env flag_defaults (snd (extract_command args)) = Parsed opts"
    and "complete (platform_calls env) w w1" and "Getenv env (PodNamespaceVariable env) \<noteq> []"
  shows "fst (main env args w) \<in> {Returned, Panicked}"
proof -
  have "main env args w = init_command env opts (Getenv env (PodNamespaceVariable env)) w1"
    using assms(1,4) by (simp add: main_eq [OF assms(2)] complete_or_exit [OF assms(3)])
  then show ?thesis
    by (auto simp: init_command_def or_panic_def or_log_def split: prod.split ended.split)
qed

lemma init_job_hides_failures_witness:
  "fst (main (example_process {''onboarding-init'', ''crds'', ''register''}) [''sp'', ''init''] []) = Returned"
proof -
  let ?env = "example_process {''onboarding-init'', ''crds'', ''register''}"
  have "fst (main ?env [''sp'', ''init''] []) \<in> {Returned, Panicked}"
    by (rule init_job_hides_failures [where opts = flag_defaults])
       (simp_all add: platform_calls_def process_simps)
  moreover have "fst (main ?env [''sp'', ''init''] []) \<noteq> Panicked" by (simp add: process_simps)
  ultimately show ?thesis by blast
qed

text \<open>The controller goes on without access: when access to the onboarding cluster is refused, the error is
  logged and the configuration of whatever cluster came with the error is asked for, as if access had
  been granted. For a nil cluster that is a nil dereference, and the process dies of a panic instead of
  reporting the error by its status.\<close>

theorem refused_access_is_not_checked:
  assumes "CreateAndWaitForCluster env (clusterAccessManager ns) ''onboarding-run'' initOnboardingScheme runPermissions w =
      (Returns (c, Some e), w1)"
  shows "run_command env opts ns w = each_or_exit (controller_calls env opts ns c) (\<lambda>w. (Returned, w)) w1 \<and>
    (RESTConfig env c w1 = (Panics, w2) \<longrightarrow> run_command env opts ns w = (Panicked, w2))"
  using assms
  by (auto simp: run_command_eq or_panic_def requestOnboardingClusterAccess_def then_do_def controller_calls_def or_exit_def)

lemma refused_access_is_not_checked_witness:
  "run_command (example_process {''onboarding-run''}) flag_defaults ''sp'' [] = (Panicked, [''onboarding-run''])"
proof -
  have "CreateAndWaitForCluster (example_process {''onboarding-run''}) (clusterAccessManager ''sp'') ''onboarding-run'' initOnboardingScheme runPermissions []
      = (Returns (None, Some (Errorf ''no access'')), [''onboarding-run''])"
    by (simp add: example_process_def)
  moreover have "RESTConfig (example_process {''onboarding-run''}) None [''onboarding-run''] = (Panics, [''onboarding-run''])"
    by (simp add: example_process_def)
  ultimately show ?thesis using refused_access_is_not_checked [of "example_process {''onboarding-run''}"] by blast
qed

text \<open>The servers are closed by default: with the default flags the metrics endpoint is off, and
  whatever address it is given, it is served over TLS, behind authentication, and without HTTP/2, as
  is the webhook server; HTTP/2 comes back only with the flag that names it.\<close>

theorem servers_closed_by_default:
  "ms_BindAddress (metricsServerOptions flag_defaults) = ''0'' \<and>
   (let m = metricsServerOptions (flag_defaults\<lparr>opt_metricsAddr := addr\<rparr>)
    in ms_SecureServing m \<and> ms_Authentication m \<and> OnlyHTTP1 \<in> set (ms_TLSOpts m)) \<and>
   (\<forall>opts. (OnlyHTTP1 \<in> set (wh_TLSOpts (webhookServerOptions opts)) \<longleftrightarrow> \<not> opt_enableHTTP2 opts) \<and>
      (ms_Authentication (metricsServerOptions opts) \<longleftrightarrow> ms_SecureServing (metricsServerOptions opts)))"
  by (simp add: metricsServerOptions_def webhookServerOptions_def tls_options_def flag_defaults_def Let_def)

section \<open>Namespaces\<close>

text \<open>The controller's requests and its cluster access agree on where a tenant lives: when the
  context carries no namespace for the access secret, the provisioner works in the namespace the
  MCP's cluster is looked up in, and fails when that lookup does.\<close>

theorem tenant_namespace_agrees:
  assumes "MCPAccessSecret_Namespace ctx = []"
  shows "(case mcpClusterReference env (Name obj) (Namespace obj) of
      Inl e \<Rightarrow> newProvisioner env r obj pc ctx = Inl (Wrap ''determining tenant namespace'' e)
    | Inr (name, ns) \<Rightarrow> name = Name obj \<and>
        (\<exists>p. newProvisioner env r obj pc ctx = Inr p \<and> p_tenantNamespace p = ns))"
  using assms
  by (cases "StableMCPNamespace env (Name obj) (Namespace obj)"; cases "VaultPluginImage (Some pc)")
     (simp_all add: mcpClusterReference_def newProvisioner_def NewProvisioner_def Let_def)

lemma tenant_namespace_agrees_witness:
  "\<exists>p. newProvisioner (example_env F) example_r example_obj example_pc (example_ctx\<lparr>MCPAccessSecret_Namespace := []\<rparr>) = Inr p \<and>
     p_tenantNamespace p = ''mcp-demo''"
proof -
  have "MCPAccessSecret_Namespace (example_ctx\<lparr>MCPAccessSecret_Namespace := []\<rparr>) = []" by simp
  from tenant_namespace_agrees [OF this, of "example_env F" example_r example_obj example_pc] show ?thesis
    by (simp add: mcpClusterReference_def example_env_def example_obj_def example_exposed_def)
qed

end
