(* ===== verification/Registration.thy ===== *)
theory Registration
  imports Startup
begin

text \<open>
  Registration of the Go types, before \<^verbatim>\<open>main\<close> runs: \<^verbatim>\<open>api/v1alpha1/groupversion_info.go\<close>, the
  \<^verbatim>\<open>init\<close> functions of \<^verbatim>\<open>api_types.go\<close> and \<^verbatim>\<open>providerconfig_types.go\<close>, and that of
  \<^verbatim>\<open>main.go\<close>, which fills the three schemes and panics when it cannot. A client can only read and write
  kinds its scheme knows; the Argo CD resources of the user, whose types the program does not have, are
  listed without one, by the kinds of \<^verbatim>\<open>constants.go\<close>. The scheme and its builder are library
  types; \<open>scheme_library\<close> states what they document.
\<close>

section \<open>The API package\<close>

type_synonym group_version = "string \<times> string"
type_synonym gvk = "group_version \<times> string"

record ('b, 's) scheme_lib =
  NewScheme :: 's
  NewSchemeBuilder :: "(go_error, 's, unit) io list \<Rightarrow> 'b"
  Register :: "(go_error, 's, unit) io list \<Rightarrow> 'b \<Rightarrow> 'b"
  BuilderAddToScheme :: "'b \<Rightarrow> (go_error, 's, unit) io"
  AddToGroupVersion :: "group_version \<Rightarrow> 's \<Rightarrow> 's"
  AddKnownTypes :: "group_version \<Rightarrow> string list \<Rightarrow> 's \<Rightarrow> 's"
  Recognizes :: "'s \<Rightarrow> gvk \<Rightarrow> bool"
  ImportedAddToScheme :: "api_group \<Rightarrow> (go_error, 's, unit) io"

definition GroupVersion :: group_version where
  "GroupVersion = (GroupVersion_Group, ''v1alpha1'')"

definition SchemeBuilder :: "('b, 's) scheme_lib \<Rightarrow> 'b" where
  "SchemeBuilder lib = NewSchemeBuilder lib [\<lambda>s. (Inr (), AddToGroupVersion lib GroupVersion s)]"

definition init_api_types :: "('b, 's) scheme_lib \<Rightarrow> 'b \<Rightarrow> 'b" where
  "init_api_types lib =
     Register lib [\<lambda>s. (Inr (), AddKnownTypes lib GroupVersion [''ArgoCD'', ''ArgoCDList''] s)]"

definition init_providerconfig_types :: "('b, 's) scheme_lib \<Rightarrow> 'b \<Rightarrow> 'b" where
  "init_providerconfig_types lib =
     Register lib [\<lambda>s. (Inr (), AddKnownTypes lib GroupVersion [''ProviderConfig'', ''ProviderConfigList''] s)]"

text \<open>
  Package variables are initialized before the \<^verbatim>\<open>init\<close> functions run, those in the order of
  the file names. \<open>AddToScheme\<close> is a method value whose receiver is the address of the variable
  \<open>SchemeBuilder\<close>: it runs what the variable holds when it is called.
\<close>

definition package_builder :: "('b, 's) scheme_lib \<Rightarrow> 'b" where
  "package_builder lib = init_providerconfig_types lib (init_api_types lib (SchemeBuilder lib))"

definition AddToScheme :: "('b, 's) scheme_lib \<Rightarrow> (go_error, 's, unit) io" where
  "AddToScheme lib = BuilderAddToScheme lib (package_builder lib)"

section \<open>The schemes of the process\<close>

definition add_group :: "('b, 's) scheme_lib \<Rightarrow> api_group \<Rightarrow> (go_error, 's, unit) io" where
  "add_group lib g = (if g = ArgoCDs then AddToScheme lib else ImportedAddToScheme lib g)"

text \<open>\<^verbatim>\<open>utilruntime.Must\<close> for each group in turn: \<open>None\<close> is the panic.\<close>

primrec fill_scheme :: "('b, 's) scheme_lib \<Rightarrow> api_group list \<Rightarrow> 's \<Rightarrow> 's option" where
  "fill_scheme lib [] s = Some s"
| "fill_scheme lib (g # gs) s =
     (case add_group lib g s of (Inl e, s') \<Rightarrow> None | (Inr _, s') \<Rightarrow> fill_scheme lib gs s')"

definition init_schemes :: "('b, 's) scheme_lib \<Rightarrow> ('s \<times> 's \<times> 's) option" where
  "init_schemes lib =
     (case fill_scheme lib initPlatformScheme (NewScheme lib) of None \<Rightarrow> None
      | Some platform \<Rightarrow>
          (case fill_scheme lib initOnboardingScheme (NewScheme lib) of None \<Rightarrow> None
           | Some onboarding \<Rightarrow>
               (case fill_scheme lib initMcpScheme (NewScheme lib) of None \<Rightarrow> None
                | Some mcp \<Rightarrow> Some (platform, onboarding, mcp))))"

section \<open>The kinds that are listed without a type\<close>

definition applicationListGVK :: gvk where
  "applicationListGVK = ((''argoproj.io'', ''v1alpha1''), ''ApplicationList'')"

definition applicationSetListGVK :: gvk where
  "applicationSetListGVK = ((''argoproj.io'', ''v1alpha1''), ''ApplicationSetList'')"

definition appProjectListGVK :: gvk where
  "appProjectListGVK = ((''argoproj.io'', ''v1alpha1''), ''AppProjectList'')"

section \<open>The embedded CRDs\<close>

definition CRDs :: "('fs \<Rightarrow> string \<Rightarrow> go_error + 'crd list) \<Rightarrow> 'fs \<Rightarrow> go_error + 'crd list" where
  "CRDs CRDsFromFileSystem CRDFS = CRDsFromFileSystem CRDFS ''manifests''"

section \<open>What the schemes know\<close>

definition repository_kinds :: "gvk set" where
  "repository_kinds = Pair GroupVersion ` {''ArgoCD'', ''ArgoCDList'', ''ProviderConfig'', ''ProviderConfigList''}"

definition group_kinds :: "(api_group \<Rightarrow> gvk set) \<Rightarrow> (group_version \<Rightarrow> gvk set) \<Rightarrow> api_group \<Rightarrow> gvk set" where
  "group_kinds kinds meta g = (if g = ArgoCDs then meta GroupVersion \<union> repository_kinds else kinds g)"

text \<open>
  What the libraries document: a builder runs its functions in the order in which they were
  registered; adding types makes their kinds known and forgets none; the packages the program imports
  add the kinds \<open>kinds g\<close> of their group, \<open>meta gv\<close> those every group version gets.
\<close>

locale scheme_library =
  fixes lib :: "('b, 's) scheme_lib" and kinds :: "api_group \<Rightarrow> gvk set" and meta :: "group_version \<Rightarrow> gvk set"
  assumes new_scheme: "\<not> Recognizes lib (NewScheme lib) k"
    and new_builder: "BuilderAddToScheme lib (NewSchemeBuilder lib fs) = io_for fs (\<lambda>f. f)"
    and register: "BuilderAddToScheme lib (Register lib fs b) = io_bind (BuilderAddToScheme lib b) (\<lambda>_. io_for fs (\<lambda>f. f))"
    and group_version: "Recognizes lib (AddToGroupVersion lib gv s) k \<longleftrightarrow> Recognizes lib s k \<or> k \<in> meta gv"
    and known_types: "Recognizes lib (AddKnownTypes lib gv ts s) k \<longleftrightarrow> Recognizes lib s k \<or> fst k = gv \<and> snd k \<in> set ts"
    and imported: "\<exists>s'. ImportedAddToScheme lib g s = (Inr (), s') \<and>
      (\<forall>k. Recognizes lib s' k \<longleftrightarrow> Recognizes lib s k \<or> k \<in> kinds g)"
begin

lemma AddToScheme_registers:
  "\<exists>s'. AddToScheme lib s = (Inr (), s') \<and>
     (\<forall>k. Recognizes lib s' k \<longleftrightarrow> Recognizes lib s k \<or> k \<in> meta GroupVersion \<union> repository_kinds)"
  by (auto simp: AddToScheme_def package_builder_def init_providerconfig_types_def init_api_types_def SchemeBuilder_def
      register new_builder io_bind_def io_return_def group_version known_types repository_kinds_def)

lemma add_group_registers:
  "\<exists>s'. add_group lib g s = (Inr (), s') \<and> (\<forall>k. Recognizes lib s' k \<longleftrightarrow> Recognizes lib s k \<or> k \<in> group_kinds kinds meta g)"
  using AddToScheme_registers [of s] imported [of g s] by (simp add: add_group_def group_kinds_def)

lemma fill_scheme_registers:
  "\<exists>s'. fill_scheme lib gs s = Some s' \<and>
     (\<forall>k. Recognizes lib s' k \<longleftrightarrow> Recognizes lib s k \<or> k \<in> (\<Union>g \<in> set gs. group_kinds kinds meta g))"
proof (induction gs arbitrary: s)
  case (Cons g gs)
  obtain s1 where s1: "add_group lib g s = (Inr (), s1)"
    "\<And>k. Recognizes lib s1 k \<longleftrightarrow> Recognizes lib s k \<or> k \<in> group_kinds kinds meta g"
    using add_group_registers by blast
  from Cons.IH [of s1] s1 show ?case by auto
qed simp

lemma schemes_know:
  "\<exists>platform onboarding mcp. init_schemes lib = Some (platform, onboarding, mcp) \<and>
     (\<forall>k. Recognizes lib platform k \<longleftrightarrow> k \<in> (\<Union>g \<in> set initPlatformScheme. group_kinds kinds meta g)) \<and>
     (\<forall>k. Recognizes lib onboarding k \<longleftrightarrow> k \<in> (\<Union>g \<in> set initOnboardingScheme. group_kinds kinds meta g)) \<and>
     (\<forall>k. Recognizes lib mcp k \<longleftrightarrow> k \<in> (\<Union>g \<in> set initMcpScheme. group_kinds kinds meta g))"
  using fill_scheme_registers [of initPlatformScheme "NewScheme lib"]
    fill_scheme_registers [of initOnboardingScheme "NewScheme lib"] fill_scheme_registers [of initMcpScheme "NewScheme lib"]
  by (auto simp: init_schemes_def new_scheme)

end

text \<open>Start-up leaves the process with the schemes its clients need. The package initialization does
  not panic; the schemes of the platform and of the onboarding cluster know the two resources of the
  repository and their lists, although they are registered after \<^verbatim>\<open>AddToScheme\<close> was bound; and the
  scheme for the control planes knows what its two imported packages register and nothing else, so that
  the lists of applications, application sets and projects have to be read without a type.\<close>

theorem schemes_are_complete:
  assumes "scheme_library lib kinds meta"
  shows "\<exists>platform onboarding mcp. init_schemes lib = Some (platform, onboarding, mcp) \<and>
    list_all (\<lambda>k. Recognizes lib platform (GroupVersion, k) \<and> Recognizes lib onboarding (GroupVersion, k))
      [''ArgoCD'', ''ArgoCDList'', ''ProviderConfig'', ''ProviderConfigList''] \<and>
    (\<forall>k. Recognizes lib platform k \<longleftrightarrow> k \<in> (\<Union>g \<in> set initPlatformScheme. group_kinds kinds meta g)) \<and>
    (\<forall>k. Recognizes lib mcp k \<longleftrightarrow> k \<in> kinds ClientGo \<union> kinds ApiExtensions)"
proof -
  obtain platform onboarding mcp where run: "init_schemes lib = Some (platform, onboarding, mcp)"
    and p: "\<forall>k. Recognizes lib platform k \<longleftrightarrow> k \<in> (\<Union>g \<in> set initPlatformScheme. group_kinds kinds meta g)"
    and o: "\<forall>k. Recognizes lib onboarding k \<longleftrightarrow> k \<in> (\<Union>g \<in> set initOnboardingScheme. group_kinds kinds meta g)"
    and m: "\<forall>k. Recognizes lib mcp k \<longleftrightarrow> k \<in> (\<Union>g \<in> set initMcpScheme. group_kinds kinds meta g)"
    using scheme_library.schemes_know [OF assms] by (elim exE conjE) (rule that)
  have "ArgoCDs \<in> set initPlatformScheme" "ArgoCDs \<in> set initOnboardingScheme"
    by (simp_all add: initPlatformScheme_def initOnboardingScheme_def)
  moreover have "(GroupVersion, k) \<in> group_kinds kinds meta ArgoCDs"
    if "k \<in> set [''ArgoCD'', ''ArgoCDList'', ''ProviderConfig'', ''ProviderConfigList'']" for k
    using that by (auto simp: group_kinds_def repository_kinds_def)
  ultimately have own: "list_all (\<lambda>k. Recognizes lib platform (GroupVersion, k) \<and> Recognizes lib onboarding (GroupVersion, k))
      [''ArgoCD'', ''ArgoCDList'', ''ProviderConfig'', ''ProviderConfigList'']"
    unfolding list_all_iff using p o by blast
  have mcp: "\<forall>k. Recognizes lib mcp k \<longleftrightarrow> k \<in> kinds ClientGo \<union> kinds ApiExtensions"
    using m by (simp add: initMcpScheme_def group_kinds_def)
  show ?thesis
    by (rule exI [of _ platform], rule exI [of _ onboarding], rule exI [of _ mcp], intro conjI) (fact run own p mcp)+
qed

text \<open>A scheme as the set of the kinds it knows, and a builder as the list of its functions.\<close>

definition example_kinds :: "api_group \<Rightarrow> gvk set" where
  "example_kinds g =
     (case g of
        ClientGo \<Rightarrow> Pair ([], ''v1'') ` {''Secret'', ''Namespace'', ''Service''}
      | ApiExtensions \<Rightarrow> {((''apiextensions.k8s.io'', ''v1''), ''CustomResourceDefinition'')}
      | FluxSource \<Rightarrow> {((''source.toolkit.fluxcd.io'', ''v1''), ''OCIRepository'')}
      | FluxHelm \<Rightarrow> {((''helm.toolkit.fluxcd.io'', ''v2''), ''HelmRelease'')}
      | _ \<Rightarrow> {})"

definition example_scheme_lib :: "((go_error, gvk set, unit) io list, gvk set) scheme_lib" where
  "example_scheme_lib =
     \<lparr>NewScheme = {}, NewSchemeBuilder = (\<lambda>fs. fs), Register = (\<lambda>fs b. b @ fs),
      BuilderAddToScheme = (\<lambda>b. io_for b (\<lambda>f. f)),
      AddToGroupVersion = (\<lambda>gv s. insert (gv, ''WatchEvent'') s),
      AddKnownTypes = (\<lambda>gv ts s. s \<union> Pair gv ` set ts),
      Recognizes = (\<lambda>s k. k \<in> s),
      ImportedAddToScheme = (\<lambda>g s. (Inr (), s \<union> example_kinds g))\<rparr>"

interpretation example_schemes: scheme_library example_scheme_lib example_kinds "\<lambda>gv. {(gv, ''WatchEvent'')}"
  by unfold_locales (auto simp: example_scheme_lib_def io_for_append)

lemma schemes_are_complete_witness:
  "\<exists>platform onboarding mcp. init_schemes example_scheme_lib = Some (platform, onboarding, mcp) \<and>
     (GroupVersion, ''ArgoCD'') \<in> onboarding \<and> (([], ''v1''), ''Secret'') \<in> mcp \<and> applicationListGVK \<notin> mcp"
proof -
  have "Recognizes example_scheme_lib s k \<longleftrightarrow> k \<in> s" for s k by (simp add: example_scheme_lib_def)
  moreover have "(([], ''v1''), ''Secret'') \<in> example_kinds ClientGo" "applicationListGVK \<notin> example_kinds ClientGo \<union> example_kinds ApiExtensions"
    by (auto simp: example_kinds_def applicationListGVK_def)
  ultimately show ?thesis
    using schemes_are_complete [OF example_schemes.scheme_library_axioms] by fastforce
qed

end
