(* ===== verification/Spec2Isabelle.thy ===== *)
theory Spec2Isabelle
  imports Deletion_Interference Secret_Types Status_Reports Values_Typed Deep_Copy_Properties Api_Schema_Correct Registration
begin

text \<open>
  A model of \<^verbatim>\<open>service-provider-argocd\<close>, the service provider that installs Argo CD on managed control
  planes (MCPs), with the theorems that make it correct.

  THE PROGRAM. A reconciler (\<^verbatim>\<open>internal/controller/provider_controller.go\<close>) gets ArgoCD resources
  from the onboarding cluster and the operator's ProviderConfig, validates the request, and has a
  provisioner (\<^verbatim>\<open>internal/argocd/provisioner.go\<close>) declare the installation: pull secrets and the CA
  bundle copied to where they are used, a Flux OCIRepository and HelmRelease on the platform cluster
  with the Helm values that \<^verbatim>\<open>values.go\<close> builds, and the optional reloader addon. Flux, which is not part
  of the repository, does the installing. The reconciler then reads readiness and the external endpoint
  (\<^verbatim>\<open>endpoint.go\<close>) into the status (\<^verbatim>\<open>status.go\<close>). Deleting is guarded by the user's own Argo CD
  resources and waits for Flux before it removes the CA bundle. \<^verbatim>\<open>cmd/service-provider-argocd/main.go\<close>
  sets everything up. The resources themselves are the structures of \<^verbatim>\<open>api/v1alpha1\<close>: the API server
  checks them against schemas made from their markers, the client decodes them by their JSON tags, and
  the generated \<^verbatim>\<open>zz_generated.deepcopy.go\<close> copies them out of the client's cache.

  THE THEORIES.
  \<^item> Prelude: the monad of effects with errors (a world in, an error or a value and a world out),
    relations kept by every run (locale \<open>run_relation\<close>), association lists as Go maps.
  \<^item> GoStrings, Regexp, Json, GoNet: what the program uses of Go's standard library: strings and
    runes, regular expressions by derivatives, JSON documents with ordered members and numbers as they
    are written (what they are read into is a function of the text), \<^verbatim>\<open>url.Parse\<close> and \<^verbatim>\<open>net.ParseCIDR\<close>
    as far as the exposure checks look at them.
  \<^item> Api_Types: \<^verbatim>\<open>api/v1alpha1\<close>, its accessors and defaults, and the status helpers (locale
    \<open>status_library\<close> for those of the runtime).
  \<^item> Admission, Api_Schema, Api_Schema_Correct: the markers: the defaults the CRD fills in, which agree
    with those of the code; the schemas a document is checked against, decoding by the JSON tags and the
    validation rule in CEL, where an operand can fail. Decoders are typed by rules (\<open>decodes d t\<close>), so
    that an admitted document is readable; the poll interval is the exception.
  \<^item> Go_Memory, Deep_Copy_Rules, Deep_Copy, Deep_Copy_Properties: Go's memory as blocks of values with
    pointers into them, the contract \<open>deep_copies\<close> (the same value, only new blocks reached, nothing
    else written, no panic) with a rule for each shape the generator emits, the generated functions one by
    one (locale \<open>copy_library\<close> for the imported types), and what a caller of \<^verbatim>\<open>DeepCopyObject\<close> may do.
  \<^item> Registration: \<^verbatim>\<open>groupversion_info.go\<close>, the \<^verbatim>\<open>init\<close> functions and the schemes of the process
    (locale \<open>scheme_library\<close>), the kinds listed without a type, \<^verbatim>\<open>api/crds\<close>.
  \<^item> Kube: objects, the client as a record of operations, its contract (locale \<open>kube_api\<close>; \<open>kube_api_up\<close>
    for clusters that answer reads and deletes; \<open>kube_api_writes\<close> for those that moreover take exactly the writes that
    \<open>takes\<close> describes: nothing is created in a missing or terminating namespace, the type of a Secret does
    not change, new content must be admitted by a policy), and an executable store with planned failures that satisfies
    all three.
  \<^item> Vault_Bundle, Values: the two embedded templates and \<^verbatim>\<open>values.go\<close>; Provisioner: \<^verbatim>\<open>provisioner.go\<close>,
    \<^verbatim>\<open>constants.go\<close> and \<^verbatim>\<open>endpoint.go\<close>; Controller: \<^verbatim>\<open>provider_controller.go\<close>; Startup: \<^verbatim>\<open>main.go\<close>, with
    the ways a process ends: it returns, exits with a status, or dies of a panic of one of its calls. A
    definition has the name of its function; parts of a long function have names of their own
    (\<open>install_and_report\<close> is \<^verbatim>\<open>CreateOrUpdate\<close> from the call of \<^verbatim>\<open>Install\<close> on).
  \<^item> Values_Correct: the layers of the Helm values, what is guaranteed to be in them and what is kept of
    the operator's, that Go's unordered maps do not show in them, when building succeeds; Values_Typed: that what is built is a
    well-formed document of the type the chart expects.
  \<^item> Secrets_Correct, Install_Correct, Install_Properties, Provisioner_Properties: replication of
    secrets (locale \<open>secret_replica\<close>, used for image and chart pull secrets), the abstract step
    \<open>install_spec\<close> that \<open>Install\<close> refines, frames on every path, idempotence, when exactly it succeeds
    (\<open>install_accepted\<close> are the writes that the clusters have to take), and that a second run needs no
    acceptance, as its writes are there already.
  \<^item> Provider_Runs: every path of every operation keeps a relation that its single writes keep
    (locales \<open>removal_calls\<close> and, with the calls that write, \<open>provider_calls\<close>, for a relation that the
    calls of a client keep on the references the provisioner may use, and \<open>provider_run\<close>, for stamped
    writes and for finalizers).
  \<^item> Secret_Types: the law that the type of a Secret is immutable (locale \<open>immutable_types\<close>, which any
    client satisfies once it refuses such updates), and the installations it blocks.
  \<^item> Provisioner_Correct, Teardown: the probes, the abstract \<open>uninstall_step\<close>, the guard, and the round
    trip install, uninstall, remove the CA bundle.
  \<^item> Exposure_Correct: the host pattern and what an accepted exposure resolves to.
  \<^item> Controller_Paths, Controller_Properties, Request_Properties, Deletion: the handlers inverted path
    by path (locales \<open>reconciler\<close>, \<open>reconciler_up\<close> and \<open>reconciler_writes\<close>, interpreted on the executable store), what Ready
    and done mean, rejected requests, watched secrets, the operation annotation, order of deletion,
    and that installation and deletion get done. Status_Reports: what the status says after an error, and
    which endpoint it shows; and when the log warns of a missing reloader.
  \<^item> Lifecycle: the transition relation of handler calls for any requests, ending in any way, and the
    invariants of its reachable states (locale \<open>handler_run\<close>).
  \<^item> Interference: the same handlers over a client that lets others write before each of its calls. Under
    a rely condition on them the containment carries over (locale \<open>handler_calls\<close>); two races show what
    does not. Deletion_Interference: what it means that a deletion is done carries over too, object by
    object, for whatever the others leave cleared.

  BOUNDS AND FUEL. The only loop that is not structural is the one over PEM blocks; it runs on fuel, the
  length of the input plus one, and \<open>parseCertificates_terminates\<close> shows that this is enough, for any
  decoder that consumes input. Go's \<^verbatim>\<open>int\<close>s are mathematical integers (durations and counters far below
  their bounds), strings are lists of bytes.

  WHAT IS A PARAMETER. The Kubernetes client and the API servers, Flux, the runtime's status helpers,
  PEM and X.509 decoding, conversion from YAML, the float64 a JSON number is read into,
  \<^verbatim>\<open>StableMCPNamespace\<close>, flag parsing and the managers: records of functions the
  definitions take, with what they document as the assumptions of a locale, each of them interpreted. A failing
  client write may or may not have taken effect. Except in Interference and
  Deletion_Interference the store is changed by one handler call at a time. Only the properties
  that an operation succeeds assume more of the cluster than \<open>kube_api\<close>, and they name what it has to accept. The imported types of the deep copies, the scheme
  and its builder, string formats, \<^verbatim>\<open>time.ParseDuration\<close> and \<^verbatim>\<open>strconv\<close> on JSON numbers are
  parameters too.

  NOT MODELLED. Log output, but for when \<^verbatim>\<open>warnIfExposureWithoutReloader\<close> writes it; resource versions and conflicts
  of concurrent writers (a conflict is a failing write); fields of the metadata that the program does not
  use; the empty conversion hubs; the runtime that calls the handlers, adds the finalizer and writes the
  status back. A nil slice and an empty one are told apart in the memory of the deep copies only. What is
  left of the source is declarations and logging.
\<close>

end
